(* ===== verification/Prelude.thy ===== *)
theory Prelude
  imports Main "HOL-Library.Word" "HOL-Library.Multiset" "HOL-Library.Char_ord"
    "HOL-Library.List_Lexorder"
begin

text \<open>
  What the components share: machine integers, the universal \<open>error\<close> type of Go, the parts
  of Go's standard library the sources use (big-endian integers of \<^verbatim>\<open>encoding/binary\<close>,
  \<^verbatim>\<open>sort.Sort\<close>, decimal integers of \<^verbatim>\<open>strconv\<close>, the arithmetic of \<^verbatim>\<open>time.Time\<close>)
  and generic lemmas on lists. Two collections of facts are built up by the components:
  \<open>go_defs\<close> (definitions that a proof about a whole handler unfolds) and \<open>inv_intros\<close>
  (preservation of invariants).
\<close>

named_theorems go_defs "definitions unfolded in proofs about whole handlers"
named_theorems inv_intros "preservation of invariants"

section \<open>Machine integers and errors\<close>

type_synonym byte = "8 word"
type_synonym u64 = "64 word"

text \<open>
  Go's \<open>error\<close> is one interface type; the model has one datatype with a constructor for every
  sentinel value the sources compare or return, \<open>Errorf\<close> for errors made from a message,
  \<open>LibErr\<close> for errors returned by imported packages and \<open>Panic\<close> for a run-time panic.
\<close>

datatype go_error =
    ErrNodeExists | ErrNodeNotFound | ErrNodeAlreadyFreezed | ErrNodeNotFreezed
  | ErrNodesRequired | ErrNodeIDRequired | ErrNodeUnableToDropFinalNode
  | ErrNotOpen | ErrQueueFull | ErrSegmentFull | ErrHintedHandoffDisabled
  | EOF | ErrInvalid | ErrNotExist
  | ErrSkipExpired | ErrAcquiredByOther
  | ErrTimeout | ErrPartialWrite | ErrWriteFailed
  | ErrRetry | ErrTaskDuplicated | ErrClosed
  | Errorf string | LibErr string | Panic string

section \<open>Time\<close>

text \<open>
  A \<^verbatim>\<open>time.Time\<close> is the number of nanoseconds since Go's zero time (January 1, year 1,
  UTC), so that \<open>IsZero\<close> is equality with 0; a \<^verbatim>\<open>time.Duration\<close> is a number of
  nanoseconds. \<^verbatim>\<open>Truncate\<close> rounds down to a multiple of the duration since the zero time.
\<close>

type_synonym gtime = int
type_synonym duration = int

definition unix_epoch :: gtime where
  "unix_epoch = 62135596800 * 1000000000"

definition time_Unix :: "int \<Rightarrow> int \<Rightarrow> gtime" where
  "time_Unix sec nsec = unix_epoch + sec * 1000000000 + nsec"

definition time_Truncate :: "gtime \<Rightarrow> duration \<Rightarrow> gtime" where
  "time_Truncate t d = (if d \<le> 0 then t else t - t mod d)"

definition time_IsZero :: "gtime \<Rightarrow> bool" where
  "time_IsZero t = (t = 0)"

lemma time_Truncate_bounds:
  "0 < d \<Longrightarrow> time_Truncate t d \<le> t \<and> t < time_Truncate t d + d"
  by (simp add: time_Truncate_def)

section \<open>Big-endian integers\<close>

primrec be_bytes :: "nat \<Rightarrow> nat \<Rightarrow> byte list" where
  "be_bytes 0 v = []"
| "be_bytes (Suc n) v = be_bytes n (v div 256) @ [of_nat v]"

definition be_nat :: "byte list \<Rightarrow> nat" where
  "be_nat bs = foldl (\<lambda>a b. a * 256 + unat b) 0 bs"

definition PutUint64 :: "u64 \<Rightarrow> byte list" where
  "PutUint64 v = be_bytes 8 (unat v)"

definition Uint64 :: "byte list \<Rightarrow> u64" where
  "Uint64 bs = of_nat (be_nat bs)"

lemma length_be_bytes [simp]: "length (be_bytes n v) = n"
  by (induction n arbitrary: v) auto

lemma length_PutUint64 [simp]: "length (PutUint64 v) = 8"
  by (simp add: PutUint64_def)

lemma be_nat_be_bytes: "be_nat (be_bytes n v) = v mod 256 ^ n"
proof (induction n arbitrary: v)
  case 0
  show ?case by (simp add: be_nat_def)
next
  case (Suc n)
  have "be_nat (be_bytes (Suc n) v) = be_nat (be_bytes n (v div 256)) * 256 + v mod 256"
    by (simp add: be_nat_def unat_of_nat)
  also have "\<dots> = v mod 256 ^ Suc n"
    by (simp add: Suc.IH mod_mult2_eq)
  finally show ?case .
qed

lemma Uint64_PutUint64 [simp]: "Uint64 (PutUint64 v) = v"
proof -
  have "unat v < 2 ^ 64" using unsigned_less [of v] by simp
  then have "unat v mod 256 ^ 8 = unat v" by simp
  then show ?thesis by (simp only: Uint64_def PutUint64_def be_nat_be_bytes) simp
qed

text \<open>Conversions between \<open>int64\<close> and \<open>uint64\<close>: Go reinterprets the 64 bits.\<close>

definition to_int64 :: "u64 \<Rightarrow> int" where
  "to_int64 w = sint w"

definition of_int64 :: "int \<Rightarrow> u64" where
  "of_int64 i = word_of_int i"

lemma to_of_int64 [simp]: "0 \<le> i \<Longrightarrow> i < 2 ^ 63 \<Longrightarrow> to_int64 (of_int64 i) = i"
  by (simp add: to_int64_def of_int64_def signed_take_bit_int_eq_self sint_sbintrunc')

section \<open>Lists\<close>

text \<open>\<^verbatim>\<open>append(xs[:i], xs[i+1:]...)\<close> removes the element at an index in range.\<close>

definition remove_at :: "nat \<Rightarrow> 'a list \<Rightarrow> 'a list" where
  "remove_at i xs = take i xs @ drop (Suc i) xs"

lemma set_remove_at_subset: "set (remove_at i xs) \<subseteq> set xs"
  by (auto simp: remove_at_def dest: in_set_takeD in_set_dropD)

lemma length_remove_at [simp]: "i < length xs \<Longrightarrow> length (remove_at i xs) = length xs - 1"
  by (simp add: remove_at_def)

lemma map_remove_at: "map f (remove_at i xs) = remove_at i (map f xs)"
  by (simp add: remove_at_def take_map drop_map)

lemma remove_at_split: "remove_at (length ys) (ys @ x # zs) = ys @ zs"
  by (simp add: remove_at_def)

lemma distinct_remove_at: "distinct xs \<Longrightarrow> distinct (remove_at i xs)"
  by (auto simp: remove_at_def dest: set_take_disj_set_drop_if_distinct [of _ i "Suc i"])

lemma set_remove_at_distinct:
  assumes "distinct xs" and "i < length xs"
  shows "set (remove_at i xs) = set xs - {xs ! i}"
proof -
  have xs: "xs = take i xs @ xs ! i # drop (Suc i) xs"
    using assms(2) by (rule id_take_nth_drop)
  have "distinct (take i xs @ xs ! i # drop (Suc i) xs)"
    using assms(1) xs by simp
  moreover have "set xs = set (take i xs @ xs ! i # drop (Suc i) xs)"
    using xs by simp
  ultimately show ?thesis by (auto simp: remove_at_def)
qed

text \<open>
  A search that updates the first element it accepts and stops, as the nested loops with an
  early \<^verbatim>\<open>return\<close> do: \<open>None\<close> when no element is accepted.
\<close>

fun upd_first :: "('a \<Rightarrow> 'a option) \<Rightarrow> 'a list \<Rightarrow> 'a list option" where
  "upd_first f [] = None"
| "upd_first f (x # xs) =
     (case f x of Some y \<Rightarrow> Some (y # xs) | None \<Rightarrow> map_option ((#) x) (upd_first f xs))"

lemma upd_first_None: "upd_first f xs = None \<longleftrightarrow> (\<forall>x\<in>set xs. f x = None)"
  by (induction xs) (auto split: option.splits)

lemma upd_first_SomeE:
  assumes "upd_first f xs = Some ys"
  obtains us x y vs where "xs = us @ x # vs" and "ys = us @ y # vs" and "f x = Some y"
    and "\<forall>u\<in>set us. f u = None"
proof -
  have "\<exists>us x y vs. xs = us @ x # vs \<and> ys = us @ y # vs \<and> f x = Some y \<and> (\<forall>u\<in>set us. f u = None)"
    using assms
  proof (induction xs arbitrary: ys)
    case Nil
    then show ?case by simp
  next
    case (Cons a xs)
    show ?case
    proof (cases "f a")
      case (Some y)
      with Cons.prems have "a # xs = [] @ a # xs \<and> ys = [] @ y # xs \<and> f a = Some y" by simp
      then show ?thesis by (intro exI [of _ "[]"] exI [of _ a] exI [of _ y] exI [of _ xs]) simp
    next
      case None
      with Cons.prems obtain zs where "upd_first f xs = Some zs" and ys: "ys = a # zs" by auto
      with Cons.IH obtain us x y vs where
        "xs = us @ x # vs" "zs = us @ y # vs" "f x = Some y" "\<forall>u\<in>set us. f u = None" by blast
      with None ys show ?thesis
        by (intro exI [of _ "a # us"] exI [of _ x] exI [of _ y] exI [of _ vs]) simp
    qed
  qed
  then show thesis using that by blast
qed

lemma find_SomeD: "find P xs = Some x \<Longrightarrow> x \<in> set xs \<and> P x"
  by (induction xs) (auto split: if_splits)

lemma filter_length_neq:
  "length (filter P xs) \<noteq> length xs \<longleftrightarrow> (\<exists>x\<in>set xs. \<not> P x)"
  by (metis filter_True length_filter_less less_irrefl)

section \<open>Sorting\<close>

text \<open>
  \<^verbatim>\<open>sort.Sort\<close> and \<^verbatim>\<open>sort.Slice\<close> on short slices are an insertion sort that moves each
  element to the left past the elements it is less than (Go uses it below twelve elements; on
  longer slices the result differs at most in the order of elements neither of which is less
  than the other). The sorted prefix is kept reversed.
\<close>

fun go_insert :: "('a \<Rightarrow> 'a \<Rightarrow> bool) \<Rightarrow> 'a \<Rightarrow> 'a list \<Rightarrow> 'a list" where
  "go_insert lt x [] = [x]"
| "go_insert lt x (y # ys) = (if lt x y then y # go_insert lt x ys else x # y # ys)"

definition go_sort :: "('a \<Rightarrow> 'a \<Rightarrow> bool) \<Rightarrow> 'a list \<Rightarrow> 'a list" where
  "go_sort lt xs = rev (fold (go_insert lt) xs [])"

lemma mset_go_insert [simp]: "mset (go_insert lt x ys) = add_mset x (mset ys)"
  by (induction ys) auto

lemma mset_fold_go_insert: "mset (fold (go_insert lt) xs acc) = mset xs + mset acc"
  by (induction xs arbitrary: acc) auto

lemma mset_go_sort [simp]: "mset (go_sort lt xs) = mset xs"
  by (simp add: go_sort_def mset_fold_go_insert)

lemma set_go_sort [simp]: "set (go_sort lt xs) = set xs"
  by (metis mset_go_sort set_mset_mset)

lemma length_go_sort [simp]: "length (go_sort lt xs) = length xs"
  by (metis mset_go_sort size_mset)

lemma distinct_go_sort [simp]: "distinct (go_sort lt xs) = distinct xs"
  by (metis mset_go_sort mset_eq_imp_distinct_iff)

lemma distinct_map_go_sort [simp]: "distinct (map f (go_sort lt xs)) = distinct (map f xs)"
  by (metis mset_go_sort mset_eq_imp_distinct_iff mset_map)

lemma go_sort_Nil [simp]: "go_sort lt [] = []"
  by (simp add: go_sort_def)

text \<open>
  The contract a \<^verbatim>\<open>Less\<close> method must keep for the result to be ordered: a strict weak order.
\<close>

locale sort_order =
  fixes lt :: "'a \<Rightarrow> 'a \<Rightarrow> bool"
  assumes irrefl: "\<not> lt x x"
    and trans: "lt x y \<Longrightarrow> lt y z \<Longrightarrow> lt x z"
    and weak: "lt x y \<Longrightarrow> lt x z \<or> lt z y"
begin

lemma asym: "lt x y \<Longrightarrow> \<not> lt y x"
  using irrefl trans by blast

lemma go_insert_sorted:
  "sorted_wrt (\<lambda>a b. \<not> lt a b) ys \<Longrightarrow> sorted_wrt (\<lambda>a b. \<not> lt a b) (go_insert lt x ys)"
proof (induction ys)
  case Nil
  then show ?case by simp
next
  case (Cons y ys)
  have set_ins: "set (go_insert lt x ys) = insert x (set ys)"
    by (metis mset_go_insert set_mset_add_mset_insert set_mset_mset)
  show ?case
  proof (cases "lt x y")
    case True
    then have "\<not> lt y x" by (rule asym)
    with True Cons set_ins show ?thesis by auto
  next
    case False
    with Cons.prems have "\<not> lt x z" if "z \<in> set ys" for z
      using that weak [of x z y] by auto
    with False Cons.prems show ?thesis by auto
  qed
qed

lemma fold_go_insert_sorted:
  "sorted_wrt (\<lambda>a b. \<not> lt a b) acc \<Longrightarrow>
   sorted_wrt (\<lambda>a b. \<not> lt a b) (fold (go_insert lt) xs acc)"
  by (induction xs arbitrary: acc) (auto intro: go_insert_sorted)

lemma go_sort_sorted: "sorted_wrt (\<lambda>a b. \<not> lt b a) (go_sort lt xs)"
  using fold_go_insert_sorted [of "[]" xs] by (simp add: go_sort_def sorted_wrt_rev)

lemma go_sort_hd:
  assumes "xs \<noteq> []"
  shows "hd (go_sort lt xs) \<in> set xs \<and> (\<forall>x\<in>set xs. \<not> lt x (hd (go_sort lt xs)))"
proof -
  obtain y ys where ys: "go_sort lt xs = y # ys"
    using assms by (metis length_go_sort length_0_conv neq_Nil_conv)
  then have "set xs = insert y (set ys)"
    by (metis set_go_sort list.simps(15))
  moreover have "\<forall>z\<in>set ys. \<not> lt z y"
    using go_sort_sorted [of xs] ys by simp
  ultimately show ?thesis using ys irrefl by auto
qed

text \<open>
  When elements that are not ordered are equal, the result depends on the elements only, not on
  the order they come in.
\<close>

lemma go_sort_hd_perm:
  assumes "mset xs = mset ys" and "xs \<noteq> []"
    and total: "\<And>x y. x \<in> set xs \<Longrightarrow> y \<in> set xs \<Longrightarrow> x = y \<or> lt x y \<or> lt y x"
  shows "hd (go_sort lt xs) = hd (go_sort lt ys)"
proof -
  have "ys \<noteq> []" using assms(1,2) by auto
  moreover have "set xs = set ys" using assms(1) by (rule mset_eq_setD)
  ultimately show ?thesis
    using go_sort_hd [OF assms(2)] go_sort_hd [of ys] total by metis
qed

end

section \<open>Decimal integers\<close>

fun FormatUint :: "nat \<Rightarrow> string" where
  "FormatUint n =
     (if n < 10 then [char_of (48 + n)] else FormatUint (n div 10) @ [char_of (48 + n mod 10)])"

declare FormatUint.simps [simp del]

definition is_digit :: "char \<Rightarrow> bool" where
  "is_digit c = (48 \<le> (of_char c :: nat) \<and> (of_char c :: nat) \<le> 57)"

definition digits_value :: "string \<Rightarrow> nat" where
  "digits_value s = foldl (\<lambda>a c. a * 10 + (of_char c - 48)) 0 s"

definition ParseUint :: "string \<Rightarrow> nat option" where
  "ParseUint s =
     (if s = [] \<or> \<not> list_all is_digit s then None
      else if digits_value s < 2 ^ 64 then Some (digits_value s) else None)"

text \<open>For evaluation the bound is compared as an integer.\<close>

lemma ParseUint_code [code]:
  "ParseUint s =
     (if s = [] \<or> \<not> list_all is_digit s then None
      else if int (digits_value s) < 18446744073709551616 then Some (digits_value s) else None)"
  by (auto simp: ParseUint_def)

lemma of_char_digit: "k < 10 \<Longrightarrow> (of_char (char_of (48 + k :: nat)) :: nat) = 48 + k"
  by (simp add: take_bit_eq_mod)

lemma is_digit_char_of: "k < (10 :: nat) \<Longrightarrow> is_digit (char_of (48 + k))"
  by (simp add: is_digit_def of_char_digit del: of_char_of)

lemma FormatUint_digits: "FormatUint n \<noteq> [] \<and> list_all is_digit (FormatUint n)"
proof (induction n rule: FormatUint.induct)
  case (1 n)
  then show ?case
    by (cases "n < 10") (simp_all add: FormatUint.simps [of n] is_digit_char_of)
qed

lemma digits_value_FormatUint: "digits_value (FormatUint n) = n"
proof (induction n rule: FormatUint.induct)
  case (1 n)
  show ?case
  proof (cases "n < 10")
    case True
    then show ?thesis
      by (subst FormatUint.simps) (simp add: digits_value_def of_char_digit del: of_char_of)
  next
    case False
    with 1 have "digits_value (FormatUint (n div 10)) = n div 10" by simp
    with False show ?thesis
      by (subst FormatUint.simps)
        (simp add: digits_value_def of_char_digit [of "n mod 10"] del: of_char_of)
  qed
qed

lemma ParseUint_FormatUint: "n < 2 ^ 64 \<Longrightarrow> ParseUint (FormatUint n) = Some n"
  using FormatUint_digits [of n] by (simp add: ParseUint_def digits_value_FormatUint)

lemma FormatUint_inj: "FormatUint m = FormatUint n \<longleftrightarrow> m = n"
  by (metis digits_value_FormatUint)

section \<open>Strings as bytes\<close>

definition string_bytes :: "string \<Rightarrow> byte list" where
  "string_bytes s = map (\<lambda>ch. of_nat (of_char ch)) s"

end
