(* ===== verification/HHQueue.thy ===== *)
theory HHQueue
  imports Prelude
begin

text \<open>
  \<^verbatim>\<open>services/hh/queue.go\<close>: the disk-backed queue of hinted handoff. A segment is one file of
  length-prefixed blocks with a footer that holds the position of the current block; it is
  modelled down to the bytes. A queue is a directory of segments. The segments are objects that
  the fields \<^verbatim>\<open>head\<close>, \<^verbatim>\<open>tail\<close> and \<^verbatim>\<open>segments\<close> point to, so the model keeps them in a store
  and these fields hold addresses. Operations that write take the current time, which becomes
  the modification time of the file. Failures of the operating system that have no cause in the
  contents of the files are left out.
\<close>

section \<open>Files\<close>

record os_file =
  f_bytes :: "byte list"
  f_mtime :: gtime

record segment =
  seg_path :: string
  seg_open :: bool
  seg_off :: nat
  seg_size :: int
  seg_pos :: int
  seg_currentSize :: int
  seg_maxSize :: int

type_synonym sst = "segment \<times> os_file"

abbreviation footerSize :: int where
  "footerSize \<equiv> 8"

text \<open>A step on an open segment that may fail, and the sequence of two steps.\<close>

type_synonym 'a sio = "sst \<Rightarrow> (go_error + 'a) \<times> sst"

definition sbind :: "'a sio \<Rightarrow> ('a \<Rightarrow> 'b sio) \<Rightarrow> 'b sio" where
  "sbind m k st = (case m st of (Inl e, st') \<Rightarrow> (Inl e, st') | (Inr a, st') \<Rightarrow> k a st')"

definition sreturn :: "'a \<Rightarrow> 'a sio" where
  "sreturn a st = (Inr a, st)"

definition smodify :: "(segment \<Rightarrow> segment) \<Rightarrow> unit sio" where
  "smodify g = (\<lambda>(s, f). (Inr (), (g s, f)))"

definition seek :: "int \<Rightarrow> unit sio" where
  "seek p = (\<lambda>(s, f).
     if \<not> seg_open s then (Inl ErrInvalid, (s, f))
     else if p < 0 then (Inl (Errorf ''invalid argument''), (s, f))
     else (Inr (), (s\<lparr>seg_off := nat p\<rparr>, f)))"

definition seekEnd :: "int \<Rightarrow> unit sio" where
  "seekEnd p = (\<lambda>(s, f). seek (int (length (f_bytes f)) + p) (s, f))"

definition seekToCurrent :: "unit sio" where
  "seekToCurrent = (\<lambda>(s, f). seek (seg_pos s) (s, f))"

definition write_at :: "nat \<Rightarrow> byte list \<Rightarrow> byte list \<Rightarrow> byte list" where
  "write_at off bs data = take off (data @ replicate (off - length data) 0) @ bs @ drop (off + length bs) data"

definition writeBytes :: "gtime \<Rightarrow> byte list \<Rightarrow> unit sio" where
  "writeBytes now b = (\<lambda>(s, f).
     if \<not> seg_open s then (Inl ErrInvalid, (s, f))
     else (Inr (), (s\<lparr>seg_off := seg_off s + length b\<rparr>,
                    f\<lparr>f_bytes := write_at (seg_off s) b (f_bytes f), f_mtime := now\<rparr>)))"

definition writeUint64 :: "gtime \<Rightarrow> u64 \<Rightarrow> unit sio" where
  "writeUint64 now sz = writeBytes now (PutUint64 sz)"

definition readBytes :: "nat \<Rightarrow> byte list sio" where
  "readBytes n = (\<lambda>(s, f).
     if \<not> seg_open s then (Inl ErrInvalid, (s, f))
     else
       let b = take n (drop (seg_off s) (f_bytes f));
           s' = s\<lparr>seg_off := seg_off s + length b\<rparr>
       in if b = [] \<and> 0 < n then (Inl EOF, (s', f))
          else if length b \<noteq> n then (Inl (Errorf ''bad read''), (s', f))
          else (Inr b, (s', f)))"

definition readUint64 :: "u64 sio" where
  "readUint64 = sbind (readBytes 8) (\<lambda>b. sreturn (Uint64 b))"

section \<open>Segments\<close>

definition segment_open :: "gtime \<Rightarrow> unit sio" where
  "segment_open now = (\<lambda>(s, f).
     if seg_size s = 0
     then sbind (smodify (\<lambda>s. s\<lparr>seg_pos := 0, seg_currentSize := 0\<rparr>)) (\<lambda>_.
          sbind (writeUint64 now (of_int64 0)) (\<lambda>_.
          smodify (\<lambda>s. s\<lparr>seg_size := footerSize\<rparr>))) (s, f)
     else sbind (seekEnd (- footerSize)) (\<lambda>_.
          sbind readUint64 (\<lambda>pos.
          sbind (smodify (\<lambda>s. s\<lparr>seg_pos := to_int64 pos\<rparr>)) (\<lambda>_.
          sbind seekToCurrent (\<lambda>_.
            \<lambda>(s, f). if seg_pos s < seg_size s - footerSize
              then sbind readUint64 (\<lambda>sz. smodify (\<lambda>s. s\<lparr>seg_currentSize := to_int64 sz\<rparr>)) (s, f)
              else (Inr (), (s, f)))))) (s, f))"

definition segment_append :: "gtime \<Rightarrow> byte list \<Rightarrow> unit sio" where
  "segment_append now b = (\<lambda>(s, f).
     if \<not> seg_open s then (Inl ErrNotOpen, (s, f))
     else if seg_size s + int (length b) > seg_maxSize s then (Inl ErrSegmentFull, (s, f))
     else sbind (seekEnd (- footerSize)) (\<lambda>_.
          sbind (writeUint64 now (of_int64 (int (length b)))) (\<lambda>_.
          sbind (writeBytes now b) (\<lambda>_.
          sbind (\<lambda>(s, f). writeUint64 now (of_int64 (seg_pos s)) (s, f)) (\<lambda>_.
          smodify (\<lambda>s. s\<lparr>seg_currentSize := (if seg_currentSize s = 0 then int (length b) else seg_currentSize s),
                         seg_size := seg_size s + int (length b) + 8\<rparr>))))) (s, f))"

definition segment_current :: "byte list sio" where
  "segment_current = (\<lambda>(s, f).
     if seg_pos s = seg_size s - 8 then (Inl EOF, (s, f))
     else sbind seekToCurrent (\<lambda>_.
          sbind readUint64 (\<lambda>sz.
          sbind (smodify (\<lambda>s. s\<lparr>seg_currentSize := to_int64 sz\<rparr>)) (\<lambda>_.
            \<lambda>(s, f). if to_int64 sz > seg_maxSize s then (Inl (Errorf ''record size out of range''), (s, f))
              else if to_int64 sz < 0 then (Inl (Panic ''makeslice: len out of range''), (s, f))
              else readBytes (nat (to_int64 sz)) (s, f)))) (s, f))"

definition segment_advance :: "gtime \<Rightarrow> unit sio" where
  "segment_advance now = (\<lambda>(s, f).
     if \<not> seg_open s then (Inl ErrNotOpen, (s, f))
     else if seg_pos s = seg_size s - footerSize then (Inl EOF, (s\<lparr>seg_currentSize := 0\<rparr>, f))
     else
       let pos = seg_pos s + seg_currentSize s + 8
       in sbind (seekEnd (- footerSize)) (\<lambda>_.
          sbind (writeUint64 now (of_int64 pos)) (\<lambda>_.
          sbind (smodify (\<lambda>s. s\<lparr>seg_pos := pos\<rparr>)) (\<lambda>_.
          sbind seekToCurrent (\<lambda>_.
          sbind readUint64 (\<lambda>sz.
          sbind (smodify (\<lambda>s. s\<lparr>seg_currentSize := to_int64 sz\<rparr>)) (\<lambda>_.
            \<lambda>(s, f). if seg_pos s = seg_size s - footerSize
              then (Inl EOF, (s\<lparr>seg_currentSize := 0\<rparr>, f))
              else (Inr (), (s, f)))))))) (s, f))"

definition segment_close :: "unit sio" where
  "segment_close = (\<lambda>(s, f).
     if \<not> seg_open s then (Inl ErrInvalid, (s, f)) else (Inr (), (s\<lparr>seg_open := False\<rparr>, f)))"

definition segment_lastModified :: "gtime sio" where
  "segment_lastModified = (\<lambda>(s, f).
     if \<not> seg_open s then (Inl ErrNotExist, (s, f)) else (Inr (f_mtime f), (s, f)))"

section \<open>Queues\<close>

text \<open>The entries of the directory: files, and subdirectories as \<open>None\<close>.\<close>

type_synonym dir = "(string \<times> os_file option) list"

record queue =
  q_dir :: dir
  q_store :: "segment list"
  q_segments :: "nat list"
  q_nilSegments :: bool
  q_head :: "nat option"
  q_tail :: "nat option"
  q_maxSegmentSize :: int
  q_maxSize :: int

type_synonym 'a qio = "queue \<Rightarrow> (go_error + 'a) \<times> queue"

definition qbind :: "'a qio \<Rightarrow> ('a \<Rightarrow> 'b qio) \<Rightarrow> 'b qio" where
  "qbind m k q = (case m q of (Inl e, q') \<Rightarrow> (Inl e, q') | (Inr a, q') \<Rightarrow> k a q')"

definition qreturn :: "'a \<Rightarrow> 'a qio" where
  "qreturn a q = (Inr a, q)"

definition newQueue :: "dir \<Rightarrow> int \<Rightarrow> queue" where
  "newQueue d maxSize =
     \<lparr>q_dir = d, q_store = [], q_segments = [], q_nilSegments = False, q_head = None, q_tail = None,
      q_maxSegmentSize = 10 * 1024 * 1024, q_maxSize = maxSize\<rparr>"

fun dir_put :: "string \<Rightarrow> os_file \<Rightarrow> dir \<Rightarrow> dir" where
  "dir_put n f [] = [(n, Some f)]"
| "dir_put n f ((n', g) # d) = (if n' = n then (n, Some f) # d else (n', g) # dir_put n f d)"

definition dir_remove :: "string \<Rightarrow> dir \<Rightarrow> dir" where
  "dir_remove n d = filter (\<lambda>(n', _). n' \<noteq> n) d"

definition ReadDir :: "dir \<Rightarrow> dir" where
  "ReadDir d = go_sort (\<lambda>a b. fst a < fst b) d"

text \<open>A step of the segment at an address; it reads and writes the file of that segment.\<close>

definition file_of :: "queue \<Rightarrow> string \<Rightarrow> os_file" where
  "file_of q n = (case map_of (q_dir q) n of Some (Some f) \<Rightarrow> f | _ \<Rightarrow> \<lparr>f_bytes = [], f_mtime = 0\<rparr>)"

definition on_segment :: "nat \<Rightarrow> 'a sio \<Rightarrow> 'a qio" where
  "on_segment a m q =
     (let s = q_store q ! a;
          (r, (s', f')) = m (s, file_of q (seg_path s))
      in (r, q\<lparr>q_store := (q_store q)[a := s'],
               q_dir := (if seg_open s then dir_put (seg_path s) f' (q_dir q) else q_dir q)\<rparr>))"

text \<open>\<^verbatim>\<open>newSegment\<close> returns a pointer to a new segment object.\<close>

definition newSegment :: "gtime \<Rightarrow> string \<Rightarrow> nat qio" where
  "newSegment now path q =
     (case map_of (q_dir q) path of
        Some None \<Rightarrow> (Inl (Errorf ''is a directory''), q)
      | r \<Rightarrow>
          let f = (case r of Some (Some f) \<Rightarrow> f | _ \<Rightarrow> \<lparr>f_bytes = [], f_mtime = now\<rparr>);
              s = \<lparr>seg_path = path, seg_open = True, seg_off = 0, seg_size = int (length (f_bytes f)),
                   seg_pos = 0, seg_currentSize = 0, seg_maxSize = q_maxSegmentSize q\<rparr>;
              a = length (q_store q);
              q = q\<lparr>q_dir := dir_put path f (q_dir q), q_store := q_store q @ [s]\<rparr>
          in qbind (on_segment a (segment_open now)) (\<lambda>_. qreturn a) q)"

fun maxSegmentID :: "dir \<Rightarrow> nat \<Rightarrow> nat" where
  "maxSegmentID [] maxID = maxID"
| "maxSegmentID ((n, None) # d) maxID = maxSegmentID d maxID"
| "maxSegmentID ((n, Some f) # d) maxID =
     (case ParseUint n of
        None \<Rightarrow> maxSegmentID d maxID
      | Some segmentID \<Rightarrow> maxSegmentID d (if segmentID > maxID then segmentID else maxID))"

definition nextSegmentID :: "queue \<Rightarrow> nat" where
  "nextSegmentID q = (maxSegmentID (ReadDir (q_dir q)) 0 + 1) mod 2 ^ 64"

lemma nextSegmentID_code [code]:
  "nextSegmentID q = nat ((int (maxSegmentID (ReadDir (q_dir q)) 0) + 1) mod 18446744073709551616)"
  by (simp add: nextSegmentID_def nat_mod_distrib nat_add_distrib)

definition addSegment :: "gtime \<Rightarrow> nat qio" where
  "addSegment now q =
     qbind (newSegment now (FormatUint (nextSegmentID q))) (\<lambda>a q.
       (Inr a, q\<lparr>q_segments := q_segments q @ [a]\<rparr>)) q"

fun load_each :: "gtime \<Rightarrow> dir \<Rightarrow> nat list \<Rightarrow> nat list qio" where
  "load_each now [] acc q = (Inr acc, q)"
| "load_each now ((n, None) # d) acc q = load_each now d acc q"
| "load_each now ((n, Some f) # d) acc q =
     (if ParseUint n = None then load_each now d acc q
      else qbind (newSegment now n) (\<lambda>a. load_each now d (acc @ [a])) q)"

definition loadSegments :: "gtime \<Rightarrow> nat list qio" where
  "loadSegments now q = load_each now (ReadDir (q_dir q)) [] q"

definition diskUsage :: "queue \<Rightarrow> int" where
  "diskUsage q = sum_list (map (\<lambda>a. seg_size (q_store q ! a)) (q_segments q))"

definition trimHead :: "unit qio" where
  "trimHead q =
     (if length (q_segments q) > 1
      then
        let q = q\<lparr>q_segments := tl (q_segments q)\<rparr>
        in case q_head q of
             None \<Rightarrow> (Inl (Panic ''nil pointer dereference''), q)
           | Some h \<Rightarrow>
               qbind (on_segment h segment_close) (\<lambda>_ q.
                 let path = seg_path (q_store q ! h)
                 in case map_of (q_dir q) path of
                      None \<Rightarrow> (Inl ErrNotExist, q)
                    | Some _ \<Rightarrow> (Inr (), q\<lparr>q_dir := dir_remove path (q_dir q), q_head := Some (hd (q_segments q))\<rparr>)) q
      else (Inr (), q))"

definition Queue_Open :: "gtime \<Rightarrow> unit qio" where
  "Queue_Open now =
     qbind (loadSegments now) (\<lambda>segs q.
     qbind (if segs = [] then addSegment now else qreturn 0) (\<lambda>_ q.
       let q = q\<lparr>q_head := Some (hd (q_segments q)), q_tail := Some (last (q_segments q))\<rparr>
       in case on_segment (hd (q_segments q)) segment_current q of
            (Inl EOF, q) \<Rightarrow> trimHead q
          | (_, q) \<Rightarrow> (Inr (), q)) (q\<lparr>q_segments := segs, q_nilSegments := False\<rparr>))"

fun close_each :: "nat list \<Rightarrow> unit qio" where
  "close_each [] q = (Inr (), q)"
| "close_each (a # as) q = qbind (on_segment a segment_close) (\<lambda>_. close_each as) q"

definition Queue_Close :: "unit qio" where
  "Queue_Close q =
     qbind (close_each (q_segments q)) (\<lambda>_ q.
       (Inr (), q\<lparr>q_head := None, q_tail := None, q_segments := [], q_nilSegments := True\<rparr>)) q"

text \<open>
  \<^verbatim>\<open>Remove\<close> distinguishes the nil slice of segments that \<^verbatim>\<open>Close\<close> leaves from the empty one
  of a queue that was never opened.
\<close>

definition Queue_Remove :: "unit qio" where
  "Queue_Remove q =
     (if q_head q \<noteq> None \<or> q_tail q \<noteq> None \<or> \<not> q_nilSegments q then (Inl (Errorf ''queue is open''), q)
      else (Inr (), q\<lparr>q_dir := []\<rparr>))"

definition Queue_SetMaxSegmentSize :: "gtime \<Rightarrow> int \<Rightarrow> unit qio" where
  "Queue_SetMaxSegmentSize now sz q =
     (let q = q\<lparr>q_maxSegmentSize := sz,
                q_store := map (\<lambda>(a, s). if a \<in> set (q_segments q) then s\<lparr>seg_maxSize := sz\<rparr> else s)
                  (zip [0..<length (q_store q)] (q_store q))\<rparr>
      in case q_tail q of
           None \<Rightarrow> (Inl (Panic ''nil pointer dereference''), q)
         | Some t \<Rightarrow>
             if seg_size (q_store q ! t) \<ge> q_maxSegmentSize q
             then qbind (addSegment now) (\<lambda>a q. (Inr (), q\<lparr>q_tail := Some a\<rparr>)) q
             else (Inr (), q))"

text \<open>The loop of \<^verbatim>\<open>PurgeOlderThan\<close>, with fuel: \<open>None\<close> when the fuel does not suffice.\<close>

fun purge_loop :: "nat \<Rightarrow> gtime \<Rightarrow> gtime \<Rightarrow> queue \<Rightarrow> ((go_error + unit) \<times> queue) option" where
  "purge_loop 0 now cutoff q = None"
| "purge_loop (Suc fuel) now cutoff q =
     (case q_head q of
        None \<Rightarrow> Some (Inl (Panic ''nil pointer dereference''), q)
      | Some h \<Rightarrow>
          (case on_segment h segment_lastModified q of
             (Inl e, q) \<Rightarrow> Some (Inl e, q)
           | (Inr md, q) \<Rightarrow>
               if md > cutoff \<or> md = cutoff then Some (Inr (), q)
               else
                 (case qbind (if length (q_segments q) = 1 then addSegment now else qreturn 0) (\<lambda>_. trimHead) q of
                    (Inl e, q) \<Rightarrow> Some (Inl e, q)
                  | (Inr _, q) \<Rightarrow> purge_loop fuel now cutoff q)))"

definition Queue_PurgeOlderThan :: "nat \<Rightarrow> gtime \<Rightarrow> gtime \<Rightarrow> queue \<Rightarrow> ((go_error + unit) \<times> queue) option" where
  "Queue_PurgeOlderThan fuel now wh q =
     (if length (q_segments q) = 0 then Some (Inr (), q)
      else purge_loop fuel now (time_Truncate wh 1000000000) q)"

definition Queue_LastModified :: "gtime qio" where
  "Queue_LastModified q =
     (case q_tail q of None \<Rightarrow> (Inr 0, q) | Some t \<Rightarrow> on_segment t segment_lastModified q)"

definition Queue_Position :: "queue \<Rightarrow> string \<times> string" where
  "Queue_Position q =
     ((case q_head q of None \<Rightarrow> []
       | Some h \<Rightarrow> seg_path (q_store q ! h) @ '':'' @ FormatUint (nat (seg_pos (q_store q ! h)))),
      (case q_tail q of None \<Rightarrow> []
       | Some t \<Rightarrow> seg_path (q_store q ! t) @ '':'' @ FormatUint (seg_off (q_store q ! t))))"

definition Queue_Append :: "gtime \<Rightarrow> byte list \<Rightarrow> unit qio" where
  "Queue_Append now b q =
     (case q_tail q of
        None \<Rightarrow> (Inl ErrNotOpen, q)
      | Some t \<Rightarrow>
          if diskUsage q + int (length b) > q_maxSize q then (Inl ErrQueueFull, q)
          else
            (case on_segment t (segment_append now b) q of
               (Inl ErrSegmentFull, q) \<Rightarrow>
                 qbind (addSegment now) (\<lambda>a q.
                   on_segment a (segment_append now b) (q\<lparr>q_tail := Some a\<rparr>)) q
             | (_, q) \<Rightarrow> (Inr (), q)))"

definition Queue_Current :: "byte list qio" where
  "Queue_Current q =
     (case q_head q of None \<Rightarrow> (Inl ErrNotOpen, q) | Some h \<Rightarrow> on_segment h segment_current q)"

definition Queue_Advance :: "gtime \<Rightarrow> unit qio" where
  "Queue_Advance now q =
     (case q_head q of
        None \<Rightarrow> (Inl ErrNotOpen, q)
      | Some h \<Rightarrow>
          (case on_segment h (segment_advance now) q of
             (Inl EOF, q) \<Rightarrow> trimHead q
           | (_, q) \<Rightarrow> (Inr (), q)))"

end
