(* ===== verification/HHSegment.thy ===== *)
theory HHSegment
  imports HHQueue
begin

text \<open>
  A segment file (\<^verbatim>\<open>segment\<close> of \<^verbatim>\<open>services/hh/queue.go\<close>) refines a list of blocks and a number of
  blocks already taken: \<open>seg_inv\<close> relates the bytes and the fields of a segment to them, and each
  operation on segments is an operation on them.
\<close>

section \<open>The layout of a segment\<close>

definition enc :: "byte list \<Rightarrow> byte list" where
  "enc b = PutUint64 (of_int64 (int (length b))) @ b"

definition encs :: "byte list list \<Rightarrow> byte list" where
  "encs bs = concat (map enc bs)"

definition seg_inv :: "byte list list \<Rightarrow> nat \<Rightarrow> sst \<Rightarrow> bool" where
  "seg_inv bs k st \<longleftrightarrow> (case st of (s, f) \<Rightarrow>
     seg_open s \<and> k \<le> length bs \<and> [] \<notin> set bs \<and>
     f_bytes f = encs bs @ PutUint64 (of_int64 (seg_pos s)) \<and>
     seg_pos s = int (length (encs (take k bs))) \<and>
     seg_size s = int (length (f_bytes f)) \<and>
     seg_currentSize s = (if k < length bs then int (length (bs ! k)) else 0) \<and>
     length (f_bytes f) < 2 ^ 63)"

lemma length_enc [simp]: "length (enc b) = 8 + length b"
  by (simp add: enc_def)

lemma encs_simps [simp]: "encs [] = []" "encs (b # bs) = enc b @ encs bs" "encs (bs @ cs) = encs bs @ encs cs"
  by (simp_all add: encs_def)

lemma encs_split: "encs bs = encs (take k bs) @ encs (drop k bs)"
  by (metis append_take_drop_id encs_simps(3))

lemma encs_drop_nth: "k < length bs \<Longrightarrow> encs (drop k bs) = enc (bs ! k) @ encs (drop (Suc k) bs)"
  by (simp add: Cons_nth_drop_Suc [symmetric])

lemma length_encs_take: "length (encs (take k bs)) \<le> length (encs bs)"
  using arg_cong [OF encs_split [of bs k], of length] by simp

lemma length_encs_take_eq: "k \<le> length bs \<Longrightarrow> length (encs (take k bs)) = length (encs bs) \<longleftrightarrow> k = length bs"
proof -
  assume k: "k \<le> length bs"
  have *: "length (encs bs) = length (encs (take k bs)) + length (encs (drop k bs))"
    using arg_cong [OF encs_split [of bs k], of length] by simp
  show ?thesis
  proof (cases "k < length bs")
    case True
    then show ?thesis using * encs_drop_nth [OF True] by simp
  qed (use k in simp)
qed

lemma length_encs_take_Suc:
  "k < length bs \<Longrightarrow> length (encs (take (Suc k) bs)) = length (encs (take k bs)) + length (bs ! k) + 8"
  by (simp add: take_Suc_conv_app_nth)

section \<open>Reading and writing\<close>

lemma write_at_end: "length B \<le> length bs \<Longrightarrow> write_at (length A) bs (A @ B) = A @ bs"
  by (simp add: write_at_def)

lemma readBytes_ok:
  assumes "seg_open s" and "drop (seg_off s) (f_bytes f) = b @ rest" and "length b = n"
  shows "readBytes n (s, f) = (Inr b, (s\<lparr>seg_off := seg_off s + n\<rparr>, f))"
  using assms by (auto simp: readBytes_def Let_def)

lemma readUint64_ok:
  assumes "seg_open s" and "drop (seg_off s) (f_bytes f) = PutUint64 v @ rest"
  shows "readUint64 (s, f) = (Inr v, (s\<lparr>seg_off := seg_off s + 8\<rparr>, f))"
  using readBytes_ok [OF assms, of 8] by (simp add: readUint64_def sbind_def sreturn_def)

lemma seek_ok: "seg_open s \<Longrightarrow> 0 \<le> p \<Longrightarrow> seek p (s, f) = (Inr (), (s\<lparr>seg_off := nat p\<rparr>, f))"
  by (simp add: seek_def)

lemmas seg_steps = sbind_def smodify_def seekEnd_def seekToCurrent_def seek_ok writeUint64_def writeBytes_def

section \<open>Operations\<close>

lemma segment_append_full:
  "seg_inv bs k (s, f) \<Longrightarrow> seg_maxSize s < seg_size s + int (length b) \<Longrightarrow>
   segment_append now b (s, f) = (Inl ErrSegmentFull, (s, f))"
  by (simp add: segment_append_def seg_inv_def)

lemma segment_append_ok:
  assumes inv: "seg_inv bs k (s, f)" and fits: "seg_size s + int (length b) \<le> seg_maxSize s"
    and "b \<noteq> []" and "seg_size s + int (length b) + 8 < 2 ^ 63"
  shows "\<exists>s' f'. segment_append now b (s, f) = (Inr (), (s', f')) \<and> seg_inv (bs @ [b]) k (s', f') \<and>
     seg_size s' = seg_size s + int (length b) + 8 \<and> seg_path s' = seg_path s \<and>
     seg_maxSize s' = seg_maxSize s \<and> f_mtime f' = now"
proof -
  let ?foot = "PutUint64 (of_int64 (seg_pos s))" and ?len = "PutUint64 (of_int64 (int (length b)))"
  have bytes: "f_bytes f = encs bs @ ?foot" and "seg_open s" using inv by (auto simp: seg_inv_def)
  have w1: "write_at (length (encs bs)) ?len (encs bs @ ?foot) = encs bs @ ?len"
    by (rule write_at_end) simp
  have w2: "write_at (length (encs bs) + 8) b (encs bs @ ?len) = encs bs @ ?len @ b"
    using write_at_end [of "[]" b "encs bs @ ?len"] by simp
  have w3: "write_at (length (encs bs) + 8 + length b) ?foot (encs bs @ ?len @ b) = encs bs @ ?len @ b @ ?foot"
    using write_at_end [of "[]" ?foot "encs bs @ ?len @ b"] by (simp add: add.assoc)
  let ?s = "s\<lparr>seg_off := length (encs bs) + 8 + length b + 8,
      seg_currentSize := (if seg_currentSize s = 0 then int (length b) else seg_currentSize s),
      seg_size := seg_size s + int (length b) + 8\<rparr>"
  let ?f = "f\<lparr>f_bytes := encs bs @ ?len @ b @ ?foot, f_mtime := now\<rparr>"
  have "segment_append now b (s, f) = (Inr (), (?s, ?f))"
    using fits \<open>seg_open s\<close> by (simp add: segment_append_def seg_steps bytes w1 w2 w3)
  moreover have "seg_inv (bs @ [b]) k (?s, ?f)"
    using inv assms(3,4) by (auto simp: seg_inv_def enc_def nth_append) (metis nth_mem)
  ultimately show ?thesis by auto
qed

lemma segment_current_EOF:
  "seg_inv bs (length bs) (s, f) \<Longrightarrow> segment_current (s, f) = (Inl EOF, (s, f))"
  by (simp add: segment_current_def seg_inv_def)

lemma segment_current_ok:
  assumes inv: "seg_inv bs k (s, f)" and k: "k < length bs" and fits: "int (length (bs ! k)) \<le> seg_maxSize s"
  shows "\<exists>s'. segment_current (s, f) = (Inr (bs ! k), (s', f)) \<and> seg_inv bs k (s', f) \<and>
     seg_path s' = seg_path s \<and> seg_maxSize s' = seg_maxSize s"
proof -
  let ?p = "length (encs (take k bs))" and ?b = "bs ! k"
  let ?len = "PutUint64 (of_int64 (int (length ?b)))"
  let ?rest = "encs (drop (Suc k) bs) @ PutUint64 (of_int64 (seg_pos s))"
  have s: "seg_open s" "seg_pos s = int ?p" "seg_size s = int (length (f_bytes f))"
    and bytes: "f_bytes f = encs bs @ PutUint64 (of_int64 (seg_pos s))"
    and big: "length (f_bytes f) < 2 ^ 63"
    using inv by (auto simp: seg_inv_def)
  have at: "f_bytes f = encs (take k bs) @ ?len @ ?b @ ?rest"
    using bytes encs_split [of bs k] encs_drop_nth [OF k] by (simp add: enc_def)
  have ne: "seg_pos s \<noteq> seg_size s - 8" using s at by simp
  have len: "to_int64 (of_int64 (int (length ?b))) = int (length ?b)"
    using big at by (intro to_of_int64) simp_all
  have r1: "readUint64 (s\<lparr>seg_off := ?p\<rparr>, f) =
      (Inr (of_int64 (int (length ?b))), (s\<lparr>seg_off := ?p + 8\<rparr>, f))"
    using readUint64_ok [of "s\<lparr>seg_off := ?p\<rparr>" f] s(1) at by simp
  have r2: "readBytes (length ?b) (s\<lparr>seg_off := ?p + 8, seg_currentSize := int (length ?b)\<rparr>, f) =
      (Inr ?b, (s\<lparr>seg_off := ?p + 8 + length ?b, seg_currentSize := int (length ?b)\<rparr>, f))"
    using readBytes_ok [of "s\<lparr>seg_off := ?p + 8, seg_currentSize := int (length ?b)\<rparr>" f ?b ?rest] s(1) at by simp
  let ?s = "s\<lparr>seg_off := ?p + 8 + length ?b, seg_currentSize := int (length ?b)\<rparr>"
  have "segment_current (s, f) = (Inr ?b, (?s, f))"
    using ne s(1,2) fits by (simp add: segment_current_def seg_steps r1 r2 len)
  moreover have "seg_inv bs k (?s, f)" using inv k by (auto simp: seg_inv_def)
  ultimately show ?thesis by (intro exI [of _ ?s]) simp
qed

lemma segment_advance_EOF:
  "seg_inv bs (length bs) (s, f) \<Longrightarrow>
   segment_advance now (s, f) = (Inl EOF, (s\<lparr>seg_currentSize := 0\<rparr>, f)) \<and>
   seg_inv bs (length bs) (s\<lparr>seg_currentSize := 0\<rparr>, f)"
  by (auto simp: segment_advance_def seg_inv_def)

lemma segment_advance_ok:
  assumes inv: "seg_inv bs k (s, f)" and k: "k < length bs"
  shows "\<exists>s' f'. segment_advance now (s, f) = ((if Suc k = length bs then Inl EOF else Inr ()), (s', f')) \<and>
     seg_inv bs (Suc k) (s', f') \<and> seg_size s' = seg_size s \<and> seg_path s' = seg_path s \<and>
     seg_maxSize s' = seg_maxSize s \<and> f_mtime f' = now"
proof -
  let ?p = "length (encs (take k bs))" and ?p' = "length (encs (take (Suc k) bs))"
  let ?foot = "PutUint64 (of_int64 (int ?p'))"
  have s: "seg_open s" "seg_pos s = int ?p" "seg_size s = int (length (f_bytes f))"
    "seg_currentSize s = int (length (bs ! k))"
    and bytes: "f_bytes f = encs bs @ PutUint64 (of_int64 (seg_pos s))" and big: "length (f_bytes f) < 2 ^ 63"
    using inv k by (auto simp: seg_inv_def)
  have size: "seg_size s = int (length (encs bs)) + 8" using s(3) bytes by simp
  have ne: "seg_pos s \<noteq> seg_size s - 8" using s(2) size length_encs_take_eq [of k bs] k by simp
  have p': "seg_pos s + seg_currentSize s + 8 = int ?p'" using s(2,4) length_encs_take_Suc [OF k] by simp
  have w: "write_at (length (encs bs)) ?foot (f_bytes f) = encs bs @ ?foot"
    unfolding bytes by (rule write_at_end) simp
  let ?f = "f\<lparr>f_bytes := encs bs @ ?foot, f_mtime := now\<rparr>"
  define v where "v = (if Suc k < length bs then of_int64 (int (length (bs ! Suc k))) else of_int64 (int ?p'))"
  have "\<exists>rest. drop ?p' (encs bs @ ?foot) = PutUint64 v @ rest"
  proof (cases "Suc k < length bs")
    case True
    then show ?thesis using encs_split [of bs "Suc k"] encs_drop_nth [OF True] by (simp add: v_def enc_def)
  next
    case False
    with k have "take (Suc k) bs = bs" by simp
    with False show ?thesis by (simp add: v_def)
  qed
  then have r: "readUint64 (s\<lparr>seg_pos := int ?p', seg_off := ?p'\<rparr>, ?f) =
      (Inr v, (s\<lparr>seg_pos := int ?p', seg_off := ?p' + 8\<rparr>, ?f))"
    using readUint64_ok [of "s\<lparr>seg_pos := int ?p', seg_off := ?p'\<rparr>" ?f] s(1) by auto
  have eof: "int ?p' = seg_size s - 8 \<longleftrightarrow> Suc k = length bs"
    using size length_encs_take_eq [of "Suc k" bs] k by simp
  have "length (bs ! Suc k) \<le> length (encs bs)" if "Suc k < length bs"
    using arg_cong [OF encs_split [of bs "Suc k"], of length] encs_drop_nth [OF that] by simp
  with big bytes have v: "to_int64 v = int (length (bs ! Suc k))" if "Suc k < length bs"
    using that unfolding v_def by (simp add: to_of_int64)
  let ?s = "s\<lparr>seg_pos := int ?p', seg_off := ?p' + 8,
      seg_currentSize := (if Suc k = length bs then 0 else int (length (bs ! Suc k)))\<rparr>"
  have "segment_advance now (s, f) = ((if Suc k = length bs then Inl EOF else Inr ()), (?s, ?f))"
  proof -
    have run: "segment_advance now (s, f) =
        (if int ?p' = seg_size s - 8 then (Inl EOF, (s\<lparr>seg_pos := int ?p', seg_off := ?p' + 8, seg_currentSize := 0\<rparr>, ?f))
         else (Inr (), (s\<lparr>seg_pos := int ?p', seg_off := ?p' + 8, seg_currentSize := to_int64 v\<rparr>, ?f)))"
      using ne s(1) p' w r by (simp add: segment_advance_def seg_steps bytes Let_def)
    show ?thesis unfolding run eof using v k by simp
  qed
  moreover have "seg_inv bs (Suc k) (?s, ?f)"
    using inv k size s(3) by (auto simp: seg_inv_def)
  ultimately show ?thesis by auto
qed

lemma seg_inv_pos_bound:
  assumes "seg_inv bs k (s, f)"
  shows "0 \<le> seg_pos s" and "seg_pos s < 2 ^ 63"
  using assms length_encs_take [of k bs] by (auto simp: seg_inv_def)

definition new_segment :: "string \<Rightarrow> int \<Rightarrow> nat \<Rightarrow> segment" where
  "new_segment path maxSize n =
     \<lparr>seg_path = path, seg_open = True, seg_off = 0, seg_size = int n, seg_pos = 0, seg_currentSize = 0,
      seg_maxSize = maxSize\<rparr>"

lemma segment_open_new:
  "f_bytes f = [] \<Longrightarrow>
   \<exists>s' f'. segment_open now (new_segment path maxSize 0, f) = (Inr (), (s', f')) \<and> seg_inv [] 0 (s', f') \<and>
     seg_path s' = path \<and> seg_maxSize s' = maxSize \<and> seg_size s' = 8 \<and> f_mtime f' = now"
  by (simp add: segment_open_def new_segment_def seg_steps write_at_def seg_inv_def)

text \<open>Opening the file of a segment again gives the blocks and the position back.\<close>

lemma segment_open_again:
  assumes inv: "seg_inv bs k (s0, f)"
  shows "\<exists>s'. segment_open now (new_segment path maxSize (length (f_bytes f)), f) = (Inr (), (s', f)) \<and>
     seg_inv bs k (s', f) \<and> seg_path s' = path \<and> seg_maxSize s' = maxSize"
proof -
  let ?p = "length (encs (take k bs))"
  let ?foot = "PutUint64 (of_int64 (int ?p))"
  let ?seg = "new_segment path maxSize (length (f_bytes f))"
  have bytes: "f_bytes f = encs bs @ ?foot" and k: "k \<le> length bs" and big: "length (f_bytes f) < 2 ^ 63"
    using inv by (auto simp: seg_inv_def)
  have pos: "to_int64 (of_int64 (int ?p)) = int ?p"
    using big bytes length_encs_take [of k bs] by (intro to_of_int64) simp_all
  have r1: "readUint64 (?seg\<lparr>seg_off := length (encs bs)\<rparr>, f) =
      (Inr (of_int64 (int ?p)), (?seg\<lparr>seg_off := length (encs bs) + 8\<rparr>, f))"
    using readUint64_ok [of "?seg\<lparr>seg_off := length (encs bs)\<rparr>" f "of_int64 (int ?p)" "[]"] bytes
    by (simp add: new_segment_def)
  show ?thesis
  proof (cases "k < length bs")
    case True
    let ?b = "bs ! k"
    let ?s = "?seg\<lparr>seg_pos := int ?p, seg_off := ?p\<rparr>"
    have at: "f_bytes f = encs (take k bs) @ PutUint64 (of_int64 (int (length ?b))) @ ?b @ encs (drop (Suc k) bs) @ ?foot"
      using bytes encs_split [of bs k] encs_drop_nth [OF True] by (simp add: enc_def)
    have r2: "readUint64 (?s, f) = (Inr (of_int64 (int (length ?b))), (?s\<lparr>seg_off := ?p + 8\<rparr>, f))"
      using readUint64_ok [of ?s f] at by (simp add: new_segment_def)
    have len: "to_int64 (of_int64 (int (length ?b))) = int (length ?b)"
      using big at by (intro to_of_int64) simp_all
    have lt: "int ?p < int (length (f_bytes f)) - 8" using at by simp
    have "segment_open now (?seg, f) = (Inr (), (?s\<lparr>seg_off := ?p + 8, seg_currentSize := int (length ?b)\<rparr>, f))"
      using r1 r2 lt pos len bytes by (simp add: segment_open_def seg_steps new_segment_def)
    then show ?thesis using inv True by (auto simp: seg_inv_def new_segment_def)
  next
    case False
    with k have kl: "k = length bs" by simp
    have "segment_open now (?seg, f) = (Inr (), (?seg\<lparr>seg_pos := int ?p, seg_off := ?p\<rparr>, f))"
      using r1 pos bytes kl by (simp add: segment_open_def seg_steps new_segment_def)
    then show ?thesis using inv kl by (auto simp: seg_inv_def new_segment_def)
  qed
qed

section \<open>Decoding\<close>

function decode :: "byte list \<Rightarrow> byte list list" where
  "decode bs = (if length bs < 8 then []
     else let n = unat (Uint64 (take 8 bs)) in take n (drop 8 bs) # decode (drop (8 + n) bs))"
  by auto
termination by (relation "measure length") auto

declare decode.simps [simp del]

lemma decode_encs: "length (encs bs) < 2 ^ 63 \<Longrightarrow> decode (encs bs) = bs"
proof (induction bs)
  case Nil
  show ?case by (simp add: decode.simps)
next
  case (Cons b bs)
  have len: "unat (of_int64 (int (length b))) = length b"
    using Cons.prems by (simp add: of_int64_def unat_of_nat)
  have "decode (encs (b # bs)) = b # decode (encs bs)"
    by (subst decode.simps) (simp add: enc_def len Let_def)
  with Cons show ?case by simp
qed

text \<open>The blocks of a segment that are not yet taken.\<close>

definition seg_items :: "sst \<Rightarrow> byte list list" where
  "seg_items = (\<lambda>(s, f). decode (drop (nat (seg_pos s)) (take (length (f_bytes f) - 8) (f_bytes f))))"

lemma seg_items_inv:
  assumes "seg_inv bs k (s, f)"
  shows "seg_items (s, f) = drop k bs"
proof -
  have bytes: "f_bytes f = encs bs @ PutUint64 (of_int64 (seg_pos s))" "seg_pos s = int (length (encs (take k bs)))"
    and big: "length (f_bytes f) < 2 ^ 63" using assms by (auto simp: seg_inv_def)
  have "length (encs (drop k bs)) < 2 ^ 63"
    using big bytes arg_cong [OF encs_split [of bs k], of length] by simp
  then show ?thesis
    using bytes arg_cong [OF encs_split [of bs k], of "drop (length (encs (take k bs)))"]
    by (simp add: seg_items_def decode_encs)
qed

end
