(* ===== verification/HHFifo.thy ===== *)
theory HHFifo
  imports HHSegment
begin

text \<open>
  The queue of \<^verbatim>\<open>services/hh/queue.go\<close> refines a first-in-first-out list: \<open>queue_rel\<close> relates the
  objects, the addresses and the files of an open queue to the blocks of its segments, and
  \<open>queue_items\<close> decodes the blocks that are still to be taken from the bytes on disk.
\<close>

section \<open>The relation\<close>

abbreviation path_of :: "queue \<Rightarrow> nat \<Rightarrow> string" where
  "path_of q a \<equiv> seg_path (q_store q ! a)"

definition rep :: "queue \<Rightarrow> nat \<Rightarrow> byte list list \<Rightarrow> nat \<Rightarrow> bool" where
  "rep q a bs k \<longleftrightarrow> a < length (q_store q) \<and> seg_maxSize (q_store q ! a) = q_maxSegmentSize q \<and>
     (\<exists>f. map_of (q_dir q) (path_of q a) = Some (Some f) \<and> seg_inv bs k (q_store q ! a, f))"

definition dir_ok :: "queue \<Rightarrow> bool" where
  "dir_ok q \<longleftrightarrow> distinct (map fst (q_dir q)) \<and> None \<notin> snd ` set (q_dir q) \<and> q_maxSegmentSize q + 8 < 2 ^ 63"

definition queue_rel :: "queue \<Rightarrow> byte list list \<Rightarrow> nat \<Rightarrow> byte list list list \<Rightarrow> bool" where
  "queue_rel q B k Bs \<longleftrightarrow> dir_ok q \<and>
     (\<exists>h as. q_segments q = h # as \<and> q_head q = Some h \<and> q_tail q = Some (last (h # as)) \<and>
        rep q h B k \<and> list_all2 (\<lambda>a bs. rep q a bs 0) as Bs \<and> distinct (map (path_of q) (h # as)))"

definition queue_items :: "queue \<Rightarrow> byte list list" where
  "queue_items q = concat (map (\<lambda>a. seg_items (q_store q ! a, file_of q (path_of q a))) (q_segments q))"

lemma rep_items: "rep q a bs k \<Longrightarrow> seg_items (q_store q ! a, file_of q (path_of q a)) = drop k bs"
  by (auto simp: rep_def file_of_def seg_items_inv)

lemma queue_rel_items:
  assumes "queue_rel q B k Bs"
  shows "queue_items q = drop k B @ concat Bs"
proof -
  from assms obtain h as where segs: "q_segments q = h # as" and h: "rep q h B k"
    and as: "list_all2 (\<lambda>a bs. rep q a bs 0) as Bs" by (auto simp: queue_rel_def)
  from as have "map (\<lambda>a. seg_items (q_store q ! a, file_of q (path_of q a))) as = Bs"
    by (induction rule: list_all2_induct) (auto simp: rep_items)
  with h show ?thesis by (simp add: queue_items_def segs rep_items)
qed

section \<open>The directory\<close>

lemma map_of_dir_put: "map_of (dir_put n f d) = (map_of d)(n \<mapsto> Some f)"
  by (induction n f d rule: dir_put.induct) (auto simp: fun_upd_twist)

lemma dir_put_same: "map_of d n = Some (Some f) \<Longrightarrow> dir_put n f d = d"
  by (induction n f d rule: dir_put.induct) (auto split: if_splits)

lemma fst_dir_put: "map fst (dir_put n f d) = (if n \<in> fst ` set d then map fst d else map fst d @ [n])"
  by (induction n f d rule: dir_put.induct) auto

lemma snd_dir_put: "snd ` set (dir_put n f d) \<subseteq> insert (Some f) (snd ` set d)"
  by (induction n f d rule: dir_put.induct) auto

lemma map_of_dir_remove: "map_of (dir_remove n d) m = (if m = n then None else map_of d m)"
  by (induction d) (auto simp: dir_remove_def)

lemma dir_ok_put:
  "dir_ok q \<Longrightarrow> q_dir q' = dir_put n f (q_dir q) \<Longrightarrow> q_maxSegmentSize q' = q_maxSegmentSize q \<Longrightarrow> dir_ok q'"
  using snd_dir_put [of n f "q_dir q"] by (auto simp: dir_ok_def fst_dir_put)

lemma distinct_map_hd: "distinct (map f (x # xs)) \<Longrightarrow> y \<in> set xs \<Longrightarrow> f y \<noteq> f x"
  by (induction xs) auto

section \<open>One segment changes\<close>

definition seg_step :: "nat \<Rightarrow> queue \<Rightarrow> queue \<Rightarrow> bool" where
  "seg_step a q q' \<longleftrightarrow>
     (\<forall>b cs j. path_of q b \<noteq> path_of q a \<longrightarrow> rep q b cs j \<longrightarrow> rep q' b cs j) \<and>
     (\<forall>b. path_of q' b = path_of q b) \<and> length (q_store q') = length (q_store q) \<and>
     q_segments q' = q_segments q \<and> q_head q' = q_head q \<and> q_tail q' = q_tail q \<and>
     q_maxSegmentSize q' = q_maxSegmentSize q \<and> q_maxSize q' = q_maxSize q \<and>
     map fst (q_dir q') = map fst (q_dir q) \<and> (dir_ok q \<longrightarrow> dir_ok q')"

definition seg_sim :: "'a sio \<Rightarrow> segment \<Rightarrow> byte list list \<Rightarrow> nat \<Rightarrow> go_error + 'a \<Rightarrow> byte list list \<Rightarrow> nat \<Rightarrow> bool" where
  "seg_sim m s bs k r bs' k' \<longleftrightarrow> (\<forall>f. seg_inv bs k (s, f) \<longrightarrow>
     (\<exists>s' f'. m (s, f) = (r, (s', f')) \<and> seg_inv bs' k' (s', f') \<and> seg_path s' = seg_path s \<and>
        seg_maxSize s' = seg_maxSize s))"

lemma on_segment_rep:
  assumes rep: "rep q a bs k" and sim: "seg_sim m (q_store q ! a) bs k r bs' k'"
  shows "\<exists>q'. on_segment a m q = (r, q') \<and> rep q' a bs' k' \<and> seg_step a q q'"
proof -
  from rep obtain f where a: "a < length (q_store q)" and f: "map_of (q_dir q) (path_of q a) = Some (Some f)"
    and inv: "seg_inv bs k (q_store q ! a, f)" by (auto simp: rep_def)
  from sim inv obtain s' f' where m: "m (q_store q ! a, f) = (r, (s', f'))"
    and inv': "seg_inv bs' k' (s', f')" and s': "seg_path s' = path_of q a" "seg_maxSize s' = seg_maxSize (q_store q ! a)"
    unfolding seg_sim_def by blast
  let ?q = "q\<lparr>q_store := (q_store q)[a := s'], q_dir := dir_put (path_of q a) f' (q_dir q)\<rparr>"
  have "seg_open (q_store q ! a)" using inv by (simp add: seg_inv_def)
  then have run: "on_segment a m q = (r, ?q)"
    by (simp add: on_segment_def file_of_def f m Let_def)
  have path: "path_of ?q b = path_of q b" for b
    using s'(1) a by (cases "b = a") simp_all
  have "rep ?q a bs' k'"
    using rep inv' s' a by (auto simp: rep_def map_of_dir_put)
  moreover have "rep ?q b cs j" if "path_of q b \<noteq> path_of q a" "rep q b cs j" for b cs j
  proof -
    from that(1) have "b \<noteq> a" by auto
    with that show ?thesis by (auto simp: rep_def map_of_dir_put)
  qed
  moreover have "dir_ok ?q" if "dir_ok q"
    by (rule dir_ok_put [OF that]) simp_all
  moreover have "map fst (q_dir ?q) = map fst (q_dir q)"
    using f by (auto simp: fst_dir_put dest!: map_of_SomeD) force
  ultimately show ?thesis using run path by (auto simp: seg_step_def)
qed

lemma queue_rel_head:
  assumes rel: "queue_rel q B k Bs" and h: "q_head q = Some h"
    and sim: "seg_sim m (q_store q ! h) B k r B' k'"
  shows "\<exists>q'. on_segment h m q = (r, q') \<and> queue_rel q' B' k' Bs \<and> seg_step h q q'"
proof -
  from rel h obtain as where segs: "q_segments q = h # as" and tail: "q_tail q = Some (last (h # as))"
    and rep: "rep q h B k" and as: "list_all2 (\<lambda>a bs. rep q a bs 0) as Bs"
    and dist: "distinct (map (path_of q) (h # as))" and ok: "dir_ok q"
    by (auto simp: queue_rel_def)
  from on_segment_rep [OF rep sim] obtain q' where run: "on_segment h m q = (r, q')"
    and rep': "rep q' h B' k'" and st: "seg_step h q q'" by (elim exE conjE)
  have keep: "rep q' b cs 0" if "b \<in> set as" "rep q b cs 0" for b cs
  proof -
    have "path_of q b \<noteq> path_of q h" by (rule distinct_map_hd [OF dist that(1)])
    with st that(2) show ?thesis unfolding seg_step_def by blast
  qed
  have "list_all2 (\<lambda>a bs. rep q' a bs 0) as Bs"
    using as by (rule list.rel_mono_strong) (rule keep)
  with rep' st dist segs tail h ok have "queue_rel q' B' k' Bs"
    by (auto simp: queue_rel_def seg_step_def)
  with run st show ?thesis by blast
qed

section \<open>Reading\<close>

lemma seg_sim_current:
  "k < length bs \<Longrightarrow> int (length (bs ! k)) \<le> seg_maxSize s \<Longrightarrow> seg_sim segment_current s bs k (Inr (bs ! k)) bs k"
  "seg_sim segment_current s bs (length bs) (Inl EOF) bs (length bs)"
  unfolding seg_sim_def using segment_current_ok segment_current_EOF by blast+

lemma seg_sim_advance:
  "k < length bs \<Longrightarrow>
   seg_sim (segment_advance now) s bs k (if Suc k = length bs then Inl EOF else Inr ()) bs (Suc k)"
  "seg_sim (segment_advance now) s bs (length bs) (Inl EOF) bs (length bs)"
  unfolding seg_sim_def using segment_advance_ok [of bs k s _ now] segment_advance_EOF [of bs s _ now] by force+

lemma Queue_Current_ok:
  assumes rel: "queue_rel q B k Bs" and "k < length B" and "int (length (B ! k)) \<le> q_maxSegmentSize q"
  shows "\<exists>q'. Queue_Current q = (Inr (B ! k), q') \<and> queue_rel q' B k Bs \<and>
     q_maxSegmentSize q' = q_maxSegmentSize q \<and> q_maxSize q' = q_maxSize q"
proof -
  obtain h where h: "q_head q = Some h" and rep: "rep q h B k" using rel by (auto simp: queue_rel_def)
  have "seg_maxSize (q_store q ! h) = q_maxSegmentSize q" using rep by (simp add: rep_def)
  with queue_rel_head [OF rel h seg_sim_current(1)] assms(2,3) show ?thesis
    by (auto simp: Queue_Current_def h seg_step_def)
qed

lemma Queue_Current_EOF:
  assumes rel: "queue_rel q B (length B) Bs"
  shows "\<exists>q'. Queue_Current q = (Inl EOF, q') \<and> queue_rel q' B (length B) Bs \<and>
     q_maxSegmentSize q' = q_maxSegmentSize q \<and> q_maxSize q' = q_maxSize q"
proof -
  obtain h where h: "q_head q = Some h" using rel by (auto simp: queue_rel_def)
  with queue_rel_head [OF rel h seg_sim_current(2)] show ?thesis
    by (auto simp: Queue_Current_def h seg_step_def)
qed

section \<open>Trimming and advancing\<close>

text \<open>\<^verbatim>\<open>trimHead\<close> closes the first segment, removes its file and makes the next one the head.\<close>

lemma trimHead_eq:
  assumes segs: "q_segments q = h # a # as" and head: "q_head q = Some h" and rep: "rep q h B k"
  shows "trimHead q = (Inr (), q\<lparr>q_segments := a # as, q_store := (q_store q)[h := (q_store q ! h)\<lparr>seg_open := False\<rparr>],
      q_dir := dir_remove (path_of q h) (q_dir q), q_head := Some a\<rparr>)"
proof -
  from rep obtain f where "h < length (q_store q)" "map_of (q_dir q) (path_of q h) = Some (Some f)"
    "seg_open (q_store q ! h)" by (auto simp: rep_def seg_inv_def)
  then show ?thesis
    by (simp add: trimHead_def segs head qbind_def on_segment_def segment_close_def file_of_def Let_def dir_put_same)
qed

lemma trimHead_ok:
  assumes rel: "queue_rel q B k (B1 # Bs)"
  shows "\<exists>q'. trimHead q = (Inr (), q') \<and> queue_rel q' B1 0 Bs \<and> set (q_dir q') \<subseteq> set (q_dir q) \<and>
     q_maxSegmentSize q' = q_maxSegmentSize q \<and> q_maxSize q' = q_maxSize q"
proof -
  from rel obtain h a as where segs: "q_segments q = h # a # as" and head: "q_head q = Some h"
    and tail: "q_tail q = Some (last (a # as))" and rep: "rep q h B k" and repa: "rep q a B1 0"
    and as: "list_all2 (\<lambda>a bs. rep q a bs 0) as Bs"
    and dist: "distinct (map (path_of q) (h # a # as))" and ok: "dir_ok q"
    by (auto simp: queue_rel_def list_all2_Cons2)
  let ?q = "q\<lparr>q_segments := a # as, q_store := (q_store q)[h := (q_store q ! h)\<lparr>seg_open := False\<rparr>],
      q_dir := dir_remove (path_of q h) (q_dir q), q_head := Some a\<rparr>"
  have run: "trimHead q = (Inr (), ?q)" by (rule trimHead_eq [OF segs head rep])
  have h: "h < length (q_store q)" using rep by (simp add: rep_def)
  have keep: "rep ?q b cs 0" if "b \<in> set (a # as)" "rep q b cs 0" for b cs
  proof -
    have "path_of q b \<noteq> path_of q h" by (rule distinct_map_hd [OF dist that(1)])
    then have "path_of q b \<noteq> path_of q h" "b \<noteq> h" by auto
    with that(2) show ?thesis by (auto simp: rep_def map_of_dir_remove)
  qed
  have path: "map (path_of ?q) (a # as) = map (path_of q) (a # as)"
  proof (rule map_cong [OF refl])
    fix b show "path_of ?q b = path_of q b" using h by (cases "b = h") simp_all
  qed
  have "dir_ok ?q" using ok by (auto simp: dir_ok_def dir_remove_def distinct_map_filter)
  moreover have "list_all2 (\<lambda>b cs. rep ?q b cs 0) as Bs"
    using as by (rule list.rel_mono_strong) (use keep in auto)
  moreover have "rep ?q a B1 0" using repa keep by simp
  moreover have "distinct (map (path_of ?q) (a # as))" using dist unfolding path by simp
  ultimately have "queue_rel ?q B1 0 Bs" using tail unfolding queue_rel_def by auto
  with run show ?thesis by (auto simp: dir_remove_def)
qed

lemma trimHead_single: "queue_rel q B k [] \<Longrightarrow> trimHead q = (Inr (), q)"
  by (auto simp: queue_rel_def trimHead_def)

text \<open>
  Advancing takes the current block. When it was the last one of the first segment and there
  are more segments, the first segment goes away.
\<close>

definition next_pos :: "byte list list \<Rightarrow> nat \<Rightarrow> byte list list list \<Rightarrow> byte list list \<times> nat \<times> byte list list list" where
  "next_pos B k Bs = (if Suc k < length B \<or> Bs = [] then (B, Suc k, Bs) else (hd Bs, 0, tl Bs))"

lemma next_pos_items:
  "k < length B \<Longrightarrow> next_pos B k Bs = (B', k', Bs') \<Longrightarrow>
   drop k B @ concat Bs = B ! k # drop k' B' @ concat Bs' \<and> set (concat (B' # Bs')) \<subseteq> set (concat (B # Bs))"
  by (cases Bs) (auto simp: next_pos_def Cons_nth_drop_Suc [symmetric] split: if_splits)

lemma Queue_Advance_ok:
  assumes rel: "queue_rel q B k Bs" and k: "k < length B" and pos: "next_pos B k Bs = (B', k', Bs')"
  shows "\<exists>q'. Queue_Advance now q = (Inr (), q') \<and> queue_rel q' B' k' Bs' \<and>
     q_maxSegmentSize q' = q_maxSegmentSize q \<and> q_maxSize q' = q_maxSize q"
proof -
  obtain h where h: "q_head q = Some h" using rel by (auto simp: queue_rel_def)
  from queue_rel_head [OF rel h seg_sim_advance(1) [OF k], of now] obtain q1 where
    run: "on_segment h (segment_advance now) q = (if Suc k = length B then Inl EOF else Inr (), q1)"
    and rel1: "queue_rel q1 B (Suc k) Bs" and max: "q_maxSegmentSize q1 = q_maxSegmentSize q" "q_maxSize q1 = q_maxSize q"
    by (auto simp: seg_step_def)
  consider (inside) "Suc k < length B" | (single) "Suc k = length B" "Bs = []" | (more) B1 Cs where "Suc k = length B" "Bs = B1 # Cs"
    using k by (metis Suc_lessI neq_Nil_conv)
  then show ?thesis
  proof cases
    case inside
    with run rel1 max pos show ?thesis by (auto simp: Queue_Advance_def h next_pos_def)
  next
    case single
    with rel1 have "trimHead q1 = (Inr (), q1)" by (simp add: trimHead_single)
    with run rel1 max pos single show ?thesis by (auto simp: Queue_Advance_def h next_pos_def)
  next
    case more
    with trimHead_ok [of q1 B "Suc k" B1 Cs] rel1 obtain q2 where "trimHead q1 = (Inr (), q2)"
      "queue_rel q2 B1 0 Cs" "q_maxSegmentSize q2 = q_maxSegmentSize q1" "q_maxSize q2 = q_maxSize q1" by auto
    with run max pos more show ?thesis by (auto simp: Queue_Advance_def h next_pos_def)
  qed
qed

text \<open>Advancing when the first segment has been taken drops it.\<close>

lemma Queue_Advance_drained:
  assumes rel: "queue_rel q B (length B) (B1 # Bs)"
  shows "\<exists>q'. Queue_Advance now q = (Inr (), q') \<and> queue_rel q' B1 0 Bs \<and>
     q_maxSegmentSize q' = q_maxSegmentSize q \<and> q_maxSize q' = q_maxSize q"
proof -
  obtain h where h: "q_head q = Some h" using rel by (auto simp: queue_rel_def)
  from queue_rel_head [OF rel h seg_sim_advance(2), of now] obtain q1 where
    "on_segment h (segment_advance now) q = (Inl EOF, q1)" "queue_rel q1 B (length B) (B1 # Bs)"
    "q_maxSegmentSize q1 = q_maxSegmentSize q" "q_maxSize q1 = q_maxSize q"
    by (auto simp: seg_step_def)
  with trimHead_ok [of q1 B "length B" B1 Bs] show ?thesis by (auto simp: Queue_Advance_def h)
qed

end
