(* ===== verification/HHAppend.thy ===== *)
theory HHAppend
  imports HHFifo
begin

text \<open>
  Appending to the queue of \<^verbatim>\<open>services/hh/queue.go\<close>: a new segment gets a name that no file of
  the directory has, and appending adds the block at the end of the list that the queue refines,
  in the last segment or in a new one.
\<close>

section \<open>New segments\<close>

lemma maxSegmentID_ge:
  "m \<le> maxSegmentID d m \<and> ((n, Some f) \<in> set d \<longrightarrow> ParseUint n = Some i \<longrightarrow> i \<le> maxSegmentID d m)"
proof (induction d m rule: maxSegmentID.induct)
  case (3 n' g d m)
  then show ?case by (cases "ParseUint n'") (fastforce split: if_splits)+
qed auto

definition ids_left :: "queue \<Rightarrow> bool" where
  "ids_left q \<longleftrightarrow> maxSegmentID (ReadDir (q_dir q)) 0 + 1 < 2 ^ 64"

lemma ids_left_code [code]: "ids_left q \<longleftrightarrow> int (maxSegmentID (ReadDir (q_dir q)) 0) + 1 < 18446744073709551616"
  by (auto simp: ids_left_def)

lemma nextSegmentID_fresh:
  assumes "dir_ok q" and "ids_left q"
  shows "map_of (q_dir q) (FormatUint (nextSegmentID q)) = None"
proof (rule ccontr)
  let ?n = "nextSegmentID q"
  have id: "?n = maxSegmentID (ReadDir (q_dir q)) 0 + 1" "?n < 2 ^ 64"
    using assms(2) by (auto simp: nextSegmentID_def ids_left_def)
  assume "map_of (q_dir q) (FormatUint ?n) \<noteq> None"
  then obtain e where e: "(FormatUint ?n, e) \<in> set (q_dir q)" by (auto dest: map_of_SomeD)
  with assms(1) obtain f where "e = Some f" by (cases e) (force simp: dir_ok_def)+
  with e have "(FormatUint ?n, Some f) \<in> set (ReadDir (q_dir q))" by (simp add: ReadDir_def)
  with ParseUint_FormatUint [OF id(2)] have "?n \<le> maxSegmentID (ReadDir (q_dir q)) 0"
    using maxSegmentID_ge by blast
  with id(1) show False by simp
qed

lemma newSegment_fresh:
  assumes "map_of (q_dir q) path = None"
  shows "\<exists>s f. newSegment now path q =
      (Inr (length (q_store q)), q\<lparr>q_store := q_store q @ [s], q_dir := dir_put path f (dir_put path \<lparr>f_bytes = [], f_mtime = now\<rparr> (q_dir q))\<rparr>) \<and>
    seg_inv [] 0 (s, f) \<and> seg_path s = path \<and> seg_maxSize s = q_maxSegmentSize q \<and> seg_size s = 8 \<and> f_mtime f = now"
proof -
  let ?f = "\<lparr>f_bytes = [], f_mtime = now\<rparr>"
  obtain s f where "segment_open now (new_segment path (q_maxSegmentSize q) 0, ?f) = (Inr (), (s, f))"
    and "seg_inv [] 0 (s, f)" "seg_path s = path" "seg_maxSize s = q_maxSegmentSize q" "seg_size s = 8" "f_mtime f = now"
    using segment_open_new [of ?f now path "q_maxSegmentSize q"] by auto
  then show ?thesis using assms
    by (auto simp: newSegment_def new_segment_def Let_def qbind_def qreturn_def on_segment_def file_of_def
        map_of_dir_put)
qed

lemma list_all2_set1_rep: "list_all2 (\<lambda>a bs. rep q a bs 0) as Bs \<Longrightarrow> b \<in> set as \<Longrightarrow> \<exists>cs j. rep q b cs j"
  by (induction rule: list_all2_induct) auto

lemma queue_rel_rep: "queue_rel q B k Bs \<Longrightarrow> b \<in> set (q_segments q) \<Longrightarrow> \<exists>cs j. rep q b cs j"
  unfolding queue_rel_def using list_all2_set1_rep [of q _ Bs b] by (elim exE conjE) (metis set_ConsD)

lemma queue_relI:
  "dir_ok q \<Longrightarrow> q_segments q = h # as \<Longrightarrow> q_head q = Some h \<Longrightarrow> q_tail q = Some (last (h # as)) \<Longrightarrow> rep q h B k \<Longrightarrow>
   list_all2 (\<lambda>a bs. rep q a bs 0) as Bs \<Longrightarrow> distinct (map (path_of q) (h # as)) \<Longrightarrow> queue_rel q B k Bs"
  unfolding queue_rel_def by blast

text \<open>The queue after a segment was added; the segments that it had are unchanged.\<close>

lemma addSegment_ok:
  assumes rel: "queue_rel q B k Bs" and ids: "ids_left q"
  shows "\<exists>q' a. addSegment now q = (Inr a, q') \<and> queue_rel (q'\<lparr>q_tail := Some a\<rparr>) B k (Bs @ [[]]) \<and>
     a = length (q_store q) \<and> q_store q' = q_store q @ [q_store q' ! a] \<and> seg_size (q_store q' ! a) = 8 \<and>
     q_segments q' = q_segments q @ [a] \<and> q_head q' = q_head q \<and> q_tail q' = q_tail q \<and>
     f_mtime (file_of q' (path_of q' a)) = now \<and>
     q_maxSegmentSize q' = q_maxSegmentSize q \<and> q_maxSize q' = q_maxSize q"
proof -
  from rel obtain h as where segs: "q_segments q = h # as" and head: "q_head q = Some h"
    and rep: "rep q h B k" and as: "list_all2 (\<lambda>a bs. rep q a bs 0) as Bs"
    and dist: "distinct (map (path_of q) (h # as))" and ok: "dir_ok q"
    by (auto simp: queue_rel_def)
  let ?path = "FormatUint (nextSegmentID q)" and ?a = "length (q_store q)"
  have fresh: "map_of (q_dir q) ?path = None" by (rule nextSegmentID_fresh [OF ok ids])
  from newSegment_fresh [OF fresh, of now] obtain s f where
    new: "newSegment now ?path q =
      (Inr ?a, q\<lparr>q_store := q_store q @ [s], q_dir := dir_put ?path f (dir_put ?path \<lparr>f_bytes = [], f_mtime = now\<rparr> (q_dir q))\<rparr>)"
    and inv: "seg_inv [] 0 (s, f)" and s: "seg_path s = ?path" "seg_maxSize s = q_maxSegmentSize q" "seg_size s = 8"
    and now: "f_mtime f = now" by blast
  let ?q = "q\<lparr>q_store := q_store q @ [s], q_dir := dir_put ?path f (dir_put ?path \<lparr>f_bytes = [], f_mtime = now\<rparr> (q_dir q)),
      q_segments := q_segments q @ [?a]\<rparr>"
  let ?t = "?q\<lparr>q_tail := Some ?a\<rparr>"
  have run: "addSegment now q = (Inr ?a, ?q)" by (simp add: addSegment_def qbind_def new)
  have keep: "rep ?t b cs j \<and> path_of ?t b = path_of q b \<and> path_of q b \<noteq> ?path" if "rep q b cs j" for b cs j
  proof -
    from that fresh have "path_of q b \<noteq> ?path" "b < length (q_store q)" by (auto simp: rep_def)
    with that show ?thesis by (auto simp: rep_def map_of_dir_put nth_append)
  qed
  have new_rep: "rep ?t ?a [] 0" "path_of ?t ?a = ?path"
    using inv s by (auto simp: rep_def map_of_dir_put)
  let ?empty = "q\<lparr>q_dir := dir_put ?path \<lparr>f_bytes = [], f_mtime = now\<rparr> (q_dir q)\<rparr>"
  have "dir_ok ?empty" by (rule dir_ok_put [OF ok]) simp_all
  then have ok_t: "dir_ok ?t" by (rule dir_ok_put) simp_all
  have all: "list_all2 (\<lambda>b cs. rep ?t b cs 0) (as @ [?a]) (Bs @ [[]])"
    by (rule list_all2_appendI [OF list.rel_mono_strong [OF as]]) (use keep new_rep in auto)
  have paths: "map (path_of ?t) (h # as) = map (path_of q) (h # as) \<and> ?path \<notin> set (map (path_of q) (h # as))"
  proof -
    have "path_of ?t b = path_of q b \<and> path_of q b \<noteq> ?path" if b: "b \<in> set (h # as)" for b
    proof -
      obtain cs j where "rep q b cs j" using queue_rel_rep [OF rel, of b] b segs by auto
      then show ?thesis using keep by blast
    qed
    then show ?thesis by (metis (no_types, lifting) imageE list.set_map map_cong)
  qed
  have "distinct (map (path_of ?t) (h # as) @ [path_of ?t ?a])"
    unfolding paths [THEN conjunct1] new_rep(2) using dist paths [THEN conjunct2] by auto
  then have "queue_rel ?t B k (Bs @ [[]])"
    by (intro queue_relI [OF ok_t _ _ _ _ all, of h]) (use segs head keep [OF rep] in simp_all)
  with run s now show ?thesis by (auto simp: file_of_def map_of_dir_put)
qed

section \<open>Appending\<close>

lemma seg_sim_append:
  "b \<noteq> [] \<Longrightarrow> seg_size s + int (length b) \<le> seg_maxSize s \<Longrightarrow> seg_maxSize s + 8 < 2 ^ 63 \<Longrightarrow>
   seg_sim (segment_append now b) s bs k (Inr ()) (bs @ [b]) k"
  "seg_maxSize s < seg_size s + int (length b) \<Longrightarrow> seg_sim (segment_append now b) s bs k (Inl ErrSegmentFull) bs k"
  unfolding seg_sim_def using segment_append_ok [of bs k s _ b now] segment_append_full [of bs k s _ b now] by force+

text \<open>A step on the last segment, which is the head when there is only one.\<close>

definition snoc_last :: "byte list \<Rightarrow> byte list list \<Rightarrow> byte list list list \<Rightarrow> byte list list \<times> byte list list list" where
  "snoc_last b B Bs = (if Bs = [] then (B @ [b], []) else (B, butlast Bs @ [last Bs @ [b]]))"

lemma snoc_last_items:
  "k \<le> length B \<Longrightarrow> snoc_last b B Bs = (B', Bs') \<Longrightarrow> drop k B' @ concat Bs' = drop k B @ concat Bs @ [b]"
proof (cases Bs rule: rev_cases)
  case (snoc Cs C)
  then show "snoc_last b B Bs = (B', Bs') \<Longrightarrow> ?thesis" by (auto simp: snoc_last_def)
qed (auto simp: snoc_last_def)

lemma queue_rel_tail:
  assumes rel: "queue_rel q B k Bs" and t: "q_tail q = Some t"
    and sim: "\<And>bs j. seg_sim m (q_store q ! t) bs j r (bs @ [b]) j"
  shows "\<exists>q'. on_segment t m q = (r, q') \<and> queue_rel q' (fst (snoc_last b B Bs)) k (snd (snoc_last b B Bs)) \<and> seg_step t q q'"
proof (cases Bs rule: rev_cases)
  case Nil
  with rel t have h: "q_head q = Some t" by (auto simp: queue_rel_def)
  from queue_rel_head [OF rel h sim] Nil show ?thesis by (simp add: snoc_last_def)
next
  case (snoc Cs C)
  with rel t obtain h as where segs: "q_segments q = h # as @ [t]" and head: "q_head q = Some h"
    and rep: "rep q h B k" and as: "list_all2 (\<lambda>a bs. rep q a bs 0) as Cs" and rept: "rep q t C 0"
    and dist: "distinct (map (path_of q) (h # as @ [t]))" and ok: "dir_ok q"
    by (auto simp: queue_rel_def list_all2_append2 list_all2_Cons2)
  from on_segment_rep [OF rept sim] obtain q' where run: "on_segment t m q = (r, q')"
    and rept': "rep q' t (C @ [b]) 0" and st: "seg_step t q q'" by (elim exE conjE)
  have ne: "path_of q c \<noteq> path_of q t" if "c \<in> set (h # as)" for c
    using dist that by (auto simp: image_iff)
  have keep: "rep q' c cs j" if "c \<in> set (h # as)" "rep q c cs j" for c cs j
    using st ne [OF that(1)] that(2) unfolding seg_step_def by blast
  have "list_all2 (\<lambda>a bs. rep q' a bs 0) as Cs"
    using as by (rule list.rel_mono_strong) (rule keep, simp_all)
  then have all: "list_all2 (\<lambda>a bs. rep q' a bs 0) (as @ [t]) (Cs @ [C @ [b]])"
    using rept' by (auto intro: list_all2_appendI)
  have "dir_ok q'" "map (path_of q') (h # as @ [t]) = map (path_of q) (h # as @ [t])"
    using st ok by (auto simp: seg_step_def)
  then have "queue_rel q' B k (Cs @ [C @ [b]])"
    by (intro queue_relI [OF _ _ _ _ _ all, of h])
      (use st segs head t keep [OF _ rep] dist in \<open>simp_all add: seg_step_def\<close>)
  with run st snoc show ?thesis by (auto simp: snoc_last_def)
qed

lemma rep_tail:
  assumes "queue_rel q B k Bs" and "q_tail q = Some t"
  shows "t \<in> set (q_segments q) \<and> seg_maxSize (q_store q ! t) = q_maxSegmentSize q \<and> 8 \<le> seg_size (q_store q ! t)"
proof -
  have t: "t \<in> set (q_segments q)" using assms last_in_set by (auto simp: queue_rel_def split: if_splits)
  with queue_rel_rep [OF assms(1)] obtain cs j where "rep q t cs j" by blast
  with t show ?thesis by (auto simp: rep_def seg_inv_def)
qed

text \<open>The invariant of the queue: the files represent blocks, and each block fits into a segment.\<close>

definition fifo_ok :: "queue \<Rightarrow> bool" where
  "fifo_ok q \<longleftrightarrow> (\<exists>B k Bs. queue_rel q B k Bs \<and> (\<forall>b\<in>set (concat (B # Bs)). int (length b) \<le> q_maxSegmentSize q))"

lemma set_snoc_last: "snoc_last b B Bs = (B', Bs') \<Longrightarrow> set (concat (B' # Bs')) = insert b (set (concat (B # Bs)))"
  by (cases Bs rule: rev_cases) (auto simp: snoc_last_def)

lemma append_tail:
  assumes rel: "queue_rel q B k Bs" and t: "q_tail q = Some t" and b: "b \<noteq> []"
    and fits: "seg_size (q_store q ! t) + int (length b) \<le> q_maxSegmentSize q"
    and bs: "snoc_last b B Bs = (B', Bs')"
  shows "\<exists>q'. on_segment t (segment_append now b) q = (Inr (), q') \<and> queue_rel q' B' k Bs' \<and>
     q_maxSegmentSize q' = q_maxSegmentSize q \<and> q_maxSize q' = q_maxSize q"
proof -
  note tail = rep_tail [OF rel t]
  have "q_maxSegmentSize q + 8 < 2 ^ 63" using rel by (auto simp: queue_rel_def dir_ok_def)
  with tail fits b have sim: "seg_sim (segment_append now b) (q_store q ! t) bs j (Inr ()) (bs @ [b]) j" for bs j
    by (intro seg_sim_append) simp_all
  from queue_rel_tail [OF rel t sim, unfolded bs fst_conv snd_conv] show ?thesis by (auto simp: seg_step_def)
qed

lemma append_tail_full:
  assumes rel: "queue_rel q B k Bs" and t: "q_tail q = Some t"
    and full: "q_maxSegmentSize q < seg_size (q_store q ! t) + int (length b)"
  shows "on_segment t (segment_append now b) q = (Inl ErrSegmentFull, q)"
proof -
  note tail = rep_tail [OF rel t]
  with queue_rel_rep [OF rel] obtain cs j where "rep q t cs j" by blast
  then obtain f where f: "map_of (q_dir q) (path_of q t) = Some (Some f)" and inv: "seg_inv cs j (q_store q ! t, f)"
    by (auto simp: rep_def)
  have "segment_append now b (q_store q ! t, f) = (Inl ErrSegmentFull, (q_store q ! t, f))"
    by (rule segment_append_full [OF inv]) (use full tail in simp)
  with f inv show ?thesis
    by (simp add: on_segment_def file_of_def seg_inv_def dir_put_same)
qed

text \<open>Where a block goes: into the last segment when it fits, into a new segment otherwise.\<close>

definition tail_size :: "queue \<Rightarrow> int" where
  "tail_size q = (case q_tail q of None \<Rightarrow> 0 | Some t \<Rightarrow> seg_size (q_store q ! t))"

definition append_pos :: "queue \<Rightarrow> byte list \<Rightarrow> byte list list \<Rightarrow> byte list list list \<Rightarrow> byte list list \<times> byte list list list" where
  "append_pos q b B Bs =
     (if tail_size q + int (length b) \<le> q_maxSegmentSize q then snoc_last b B Bs else (B, Bs @ [[b]]))"

lemma append_pos_items:
  "k \<le> length B \<Longrightarrow> append_pos q b B Bs = (B', Bs') \<Longrightarrow>
   drop k B' @ concat Bs' = (drop k B @ concat Bs) @ [b] \<and> set (concat (B' # Bs')) = insert b (set (concat (B # Bs)))"
  using snoc_last_items [of k B b Bs B' Bs'] set_snoc_last [of b B Bs B' Bs']
  by (auto simp: append_pos_def split: if_splits)

lemma Queue_Append_rel:
  assumes rel: "queue_rel q B k Bs" and ids: "ids_left q" and b: "b \<noteq> []"
    and room: "diskUsage q + int (length b) \<le> q_maxSize q"
  shows "\<exists>r q' B' Bs'. Queue_Append now b q = (r, q') \<and> queue_rel q' B' k Bs' \<and>
     q_maxSegmentSize q' = q_maxSegmentSize q \<and> q_maxSize q' = q_maxSize q \<and>
     (if int (length b) + 8 > q_maxSegmentSize q then r = Inl ErrSegmentFull \<and> B' = B \<and> Bs' = Bs @ [[]]
      else r = Inr () \<and> append_pos q b B Bs = (B', Bs'))"
proof -
  obtain t where t: "q_tail q = Some t" using rel by (auto simp: queue_rel_def)
  note tail = rep_tail [OF rel t]
  show ?thesis
  proof (cases "tail_size q + int (length b) \<le> q_maxSegmentSize q")
    case True
    obtain B' Bs' where bs: "snoc_last b B Bs = (B', Bs')" by fastforce
    from append_tail [OF rel t b _ bs, of now] True tail bs show ?thesis
      by (auto simp: Queue_Append_def t append_pos_def tail_size_def not_less [symmetric] room [unfolded not_less [symmetric]])
  next
    case False
    then have full: "q_maxSegmentSize q < seg_size (q_store q ! t) + int (length b)" by (simp add: tail_size_def t)
    from addSegment_ok [OF rel ids, of now] obtain q1 a where add: "addSegment now q = (Inr a, q1)"
      and rel1: "queue_rel (q1\<lparr>q_tail := Some a\<rparr>) B k (Bs @ [[]])" and size8: "seg_size (q_store q1 ! a) = 8"
      and max: "q_maxSegmentSize q1 = q_maxSegmentSize q" "q_maxSize q1 = q_maxSize q" by blast
    let ?q = "q1\<lparr>q_tail := Some a\<rparr>"
    have run: "Queue_Append now b q = on_segment a (segment_append now b) ?q"
      using room append_tail_full [OF rel t full, of now] add by (simp add: Queue_Append_def t qbind_def)
    have "snoc_last b B (Bs @ [[]]) = (B, Bs @ [[b]])" by (simp add: snoc_last_def)
    from append_tail [OF rel1 _ b _ this, of a now] append_tail_full [OF rel1, of a b now] run rel1 max size8 False
    show ?thesis by (cases "int (length b) + 8 > q_maxSegmentSize q") (auto simp: append_pos_def)
  qed
qed

lemma fifo_okI:
  "queue_rel q B k Bs \<Longrightarrow> \<forall>b\<in>set (concat (B # Bs)). int (length b) \<le> q_maxSegmentSize q \<Longrightarrow> fifo_ok q"
  unfolding fifo_ok_def by blast

lemma fifo_okI_subset:
  "queue_rel q B k Bs \<Longrightarrow> set (concat (B # Bs)) \<subseteq> S \<Longrightarrow> \<forall>b\<in>S. int (length b) \<le> q_maxSegmentSize q \<Longrightarrow> fifo_ok q"
  unfolding fifo_ok_def by blast

lemma queue_rel_pos: "queue_rel q B k Bs \<Longrightarrow> k \<le> length B"
  by (auto simp: queue_rel_def rep_def seg_inv_def)

lemma append_fifo:
  assumes ok: "fifo_ok q" and ids: "ids_left q" and b: "b \<noteq> []"
  shows "\<exists>r q'. Queue_Append now b q = (r, q') \<and> fifo_ok q' \<and>
     (if diskUsage q + int (length b) > q_maxSize q then r = Inl ErrQueueFull \<and> q' = q
      else if int (length b) + 8 > q_maxSegmentSize q then r = Inl ErrSegmentFull \<and> queue_items q' = queue_items q
      else r = Inr () \<and> queue_items q' = queue_items q @ [b])"
proof (cases "diskUsage q + int (length b) \<le> q_maxSize q")
  case False
  obtain t where "q_tail q = Some t" using ok by (auto simp: fifo_ok_def queue_rel_def)
  with False ok show ?thesis by (simp add: Queue_Append_def)
next
  case True
  from ok obtain B k Bs where rel: "queue_rel q B k Bs"
    and small: "\<forall>b\<in>set (concat (B # Bs)). int (length b) \<le> q_maxSegmentSize q" unfolding fifo_ok_def by blast
  from Queue_Append_rel [OF rel ids b True, of now] obtain r q' B' Bs' where run: "Queue_Append now b q = (r, q')"
    and rel': "queue_rel q' B' k Bs'" and max: "q_maxSegmentSize q' = q_maxSegmentSize q"
    and res: "if int (length b) + 8 > q_maxSegmentSize q then r = Inl ErrSegmentFull \<and> B' = B \<and> Bs' = Bs @ [[]]
      else r = Inr () \<and> append_pos q b B Bs = (B', Bs')" by blast
  have "fifo_ok q'"
    using small res max append_pos_items [OF queue_rel_pos [OF rel], of q b Bs B' Bs']
    by (intro fifo_okI [OF rel']) (auto split: if_splits)
  with run res True show ?thesis
    using append_pos_items [OF queue_rel_pos [OF rel], of q b Bs B' Bs']
    by (auto simp: queue_rel_items [OF rel] queue_rel_items [OF rel'] split: if_splits)
qed

text \<open>
  (C12) Appending a block to the handoff queue either adds it at the end of what is still to be
  taken, or fails with the error of a full queue or of a block longer than a segment and leaves
  what is to be taken as it was; the blocks are read back from the bytes of the files.
\<close>

theorem Queue_Append_fifo:
  assumes ok: "fifo_ok q" and ids: "ids_left q" and b: "b \<noteq> []"
  shows "\<exists>r q'. Queue_Append now b q = (r, q') \<and> fifo_ok q' \<and>
     (if diskUsage q + int (length b) > q_maxSize q then r = Inl ErrQueueFull \<and> q' = q
      else if int (length b) + 8 > q_maxSegmentSize q then r = Inl ErrSegmentFull \<and> queue_items q' = queue_items q
      else r = Inr () \<and> queue_items q' = queue_items q @ [b])"
  using append_fifo [OF assms] .

section \<open>The interface of the queue\<close>

text \<open>
  What a consumer of the queue relies on. \<open>front\<close> are the blocks that it can take at the moment:
  it is empty when the queue is empty, and also when the first segment has been taken and later
  segments hold blocks, a state in which \<open>current\<close> reports the end of the queue.
\<close>

definition queue_front :: "queue \<Rightarrow> byte list list" where
  "queue_front q = (case q_segments q of [] \<Rightarrow> [] | a # _ \<Rightarrow> seg_items (q_store q ! a, file_of q (path_of q a)))"

lemma queue_rel_front: "queue_rel q B k Bs \<Longrightarrow> queue_front q = drop k B"
  by (auto simp: queue_rel_def queue_front_def rep_items)

locale handoff_queue =
  fixes ok :: "'q \<Rightarrow> bool" and items :: "'q \<Rightarrow> byte list list" and front :: "'q \<Rightarrow> byte list list"
    and current :: "'q \<Rightarrow> (go_error + byte list) \<times> 'q"
    and advance :: "gtime \<Rightarrow> 'q \<Rightarrow> (go_error + unit) \<times> 'q"
  assumes front_items: "ok q \<Longrightarrow> \<exists>rest. items q = front q @ rest"
    and front_nonempty: "ok q \<Longrightarrow> [] \<notin> set (items q)"
    and current_ok: "ok q \<Longrightarrow> \<exists>q'. current q = (if front q = [] then Inl EOF else Inr (hd (front q)), q') \<and>
       ok q' \<and> items q' = items q \<and> front q' = front q"
    and advance_ok: "ok q \<Longrightarrow> front q \<noteq> [] \<Longrightarrow> \<exists>q'. advance now q = (Inr (), q') \<and> ok q' \<and> items q' = tl (items q)"
begin

text \<open>Taking a block: reading it and advancing gives the first block and leaves the others.\<close>

lemma take_first:
  assumes "ok q" and "front q \<noteq> []"
  obtains q1 q2 where "current q = (Inr (hd (items q)), q1)" and "advance now q1 = (Inr (), q2)"
    and "ok q1" and "items q1 = items q" and "front q1 = front q" and "ok q2" and "items q = hd (items q) # items q2"
proof -
  from front_items [OF assms(1)] assms(2) have hd: "hd (front q) = hd (items q)" "items q \<noteq> []" by auto
  from current_ok [OF assms(1)] assms(2) hd obtain q1 where 1: "current q = (Inr (hd (items q)), q1)" "ok q1"
    "items q1 = items q" "front q1 = front q" by auto
  from advance_ok [of q1 now] 1 assms(2) obtain q2 where "advance now q1 = (Inr (), q2)" "ok q2" "items q2 = tl (items q)"
    by auto
  with 1 hd show thesis by (intro that [of q1 q2]) simp_all
qed

end

lemma queue_rel_nonempty:
  assumes rel: "queue_rel q B k Bs"
  shows "[] \<notin> set (concat (B # Bs))"
proof -
  from rel obtain h as where "rep q h B k" "list_all2 (\<lambda>a bs. rep q a bs 0) as Bs" by (auto simp: queue_rel_def)
  have ne: "rep q a bs j \<Longrightarrow> [] \<notin> set bs" for a bs j by (auto simp: rep_def seg_inv_def)
  have "[] \<notin> set (concat Bs)"
    using \<open>list_all2 _ as Bs\<close> by (induction rule: list_all2_induct) (auto dest: ne)
  with ne [OF \<open>rep q h B k\<close>] show ?thesis by simp
qed

definition fits :: "queue \<Rightarrow> byte list list \<Rightarrow> bool" where
  "fits q bs \<longleftrightarrow> (\<forall>b\<in>set bs. int (length b) \<le> q_maxSegmentSize q)"

lemma Queue_Current_rel:
  assumes rel: "queue_rel q B k Bs" and small: "fits q (concat (B # Bs))"
  shows "\<exists>q'. Queue_Current q = (if queue_front q = [] then Inl EOF else Inr (hd (queue_front q)), q') \<and>
    queue_rel q' B k Bs \<and> fits q' (concat (B # Bs)) \<and> queue_items q' = queue_items q \<and> queue_front q' = queue_front q"
proof (cases "k < length B")
  case True
  then have "int (length (B ! k)) \<le> q_maxSegmentSize q" using small by (simp add: fits_def)
  from Queue_Current_ok [OF rel True this] True small show ?thesis
    by (auto simp: queue_rel_front [OF rel] queue_rel_items [OF rel] queue_rel_front queue_rel_items fits_def hd_drop_conv_nth)
next
  case False
  with queue_rel_pos [OF rel] have k: "k = length B" by simp
  with Queue_Current_EOF [of q B Bs] rel small show ?thesis
    by (auto simp: queue_rel_front [OF rel] queue_rel_items [OF rel] queue_rel_front queue_rel_items fits_def)
qed

lemma Queue_Advance_rel:
  assumes rel: "queue_rel q B k Bs" and small: "fits q (concat (B # Bs))" and front: "queue_front q \<noteq> []"
    and pos: "next_pos B k Bs = (B', k', Bs')"
  shows "\<exists>q'. Queue_Advance now q = (Inr (), q') \<and> queue_rel q' B' k' Bs' \<and> fits q' (concat (B' # Bs')) \<and>
    queue_items q' = tl (queue_items q)"
proof -
  have k: "k < length B" using front by (simp add: queue_rel_front [OF rel])
  from Queue_Advance_ok [OF rel k pos, of now] obtain q' where run: "Queue_Advance now q = (Inr (), q')"
    and rel': "queue_rel q' B' k' Bs'" and max: "q_maxSegmentSize q' = q_maxSegmentSize q" by blast
  note items = next_pos_items [OF k pos]
  have "fits q' (concat (B' # Bs'))"
    using small subsetD [OF items [THEN conjunct2]] unfolding fits_def max by blast
  with run rel' items show ?thesis
    by (simp add: queue_rel_items [OF rel] queue_rel_items [OF rel'])
qed

lemma fifo_ok_fits: "fifo_ok q \<longleftrightarrow> (\<exists>B k Bs. queue_rel q B k Bs \<and> fits q (concat (B # Bs)))"
  by (simp add: fifo_ok_def fits_def)

interpretation hq: handoff_queue fifo_ok queue_items queue_front Queue_Current Queue_Advance
proof
  fix q now assume "fifo_ok q"
  then obtain B k Bs where rel: "queue_rel q B k Bs" and small: "fits q (concat (B # Bs))" unfolding fifo_ok_fits by blast
  show "\<exists>rest. queue_items q = queue_front q @ rest" by (simp add: queue_rel_items [OF rel] queue_rel_front [OF rel])
  show "[] \<notin> set (queue_items q)"
    using queue_rel_nonempty [OF rel] by (auto simp: queue_rel_items [OF rel] dest: in_set_dropD)
  show "\<exists>q'. Queue_Current q = (if queue_front q = [] then Inl EOF else Inr (hd (queue_front q)), q') \<and>
    fifo_ok q' \<and> queue_items q' = queue_items q \<and> queue_front q' = queue_front q"
    using Queue_Current_rel [OF rel small] unfolding fifo_ok_fits by blast
  assume "queue_front q \<noteq> []"
  moreover obtain B' k' Bs' where "next_pos B k Bs = (B', k', Bs')" using prod_cases3 by blast
  ultimately show "\<exists>q'. Queue_Advance now q = (Inr (), q') \<and> fifo_ok q' \<and> queue_items q' = tl (queue_items q)"
    using Queue_Advance_rel [OF rel small, of B' k' Bs' now] unfolding fifo_ok_fits by blast
qed

text \<open>
  A queue that flows: no later segment is empty, and the first segment has been taken completely
  only when it is the only one. For it, \<open>front\<close> is empty only when nothing is left.
\<close>

locale flowing_queue = handoff_queue +
  assumes flow: "ok q \<Longrightarrow> front q = [] \<Longrightarrow> items q = []"
begin

lemma front_empty_iff: "ok q \<Longrightarrow> front q = [] \<longleftrightarrow> items q = []"
  using flow front_items by fastforce

end

definition flowing :: "queue \<Rightarrow> bool" where
  "flowing q \<longleftrightarrow> (\<exists>B k Bs. queue_rel q B k Bs \<and> fits q (concat (B # Bs)) \<and> (Bs = [] \<or> k < length B) \<and> [] \<notin> set Bs)"

lemma flowing_fifo: "flowing q \<Longrightarrow> fifo_ok q"
  unfolding flowing_def fifo_ok_fits by blast

interpretation fq: flowing_queue flowing queue_items queue_front Queue_Current Queue_Advance
proof
  fix q now assume fl: "flowing q"
  then obtain B k Bs where rel: "queue_rel q B k Bs" and small: "fits q (concat (B # Bs))"
    and B: "Bs = [] \<or> k < length B" "[] \<notin> set Bs" unfolding flowing_def by blast
  show "\<exists>rest. queue_items q = queue_front q @ rest" "[] \<notin> set (queue_items q)"
    using hq.front_items [OF flowing_fifo [OF fl]] hq.front_nonempty [OF flowing_fifo [OF fl]] by simp_all
  show "\<exists>q'. Queue_Current q = (if queue_front q = [] then Inl EOF else Inr (hd (queue_front q)), q') \<and>
    flowing q' \<and> queue_items q' = queue_items q \<and> queue_front q' = queue_front q"
    using Queue_Current_rel [OF rel small] B unfolding flowing_def by blast
  show "queue_items q = []" if "queue_front q = []"
    using that B by (auto simp: queue_rel_items [OF rel] queue_rel_front [OF rel])
  assume front: "queue_front q \<noteq> []"
  obtain B' k' Bs' where pos: "next_pos B k Bs = (B', k', Bs')" using prod_cases3 by blast
  then have "Bs' = [] \<or> k' < length B'" "[] \<notin> set Bs'"
    using B by (cases Bs; auto simp: next_pos_def split: if_splits)+
  then show "\<exists>q'. Queue_Advance now q = (Inr (), q') \<and> flowing q' \<and> queue_items q' = tl (queue_items q)"
    using Queue_Advance_rel [OF rel small front pos, of now] unfolding flowing_def by blast
qed

end
