(* ===== verification/HHPersist.thy ===== *)
theory HHPersist
  imports HHAppend
begin

text \<open>
  The queue of \<^verbatim>\<open>services/hh/queue.go\<close> over time: closing and opening it again, a new queue,
  and purging old segments. The blocks survive on disk; \<^verbatim>\<open>PurgeOlderThan\<close> returns and removes
  the blocks of old segments only, but leaves a queue with a single old segment unusable.
\<close>

section \<open>Loading the segments\<close>

definition numeric :: "string \<times> os_file option \<Rightarrow> bool" where
  "numeric e \<longleftrightarrow> ParseUint (fst e) \<noteq> None \<and> snd e \<noteq> None"

lemma load_each_numeric: "load_each now d acc q = load_each now (filter numeric d) acc q"
proof (induction now d acc q rule: load_each.induct)
  case (3 now n f d acc q)
  then show ?case by (auto simp: numeric_def qbind_def split: prod.splits sum.splits)
qed (auto simp: numeric_def)

lemma newSegment_again:
  assumes "map_of (q_dir q) n = Some (Some f)" and inv: "seg_inv bs k (s, f)"
  shows "\<exists>s'. newSegment now n q = (Inr (length (q_store q)), q\<lparr>q_store := q_store q @ [s']\<rparr>) \<and>
     seg_inv bs k (s', f) \<and> seg_path s' = n \<and> seg_maxSize s' = q_maxSegmentSize q"
  using segment_open_again [OF inv, of now n "q_maxSegmentSize q"] assms
  by (auto simp: newSegment_def new_segment_def Let_def qbind_def qreturn_def on_segment_def file_of_def dir_put_same)

lemma rep_more: "rep q a bs k \<Longrightarrow> rep (q\<lparr>q_store := q_store q @ ss\<rparr>) a bs k \<and> path_of (q\<lparr>q_store := q_store q @ ss\<rparr>) a = path_of q a"
  by (auto simp: rep_def nth_append)

text \<open>The files of a directory that hold the given blocks and positions.\<close>

definition holds :: "dir \<Rightarrow> string \<times> os_file option \<Rightarrow> byte list list \<times> nat \<Rightarrow> bool" where
  "holds D e p \<longleftrightarrow> (\<exists>f s. e = (fst e, Some f) \<and> ParseUint (fst e) \<noteq> None \<and> map_of D (fst e) = Some (Some f) \<and>
     seg_inv (fst p) (snd p) (s, f))"

lemma load_each_ok:
  "list_all2 (holds (q_dir q)) d ps \<Longrightarrow>
   \<exists>as ss. load_each now d acc q = (Inr (acc @ as), q\<lparr>q_store := q_store q @ ss\<rparr>) \<and>
     list_all2 (\<lambda>a p. rep (q\<lparr>q_store := q_store q @ ss\<rparr>) a (fst p) (snd p)) as ps \<and>
     map (path_of (q\<lparr>q_store := q_store q @ ss\<rparr>)) as = map fst d"
proof (induction d arbitrary: ps acc q)
  case (Cons e d)
  then obtain p ps' where ps: "ps = p # ps'" and hold: "holds (q_dir q) e p" and all: "list_all2 (holds (q_dir q)) d ps'"
    by (auto simp: list_all2_Cons1)
  from hold obtain n f s where e: "e = (n, Some f)" "ParseUint n \<noteq> None" "map_of (q_dir q) n = Some (Some f)"
    and inv: "seg_inv (fst p) (snd p) (s, f)" by (metis holds_def fst_conv prod.collapse)
  from newSegment_again [OF e(3) inv, of now] obtain s' where
    new: "newSegment now n q = (Inr (length (q_store q)), q\<lparr>q_store := q_store q @ [s']\<rparr>)"
    and s': "seg_inv (fst p) (snd p) (s', f)" "seg_path s' = n" "seg_maxSize s' = q_maxSegmentSize q" by blast
  let ?a = "length (q_store q)" and ?q = "q\<lparr>q_store := q_store q @ [s']\<rparr>"
  have rep: "rep ?q ?a (fst p) (snd p)" "path_of ?q ?a = n" using s' e(3) by (auto simp: rep_def)
  from Cons.IH [of ?q ps' "acc @ [?a]"] all obtain as ss where
    run: "load_each now d (acc @ [?a]) ?q = (Inr ((acc @ [?a]) @ as), ?q\<lparr>q_store := q_store ?q @ ss\<rparr>)"
    and reps: "list_all2 (\<lambda>a p. rep (?q\<lparr>q_store := q_store ?q @ ss\<rparr>) a (fst p) (snd p)) as ps'"
    and paths: "map (path_of (?q\<lparr>q_store := q_store ?q @ ss\<rparr>)) as = map fst d" by auto
  have "load_each now (e # d) acc q = (Inr (acc @ ?a # as), q\<lparr>q_store := q_store q @ s' # ss\<rparr>)"
    using run e by (auto simp: qbind_def new)
  then show ?case using reps paths rep_more [OF rep(1), of ss] rep(2) ps e
    by (intro exI [of _ "?a # as"] exI [of _ "s' # ss"]) (auto simp del: load_each.simps)
qed (auto intro!: exI [of _ "[]"])

text \<open>
  The names of the segments of a queue in its order are the names in the order of the directory,
  which is the lexicographic order of the names.
\<close>

definition segments_ordered :: "queue \<Rightarrow> bool" where
  "segments_ordered q \<longleftrightarrow> map (path_of q) (q_segments q) = map fst (filter numeric (ReadDir (q_dir q)))"

lemma queue_rel_list_all2:
  assumes "queue_rel q B k Bs"
  shows "list_all2 (\<lambda>a p. rep q a (fst p) (snd p)) (q_segments q) ((B, k) # map (\<lambda>bs. (bs, 0)) Bs)"
  using assms by (auto simp: queue_rel_def list_all2_map2)

lemma queue_rel_holds:
  assumes rel: "queue_rel q B k Bs" and ord: "segments_ordered q"
  shows "list_all2 (holds (q_dir q)) (filter numeric (ReadDir (q_dir q))) ((B, k) # map (\<lambda>bs. (bs, 0)) Bs)"
proof -
  let ?d = "filter numeric (ReadDir (q_dir q))" and ?ps = "(B, k) # map (\<lambda>bs. (bs, 0)) Bs"
  have reps: "list_all2 (\<lambda>a p. rep q a (fst p) (snd p)) (q_segments q) ?ps" by (rule queue_rel_list_all2 [OF rel])
  have len: "length ?d = length (q_segments q)" using ord by (metis length_map segments_ordered_def)
  have dist: "distinct (map fst (q_dir q))" using rel by (auto simp: queue_rel_def dir_ok_def)
  have "holds (q_dir q) (?d ! i) (?ps ! i)" if "i < length ?d" for i
  proof -
    have "map (path_of q) (q_segments q) ! i = map fst ?d ! i" using ord by (simp only: segments_ordered_def)
    with that len have path: "path_of q (q_segments q ! i) = fst (?d ! i)" by simp
    have "rep q (q_segments q ! i) (fst (?ps ! i)) (snd (?ps ! i))"
      using list_all2_nthD [OF reps] that len by simp
    then obtain f where f: "map_of (q_dir q) (fst (?d ! i)) = Some (Some f)"
      "seg_inv (fst (?ps ! i)) (snd (?ps ! i)) (q_store q ! (q_segments q ! i), f)"
      unfolding rep_def path by blast
    from that have mem: "?d ! i \<in> set (q_dir q)" "numeric (?d ! i)"
      using nth_mem [OF that] by (auto simp: ReadDir_def)
    then have "map_of (q_dir q) (fst (?d ! i)) = Some (snd (?d ! i))"
      using dist by simp
    with f mem show ?thesis by (cases "?d ! i") (auto simp: holds_def numeric_def)
  qed
  then show ?thesis using len list_all2_lengthD [OF reps] by (intro list_all2_all_nthI) simp_all
qed

section \<open>Opening and closing\<close>

lemma Queue_Open_holds:
  assumes dir: "distinct (map fst D)" "None \<notin> snd ` set D"
    and holds: "list_all2 (holds D) (filter numeric (ReadDir D)) ((B, k) # map (\<lambda>bs. (bs, 0)) Bs)"
    and small: "\<forall>b\<in>set (concat (B # Bs)). int (length b) \<le> 10 * 1024 * 1024"
  shows "\<exists>q. Queue_Open now (newQueue D m) = (Inr (), q) \<and> fifo_ok q \<and> queue_items q = drop k B @ concat Bs \<and>
     q_maxSegmentSize q = 10 * 1024 * 1024 \<and> q_maxSize q = m"
proof -
  let ?n = "newQueue D m"
  from load_each_ok [of ?n, unfolded newQueue_def, simplified, OF holds, of now "[]"] obtain as ss where
    load: "load_each now (filter numeric (ReadDir D)) [] ?n = (Inr as, ?n\<lparr>q_store := ss\<rparr>)"
    and reps: "list_all2 (\<lambda>a p. rep (?n\<lparr>q_store := ss\<rparr>) a (fst p) (snd p)) as ((B, k) # map (\<lambda>bs. (bs, 0)) Bs)"
    and paths: "map (path_of (?n\<lparr>q_store := ss\<rparr>)) as = map fst (filter numeric (ReadDir D))"
    by (auto simp: newQueue_def)
  from reps obtain h bs where as: "as = h # bs" by (auto simp: list_all2_Cons2)
  let ?q = "?n\<lparr>q_store := ss, q_segments := as, q_nilSegments := False, q_head := Some h, q_tail := Some (last as)\<rparr>"
  have rep: "rep (?n\<lparr>q_store := ss\<rparr>) = rep ?q" by (auto simp: rep_def fun_eq_iff)
  have "distinct (map fst (filter numeric (ReadDir D)))"
    using dir(1) by (simp add: ReadDir_def distinct_map_filter)
  then have dist: "distinct (map (path_of ?q) as)" unfolding paths [symmetric] by simp
  have reps_q: "rep ?q h B k" "list_all2 (\<lambda>a bs. rep ?q a bs 0) bs Bs"
    using reps [unfolded rep] by (simp_all add: as list_all2_map2)
  have rel: "queue_rel ?q B k Bs"
    by (rule queue_relI [OF _ _ _ _ reps_q]) (use dir dist as in \<open>simp_all add: dir_ok_def newQueue_def\<close>)
  have run: "Queue_Open now ?n = (case on_segment h segment_current ?q of (Inl EOF, q) \<Rightarrow> trimHead q | (_, q) \<Rightarrow> (Inr (), q))"
    using load by (simp add: Queue_Open_def loadSegments_def load_each_numeric [of now "ReadDir D"] qbind_def qreturn_def as newQueue_def)
  show ?thesis
  proof (cases "k < length B")
    case True
    moreover have "int (length (B ! k)) \<le> q_maxSegmentSize ?q" using True small by (simp add: newQueue_def)
    ultimately obtain q' where "on_segment h segment_current ?q = (Inr (B ! k), q')" "queue_rel q' B k Bs"
      "q_maxSegmentSize q' = q_maxSegmentSize ?q" "q_maxSize q' = q_maxSize ?q"
      using Queue_Current_ok [OF rel] by (auto simp: Queue_Current_def)
    with run small show ?thesis by (auto simp: fifo_ok_def queue_rel_items newQueue_def)
  next
    case False
    moreover have "k \<le> length B" using rel by (auto simp: queue_rel_def rep_def seg_inv_def)
    ultimately have k: "k = length B" by simp
    with Queue_Current_EOF [of ?q B Bs] rel obtain q' where cur: "on_segment h segment_current ?q = (Inl EOF, q')"
      and rel': "queue_rel q' B k Bs" and max: "q_maxSegmentSize q' = q_maxSegmentSize ?q" "q_maxSize q' = q_maxSize ?q"
      by (auto simp: Queue_Current_def)
    show ?thesis
    proof (cases Bs)
      case Nil
      with rel' have "trimHead q' = (Inr (), q')" by (simp add: trimHead_single)
      with run cur rel' small max show ?thesis by (auto simp: fifo_ok_def queue_rel_items newQueue_def)
    next
      case (Cons B1 Cs)
      with rel' trimHead_ok obtain q2 where "trimHead q' = (Inr (), q2)" "queue_rel q2 B1 0 Cs"
        "q_maxSegmentSize q2 = q_maxSegmentSize q'" "q_maxSize q2 = q_maxSize q'" by blast
      with run cur small max k Cons show ?thesis
        by (auto simp: fifo_ok_def queue_rel_items newQueue_def intro!: exI [of _ B1] exI [of _ 0] exI [of _ Cs])
    qed
  qed
qed

lemma close_each_ok:
  "distinct as \<Longrightarrow> \<forall>a\<in>set as. \<exists>bs k. rep q a bs k \<Longrightarrow> \<exists>st. close_each as q = (Inr (), q\<lparr>q_store := st\<rparr>)"
proof (induction as arbitrary: q)
  case (Cons a as)
  then obtain bs k f where a: "seg_open (q_store q ! a)" "map_of (q_dir q) (path_of q a) = Some (Some f)"
    by (auto simp: rep_def seg_inv_def)
  let ?q = "q\<lparr>q_store := (q_store q)[a := (q_store q ! a)\<lparr>seg_open := False\<rparr>]\<rparr>"
  have run: "close_each (a # as) q = close_each as ?q"
    using a by (simp add: qbind_def on_segment_def segment_close_def file_of_def dir_put_same)
  have "\<forall>b\<in>set as. \<exists>bs k. rep ?q b bs k"
  proof
    fix b assume b: "b \<in> set as"
    then have "b \<in> set (a # as)" "b \<noteq> a" using Cons.prems(1) by auto
    moreover from this(1) Cons.prems(2) obtain bs k where "rep q b bs k" by blast
    ultimately have "rep ?q b bs k" by (auto simp: rep_def)
    then show "\<exists>bs k. rep ?q b bs k" by blast
  qed
  with Cons.IH [of ?q] Cons.prems obtain st where "close_each as ?q = (Inr (), ?q\<lparr>q_store := st\<rparr>)" by auto
  then show ?case using run by (auto simp del: close_each.simps)
next
  case Nil
  show ?case by (auto intro: exI [of _ "q_store q"])
qed

lemma Queue_Close_ok:
  assumes rel: "queue_rel q B k Bs"
  shows "\<exists>q'. Queue_Close q = (Inr (), q') \<and> q_dir q' = q_dir q \<and> q_head q' = None \<and> q_tail q' = None \<and> q_maxSize q' = q_maxSize q"
proof -
  have "distinct (q_segments q)" using rel by (auto simp: queue_rel_def distinct_map)
  with close_each_ok [of "q_segments q" q] queue_rel_rep [OF rel] obtain st where
    "close_each (q_segments q) q = (Inr (), q\<lparr>q_store := st\<rparr>)" by blast
  then show ?thesis by (simp add: Queue_Close_def qbind_def)
qed

text \<open>
  (C13) The blocks of the queue survive a restart: closing the queue and opening a new one on its
  directory gives a queue with the same blocks in the same order, at the position where the old
  one was, provided the lexicographic order of the file names is the order of the segments.
\<close>

theorem Queue_reopen:
  assumes ok: "fifo_ok q" and ord: "segments_ordered q" and max: "q_maxSegmentSize q = 10 * 1024 * 1024"
  shows "\<exists>q1 q2. Queue_Close q = (Inr (), q1) \<and> Queue_Open now (newQueue (q_dir q1) (q_maxSize q1)) = (Inr (), q2) \<and>
     fifo_ok q2 \<and> queue_items q2 = queue_items q"
proof -
  from ok obtain B k Bs where rel: "queue_rel q B k Bs"
    and small: "\<forall>b\<in>set (concat (B # Bs)). int (length b) \<le> q_maxSegmentSize q" by (auto simp: fifo_ok_def)
  have dir: "distinct (map fst (q_dir q))" "None \<notin> snd ` set (q_dir q)" using rel by (auto simp: queue_rel_def dir_ok_def)
  from Queue_Close_ok [OF rel] Queue_Open_holds [OF dir queue_rel_holds [OF rel ord] small [unfolded max], of now "q_maxSize q"]
  show ?thesis by (auto simp: queue_rel_items [OF rel])
qed

text \<open>A queue on an empty directory.\<close>

definition empty_queue :: "gtime \<Rightarrow> int \<Rightarrow> queue" where
  "empty_queue now m = snd (Queue_Open now (newQueue [] m))"

lemma Queue_Open_empty:
  "Queue_Open now (newQueue [] m) = (Inr (), empty_queue now m)"
  "queue_rel (empty_queue now m) [] 0 []" "map fst (q_dir (empty_queue now m)) = [''1'']"
  "q_maxSegmentSize (empty_queue now m) = 10 * 1024 * 1024" "q_maxSize (empty_queue now m) = m"
  "diskUsage (empty_queue now m) = 8" "tail_size (empty_queue now m) = 8"
proof -
  have "FormatUint 1 = ''1''" by code_simp
  then have id: "FormatUint (nextSegmentID (newQueue [] m)) = ''1''"
    by (simp add: nextSegmentID_def newQueue_def ReadDir_def)
  let ?s = "newQueue [] m"
  from newSegment_fresh [of ?s "''1''" now] obtain s f where
    new: "newSegment now ''1'' ?s = (Inr 0, ?s\<lparr>q_store := [s], q_dir := dir_put ''1'' f (dir_put ''1'' \<lparr>f_bytes = [], f_mtime = now\<rparr> [])\<rparr>)"
    and inv: "seg_inv [] 0 (s, f)" and s: "seg_path s = ''1''" "seg_maxSize s = 10 * 1024 * 1024" "seg_size s = 8"
    by (auto simp: newQueue_def)
  let ?q = "?s\<lparr>q_store := [s], q_dir := [(''1'', Some f)], q_segments := [0], q_nilSegments := False, q_head := Some 0, q_tail := Some 0\<rparr>"
  have cur: "segment_current (s, f) = (Inl EOF, (s, f))" using segment_current_EOF [of "[]" s f] inv by simp
  have "Queue_Open now ?s = (Inr (), ?q)"
    using new id cur s inv
    by (simp add: Queue_Open_def loadSegments_def newQueue_def ReadDir_def qbind_def addSegment_def on_segment_def
        file_of_def trimHead_def Let_def)
  then have q: "Queue_Open now ?s = (Inr (), empty_queue now m)" "empty_queue now m = ?q" by (auto simp: empty_queue_def)
  show "Queue_Open now ?s = (Inr (), empty_queue now m)" by (rule q)
  show "queue_rel (empty_queue now m) [] 0 []"
    unfolding q(2) using inv s by (intro queue_relI [of _ 0 "[]"]) (auto simp: dir_ok_def rep_def newQueue_def)
  show "map fst (q_dir (empty_queue now m)) = [''1'']" "q_maxSegmentSize (empty_queue now m) = 10 * 1024 * 1024"
    "q_maxSize (empty_queue now m) = m" "diskUsage (empty_queue now m) = 8" "tail_size (empty_queue now m) = 8"
    unfolding q(2) using s by (simp_all add: newQueue_def diskUsage_def tail_size_def)
qed

section \<open>Purging\<close>

lemma maxSegmentID_le:
  "maxSegmentID d m \<le> N \<longleftrightarrow> m \<le> N \<and> (\<forall>(n, e)\<in>set d. \<forall>i. e \<noteq> None \<longrightarrow> ParseUint n = Some i \<longrightarrow> i \<le> N)"
proof (induction d m rule: maxSegmentID.induct)
  case (3 n f d m)
  then show ?case by (cases "ParseUint n") auto
qed auto

lemma ids_left_mono: "set (q_dir q') \<subseteq> set (q_dir q) \<Longrightarrow> ids_left q \<Longrightarrow> ids_left q'"
proof -
  assume sub: "set (q_dir q') \<subseteq> set (q_dir q)" and ids: "ids_left q"
  have "maxSegmentID (ReadDir (q_dir q')) 0 \<le> maxSegmentID (ReadDir (q_dir q)) 0"
    unfolding maxSegmentID_le
  proof (safe)
    fix n f i assume "(n, Some f) \<in> set (ReadDir (q_dir q'))" and "ParseUint n = Some i"
    moreover from this(1) sub have "(n, Some f) \<in> set (ReadDir (q_dir q))" by (auto simp: ReadDir_def)
    ultimately show "i \<le> maxSegmentID (ReadDir (q_dir q)) 0" using maxSegmentID_ge by blast
  qed
  with ids show ?thesis by (simp add: ids_left_def)
qed

lemma lastModified_eq:
  assumes "rep q a bs k"
  shows "on_segment a segment_lastModified q = (Inr (f_mtime (file_of q (path_of q a))), q)"
proof -
  from assms obtain f where "map_of (q_dir q) (path_of q a) = Some (Some f)" "seg_open (q_store q ! a)"
    by (auto simp: rep_def seg_inv_def)
  then show ?thesis by (simp add: on_segment_def segment_lastModified_def file_of_def dir_put_same)
qed

text \<open>The time of the last change of the first segment.\<close>

definition head_mtime :: "queue \<Rightarrow> gtime" where
  "head_mtime q = (case q_head q of None \<Rightarrow> 0 | Some h \<Rightarrow> f_mtime (file_of q (path_of q h)))"

text \<open>A queue whose only segment is old: the segment is replaced, but \<^verbatim>\<open>tail\<close> still is the old one.\<close>

lemma purge_single:
  assumes rel: "queue_rel q B k []" and ids: "ids_left q" and old: "head_mtime q < cutoff" and now: "cutoff \<le> now"
  shows "\<exists>q' t. purge_loop (Suc (Suc fuel)) now cutoff q = Some (Inr (), q') \<and> queue_items q' = [] \<and>
     q_tail q' = Some t \<and> t < length (q_store q') \<and> \<not> seg_open (q_store q' ! t)"
proof -
  obtain h where segs: "q_segments q = [h]" and head: "q_head q = Some h" "q_tail q = Some h" and rep: "rep q h B k"
    using rel by (auto simp: queue_rel_def)
  from addSegment_ok [OF rel ids, of now] obtain q1 a where add: "addSegment now q = (Inr a, q1)"
    and rel1: "queue_rel (q1\<lparr>q_tail := Some a\<rparr>) B k [[]]" and a: "a = length (q_store q)"
    and segs1: "q_segments q1 = [h, a]" and head1: "q_head q1 = Some h" "q_tail q1 = Some h"
    and mt: "f_mtime (file_of q1 (path_of q1 a)) = now" using segs head by auto
  have rep1: "rep q1 h B k" "rep q1 a [] 0" "path_of q1 h \<noteq> path_of q1 a"
    using rel1 segs1 head1 by (auto simp: queue_rel_def rep_def)
  let ?q = "q1\<lparr>q_segments := [a], q_store := (q_store q1)[h := (q_store q1 ! h)\<lparr>seg_open := False\<rparr>],
      q_dir := dir_remove (path_of q1 h) (q_dir q1), q_head := Some a\<rparr>"
  have trim: "trimHead q1 = (Inr (), ?q)" by (rule trimHead_eq [OF segs1 head1(1) rep1(1)])
  have "h < length (q_store q1)" "h \<noteq> a" using rep1 by (auto simp: rep_def)
  then have a': "path_of ?q a = path_of q1 a" "file_of ?q (path_of q1 a) = file_of q1 (path_of q1 a)"
    using rep1(3) by (auto simp: file_of_def map_of_dir_remove)
  have repa: "rep ?q a [] 0" using rep1 \<open>h \<noteq> a\<close> by (auto simp: rep_def map_of_dir_remove)
  have "purge_loop (Suc (Suc fuel)) now cutoff q = purge_loop (Suc fuel) now cutoff ?q"
    using old head segs add trim by (simp add: head_mtime_def lastModified_eq [OF rep] qbind_def)
  also have "\<dots> = Some (Inr (), ?q)"
    using now mt a' lastModified_eq [OF repa] by auto
  finally show ?thesis
    using \<open>h < length (q_store q1)\<close> head1 rep_items [OF repa] by (auto simp: queue_items_def)
qed

lemma purge_loop_ok:
  "queue_rel q B k Bs \<Longrightarrow> ids_left q \<Longrightarrow> cutoff \<le> now \<Longrightarrow> Suc (length Bs) < fuel \<Longrightarrow>
   \<exists>q' ps. purge_loop fuel now cutoff q = Some (Inr (), q') \<and> queue_items q = ps @ queue_items q' \<and>
     (cutoff \<le> head_mtime q \<longrightarrow> q' = q)"
proof (induction Bs arbitrary: q B k fuel)
  case Nil
  then obtain fuel' where fuel: "fuel = Suc (Suc fuel')" by (metis Suc_lessE length_0_conv less_SucE not_less_zero)
  obtain h where head: "q_head q = Some h" and rep: "rep q h B k" using Nil.prems(1) by (auto simp: queue_rel_def)
  show ?case
  proof (cases "cutoff \<le> head_mtime q")
    case True
    then show ?thesis using head lastModified_eq [OF rep] by (auto simp: fuel head_mtime_def)
  next
    case False
    with purge_single [OF Nil.prems(1,2) _ Nil.prems(3), of fuel'] show ?thesis by (auto simp: fuel)
  qed
next
  case (Cons B1 Bs)
  then obtain fuel' where fuel: "fuel = Suc fuel'" "Suc (length Bs) < fuel'" by (cases fuel) auto
  obtain h where head: "q_head q = Some h" and rep: "rep q h B k" and len: "length (q_segments q) \<noteq> 1"
    using Cons.prems(1) by (auto simp: queue_rel_def list_all2_Cons2)
  show ?case
  proof (cases "cutoff \<le> head_mtime q")
    case True
    then show ?thesis using head lastModified_eq [OF rep] by (auto simp: fuel head_mtime_def)
  next
    case False
    from trimHead_ok [OF Cons.prems(1)] obtain q1 where trim: "trimHead q = (Inr (), q1)" and rel1: "queue_rel q1 B1 0 Bs"
      and "set (q_dir q1) \<subseteq> set (q_dir q)" by blast
    then have "ids_left q1" using Cons.prems(2) by (simp add: ids_left_mono)
    from Cons.IH [OF rel1 this Cons.prems(3) fuel(2)] obtain q' ps where
      "purge_loop fuel' now cutoff q1 = Some (Inr (), q')" "queue_items q1 = ps @ queue_items q'" by blast
    moreover have "purge_loop fuel now cutoff q = purge_loop fuel' now cutoff q1"
      using False head len trim by (simp add: fuel head_mtime_def lastModified_eq [OF rep] qbind_def qreturn_def)
    ultimately show ?thesis using False
      by (auto simp: queue_rel_items [OF rel1] queue_rel_items [OF Cons.prems(1)] intro!: exI [of _ "drop k B @ ps"])
  qed
qed

text \<open>
  (C15) Purging with a time that is not in the future returns after at most one more round than
  there are segments, without an error; it removes the oldest blocks only, and nothing when the
  first segment was changed after the given time.
\<close>

theorem PurgeOlderThan_terminates:
  assumes "fifo_ok q" and "ids_left q" and "wh \<le> now" and "length (q_segments q) < fuel"
  shows "\<exists>q' ps. Queue_PurgeOlderThan fuel now wh q = Some (Inr (), q') \<and> queue_items q = ps @ queue_items q' \<and>
     (wh \<le> head_mtime q \<longrightarrow> q' = q)"
proof -
  from assms(1) obtain B k Bs where rel: "queue_rel q B k Bs" by (auto simp: fifo_ok_def)
  then have len: "length (q_segments q) = Suc (length Bs)" by (auto simp: queue_rel_def list_all2_lengthD)
  have tr: "time_Truncate wh 1000000000 \<le> wh" using time_Truncate_bounds [of 1000000000 wh] by simp
  from purge_loop_ok [OF rel assms(2), of "time_Truncate wh 1000000000" now fuel] tr assms(3,4) len
  show ?thesis by (auto simp: Queue_PurgeOlderThan_def)
qed

text \<open>
  When the only segment of a queue is old, purging leaves a queue that loses writes: every later
  append reports success and changes nothing, because \<^verbatim>\<open>tail\<close> still is the removed segment.
\<close>

theorem PurgeOlderThan_single_loses_writes:
  assumes "fifo_ok q" and "length (q_segments q) = 1" and "ids_left q" and "wh \<le> now"
    and "head_mtime q < time_Truncate wh 1000000000" and "2 \<le> fuel"
  shows "\<exists>q'. Queue_PurgeOlderThan fuel now wh q = Some (Inr (), q') \<and> queue_items q' = [] \<and>
     (\<forall>now b. diskUsage q' + int (length b) \<le> q_maxSize q' \<longrightarrow> Queue_Append now b q' = (Inr (), q'))"
proof -
  from assms(1) obtain B k Bs where rel: "queue_rel q B k Bs" by (auto simp: fifo_ok_def)
  with assms(2) have rel: "queue_rel q B k []" by (auto simp: queue_rel_def)
  have tr: "time_Truncate wh 1000000000 \<le> wh" using time_Truncate_bounds [of 1000000000 wh] by simp
  obtain fuel' where fuel: "fuel = Suc (Suc fuel')" using assms(6) by (metis add_2_eq_Suc le_Suc_ex)
  from purge_single [OF rel assms(3,5), of now fuel'] tr assms(4) obtain q' t where
    "purge_loop fuel now (time_Truncate wh 1000000000) q = Some (Inr (), q')" and "queue_items q' = []"
    and t: "q_tail q' = Some t" "t < length (q_store q')" "\<not> seg_open (q_store q' ! t)" by (auto simp: fuel)
  moreover have "on_segment t (segment_append now' b) q' = (Inl ErrNotOpen, q')" for now' b
    using t by (simp add: on_segment_def segment_append_def)
  ultimately show ?thesis using assms(2) by (auto simp: Queue_PurgeOlderThan_def Queue_Append_def)
qed

section \<open>An example\<close>

definition example_queue :: queue where
  "example_queue = snd (Queue_Append 2 [7] (empty_queue 1 1000))"

lemma example_queue_code [code]:
  "example_queue =
     \<lparr>q_dir = [(''1'', Some \<lparr>f_bytes = [0, 0, 0, 0, 0, 0, 0, 1, 7, 0, 0, 0, 0, 0, 0, 0, 0], f_mtime = 2\<rparr>)],
      q_store = [\<lparr>seg_path = ''1'', seg_open = True, seg_off = 17, seg_size = 17, seg_pos = 0, seg_currentSize = 1,
                  seg_maxSize = 10485760\<rparr>],
      q_segments = [0], q_nilSegments = False, q_head = Some 0, q_tail = Some 0, q_maxSegmentSize = 10485760,
      q_maxSize = 1000\<rparr>"
  by code_simp

lemma empty_queue_ok: "fifo_ok (empty_queue now m)" "queue_items (empty_queue now m) = []"
  using Queue_Open_empty(2) [of now m] by (auto simp: fifo_okI queue_rel_items)

lemma ids_left_empty: "ids_left (empty_queue now m)"
proof -
  obtain e where d: "q_dir (empty_queue now m) = [(''1'', e)]" using Queue_Open_empty(3) [of now m] by auto
  have "ParseUint ''1'' = Some 1" by code_simp
  then show ?thesis by (cases e) (simp_all add: ids_left_def d ReadDir_def go_sort_def)
qed

lemma example_queue_ok: "fifo_ok example_queue" "ids_left example_queue" "segments_ordered example_queue"
  "q_maxSegmentSize example_queue = 10 * 1024 * 1024" "length (q_segments example_queue) = 1"
  "queue_items example_queue = [[7]]" "head_mtime example_queue = 2"
proof -
  from Queue_Append_rel [OF Queue_Open_empty(2) [of 1 1000] ids_left_empty, of "[7]" 2] obtain B Bs where
    rel: "queue_rel example_queue B 0 Bs" and max: "q_maxSegmentSize example_queue = 10 * 1024 * 1024"
    and pos: "append_pos (empty_queue 1 1000) [7] [] [] = (B, Bs)"
    by (auto simp: example_queue_def Queue_Open_empty)
  show "fifo_ok example_queue"
    using append_pos_items [OF _ pos, of 0] max by (intro fifo_okI [OF rel]) auto
qed code_simp+

theorem Queue_Append_fifo_witness:
  "\<exists>q'. Queue_Append 3 [8, 9] example_queue = (Inr (), q') \<and> queue_items q' = [[7], [8, 9]]"
proof -
  have "diskUsage example_queue = 17" "q_maxSize example_queue = 1000" by code_simp+
  with Queue_Append_fifo [OF example_queue_ok(1,2), of "[8, 9]" 3] example_queue_ok show ?thesis by auto
qed

theorem Queue_reopen_witness:
  "\<exists>q1 q2. Queue_Close example_queue = (Inr (), q1) \<and> Queue_Open 4 (newQueue (q_dir q1) (q_maxSize q1)) = (Inr (), q2) \<and>
     queue_items q2 = [[7]]"
  using Queue_reopen [OF example_queue_ok(1,3,4), of 4] example_queue_ok(6) by auto

theorem PurgeOlderThan_terminates_witness:
  "\<exists>q' ps. Queue_PurgeOlderThan 2 10 5 example_queue = Some (Inr (), q') \<and> [[7]] = ps @ queue_items q'"
  using PurgeOlderThan_terminates [OF example_queue_ok(1,2), of 5 10 2] example_queue_ok(5,6) by auto

theorem PurgeOlderThan_single_loses_writes_witness:
  "\<exists>q'. Queue_PurgeOlderThan 2 2000000000 1000000000 example_queue = Some (Inr (), q') \<and> queue_items q' = []"
  using PurgeOlderThan_single_loses_writes [OF example_queue_ok(1,5,2), of 1000000000 2000000000 2] example_queue_ok(7)
  by (auto simp: time_Truncate_def)

text \<open>
  The order of the file names is not the order of the segments once an ID gets another digit: a
  restart changes the order of the blocks in segments 9 and 10.
\<close>

definition nine :: dir where
  "nine = [(''9'', Some \<lparr>f_bytes = [0, 0, 0, 0, 0, 0, 0, 4, 1, 2, 3, 4, 0, 0, 0, 0, 0, 0, 0, 0], f_mtime = 1\<rparr>)]"

definition nine_ten :: queue where
  "nine_ten = snd (Queue_Append 2 [5] (snd (Queue_SetMaxSegmentSize 1 20 (snd (Queue_Open 1 (newQueue nine 1000))))))"

theorem Queue_reopen_reorders:
  "queue_items nine_ten = [[1, 2, 3, 4], [5]] \<and>
   queue_items (snd (Queue_Open 3 (newQueue (q_dir (snd (Queue_Close nine_ten))) 1000))) = [[5], [1, 2, 3, 4]]"
  by code_simp

end
