(* ===== verification/Influx.thy ===== *)
theory Influx
  imports Prelude
begin

text \<open>
  The interface to the imported package \<^verbatim>\<open>github.com/influxdata/influxdb/services/meta\<close>,
  whose code is not part of the repository. Its structs are records with the fields the
  repository reads or writes; \<open>md_rest\<close> (of any type) stands for the rest of the imported
  \<^verbatim>\<open>meta.Data\<close>, which only that package sees. Its functions are the fields of
  \<open>influx_lib\<close>, an argument of every definition that calls them. A pointer into the metadata
  is the path of indices to the element it points to. What the repository relies on is stated
  by the predicates at the end; they are hypotheses of the theorems that need them.
\<close>

record NodeInfo =
  ni_ID :: u64
  ni_Host :: string
  ni_TCPHost :: string

record ShardOwner =
  so_NodeID :: u64

record ShardInfo =
  si_ID :: u64
  si_Owners :: "ShardOwner list"

record ShardGroupInfo =
  sg_ID :: u64
  sg_StartTime :: gtime
  sg_EndTime :: gtime
  sg_DeletedAt :: gtime
  sg_Shards :: "ShardInfo list"
  sg_TruncatedAt :: gtime

record RetentionPolicyInfo =
  rp_Name :: string
  rp_ReplicaN :: int
  rp_Duration :: duration
  rp_ShardGroupDuration :: duration
  rp_ShardGroups :: "ShardGroupInfo list"

record DatabaseInfo =
  db_Name :: string
  db_DefaultRetentionPolicy :: string
  db_RetentionPolicies :: "RetentionPolicyInfo list"

record UserInfo =
  u_Name :: string
  u_Hash :: string
  u_Admin :: bool

record 'x MetaData =
  md_ClusterID :: u64
  md_Index :: u64
  md_Databases :: "DatabaseInfo list"
  md_Users :: "UserInfo list"
  md_MaxShardGroupID :: u64
  md_MaxShardID :: u64
  md_rest :: 'x

text \<open>Paths: a database, and a retention policy of a database.\<close>

type_synonym rp_ptr = "nat \<times> nat"

definition rp_get :: "'x MetaData \<Rightarrow> rp_ptr \<Rightarrow> RetentionPolicyInfo" where
  "rp_get m p = db_RetentionPolicies (md_Databases m ! fst p) ! snd p"

definition rp_set :: "rp_ptr \<Rightarrow> RetentionPolicyInfo \<Rightarrow> 'x MetaData \<Rightarrow> 'x MetaData" where
  "rp_set p r m =
     m\<lparr>md_Databases := (md_Databases m)[fst p :=
         (md_Databases m ! fst p)\<lparr>db_RetentionPolicies :=
            (db_RetentionPolicies (md_Databases m ! fst p))[snd p := r]\<rparr>]\<rparr>"

definition rp_valid :: "'x MetaData \<Rightarrow> rp_ptr \<Rightarrow> bool" where
  "rp_valid m p = (fst p < length (md_Databases m) \<and>
     snd p < length (db_RetentionPolicies (md_Databases m ! fst p)))"

record 'x influx_lib =
  NodeInfos_Less :: "NodeInfo \<Rightarrow> NodeInfo \<Rightarrow> bool"
  ShardGroupInfos_Less :: "ShardGroupInfo \<Rightarrow> ShardGroupInfo \<Rightarrow> bool"
  MaxNanoTime :: int
  CloneDatabases :: "'x MetaData \<Rightarrow> DatabaseInfo list"
  CloneUsers :: "'x MetaData \<Rightarrow> UserInfo list"
  RetentionPolicy :: "'x MetaData \<Rightarrow> string \<Rightarrow> string \<Rightarrow> go_error + rp_ptr option"
  ShardGroupByTimestamp :: "RetentionPolicyInfo \<Rightarrow> gtime \<Rightarrow> nat option"
  ErrRetentionPolicyNotFound :: "string \<Rightarrow> go_error"
  ErrDatabaseNotFound :: "string \<Rightarrow> go_error"
  ErrShardGroupNotFound :: go_error
  sg_Deleted :: "ShardGroupInfo \<Rightarrow> bool"

subsection \<open>Documented behaviour the repository relies on\<close>

text \<open>\<^verbatim>\<open>NodeInfos\<close> sorts nodes by ID.\<close>

definition node_order_ok :: "'x influx_lib \<Rightarrow> bool" where
  "node_order_ok L \<longleftrightarrow> (\<forall>a b. NodeInfos_Less L a b = (ni_ID a < ni_ID b))"

text \<open>\<^verbatim>\<open>RetentionPolicy\<close> returns a pointer to the policy of that name in the database of that
  name, never a pointer outside the metadata.\<close>

definition rp_lookup_ok :: "'x influx_lib \<Rightarrow> bool" where
  "rp_lookup_ok L \<longleftrightarrow> (\<forall>m db rp p. RetentionPolicy L m db rp = Inr (Some p) \<longrightarrow>
     rp_valid m p \<and> db_Name (md_Databases m ! fst p) = db \<and> rp_Name (rp_get m p) = rp)"

text \<open>\<^verbatim>\<open>CloneDatabases\<close> and \<^verbatim>\<open>CloneUsers\<close> make deep copies.\<close>

definition clone_ok :: "'x influx_lib \<Rightarrow> bool" where
  "clone_ok L \<longleftrightarrow> (\<forall>m. CloneDatabases L m = md_Databases m \<and> CloneUsers L m = md_Users m)"

lemma rp_lookup_valid: "rp_lookup_ok L \<Longrightarrow> RetentionPolicy L m db rp = Inr (Some p) \<Longrightarrow> rp_valid m p"
  unfolding rp_lookup_ok_def by blast

lemma rp_get_set [simp]: "rp_valid m p \<Longrightarrow> rp_get (rp_set p r m) p = r"
  by (simp add: rp_get_def rp_set_def rp_valid_def)

lemma rp_set_get [simp]: "rp_valid m p \<Longrightarrow> rp_set p (rp_get m p) m = m"
  by (simp add: rp_get_def rp_set_def rp_valid_def)

lemma rp_valid_set [simp]: "rp_valid m p \<Longrightarrow> rp_valid (rp_set p r m) p"
  by (simp add: rp_set_def rp_valid_def)

lemma rp_get_set_other:
  "rp_valid m p \<Longrightarrow> rp_valid m q \<Longrightarrow> p \<noteq> q \<Longrightarrow> rp_get (rp_set p r m) q = rp_get m q"
  by (cases p, cases q) (auto simp: rp_get_def rp_set_def rp_valid_def nth_list_update)

subsection \<open>A minimal implementation of the interface\<close>

text \<open>
  It shows that the hypotheses above can hold together, and witnesses evaluate the definitions
  with it.
\<close>

fun index_where :: "('a \<Rightarrow> bool) \<Rightarrow> 'a list \<Rightarrow> nat option" where
  "index_where P [] = None"
| "index_where P (x # xs) = (if P x then Some 0 else map_option Suc (index_where P xs))"

lemma index_where_Some: "index_where P xs = Some i \<Longrightarrow> i < length xs \<and> P (xs ! i)"
  by (induction xs arbitrary: i) (auto split: if_splits)

definition simple_RetentionPolicy :: "'x MetaData \<Rightarrow> string \<Rightarrow> string \<Rightarrow> go_error + rp_ptr option" where
  "simple_RetentionPolicy m database name =
     (case index_where (\<lambda>db. db_Name db = database) (md_Databases m) of
        None \<Rightarrow> Inl (LibErr (''database not found: '' @ database))
      | Some i \<Rightarrow> Inr (map_option (Pair i)
          (index_where (\<lambda>rp. rp_Name rp = name) (db_RetentionPolicies (md_Databases m ! i)))))"

definition simple_lib :: "'x influx_lib" where
  "simple_lib =
     \<lparr>NodeInfos_Less = (\<lambda>a b. ni_ID a < ni_ID b),
      ShardGroupInfos_Less = (\<lambda>a b. sg_StartTime a < sg_StartTime b),
      MaxNanoTime = 2 ^ 63 - 2,
      CloneDatabases = md_Databases,
      CloneUsers = md_Users,
      RetentionPolicy = simple_RetentionPolicy,
      ShardGroupByTimestamp =
        (\<lambda>rp t. index_where (\<lambda>g. sg_StartTime g \<le> t \<and> t < sg_EndTime g \<and> sg_DeletedAt g = 0) (rp_ShardGroups rp)),
      ErrRetentionPolicyNotFound = (\<lambda>name. LibErr (''retention policy not found: '' @ name)),
      ErrDatabaseNotFound = (\<lambda>name. LibErr (''database not found: '' @ name)),
      ErrShardGroupNotFound = LibErr ''shard group not found'',
      sg_Deleted = (\<lambda>g. sg_DeletedAt g \<noteq> 0)\<rparr>"

lemma simple_lib_ok: "node_order_ok simple_lib" "rp_lookup_ok simple_lib" "clone_ok simple_lib"
  by (auto simp: simple_lib_def node_order_ok_def rp_lookup_ok_def clone_ok_def
      simple_RetentionPolicy_def rp_valid_def rp_get_def dest: index_where_Some split: option.splits)

text \<open>One policy with two shard groups: node 1 owns all shards of the second one.\<close>

definition example_meta :: "unit MetaData" where
  "example_meta =
     \<lparr>md_ClusterID = 7, md_Index = 5,
      md_Databases = [\<lparr>db_Name = ''db'', db_DefaultRetentionPolicy = ''rp'',
        db_RetentionPolicies = [\<lparr>rp_Name = ''rp'', rp_ReplicaN = 2, rp_Duration = 0,
          rp_ShardGroupDuration = 100,
          rp_ShardGroups =
            [\<lparr>sg_ID = 1, sg_StartTime = 100, sg_EndTime = 200, sg_DeletedAt = 0,
              sg_Shards = [\<lparr>si_ID = 1, si_Owners = [\<lparr>so_NodeID = 1\<rparr>, \<lparr>so_NodeID = 2\<rparr>]\<rparr>,
                           \<lparr>si_ID = 2, si_Owners = [\<lparr>so_NodeID = 1\<rparr>]\<rparr>],
              sg_TruncatedAt = 0\<rparr>,
             \<lparr>sg_ID = 2, sg_StartTime = 200, sg_EndTime = 300, sg_DeletedAt = 0,
              sg_Shards = [\<lparr>si_ID = 3, si_Owners = [\<lparr>so_NodeID = 1\<rparr>]\<rparr>],
              sg_TruncatedAt = 0\<rparr>]\<rparr>]\<rparr>],
      md_Users = [], md_MaxShardGroupID = 2, md_MaxShardID = 3, md_rest = ()\<rparr>"

end
