(* ===== verification/HHNode.thy ===== *)
theory HHNode
  imports HHPersist Influx
begin

text \<open>
  \<^verbatim>\<open>services/hh/node_processor.go\<close> and \<^verbatim>\<open>services/hh/service.go\<close>: the processor that sends the
  blocks of the handoff queue of one node to that node, and the service that keeps a processor per
  node. Points are those of the imported package \<^verbatim>\<open>models\<close>, whose printer and parser are
  parameters, as are the answers of the meta client and of the remote writer. The goroutine
  \<^verbatim>\<open>run\<close> is the transition of one event of its select statement.
\<close>

section \<open>Blocks\<close>

record 'p models_lib =
  point_String :: "'p \<Rightarrow> string"
  ParsePoints :: "byte list \<Rightarrow> go_error + 'p list"

definition point_lines :: "'p models_lib \<Rightarrow> 'p list \<Rightarrow> byte list" where
  "point_lines P points = concat (map (\<lambda>p. string_bytes (point_String P p) @ [10]) points)"

definition marshalWrite :: "'p models_lib \<Rightarrow> u64 \<Rightarrow> 'p list \<Rightarrow> byte list" where
  "marshalWrite P shardID points =
     foldl (\<lambda>b p. (b @ string_bytes (point_String P p)) @ [10]) (PutUint64 shardID) points"

definition unmarshalWrite :: "'p models_lib \<Rightarrow> byte list \<Rightarrow> go_error + u64 \<times> 'p list" where
  "unmarshalWrite P b =
     (if length b < 8 then Inl (Errorf ''too short'')
      else case ParsePoints P (drop 8 b) of
             Inl e \<Rightarrow> Inl e
           | Inr points \<Rightarrow> Inr (Uint64 (take 8 b), points))"

text \<open>The parser reads back what the printer wrote, one point per line.\<close>

definition parser_ok :: "'p models_lib \<Rightarrow> bool" where
  "parser_ok P \<longleftrightarrow> (\<forall>points. ParsePoints P (point_lines P points) = Inr points)"

section \<open>Node processors\<close>

record NodeProcessorStatistics =
  WriteShardReq :: int
  WriteShardReqPoints :: int
  WriteNodeReq :: int
  WriteNodeReqFail :: int
  WriteNodeReqPoints :: int

text \<open>
  \<open>np_disk\<close> is the content of the directory while no queue object is open on it; \<open>np_done\<close> says
  that the channel \<^verbatim>\<open>done\<close> is not nil.
\<close>

record NodeProcessor =
  np_PurgeInterval :: duration
  np_RetryInterval :: duration
  np_RetryMaxInterval :: duration
  np_MaxSize :: int
  np_MaxAge :: duration
  np_RetryRateLimit :: int
  np_nodeID :: u64
  np_done :: bool
  np_queue :: "queue option"
  np_disk :: dir
  np_stats :: NodeProcessorStatistics

definition DefaultMaxSize :: int where
  "DefaultMaxSize = 1024 * 1024 * 1024"

definition time_Second :: duration where
  "time_Second = 1000000000"

definition DefaultMaxAge :: duration where
  "DefaultMaxAge = 7 * 24 * 3600 * time_Second"

definition DefaultRetryInterval :: duration where
  "DefaultRetryInterval = time_Second"

definition DefaultRetryMaxInterval :: duration where
  "DefaultRetryMaxInterval = 60 * time_Second"

definition DefaultPurgeInterval :: duration where
  "DefaultPurgeInterval = 3600 * time_Second"

definition NewNodeProcessor :: "u64 \<Rightarrow> dir \<Rightarrow> NodeProcessor" where
  "NewNodeProcessor nodeID disk =
     \<lparr>np_PurgeInterval = DefaultPurgeInterval, np_RetryInterval = DefaultRetryInterval,
      np_RetryMaxInterval = DefaultRetryMaxInterval, np_MaxSize = DefaultMaxSize, np_MaxAge = DefaultMaxAge,
      np_RetryRateLimit = 0, np_nodeID = nodeID, np_done = False, np_queue = None, np_disk = disk,
      np_stats = \<lparr>WriteShardReq = 0, WriteShardReqPoints = 0, WriteNodeReq = 0, WriteNodeReqFail = 0, WriteNodeReqPoints = 0\<rparr>\<rparr>"

type_synonym 'a nio = "NodeProcessor \<Rightarrow> (go_error + 'a) \<times> NodeProcessor"

text \<open>A call of a method of the queue; a nil queue panics.\<close>

definition on_queue :: "'a qio \<Rightarrow> 'a nio" where
  "on_queue m n =
     (case np_queue n of
        None \<Rightarrow> (Inl (Panic ''nil pointer dereference''), n)
      | Some q \<Rightarrow> (case m q of (r, q') \<Rightarrow> (r, n\<lparr>np_queue := Some q', np_disk := q_dir q'\<rparr>)))"

definition NodeProcessor_Open :: "gtime \<Rightarrow> unit nio" where
  "NodeProcessor_Open now n =
     (if np_done n then (Inr (), n)
      else
        let n = n\<lparr>np_done := True\<rparr>
        in case Queue_Open now (newQueue (np_disk n) (np_MaxSize n)) of
             (Inl e, q) \<Rightarrow> (Inl e, n\<lparr>np_disk := q_dir q\<rparr>)
           | (Inr _, q) \<Rightarrow> (Inr (), n\<lparr>np_queue := Some q, np_disk := q_dir q\<rparr>))"

definition NodeProcessor_Close :: "unit nio" where
  "NodeProcessor_Close n =
     (if \<not> np_done n then (Inr (), n) else on_queue Queue_Close (n\<lparr>np_done := False\<rparr>))"

definition NodeProcessor_Statistics :: "NodeProcessor \<Rightarrow> (string \<times> int) list" where
  "NodeProcessor_Statistics n =
     [(''writeShardReq'', WriteShardReq (np_stats n)),
      (''writeShardReqPoints'', WriteShardReqPoints (np_stats n)),
      (''writeNodeReq'', WriteNodeReq (np_stats n)),
      (''writeNodeReqFail'', WriteNodeReqFail (np_stats n)),
      (''writeNodeReqPoints'', WriteShardReqPoints (np_stats n))]"

definition NodeProcessor_Purge :: "unit nio" where
  "NodeProcessor_Purge n =
     (if np_done n then (Inl (Errorf ''node processor is open''), n) else (Inr (), n\<lparr>np_disk := []\<rparr>))"

definition NodeProcessor_WriteShard :: "'p models_lib \<Rightarrow> gtime \<Rightarrow> u64 \<Rightarrow> 'p list \<Rightarrow> unit nio" where
  "NodeProcessor_WriteShard P now shardID points n =
     (if \<not> np_done n then (Inl (Errorf ''node processor is closed''), n)
      else
        let st = np_stats n;
            n = n\<lparr>np_stats := st\<lparr>WriteShardReq := WriteShardReq st + 1,
                                WriteShardReqPoints := WriteShardReqPoints st + int (length points)\<rparr>\<rparr>
        in on_queue (Queue_Append now (marshalWrite P shardID points)) n)"

definition NodeProcessor_LastModified :: "gtime nio" where
  "NodeProcessor_LastModified n =
     (case on_queue Queue_LastModified n of (Inl e, n) \<Rightarrow> (Inl e, n) | (Inr t, n) \<Rightarrow> (Inr t, n))"

text \<open>The two results of the meta client: the node or nil, and an error or nil.\<close>

type_synonym data_node = "u64 \<Rightarrow> NodeInfo option \<times> go_error option"

definition NodeProcessor_Active :: "data_node \<Rightarrow> NodeProcessor \<Rightarrow> go_error + bool" where
  "NodeProcessor_Active meta n =
     (case meta (np_nodeID n) of
        (nio, Some e) \<Rightarrow> if e \<noteq> ErrNodeNotFound then Inl e else Inr (nio \<noteq> None)
      | (nio, None) \<Rightarrow> Inr (nio \<noteq> None))"

text \<open>
  The part of \<^verbatim>\<open>SendWrite\<close> that uses the queue: the current block is decoded and written; it is
  passed over when it was written or cannot be decoded. An error of \<^verbatim>\<open>Advance\<close> is only logged.
\<close>

datatype sent =
    NoBlock go_error
  | Undecodable go_error
  | Refused go_error
  | Sent "byte list" nat

definition send_current ::
  "('q \<Rightarrow> (go_error + byte list) \<times> 'q) \<Rightarrow> ('q \<Rightarrow> (go_error + unit) \<times> 'q) \<Rightarrow>
   (byte list \<Rightarrow> go_error + u64 \<times> 'p list) \<Rightarrow> (u64 \<Rightarrow> 'p list \<Rightarrow> go_error option) \<Rightarrow> 'q \<Rightarrow> sent \<times> 'q" where
  "send_current current advance unmarshal write q =
     (case current q of
        (Inl e, q) \<Rightarrow> (NoBlock e, q)
      | (Inr buf, q) \<Rightarrow>
          (case unmarshal buf of
             Inl e \<Rightarrow> (Undecodable e, snd (advance q))
           | Inr (shardID, points) \<Rightarrow>
               (case write shardID points of
                  Some e \<Rightarrow> (Refused e, q)
                | None \<Rightarrow> (Sent buf (length points), snd (advance q)))))"

definition count_sent :: "sent \<Rightarrow> NodeProcessorStatistics \<Rightarrow> NodeProcessorStatistics" where
  "count_sent r st =
     (case r of
        Refused _ \<Rightarrow> st\<lparr>WriteNodeReqFail := WriteNodeReqFail st + 1\<rparr>
      | Sent _ n \<Rightarrow> st\<lparr>WriteNodeReq := WriteNodeReq st + 1, WriteNodeReqPoints := WriteNodeReqPoints st + int n\<rparr>
      | _ \<Rightarrow> st)"

fun sent_result :: "sent \<Rightarrow> go_error + nat" where
  "sent_result (NoBlock e) = Inl e"
| "sent_result (Undecodable e) = Inl e"
| "sent_result (Refused e) = Inl e"
| "sent_result (Sent buf _) = Inr (length buf)"

definition SendWrite ::
  "'p models_lib \<Rightarrow> data_node \<Rightarrow> (u64 \<Rightarrow> u64 \<Rightarrow> 'p list \<Rightarrow> go_error option) \<Rightarrow> gtime \<Rightarrow> nat nio" where
  "SendWrite P meta writer now n =
     (case NodeProcessor_Active meta n of
        Inl e \<Rightarrow> (Inl e, n)
      | Inr False \<Rightarrow> (Inl EOF, n)
      | Inr True \<Rightarrow>
          (case np_queue n of
             None \<Rightarrow> (Inl (Panic ''nil pointer dereference''), n)
           | Some q \<Rightarrow>
               (case send_current Queue_Current (Queue_Advance now) (unmarshalWrite P)
                       (\<lambda>shardID points. writer shardID (np_nodeID n) points) q of
                  (r, q) \<Rightarrow> (sent_result r,
                    n\<lparr>np_queue := Some q, np_disk := q_dir q, np_stats := count_sent r (np_stats n)\<rparr>))))"

definition NodeProcessor_Head :: "NodeProcessor \<Rightarrow> string option" where
  "NodeProcessor_Head n = map_option (\<lambda>q. fst (Queue_Position q)) (np_queue n)"

definition NodeProcessor_Tail :: "NodeProcessor \<Rightarrow> string option" where
  "NodeProcessor_Tail n = map_option (\<lambda>q. snd (Queue_Position q)) (np_queue n)"

section \<open>The goroutine\<close>

text \<open>
  \<^verbatim>\<open>concurrencyAllow\<close> tries to take one of the slots until its timer fires; the list holds the
  number of slots that the other processors have taken at each of its attempts.
\<close>

fun concurrencyAllow :: "int \<Rightarrow> int list \<Rightarrow> bool" where
  "concurrencyAllow slots [] = (slots < 1)"
| "concurrencyAllow slots (taken # attempts) = (if slots < 1 then True else if taken + 1 \<le> slots then True else concurrencyAllow slots attempts)"

text \<open>The result is the next delay; the rate limiter only waits.\<close>

definition sendingLoop ::
  "'p models_lib \<Rightarrow> data_node \<Rightarrow> (u64 \<Rightarrow> u64 \<Rightarrow> 'p list \<Rightarrow> go_error option) \<Rightarrow> int \<Rightarrow> int list \<Rightarrow> gtime \<Rightarrow>
   duration \<Rightarrow> NodeProcessor \<Rightarrow> duration \<times> NodeProcessor" where
  "sendingLoop P meta writer maxActive attempts now curDelay n =
     (if maxActive > 0 \<and> \<not> concurrencyAllow maxActive attempts then (np_RetryInterval n, n)
      else case SendWrite P meta writer now n of
             (Inr _, n) \<Rightarrow> (np_RetryInterval n, n)
           | (Inl EOF, n) \<Rightarrow> (np_RetryInterval n, n)
           | (Inl _, n) \<Rightarrow> (min (2 * curDelay) (np_RetryMaxInterval n), n))"

definition initial_wait :: "NodeProcessor \<Rightarrow> duration" where
  "initial_wait n = (if np_RetryInterval n > np_RetryMaxInterval n then np_RetryMaxInterval n else np_RetryInterval n)"

text \<open>
  One event of the loop of \<^verbatim>\<open>run\<close> with the delay that it keeps. The purge is given the fuel that
  its loop needs; if it did not suffice the processor would hang.
\<close>

datatype run_event = PurgeTimer | SendingTimer "int list"

definition run_step ::
  "'p models_lib \<Rightarrow> data_node \<Rightarrow> (u64 \<Rightarrow> u64 \<Rightarrow> 'p list \<Rightarrow> go_error option) \<Rightarrow> int \<Rightarrow> gtime \<Rightarrow> run_event \<Rightarrow>
   duration \<times> NodeProcessor \<Rightarrow> (duration \<times> NodeProcessor) option" where
  "run_step P meta writer maxActive now ev = (\<lambda>(waitTime, n).
     case ev of
       PurgeTimer \<Rightarrow>
         (case np_queue n of
            None \<Rightarrow> None
          | Some q \<Rightarrow>
              (case Queue_PurgeOlderThan (Suc (length (q_segments q))) now (now - np_MaxAge n) q of
                 None \<Rightarrow> None
               | Some (_, q) \<Rightarrow> Some (waitTime, n\<lparr>np_queue := Some q, np_disk := q_dir q\<rparr>)))
     | SendingTimer attempts \<Rightarrow> Some (sendingLoop P meta writer maxActive attempts now waitTime n))"

end
