(* ===== verification/HHService.thy ===== *)
theory HHService
  imports HHNode "HOL-Library.AList"
begin

text \<open>
  \<^verbatim>\<open>services/hh/service.go\<close> and \<^verbatim>\<open>services/hh/config.go\<close>: the hinted handoff service keeps one
  processor per node. Its root directory has a subdirectory per node, named by the decimal node ID;
  \<open>sv_root\<close> is the content of the root directory, with \<open>None\<close> for a plain file, and follows the
  directories of the processors.
\<close>

section \<open>Configuration\<close>

record hh_config =
  cfg_Enabled :: bool
  cfg_Dir :: string
  cfg_MaxSize :: int
  cfg_MaxAge :: duration
  cfg_RetryConcurrency :: int
  cfg_RetryRateLimit :: int
  cfg_RetryInterval :: duration
  cfg_RetryMaxInterval :: duration
  cfg_PurgeInterval :: duration

definition hh_NewConfig :: hh_config where
  "hh_NewConfig =
     \<lparr>cfg_Enabled = False, cfg_Dir = [], cfg_MaxSize = DefaultMaxSize, cfg_MaxAge = DefaultMaxAge,
      cfg_RetryConcurrency = 0, cfg_RetryRateLimit = 0, cfg_RetryInterval = DefaultRetryInterval,
      cfg_RetryMaxInterval = DefaultRetryMaxInterval, cfg_PurgeInterval = DefaultPurgeInterval\<rparr>"

definition hh_Validate :: "hh_config \<Rightarrow> go_error option" where
  "hh_Validate c =
     (if cfg_Enabled c \<and> cfg_Dir c = [] then Some (Errorf ''HintedHandoff.Dir must be specified'') else None)"

section \<open>The service\<close>

record hh_Service =
  sv_cfg :: hh_config
  sv_closing :: bool
  sv_processors :: "(u64 \<times> NodeProcessor) list"
  sv_root :: "(string \<times> dir option) list"
  sv_WriteShardReq :: int
  sv_WriteShardReqPoints :: int

definition hh_NewService :: "hh_config \<Rightarrow> (string \<times> dir option) list \<Rightarrow> hh_Service" where
  "hh_NewService c root =
     \<lparr>sv_cfg = c, sv_closing = True, sv_processors = [], sv_root = root, sv_WriteShardReq = 0, sv_WriteShardReqPoints = 0\<rparr>"

definition pathforNode :: "u64 \<Rightarrow> string" where
  "pathforNode nodeID = FormatUint (unat nodeID)"

definition createProcessor :: "u64 \<Rightarrow> hh_Service \<Rightarrow> NodeProcessor" where
  "createProcessor nodeID s =
     (NewNodeProcessor nodeID (case map_of (sv_root s) (pathforNode nodeID) of Some (Some d) \<Rightarrow> d | _ \<Rightarrow> []))
       \<lparr>np_RetryInterval := cfg_RetryInterval (sv_cfg s),
        np_RetryMaxInterval := cfg_RetryMaxInterval (sv_cfg s),
        np_RetryRateLimit := cfg_RetryRateLimit (sv_cfg s)\<rparr>"

text \<open>A processor of the map and its directory after a call of one of its methods.\<close>

definition put_processor :: "u64 \<Rightarrow> NodeProcessor \<Rightarrow> hh_Service \<Rightarrow> hh_Service" where
  "put_processor k n s =
     s\<lparr>sv_processors := AList.update k n (sv_processors s),
       sv_root := AList.update (pathforNode k) (Some (np_disk n)) (sv_root s)\<rparr>"

text \<open>
  Creating a processor and opening it; a plain file in the place of its directory is an error of
  \<^verbatim>\<open>MkdirAll\<close>. The processor enters the map only when it could be opened.
\<close>

definition open_processor :: "gtime \<Rightarrow> u64 \<Rightarrow> hh_Service \<Rightarrow> (go_error + unit) \<times> hh_Service" where
  "open_processor now nodeID s =
     (if map_of (sv_root s) (pathforNode nodeID) = Some None then (Inl (Errorf ''mkdir all''), s)
      else case NodeProcessor_Open now (createProcessor nodeID s) of
             (Inl e, n) \<Rightarrow> (Inl e, s\<lparr>sv_root := AList.update (pathforNode nodeID) (Some (np_disk n)) (sv_root s)\<rparr>)
           | (Inr _, n) \<Rightarrow> (Inr (), put_processor nodeID n s))"

fun open_each :: "gtime \<Rightarrow> string list \<Rightarrow> hh_Service \<Rightarrow> (go_error + unit) \<times> hh_Service" where
  "open_each now [] s = (Inr (), s)"
| "open_each now (f # fs) s =
     (case ParseUint f of
        None \<Rightarrow> open_each now fs s
      | Some nodeID \<Rightarrow>
          (case open_processor now (of_nat nodeID) s of
             (Inl e, s) \<Rightarrow> (Inl e, s)
           | (Inr _, s) \<Rightarrow> open_each now fs s))"

definition hh_Open :: "gtime \<Rightarrow> hh_Service \<Rightarrow> (go_error + unit) \<times> hh_Service" where
  "hh_Open now s =
     (if \<not> cfg_Enabled (sv_cfg s) then (Inr (), s)
      else open_each now (map fst (go_sort (\<lambda>a b. fst a < fst b) (sv_root s))) (s\<lparr>sv_closing := True\<rparr>))"

fun close_processors :: "u64 list \<Rightarrow> hh_Service \<Rightarrow> (go_error + unit) \<times> hh_Service" where
  "close_processors [] s = (Inr (), s)"
| "close_processors (k # ks) s =
     (case map_of (sv_processors s) k of
        None \<Rightarrow> close_processors ks s
      | Some n \<Rightarrow>
          (case NodeProcessor_Close n of
             (Inl e, n) \<Rightarrow> (Inl e, put_processor k n s)
           | (Inr _, n) \<Rightarrow> close_processors ks (put_processor k n s)))"

definition hh_Close :: "hh_Service \<Rightarrow> (go_error + unit) \<times> hh_Service" where
  "hh_Close s =
     (case close_processors (map fst (sv_processors s)) s of
        (Inl e, s) \<Rightarrow> (Inl e, s)
      | (Inr _, s) \<Rightarrow> (Inr (), s\<lparr>sv_closing := False\<rparr>))"

definition hh_Statistics :: "hh_Service \<Rightarrow> (string \<times> int) list list" where
  "hh_Statistics s =
     [(''writeShardReq'', sv_WriteShardReq s), (''writeShardReqPoints'', sv_WriteShardReqPoints s)]
       # map (\<lambda>(_, p). NodeProcessor_Statistics p) (sv_processors s)"

definition hh_WriteShard ::
  "'p models_lib \<Rightarrow> gtime \<Rightarrow> u64 \<Rightarrow> u64 \<Rightarrow> 'p list \<Rightarrow> hh_Service \<Rightarrow> (go_error + unit) \<times> hh_Service" where
  "hh_WriteShard P now shardID ownerID points s =
     (if \<not> cfg_Enabled (sv_cfg s) then (Inl ErrHintedHandoffDisabled, s)
      else
        let s = s\<lparr>sv_WriteShardReq := sv_WriteShardReq s + 1,
                  sv_WriteShardReqPoints := sv_WriteShardReqPoints s + int (length points)\<rparr>;
            (r, s) = (case map_of (sv_processors s) ownerID of
                        Some _ \<Rightarrow> (Inr (), s) | None \<Rightarrow> open_processor now ownerID s)
        in case r of
             Inl e \<Rightarrow> (Inl e, s)
           | Inr _ \<Rightarrow>
               (case map_of (sv_processors s) ownerID of
                  None \<Rightarrow> (Inl (Panic ''nil pointer dereference''), s)
                | Some n \<Rightarrow>
                    (case NodeProcessor_WriteShard P now shardID points n of
                       (r, n) \<Rightarrow> (r, put_processor ownerID n s))))"

text \<open>A row of the diagnostics: node, active, last modified, head and tail.\<close>

fun diagnose :: "data_node \<Rightarrow> (u64 \<times> NodeProcessor) list \<Rightarrow> go_error + (u64 \<times> bool \<times> gtime \<times> string option \<times> string option) list" where
  "diagnose meta [] = Inr []"
| "diagnose meta ((k, v) # ps) =
     (case fst (NodeProcessor_LastModified v) of
        Inl e \<Rightarrow> Inl e
      | Inr lm \<Rightarrow>
          (case NodeProcessor_Active meta v of
             Inl e \<Rightarrow> Inl e
           | Inr active \<Rightarrow>
               (case diagnose meta ps of
                  Inl e \<Rightarrow> Inl e
                | Inr rows \<Rightarrow> Inr ((k, active, lm, NodeProcessor_Head v, NodeProcessor_Tail v) # rows))))"

definition hh_Diagnostics :: "data_node \<Rightarrow> hh_Service \<Rightarrow> go_error + (u64 \<times> bool \<times> gtime \<times> string option \<times> string option) list" where
  "hh_Diagnostics meta s = diagnose meta (sv_processors s)"

text \<open>One tick of \<^verbatim>\<open>purgeInactiveProcessors\<close>, for one processor and for all.\<close>

definition purge_processor :: "data_node \<Rightarrow> gtime \<Rightarrow> u64 \<Rightarrow> hh_Service \<Rightarrow> hh_Service" where
  "purge_processor meta now k s =
     (case map_of (sv_processors s) k of
        None \<Rightarrow> s
      | Some v \<Rightarrow>
          (case NodeProcessor_LastModified v of
             (Inl _, v) \<Rightarrow> put_processor k v s
           | (Inr lm, v) \<Rightarrow>
               (case NodeProcessor_Active meta v of
                  Inl _ \<Rightarrow> put_processor k v s
                | Inr True \<Rightarrow> put_processor k v s
                | Inr False \<Rightarrow>
                    if \<not> lm < now - cfg_MaxAge (sv_cfg s) then put_processor k v s
                    else case NodeProcessor_Close v of
                           (Inl _, v) \<Rightarrow> put_processor k v s
                         | (Inr _, v) \<Rightarrow>
                             (case NodeProcessor_Purge v of
                                (Inl _, v) \<Rightarrow> put_processor k v s
                              | (Inr _, v) \<Rightarrow>
                                  s\<lparr>sv_processors := AList.delete k (sv_processors s),
                                    sv_root := AList.delete (pathforNode k) (sv_root s)\<rparr>))))"

definition purgeInactiveProcessors :: "data_node \<Rightarrow> gtime \<Rightarrow> hh_Service \<Rightarrow> hh_Service" where
  "purgeInactiveProcessors meta now s = fold (purge_processor meta now) (map fst (sv_processors s)) s"

end
