(* ===== verification/HHDeliver.thy ===== *)
theory HHDeliver
  imports HHService
begin

text \<open>
  Properties of hinted handoff (\<^verbatim>\<open>services/hh\<close>): what a processor takes from its queue was written
  to the node or cannot be decoded, in order; a queue whose segments hold blocks is drained by
  successful writes; the state in which it is not; the delays between attempts; and the service.
\<close>

section \<open>Blocks\<close>

lemma marshalWrite_eq: "marshalWrite P shardID points = PutUint64 shardID @ point_lines P points"
proof -
  have "foldl (\<lambda>b p. (b @ string_bytes (point_String P p)) @ [10]) acc points = acc @ point_lines P points" for acc
    by (induction points arbitrary: acc) (simp_all add: point_lines_def)
  then show ?thesis by (simp add: marshalWrite_def)
qed

lemma marshalWrite_nonempty: "marshalWrite P shardID points \<noteq> []"
  by (simp add: marshalWrite_eq flip: length_greater_0_conv)

lemma unmarshal_marshal: "parser_ok P \<Longrightarrow> unmarshalWrite P (marshalWrite P shardID points) = Inr (shardID, points)"
  by (simp add: unmarshalWrite_def marshalWrite_eq parser_ok_def)

text \<open>An instance of the parameters: points that are one character.\<close>

fun parse_chars :: "byte list \<Rightarrow> go_error + char list" where
  "parse_chars [] = Inr []"
| "parse_chars [b] = Inl (Errorf ''incomplete line'')"
| "parse_chars (b # nl # bs) =
     (case parse_chars bs of Inl e \<Rightarrow> Inl e | Inr cs \<Rightarrow> Inr (char_of (unat b) # cs))"

definition char_points :: "char models_lib" where
  "char_points = \<lparr>point_String = (\<lambda>c. [c]), ParsePoints = parse_chars\<rparr>"

lemma char_points_ok: "parser_ok char_points"
proof -
  have "char_of (unat (of_nat (of_char c :: nat) :: byte)) = c" for c
    by (simp add: unat_of_nat)
  then have "parse_chars (point_lines char_points cs) = Inr cs" for cs
    by (induction cs) (simp_all add: point_lines_def char_points_def string_bytes_def)
  then show ?thesis by (simp add: parser_ok_def) (simp add: char_points_def)
qed

section \<open>Taking blocks\<close>

context handoff_queue
begin

lemma send_current_cases:
  assumes "ok q"
  obtains (none) q' where "send_current current (advance now) un wr q = (NoBlock EOF, q')" and "front q = []"
      and "ok q'" and "items q' = items q" and "front q' = []"
    | (skip) e q' where "send_current current (advance now) un wr q = (Undecodable e, q')" and "front q \<noteq> []"
      and "ok q'" and "items q = hd (items q) # items q'" and "un (hd (items q)) = Inl e"
    | (refused) i ps e q' where "send_current current (advance now) un wr q = (Refused e, q')" and "front q \<noteq> []"
      and "ok q'" and "items q' = items q" and "front q' = front q" and "un (hd (items q)) = Inr (i, ps)" and "wr i ps = Some e"
    | (sent) i ps q' where "send_current current (advance now) un wr q = (Sent (hd (items q)) (length ps), q')" and "front q \<noteq> []"
      and "ok q'" and "items q = hd (items q) # items q'" and "un (hd (items q)) = Inr (i, ps)" and "wr i ps = None"
proof (cases "front q = []")
  case True
  with current_ok [OF assms] obtain q' where "current q = (Inl EOF, q')" "ok q'" "items q' = items q" "front q' = []" by auto
  with True show ?thesis by (intro none [of q']) (simp_all add: send_current_def)
next
  case False
  then obtain q1 q2 where 1: "current q = (Inr (hd (items q)), q1)" "advance now q1 = (Inr (), q2)"
    "ok q1" "items q1 = items q" "front q1 = front q" and 2: "ok q2" "items q = hd (items q) # items q2"
    using take_first [OF assms, of now] by metis
  show ?thesis
  proof (cases "un (hd (items q))")
    case (Inl e)
    with 1 2 False show ?thesis by (intro skip [of e q2]) (simp_all add: send_current_def)
  next
    case (Inr r)
    then obtain i ps where r: "un (hd (items q)) = Inr (i, ps)" by (cases r) auto
    show ?thesis
    proof (cases "wr i ps")
      case None
      with 1 2 False r show ?thesis by (intro sent [of ps q2 i]) (simp_all add: send_current_def)
    next
      case (Some e)
      with 1 False r show ?thesis by (intro refused [of e q1 i ps]) (simp_all add: send_current_def)
    qed
  qed
qed

end

section \<open>Delivery\<close>

text \<open>Attempts to send, each with the answers of the meta client and of the writer and a time.\<close>

type_synonym 'p attempt = "data_node \<times> (u64 \<Rightarrow> u64 \<Rightarrow> 'p list \<Rightarrow> go_error option) \<times> gtime"

fun send_run :: "'p models_lib \<Rightarrow> 'p attempt list \<Rightarrow> NodeProcessor \<Rightarrow> (go_error + nat) list \<times> NodeProcessor" where
  "send_run P [] n = ([], n)"
| "send_run P ((meta, writer, now) # es) n =
     (let (r, n) = SendWrite P meta writer now n; (rs, n) = send_run P es n in (r # rs, n))"

definition np_with :: "(queue \<Rightarrow> bool) \<Rightarrow> NodeProcessor \<Rightarrow> bool" where
  "np_with ok n \<longleftrightarrow> np_done n \<and> (\<exists>q. np_queue n = Some q \<and> ok q)"

definition np_items :: "NodeProcessor \<Rightarrow> byte list list" where
  "np_items n = (case np_queue n of None \<Rightarrow> [] | Some q \<Rightarrow> queue_items q)"

definition active :: "data_node \<Rightarrow> u64 \<Rightarrow> bool" where
  "active meta i \<longleftrightarrow> snd (meta i) = None \<and> fst (meta i) \<noteq> None"

text \<open>The queue of a processor holds the given hints.\<close>

definition np_hints :: "'p models_lib \<Rightarrow> NodeProcessor \<Rightarrow> (u64 \<times> 'p list) list \<Rightarrow> bool" where
  "np_hints P n hs \<longleftrightarrow> np_items n = map (\<lambda>(i, ps). marshalWrite P i ps) hs"

lemma Active_cases:
  "NodeProcessor_Active meta n = Inr True \<and> (active meta (np_nodeID n) \<or> snd (meta (np_nodeID n)) = Some ErrNodeNotFound) \<or>
   \<not> active meta (np_nodeID n) \<and> (NodeProcessor_Active meta n = Inr False \<or> (\<exists>e. NodeProcessor_Active meta n = Inl e))"
  by (auto simp: NodeProcessor_Active_def active_def split: prod.splits option.splits)

text \<open>One attempt: it fails and leaves the hints, or it succeeds and the writer took the first hint.\<close>

lemma SendWrite_hints:
  assumes P: "parser_ok P" and n: "np_with fifo_ok n" and hints: "np_hints P n hs"
  shows "\<exists>r n'. SendWrite P meta w now n = (r, n') \<and> np_with fifo_ok n' \<and> np_nodeID n' = np_nodeID n \<and>
     (case r of
        Inl _ \<Rightarrow> np_hints P n' hs
      | Inr _ \<Rightarrow> \<exists>i ps hs'. hs = (i, ps) # hs' \<and> w i (np_nodeID n) ps = None \<and> np_hints P n' hs')"
proof -
  obtain q where q: "np_queue n = Some q" "fifo_ok q" "np_done n" using n by (auto simp: np_with_def)
  let ?w = "\<lambda>i ps. w i (np_nodeID n) ps"
  have un: "unmarshalWrite P (hd (queue_items q)) = Inr (i, ps) \<and> queue_items q \<noteq> []"
    if "hs = (i, ps) # hs'" for i ps hs'
    using hints that P by (simp add: np_hints_def np_items_def q unmarshal_marshal)
  have hs: "\<exists>i ps hs'. hs = (i, ps) # hs'" if "queue_front q \<noteq> []"
    using that hq.front_items [OF q(2)] hints by (cases hs) (auto simp: np_hints_def np_items_def q)
  show ?thesis
  proof (cases "NodeProcessor_Active meta n = Inr True")
    case False
    then show ?thesis using n hints
      by (cases "NodeProcessor_Active meta n") (auto simp: SendWrite_def split: bool.splits)
  next
    case act: True
    from q(2) show ?thesis
    proof (cases rule: hq.send_current_cases [of q now "unmarshalWrite P" ?w])
      case (none q')
      with act q hints show ?thesis by (auto simp: SendWrite_def np_with_def np_hints_def np_items_def)
    next
      case (skip e q')
      with hs un show ?thesis by fastforce
    next
      case (refused i ps e q')
      with act q hints show ?thesis by (auto simp: SendWrite_def np_with_def np_hints_def np_items_def)
    next
      case (sent i ps q')
      with hs un obtain hs' where "hs = (i, ps) # hs'" by fastforce
      with sent act q hints show ?thesis by (auto simp: SendWrite_def np_with_def np_hints_def np_items_def)
    qed
  qed
qed

definition succeeded :: "'p attempt list \<Rightarrow> (go_error + nat) list \<Rightarrow> 'p attempt list" where
  "succeeded es rs = map fst (filter (\<lambda>(_, r). \<not> isl r) (zip es rs))"

lemma send_run_hints:
  "parser_ok P \<Longrightarrow> np_with fifo_ok n \<Longrightarrow> np_hints P n hs \<Longrightarrow> send_run P es n = (rs, n') \<Longrightarrow>
   np_with fifo_ok n' \<and> length rs = length es \<and> (\<exists>sent rest. hs = sent @ rest \<and> np_hints P n' rest \<and>
     list_all2 (\<lambda>(meta, w, now) (i, ps). w i (np_nodeID n) ps = None) (succeeded es rs) sent)"
proof (induction es arbitrary: n hs rs)
  case Nil
  then show ?case by (auto simp: succeeded_def)
next
  case (Cons e es)
  obtain meta w now where e: "e = (meta, w, now)" using prod_cases3 by blast
  from SendWrite_hints [OF Cons.prems(1-3), of meta w now] obtain r n1 where
    step: "SendWrite P meta w now n = (r, n1)" and n1: "np_with fifo_ok n1" "np_nodeID n1 = np_nodeID n"
    and res: "case r of Inl _ \<Rightarrow> np_hints P n1 hs
      | Inr _ \<Rightarrow> \<exists>i ps hs'. hs = (i, ps) # hs' \<and> w i (np_nodeID n) ps = None \<and> np_hints P n1 hs'" by blast
  from Cons.prems(4) step obtain rs' where run: "send_run P es n1 = (rs', n')" and rs: "rs = r # rs'"
    by (auto simp: e split: prod.splits)
  show ?case
  proof (cases r)
    case (Inl x)
    with res Cons.IH [OF Cons.prems(1) n1(1) _ run, of hs] show ?thesis
      by (auto simp: rs succeeded_def n1(2))
  next
    case (Inr x)
    with res obtain i ps hs' where hs: "hs = (i, ps) # hs'" "w i (np_nodeID n) ps = None" "np_hints P n1 hs'" by auto
    with Cons.IH [OF Cons.prems(1) n1(1) hs(3) run] obtain sent rest where
      "hs' = sent @ rest" "np_hints P n' rest" "np_with fifo_ok n'" "length rs' = length es"
      "list_all2 (\<lambda>(meta, w, now) (i, ps). w i (np_nodeID n1) ps = None) (succeeded es rs') sent" by blast
    with hs Inr show ?thesis
      by (intro conjI exI [of _ "(i, ps) # sent"] exI [of _ rest]) (auto simp: rs succeeded_def e n1(2))
  qed
qed

text \<open>
  (C11) Hints are delivered in order and none is lost: whatever the meta client and the remote node
  answer, an attempt that fails leaves the hints in the queue, each attempt that reports success
  corresponds to the next hint, and the remote writer accepted that hint in that attempt.
\<close>

theorem handoff_in_order:
  assumes "parser_ok P" and "np_with fifo_ok n" and "np_hints P n hs" and "send_run P es n = (rs, n')"
  shows "\<exists>sent rest. hs = sent @ rest \<and> np_hints P n' rest \<and>
     list_all2 (\<lambda>(meta, w, now) (i, ps). w i (np_nodeID n) ps = None) (succeeded es rs) sent"
  using send_run_hints [OF assms] by blast

section \<open>Draining\<close>

lemma SendWrite_flow:
  assumes P: "parser_ok P" and n: "np_with flowing n" and hints: "np_hints P n ((i, ps) # hs)"
    and act: "active meta (np_nodeID n)" and w: "w i (np_nodeID n) ps = None"
  shows "\<exists>r n'. SendWrite P meta w now n = (Inr r, n') \<and> np_with flowing n' \<and> np_nodeID n' = np_nodeID n \<and> np_hints P n' hs"
proof -
  obtain q where q: "np_queue n = Some q" "flowing q" "np_done n" using n by (auto simp: np_with_def)
  have un: "unmarshalWrite P (hd (queue_items q)) = Inr (i, ps)" "queue_items q \<noteq> []"
    using hints P by (simp_all add: np_hints_def np_items_def q unmarshal_marshal)
  have A: "NodeProcessor_Active meta n = Inr True" using Active_cases [of meta n] act by auto
  from q(2) show ?thesis
  proof (cases rule: fq.send_current_cases [of q now "unmarshalWrite P" "\<lambda>i ps. w i (np_nodeID n) ps"])
    case (none q')
    with fq.front_empty_iff [OF q(2)] un show ?thesis by simp
  next
    case (sent i ps q')
    with A q hints show ?thesis by (auto simp: SendWrite_def np_with_def np_hints_def np_items_def)
  qed (use un w in auto)
qed

text \<open>
  (C14) A queue that flows is drained: when the node is active and accepts what it is sent, as many
  attempts as there are hints empty the queue, and all of them succeed.
\<close>

theorem handoff_drains:
  assumes "parser_ok P" and "np_with flowing n" and "np_hints P n hs" and "length es = length hs"
    and "\<forall>(meta, w, now)\<in>set es. active meta (np_nodeID n) \<and> (\<forall>i ps. w i (np_nodeID n) ps = None)"
  shows "\<exists>rs n'. send_run P es n = (rs, n') \<and> np_items n' = [] \<and> list_all (\<lambda>r. \<not> isl r) rs"
  using assms
proof (induction es arbitrary: n hs)
  case Nil
  then show ?case by (simp add: np_hints_def)
next
  case (Cons e es)
  obtain meta w now where e: "e = (meta, w, now)" using prod_cases3 by blast
  obtain i ps hs' where hs: "hs = (i, ps) # hs'" using Cons.prems(4) by (cases hs) auto
  from SendWrite_flow [OF Cons.prems(1,2) Cons.prems(3) [unfolded hs], of meta w now] Cons.prems(5) e
  obtain r n1 where step: "SendWrite P meta w now n = (Inr r, n1)" "np_with flowing n1" "np_nodeID n1 = np_nodeID n" "np_hints P n1 hs'"
    by auto
  with Cons.IH [OF Cons.prems(1) step(2,4)] Cons.prems(4,5) hs obtain rs n' where
    "send_run P es n1 = (rs, n')" "np_items n' = []" "list_all (\<lambda>r. \<not> isl r) rs" by auto
  with step(1) show ?case by (simp add: e)
qed

section \<open>Stalling\<close>

definition stalled :: "queue \<Rightarrow> bool" where
  "stalled q \<longleftrightarrow> fifo_ok q \<and> queue_front q = [] \<and> queue_items q \<noteq> []"

lemma Queue_Append_stalled:
  assumes st: "stalled q" and ids: "ids_left q" and b: "b \<noteq> []"
  shows "stalled (snd (Queue_Append now b q))"
proof (cases "diskUsage q + int (length b) \<le> q_maxSize q")
  case False
  obtain t where "q_tail q = Some t" using st by (auto simp: stalled_def fifo_ok_def queue_rel_def)
  with False st show ?thesis by (simp add: Queue_Append_def)
next
  case True
  from st obtain B k Bs where rel: "queue_rel q B k Bs" and small: "fits q (concat (B # Bs))"
    and k: "k = length B" and Bs: "concat Bs \<noteq> []"
    unfolding stalled_def fifo_ok_fits by (metis append_self_conv2 drop_eq_Nil le_antisym queue_rel_front queue_rel_items queue_rel_pos)
  from Queue_Append_rel [OF rel ids b True, of now] obtain r q' B' Bs' where run: "Queue_Append now b q = (r, q')"
    and rel': "queue_rel q' B' k Bs'" and max: "q_maxSegmentSize q' = q_maxSegmentSize q"
    and res: "if int (length b) + 8 > q_maxSegmentSize q then r = Inl ErrSegmentFull \<and> B' = B \<and> Bs' = Bs @ [[]]
      else r = Inr () \<and> append_pos q b B Bs = (B', Bs')" by blast
  have B': "B' = B" using res Bs by (auto simp: append_pos_def snoc_last_def split: if_splits)
  have items: "concat Bs' = concat Bs \<or> concat Bs' = concat Bs @ [b] \<and> int (length b) + 8 \<le> q_maxSegmentSize q"
    using res B' k append_pos_items [OF queue_rel_pos [OF rel], of q b Bs B' Bs'] by (auto split: if_splits)
  have "fits q' (concat (B' # Bs'))" using small max B' items by (auto simp: fits_def simp del: set_concat)
  then have "fifo_ok q'" using rel' unfolding fifo_ok_fits by blast
  moreover have "concat Bs' \<noteq> []" using items Bs by (metis append_is_Nil_conv)
  ultimately show ?thesis using run B' k by (simp add: stalled_def queue_rel_front [OF rel'] queue_rel_items [OF rel'])
qed


section \<open>Delays\<close>

lemma SendWrite_config:
  "SendWrite P meta w now n = (r, n') \<Longrightarrow>
   np_RetryInterval n' = np_RetryInterval n \<and> np_RetryMaxInterval n' = np_RetryMaxInterval n"
  by (auto simp: SendWrite_def split: sum.splits bool.splits option.splits prod.splits)

lemma sendingLoop_delay:
  assumes "sendingLoop P meta w slots as now d n = (d', n')" and "0 \<le> np_RetryInterval n"
    and "np_RetryInterval n \<le> d" and "d \<le> np_RetryMaxInterval n"
  shows "np_RetryInterval n' \<le> d' \<and> d' \<le> np_RetryMaxInterval n' \<and>
     np_RetryInterval n' = np_RetryInterval n \<and> np_RetryMaxInterval n' = np_RetryMaxInterval n"
proof (cases "slots > 0 \<and> \<not> concurrencyAllow slots as")
  case True
  with assms show ?thesis by (auto simp: sendingLoop_def)
next
  case False
  obtain r n1 where send: "SendWrite P meta w now n = (r, n1)" by fastforce
  note cfg = SendWrite_config [OF send]
  from assms(1) False send have "n' = n1" "d' = np_RetryInterval n1 \<or> d' = min (2 * d) (np_RetryMaxInterval n1)"
    by (auto simp: sendingLoop_def split: sum.splits go_error.splits)
  with cfg assms(2-4) show ?thesis by auto
qed

text \<open>The loop of \<^verbatim>\<open>run\<close> over a sequence of events, each with its time and the answers it gets.\<close>

fun run_loop ::
  "'p models_lib \<Rightarrow> int \<Rightarrow> ('p attempt \<times> run_event) list \<Rightarrow> duration \<times> NodeProcessor \<Rightarrow> (duration \<times> NodeProcessor) option" where
  "run_loop P slots [] st = Some st"
| "run_loop P slots (((meta, w, now), ev) # evs) st =
     (case run_step P meta w slots now ev st of None \<Rightarrow> None | Some st \<Rightarrow> run_loop P slots evs st)"


section \<open>The service\<close>

text \<open>The hints that a service holds for a node: none when it has neither a processor nor a directory.\<close>

definition owner_hints :: "'p models_lib \<Rightarrow> u64 \<Rightarrow> hh_Service \<Rightarrow> (u64 \<times> 'p list) list \<Rightarrow> bool" where
  "owner_hints P k s hs \<longleftrightarrow>
     (case map_of (sv_processors s) k of
        None \<Rightarrow> hs = [] \<and> map_of (sv_root s) (pathforNode k) = None
      | Some n \<Rightarrow> np_with fifo_ok n \<and> np_hints P n hs)"

definition owner_ids_left :: "u64 \<Rightarrow> hh_Service \<Rightarrow> bool" where
  "owner_ids_left k s \<longleftrightarrow>
     (case map_of (sv_processors s) k of
        None \<Rightarrow> True
      | Some n \<Rightarrow> (case np_queue n of None \<Rightarrow> True | Some q \<Rightarrow> ids_left q))"

lemma WriteShard_hints:
  assumes n: "np_with fifo_ok n" and hints: "np_hints P n hs" and q: "np_queue n = Some q" and ids: "ids_left q"
  shows "\<exists>r n'. NodeProcessor_WriteShard P now i ps n = (r, n') \<and> np_with fifo_ok n' \<and>
     np_hints P n' (if r = Inr () then hs @ [(i, ps)] else hs)"
proof -
  let ?b = "marshalWrite P i ps"
  have ok: "fifo_ok q" "np_done n" using n q by (auto simp: np_with_def)
  from append_fifo [OF ok(1) ids marshalWrite_nonempty [of P i ps], of now] obtain r q' where
    "Queue_Append now ?b q = (r, q')" "fifo_ok q'" "queue_items q' = (if r = Inr () then queue_items q @ [?b] else queue_items q)"
    by (fastforce split: if_splits)
  with ok hints q show ?thesis
    by (auto simp: NodeProcessor_WriteShard_def on_queue_def np_with_def np_hints_def np_items_def Let_def)
qed

lemma open_processor_new:
  assumes "map_of (sv_root s) (pathforNode k) = None"
  shows "\<exists>n. open_processor now k s = (Inr (), put_processor k n s) \<and> np_with fifo_ok n \<and> np_items n = [] \<and>
     np_queue n = Some (empty_queue now DefaultMaxSize)"
proof -
  let ?n = "(createProcessor k s)\<lparr>np_done := True, np_queue := Some (empty_queue now DefaultMaxSize),
      np_disk := q_dir (empty_queue now DefaultMaxSize)\<rparr>"
  have "NodeProcessor_Open now (createProcessor k s) = (Inr (), ?n)"
    using assms by (simp add: NodeProcessor_Open_def createProcessor_def NewNodeProcessor_def Queue_Open_empty(1))
  with assms show ?thesis by (auto simp: open_processor_def np_with_def np_items_def empty_queue_ok)
qed

text \<open>
  Writing a hint through the service: when it succeeds, the hint is the last one in the queue
  of the node, on disk; when it fails, the queue of the node is as before. Other nodes are not
  affected, and a node without a processor gets one.
\<close>

theorem hh_WriteShard_stores:
  assumes "cfg_Enabled (sv_cfg s)" and hints: "owner_hints P k s hs" and ids: "owner_ids_left k s"
  shows "\<exists>r s'. hh_WriteShard P now i k ps s = (r, s') \<and> owner_hints P k s' (if r = Inr () then hs @ [(i, ps)] else hs) \<and>
     (\<forall>j. j \<noteq> k \<longrightarrow> map_of (sv_processors s') j = map_of (sv_processors s) j)"
proof -
  let ?s = "s\<lparr>sv_WriteShardReq := sv_WriteShardReq s + 1, sv_WriteShardReqPoints := sv_WriteShardReqPoints s + int (length ps)\<rparr>"
  have "\<exists>s1 n q. (case map_of (sv_processors ?s) k of Some _ \<Rightarrow> (Inr (), ?s) | None \<Rightarrow> open_processor now k ?s) = (Inr (), s1) \<and>
      map_of (sv_processors s1) k = Some n \<and> np_with fifo_ok n \<and> np_hints P n hs \<and> np_queue n = Some q \<and> ids_left q \<and>
      (\<forall>j. j \<noteq> k \<longrightarrow> map_of (sv_processors s1) j = map_of (sv_processors s) j)"
  proof (cases "map_of (sv_processors s) k")
    case (Some n)
    with hints ids obtain q where "np_queue n = Some q" "ids_left q" "np_with fifo_ok n" "np_hints P n hs"
      by (auto simp: owner_hints_def owner_ids_left_def np_with_def)
    with Some show ?thesis by auto
  next
    case None
    with hints have hs: "hs = []" "map_of (sv_root s) (pathforNode k) = None" by (auto simp: owner_hints_def)
    with open_processor_new [of ?s k now] None show ?thesis
      by (auto simp: put_processor_def update_conv' np_hints_def ids_left_empty)
  qed
  then obtain s1 n q where s1: "(case map_of (sv_processors ?s) k of Some _ \<Rightarrow> (Inr (), ?s) | None \<Rightarrow> open_processor now k ?s) = (Inr (), s1)"
    and n: "map_of (sv_processors s1) k = Some n" "np_with fifo_ok n" "np_hints P n hs" "np_queue n = Some q" "ids_left q"
    and other: "\<forall>j. j \<noteq> k \<longrightarrow> map_of (sv_processors s1) j = map_of (sv_processors s) j" by blast
  from WriteShard_hints [OF n(2-5), of now i ps] obtain r n' where
    "NodeProcessor_WriteShard P now i ps n = (r, n')" "np_with fifo_ok n'" "np_hints P n' (if r = Inr () then hs @ [(i, ps)] else hs)"
    by blast
  with s1 n(1) other assms(1) show ?thesis
    by (intro exI [of _ r] exI [of _ "put_processor k n' s1"])
      (simp add: hh_WriteShard_def Let_def put_processor_def update_conv' owner_hints_def)
qed

lemma purge_processor_other: "j \<noteq> k \<Longrightarrow> map_of (sv_processors (purge_processor meta now j s)) k = map_of (sv_processors s) k"
  by (simp add: purge_processor_def put_processor_def update_conv' delete_conv' split: option.splits prod.splits sum.splits bool.splits)

lemma LastModified_queue:
  assumes "np_with fifo_ok n"
  shows "\<exists>t n'. NodeProcessor_LastModified n = (Inr t, n') \<and> np_queue n' = np_queue n \<and> np_done n' \<and> np_nodeID n' = np_nodeID n"
proof -
  from assms obtain q B k Bs where q: "np_queue n = Some q" "np_done n" and rel: "queue_rel q B k Bs"
    by (auto simp: np_with_def fifo_ok_def)
  obtain t where t: "q_tail q = Some t" using rel by (auto simp: queue_rel_def)
  with rep_tail [OF rel t] queue_rel_rep [OF rel] obtain bs j where "rep q t bs j" by blast
  from lastModified_eq [OF this] show ?thesis
    using q by (simp add: NodeProcessor_LastModified_def on_queue_def Queue_LastModified_def t)
qed

text \<open>
  Purging inactive processors never touches the queue of a node that the meta client reports
  as existing.
\<close>

theorem purge_keeps_active:
  assumes "map_of (sv_processors s) k = Some n" and "np_with fifo_ok n" and "np_nodeID n = k" and "active meta k"
  shows "\<exists>n'. map_of (sv_processors (purgeInactiveProcessors meta now s)) k = Some n' \<and> np_queue n' = np_queue n \<and> np_done n'"
proof -
  define inv where "inv s \<longleftrightarrow> (\<exists>n'. map_of (sv_processors s) k = Some n' \<and> np_queue n' = np_queue n \<and> np_done n' \<and> np_nodeID n' = k)"
    for s :: hh_Service
  have step: "inv (purge_processor meta now j s)" if i: "inv s" for j s
  proof (cases "j = k")
    case False
    with i show ?thesis by (simp add: inv_def purge_processor_other)
  next
    case True
    from i obtain n' where n': "map_of (sv_processors s) k = Some n'" "np_queue n' = np_queue n" "np_done n'" "np_nodeID n' = k"
      by (auto simp: inv_def)
    then have "np_with fifo_ok n'" using assms(2) by (auto simp: np_with_def)
    from LastModified_queue [OF this] obtain t m where m: "NodeProcessor_LastModified n' = (Inr t, m)" "np_queue m = np_queue n"
      "np_done m" "np_nodeID m = k" using n' by auto
    have "NodeProcessor_Active meta m = Inr True" using Active_cases [of meta m] assms(4) m by auto
    with m n' True show ?thesis by (simp add: inv_def purge_processor_def put_processor_def update_conv')
  qed
  have "inv s" using assms by (auto simp: inv_def np_with_def)
  then have "inv (fold (purge_processor meta now) ks s)" for ks
    by (induction ks arbitrary: s) (simp_all add: step)
  then show ?thesis by (auto simp: purgeInactiveProcessors_def inv_def)
qed

section \<open>Examples\<close>

definition hint_queue :: "byte list \<Rightarrow> queue" where
  "hint_queue b = snd (Queue_Append 2 b (empty_queue 1 1000000))"

lemma hint_queue_rel:
  assumes "b \<noteq> []" and "length b \<le> 1000"
  shows "queue_rel (hint_queue b) [b] 0 []" "flowing (hint_queue b)" "fifo_ok (hint_queue b)" "queue_items (hint_queue b) = [b]"
proof -
  from Queue_Append_rel [OF Queue_Open_empty(2) [of 1 1000000] ids_left_empty assms(1), of 2] assms(2) obtain B Bs where
    rel: "queue_rel (hint_queue b) B 0 Bs" and max: "q_maxSegmentSize (hint_queue b) = 10 * 1024 * 1024"
    and pos: "append_pos (empty_queue 1 1000000) b [] [] = (B, Bs)"
    by (auto simp: hint_queue_def Queue_Open_empty)
  have "B = [b]" "Bs = []" using pos assms(2) by (auto simp: append_pos_def snoc_last_def Queue_Open_empty)
  with rel show rel: "queue_rel (hint_queue b) [b] 0 []" by simp
  have "fits (hint_queue b) (concat [[b]])" using max assms(2) by (simp add: fits_def)
  with rel show "flowing (hint_queue b)" unfolding flowing_def by fastforce
  with rel show "fifo_ok (hint_queue b)" "queue_items (hint_queue b) = [b]" by (simp_all add: flowing_fifo queue_rel_items)
qed

definition processor_on :: "queue \<Rightarrow> NodeProcessor" where
  "processor_on q = (NewNodeProcessor 9 [])\<lparr>np_done := True, np_queue := Some q\<rparr>"

definition example_np :: NodeProcessor where
  "example_np = processor_on (hint_queue (marshalWrite char_points 5 ''a''))"

lemma example_np_ok:
  "np_with fifo_ok example_np" "np_with flowing example_np" "np_hints char_points example_np [(5, ''a'')]" "np_nodeID example_np = 9"
proof -
  have "length (marshalWrite char_points 5 ''a'') \<le> 1000"
    by (simp add: marshalWrite_eq point_lines_def char_points_def string_bytes_def)
  note q = hint_queue_rel [OF marshalWrite_nonempty this]
  show "np_with fifo_ok example_np" "np_with flowing example_np" "np_hints char_points example_np [(5, ''a'')]" "np_nodeID example_np = 9"
    by (simp_all add: example_np_def processor_on_def np_with_def np_hints_def np_items_def q NewNodeProcessor_def)
qed

definition up :: data_node where
  "up k = (Some \<lparr>ni_ID = k, ni_Host = ''h'', ni_TCPHost = ''t''\<rparr>, None)"

definition accepts :: "u64 \<Rightarrow> u64 \<Rightarrow> char list \<Rightarrow> go_error option" where
  "accepts i k ps = None"

theorem handoff_in_order_witness:
  "\<exists>sent rest. [(5, ''a'')] = sent @ rest \<and>
     np_hints char_points (snd (send_run char_points [(up, accepts, 3)] example_np)) rest"
  using handoff_in_order [OF char_points_ok example_np_ok(1,3) prod.collapse [symmetric], of "[(up, accepts, 3)]"] by blast

theorem handoff_drains_witness:
  "\<exists>rs n'. send_run char_points [(up, accepts, 3)] example_np = (rs, n') \<and> np_items n' = []"
  using handoff_drains [OF char_points_ok example_np_ok(2,3), of "[(up, accepts, 3)]"]
  by (auto simp: up_def accepts_def active_def)

text \<open>A queue with segments of 20 bytes that stalls after a block was taken and another one added.\<close>

definition example_stalled :: queue where
  "example_stalled =
     snd (Queue_Append 4 [5] (snd (Queue_Advance 3 (snd (Queue_Append 2 [1, 2, 3, 4]
       (snd (Queue_SetMaxSegmentSize 1 20 (snd (Queue_Open 1 (newQueue [] 1000))))))))))"

lemma example_stalled_eq [code]:
  "example_stalled =
     \<lparr>q_dir = [(''1'', Some \<lparr>f_bytes = [0, 0, 0, 0, 0, 0, 0, 4, 1, 2, 3, 4, 0, 0, 0, 0, 0, 0, 0, 12], f_mtime = 3\<rparr>),
               (''2'', Some \<lparr>f_bytes = [0, 0, 0, 0, 0, 0, 0, 1, 5, 0, 0, 0, 0, 0, 0, 0, 0], f_mtime = 4\<rparr>)],
      q_store = [\<lparr>seg_path = ''1'', seg_open = True, seg_off = 20, seg_size = 20, seg_pos = 12, seg_currentSize = 0, seg_maxSize = 20\<rparr>,
                 \<lparr>seg_path = ''2'', seg_open = True, seg_off = 17, seg_size = 17, seg_pos = 0, seg_currentSize = 1, seg_maxSize = 20\<rparr>],
      q_segments = [0, 1], q_nilSegments = False, q_head = Some 0, q_tail = Some 1, q_maxSegmentSize = 20, q_maxSize = 1000\<rparr>"
  by code_simp

lemma example_stalled_ok: "stalled example_stalled"
proof -
  have enc: "PutUint64 (of_int64 4) = [0, 0, 0, 0, 0, 0, 0, 4]" "PutUint64 (of_int64 12) = [0, 0, 0, 0, 0, 0, 0, 12]"
    "PutUint64 (of_int64 1) = [0, 0, 0, 0, 0, 0, 0, 1]" "PutUint64 (of_int64 0) = [0, 0, 0, 0, 0, 0, 0, 0]" by code_simp+
  have rel: "queue_rel example_stalled [[1, 2, 3, 4]] 1 [[[5]]]"
    by (rule queue_relI [of _ 0 "[1]"]) (simp_all add: example_stalled_eq dir_ok_def rep_def seg_inv_def enc_def enc)
  then have "fifo_ok example_stalled" by (rule fifo_okI) (simp add: example_stalled_eq)
  then show ?thesis by (simp add: stalled_def queue_rel_front [OF rel] queue_rel_items [OF rel])
qed



theorem hh_WriteShard_stores_witness:
  "\<exists>r s'. hh_WriteShard char_points 3 5 9 ''a'' (hh_NewService (hh_NewConfig\<lparr>cfg_Enabled := True\<rparr>) []) = (r, s') \<and>
     owner_hints char_points 9 s' (if r = Inr () then [(5, ''a'')] else [])"
proof -
  let ?s = "hh_NewService (hh_NewConfig\<lparr>cfg_Enabled := True\<rparr>) []"
  have "cfg_Enabled (sv_cfg ?s)" "owner_hints char_points 9 ?s []" "owner_ids_left 9 ?s"
    by (simp_all add: hh_NewService_def owner_hints_def owner_ids_left_def)
  from hh_WriteShard_stores [OF this, of 3 5 "''a''"] show ?thesis unfolding append_Nil by (elim exE conjE) (intro exI conjI)
qed

theorem purge_keeps_active_witness:
  "\<exists>n'. map_of (sv_processors (purgeInactiveProcessors up 100 ((hh_NewService hh_NewConfig [])\<lparr>sv_processors := [(9, example_np)]\<rparr>))) 9
     = Some n' \<and> np_queue n' = np_queue example_np"
  using purge_keeps_active [of "(hh_NewService hh_NewConfig [])\<lparr>sv_processors := [(9, example_np)]\<rparr>" 9 example_np up 100] example_np_ok
  by (auto simp: active_def up_def)

end
