(* ===== verification/RaftLeases.thy ===== *)
theory RaftLeases
  imports Prelude
begin

text \<open>
  \<^verbatim>\<open>raftmeta/cluster_leases.go\<close>: leases by name. Each replica decides with its own clock whether a
  lease has expired, so the time is an argument of every operation.
\<close>

section \<open>Operations\<close>

record Lease =
  l_Name :: string
  l_Expiration :: gtime
  l_Owner :: u64

record ClusterLeases =
  cl_m :: "string \<Rightarrow> Lease option"
  cl_d :: duration

definition NewClusterLeases :: "duration \<Rightarrow> ClusterLeases" where
  "NewClusterLeases d = \<lparr>cl_m = (\<lambda>_. None), cl_d = d\<rparr>"

definition Leases_Get :: "string \<Rightarrow> ClusterLeases \<Rightarrow> Lease option" where
  "Leases_Get name ls = cl_m ls name"

definition ShouldTry :: "gtime \<Rightarrow> string \<Rightarrow> u64 \<Rightarrow> ClusterLeases \<Rightarrow> bool" where
  "ShouldTry now name nodeID ls =
     (case cl_m ls name of
        Some l \<Rightarrow> now > l_Expiration l \<or> l_Owner l = nodeID
      | None \<Rightarrow> True)"

definition lease_expiry :: "int \<Rightarrow> ClusterLeases \<Rightarrow> gtime" where
  "lease_expiry requestTime ls =
     time_Unix (requestTime div 1000) ((requestTime mod 1000) * 1000000) + cl_d ls"

definition Acquire :: "gtime \<Rightarrow> string \<Rightarrow> u64 \<Rightarrow> int \<Rightarrow> ClusterLeases \<Rightarrow> (Lease option \<times> go_error option) \<times> ClusterLeases" where
  "Acquire now name nodeID requestTime ls =
     (let expireTime = lease_expiry requestTime ls
      in if now > expireTime then ((None, Some ErrSkipExpired), ls)
         else
           case cl_m ls name of
             Some l \<Rightarrow>
               if now > l_Expiration l \<or> l_Owner l = nodeID
               then let l = l\<lparr>l_Expiration := expireTime, l_Owner := nodeID\<rparr>
                    in ((Some l, None), ls\<lparr>cl_m := (cl_m ls)(name \<mapsto> l)\<rparr>)
               else ((Some l, Some ErrAcquiredByOther), ls)
           | None \<Rightarrow>
               let l = \<lparr>l_Name = name, l_Expiration = expireTime, l_Owner = nodeID\<rparr>
               in ((Some l, None), ls\<lparr>cl_m := (cl_m ls)(name \<mapsto> l)\<rparr>))"

section \<open>Exclusion\<close>

text \<open>A sequence of requests for leases, each with the local time at which it is applied.\<close>

record lease_request =
  lr_now :: gtime
  lr_name :: string
  lr_node :: u64
  lr_time :: int

fun acquire_all :: "lease_request list \<Rightarrow> ClusterLeases \<Rightarrow> (go_error option) list \<times> ClusterLeases" where
  "acquire_all [] ls = ([], ls)"
| "acquire_all (r # rs) ls =
     (let ((_, e), ls) = Acquire (lr_now r) (lr_name r) (lr_node r) (lr_time r) ls;
          (es, ls) = acquire_all rs ls
      in (e # es, ls))"

lemma Acquire_granted:
  assumes "Acquire now name n rt ls = ((l, None), ls')"
  shows "\<exists>l. cl_m ls' name = Some l \<and> l_Owner l = n \<and> l_Expiration l = lease_expiry rt ls \<and> now \<le> l_Expiration l"
    and "\<And>l0. cl_m ls name = Some l0 \<Longrightarrow> l_Owner l0 = n \<or> l_Expiration l0 < now"
  using assms by (auto simp: Acquire_def Let_def split: if_splits option.splits)

lemma Acquire_keeps:
  assumes "Acquire now name n rt ls = ((r, e), ls')"
  shows "k \<noteq> name \<or> e \<noteq> None \<Longrightarrow> cl_m ls' k = cl_m ls k" and "cl_d ls' = cl_d ls"
  using assms by (auto simp: Acquire_def Let_def split: if_splits option.splits)

text \<open>The lease of a name is held at a time when it has been granted and has not expired.\<close>

definition held :: "string \<Rightarrow> u64 \<Rightarrow> gtime \<Rightarrow> ClusterLeases \<Rightarrow> bool" where
  "held name n t ls \<longleftrightarrow> (\<exists>l. cl_m ls name = Some l \<and> l_Owner l = n \<and> t \<le> l_Expiration l)"

lemma acquire_all_append:
  "acquire_all (rs @ ss) ls =
     (let (es, ls) = acquire_all rs ls; (fs, ls) = acquire_all ss ls in (es @ fs, ls))"
  by (induction rs arbitrary: ls) (simp_all add: Let_def split: prod.splits)

text \<open>Requests of other nodes while a lease is held are refused and leave it held.\<close>

lemma held_kept:
  "held name n T ls \<Longrightarrow> \<forall>r\<in>set rs. lr_name r = name \<longrightarrow> lr_node r \<noteq> n \<and> lr_now r \<le> T \<Longrightarrow>
   acquire_all rs ls = (es, ls') \<Longrightarrow>
   held name n T ls' \<and> list_all2 (\<lambda>r e. lr_name r = name \<longrightarrow> e \<noteq> None) rs es"
proof (induction rs arbitrary: ls es)
  case (Cons r rs)
  obtain x e ls1 where acq: "Acquire (lr_now r) (lr_name r) (lr_node r) (lr_time r) ls = ((x, e), ls1)"
    by (metis prod.collapse)
  from Cons.prems(3) acq obtain es' where es: "es = e # es'" and run: "acquire_all rs ls1 = (es', ls')"
    by (auto split: prod.splits)
  have refused: "lr_name r = name \<Longrightarrow> e \<noteq> None"
  proof
    assume name: "lr_name r = name" and "e = None"
    then show False using Acquire_granted(2) acq Cons.prems(1,2) by (fastforce simp: held_def)
  qed
  have "held name n T ls1"
    using Cons.prems(1) Acquire_keeps(1) [OF acq, of name] refused by (auto simp: held_def)
  from Cons.IH [OF this _ run] Cons.prems(2) refused show ?case by (simp add: es)
qed simp

text \<open>
  (C34) A lease excludes other nodes: after a replica granted a lease, it refuses every request of
  another node for that lease that it applies before the lease expires, whatever requests for
  other leases come in between.
\<close>

theorem lease_exclusive:
  assumes "Acquire t name n rt ls = ((l, None), ls1)"
    and "\<forall>r\<in>set rs. lr_name r = name \<longrightarrow> lr_node r \<noteq> n \<and> lr_now r \<le> lease_expiry rt ls"
    and "acquire_all rs ls1 = (es, ls2)"
  shows "held name n (lease_expiry rt ls) ls2 \<and> list_all2 (\<lambda>r e. lr_name r = name \<longrightarrow> e \<noteq> None) rs es"
  by (rule held_kept [OF _ assms(2,3)]) (use Acquire_granted(1) [OF assms(1)] in \<open>auto simp: held_def\<close>)

definition example_acquire :: "(Lease option \<times> go_error option) \<times> ClusterLeases" where
  "example_acquire = Acquire unix_epoch ''cq'' 1 0 (NewClusterLeases 10)"

theorem lease_exclusive_witness:
  "example_acquire = ((Some \<lparr>l_Name = ''cq'', l_Expiration = unix_epoch + 10, l_Owner = 1\<rparr>, None), snd example_acquire) \<and>
   held ''cq'' 1 (unix_epoch + 10)
     (snd (acquire_all [\<lparr>lr_now = unix_epoch + 5, lr_name = ''cq'', lr_node = 2, lr_time = 0\<rparr>] (snd example_acquire)))"
proof -
  have e: "Acquire unix_epoch ''cq'' 1 0 (NewClusterLeases 10) =
      ((Some \<lparr>l_Name = ''cq'', l_Expiration = unix_epoch + 10, l_Owner = 1\<rparr>, None), snd example_acquire)"
    by (simp add: example_acquire_def Acquire_def NewClusterLeases_def lease_expiry_def time_Unix_def Let_def)
  have exp: "lease_expiry 0 (NewClusterLeases 10) = unix_epoch + 10"
    by (simp add: lease_expiry_def NewClusterLeases_def time_Unix_def)
  let ?rs = "[\<lparr>lr_now = unix_epoch + 5, lr_name = ''cq'', lr_node = 2, lr_time = 0\<rparr>] :: lease_request list"
  have "\<forall>r\<in>set ?rs. lr_name r = ''cq'' \<longrightarrow> lr_node r \<noteq> 1 \<and> lr_now r \<le> lease_expiry 0 (NewClusterLeases 10)"
    unfolding exp by simp
  from lease_exclusive [OF e this prod.collapse [symmetric], unfolded exp] e [folded example_acquire_def]
  show ?thesis by (intro conjI) (assumption, elim conjE)
qed

text \<open>
  Replicas decide with their own clocks: the same request is granted by a replica whose clock is
  ahead and refused by another one.
\<close>

lemma Acquire_depends_on_clock:
  "fst (Acquire (unix_epoch + 11) ''cq'' 2 5 (snd example_acquire)) \<noteq> fst (Acquire (unix_epoch + 10) ''cq'' 2 5 (snd example_acquire))"
  by (simp add: example_acquire_def Acquire_def NewClusterLeases_def lease_expiry_def time_Unix_def Let_def)

end
