(* ===== verification/MetaData.thy ===== *)
theory MetaData
  imports Influx
begin

text \<open>
  \<^verbatim>\<open>services/meta/data.go\<close>: the metadata of a cluster. The struct \<^verbatim>\<open>Data\<close> embeds the
  imported \<^verbatim>\<open>meta.Data\<close> (field \<open>meta_Data\<close>) and adds the nodes. Every method is a function
  from the data to its result and the data after the call; the data after a failed call is what
  the code leaves behind, changed or not.
\<close>

record 'x Data =
  meta_Data :: "'x MetaData"
  MetaNodes :: "NodeInfo list"
  DataNodes :: "NodeInfo list"
  FreezedDataNodes :: "u64 list"
  MaxNodeID :: u64

abbreviation Databases :: "'x Data \<Rightarrow> DatabaseInfo list" where
  "Databases d \<equiv> md_Databases (meta_Data d)"

definition set_Databases :: "DatabaseInfo list \<Rightarrow> 'x Data \<Rightarrow> 'x Data" where
  "set_Databases dbs d = d\<lparr>meta_Data := (meta_Data d)\<lparr>md_Databases := dbs\<rparr>\<rparr>"

section \<open>Nodes\<close>

definition Data_DataNode :: "u64 \<Rightarrow> 'x Data \<Rightarrow> NodeInfo option" where
  "Data_DataNode nid d = find (\<lambda>n. ni_ID n = nid) (DataNodes d)"

definition Data_CreateDataNode ::
    "'x influx_lib \<Rightarrow> string \<Rightarrow> string \<Rightarrow> 'x Data \<Rightarrow> (go_error + u64) \<times> 'x Data" where
  "Data_CreateDataNode L host tcpHost d =
     (if list_ex (\<lambda>n. ni_TCPHost n = tcpHost \<or> ni_Host n = host) (DataNodes d)
      then (Inl ErrNodeExists, d)
      else
        let existingID = (case find (\<lambda>n. ni_TCPHost n = tcpHost \<or> ni_Host n = host) (MetaNodes d) of
                            None \<Rightarrow> 0 | Some n \<Rightarrow> ni_ID n);
            (existingID, d) =
              (if existingID = 0 then (MaxNodeID d + 1, d\<lparr>MaxNodeID := MaxNodeID d + 1\<rparr>)
               else (existingID, d));
            node = \<lparr>ni_ID = existingID, ni_Host = host, ni_TCPHost = tcpHost\<rparr>
        in (Inr existingID,
            d\<lparr>DataNodes := go_sort (NodeInfos_Less L) (DataNodes d @ [node])\<rparr>))"

definition existInNodes :: "NodeInfo list \<Rightarrow> u64 \<Rightarrow> NodeInfo option" where
  "existInNodes nodes nid = find (\<lambda>n. ni_ID n = nid) nodes"

fun getFreezed_from :: "nat \<Rightarrow> u64 list \<Rightarrow> u64 \<Rightarrow> int" where
  "getFreezed_from i [] nid = -1"
| "getFreezed_from i (n # ns) nid = (if n = nid then int i else getFreezed_from (Suc i) ns nid)"

definition getFreezed :: "u64 list \<Rightarrow> u64 \<Rightarrow> int" where
  "getFreezed freezed nid = getFreezed_from 0 freezed nid"

definition Data_UnfreezeDataNode :: "u64 \<Rightarrow> 'x Data \<Rightarrow> go_error option \<times> 'x Data" where
  "Data_UnfreezeDataNode nid d =
     (if nid = 0 then (Some ErrNodeIDRequired, d)
      else if existInNodes (DataNodes d) nid = None then (Some ErrNodeNotFound, d)
      else
        let i = getFreezed (FreezedDataNodes d) nid
        in if i = -1 then (Some ErrNodeNotFreezed, d)
           else (None, d\<lparr>FreezedDataNodes := remove_at (nat i) (FreezedDataNodes d)\<rparr>))"

definition Data_IsFreezeDataNode :: "u64 \<Rightarrow> 'x Data \<Rightarrow> bool" where
  "Data_IsFreezeDataNode nid d = (getFreezed (FreezedDataNodes d) nid > -1)"

definition Data_FreezeDataNode :: "u64 \<Rightarrow> 'x Data \<Rightarrow> go_error option \<times> 'x Data" where
  "Data_FreezeDataNode nid d =
     (if nid = 0 then (Some ErrNodeIDRequired, d)
      else if existInNodes (DataNodes d) nid = None then (Some ErrNodeNotFound, d)
      else if getFreezed (FreezedDataNodes d) nid > -1 then (Some ErrNodeAlreadyFreezed, d)
      else (None, d\<lparr>FreezedDataNodes := FreezedDataNodes d @ [nid]\<rparr>))"

section \<open>Deleting a data node\<close>

text \<open>
  A Go map from node IDs to counts is an association list in the order its keys were inserted.
  \<^verbatim>\<open>newShardOwner\<close> ranges over it in an unspecified order; its result does not depend on that
  order (\<open>newShardOwner_perm\<close>).
\<close>

type_synonym freqs = "(u64 \<times> int) list"

fun freq_incr :: "u64 \<Rightarrow> freqs \<Rightarrow> freqs" where
  "freq_incr k [] = [(k, 1)]"
| "freq_incr k ((k', n) # fs) = (if k' = k then (k', n + 1) # fs else (k', n) # freq_incr k fs)"

definition freq_delete :: "u64 \<Rightarrow> freqs \<Rightarrow> freqs" where
  "freq_delete k fs = filter (\<lambda>(k', n). k' \<noteq> k) fs"

definition owner_less :: "u64 \<times> int \<Rightarrow> u64 \<times> int \<Rightarrow> bool" where
  "owner_less a b = (if snd a \<noteq> snd b then snd a < snd b else fst a < fst b)"

definition newShardOwner :: "freqs \<Rightarrow> u64" where
  "newShardOwner fs = (case go_sort owner_less fs of [] \<Rightarrow> 0 | a # _ \<Rightarrow> fst a)"

text \<open>One shard: count its owners, remember the last position of the deleted node.\<close>

fun scan_owners :: "u64 \<Rightarrow> nat \<Rightarrow> ShardOwner list \<Rightarrow> int \<Rightarrow> freqs \<Rightarrow> int \<times> freqs" where
  "scan_owners nid i [] nodeIdx fs = (nodeIdx, fs)"
| "scan_owners nid i (ow # ows) nodeIdx fs =
     scan_owners nid (Suc i) ows (if so_NodeID ow = nid then int i else nodeIdx)
       (freq_incr (so_NodeID ow) fs)"

definition relinquish :: "u64 \<Rightarrow> ShardInfo \<Rightarrow> freqs \<Rightarrow> ShardInfo \<times> freqs" where
  "relinquish nid s fs =
     (let (nodeIdx, fs) = scan_owners nid 0 (si_Owners s) (-1) fs
      in (if nodeIdx > -1 then s\<lparr>si_Owners := remove_at (nat nodeIdx) (si_Owners s)\<rparr> else s, fs))"

text \<open>All shards of a group: the shards after the loop, the counts and the orphaned shards.\<close>

fun scan_shards :: "u64 \<Rightarrow> ShardInfo list \<Rightarrow> freqs \<Rightarrow> ShardInfo list \<times> freqs \<times> ShardInfo list" where
  "scan_shards nid [] fs = ([], fs, [])"
| "scan_shards nid (s # ss) fs =
     (let (s', fs) = relinquish nid s fs;
          (ss', fs, orphans) = scan_shards nid ss fs
      in (s' # ss', fs, (if si_Owners s' = [] then s' # orphans else orphans)))"

definition append_owner :: "u64 \<Rightarrow> ShardInfo \<Rightarrow> ShardInfo" where
  "append_owner nid s = s\<lparr>si_Owners := si_Owners s @ [\<lparr>so_NodeID = nid\<rparr>]\<rparr>"

fun reassign :: "ShardInfo list \<Rightarrow> ShardInfo list \<Rightarrow> freqs \<Rightarrow> go_error option \<times> ShardInfo list" where
  "reassign [] shards fs = (None, shards)"
| "reassign (orphan # orphans) shards fs =
     (let newOwnerID = newShardOwner fs
      in if newOwnerID = 0 then (Some (Errorf (''No node can be reassigned to '' @ FormatUint (unat (si_ID orphan)))), shards)
         else
           (case upd_first (\<lambda>s. if si_ID s = si_ID orphan then Some (append_owner newOwnerID s) else None)
                   shards of
              None \<Rightarrow> reassign orphans shards fs
            | Some shards' \<Rightarrow> reassign orphans shards' (freq_incr newOwnerID fs)))"

definition drop_node_group :: "gtime \<Rightarrow> u64 \<Rightarrow> ShardGroupInfo \<Rightarrow> go_error option \<times> ShardGroupInfo" where
  "drop_node_group now nid sg =
     (let (shards, fs, orphans) = scan_shards nid (sg_Shards sg) []
      in if length shards = 0 \<or> length orphans = length shards
         then (None, sg\<lparr>sg_Shards := shards, sg_DeletedAt := now\<rparr>)
         else
           let (err, shards) = reassign orphans shards (freq_delete nid fs)
           in (err, sg\<lparr>sg_Shards := shards\<rparr>))"

text \<open>
  A loop that updates the elements of a slice in place and returns at the first error: the
  elements after it are left as they are.
\<close>

fun map_until_err :: "('a \<Rightarrow> 'e option \<times> 'a) \<Rightarrow> 'a list \<Rightarrow> 'e option \<times> 'a list" where
  "map_until_err f [] = (None, [])"
| "map_until_err f (x # xs) =
     (case f x of
        (Some e, y) \<Rightarrow> (Some e, y # xs)
      | (None, y) \<Rightarrow> (let (err, ys) = map_until_err f xs in (err, y # ys)))"

definition drop_node_rp :: "gtime \<Rightarrow> u64 \<Rightarrow> RetentionPolicyInfo \<Rightarrow> go_error option \<times> RetentionPolicyInfo" where
  "drop_node_rp now nid rp =
     (let (err, sgs) = map_until_err (drop_node_group now nid) (rp_ShardGroups rp)
      in (err, rp\<lparr>rp_ShardGroups := sgs\<rparr>))"

definition drop_node_db :: "gtime \<Rightarrow> u64 \<Rightarrow> DatabaseInfo \<Rightarrow> go_error option \<times> DatabaseInfo" where
  "drop_node_db now nid db =
     (let (err, rps) = map_until_err (drop_node_rp now nid) (db_RetentionPolicies db)
      in (err, db\<lparr>db_RetentionPolicies := rps\<rparr>))"

definition Data_DeleteDataNode :: "gtime \<Rightarrow> u64 \<Rightarrow> 'x Data \<Rightarrow> go_error option \<times> 'x Data" where
  "Data_DeleteDataNode now nid d =
     (if nid = 0 then (Some ErrNodeIDRequired, d)
      else
        let nodes = filter (\<lambda>n. ni_ID n \<noteq> nid) (DataNodes d)
        in if length nodes = length (DataNodes d) then (Some ErrNodeNotFound, d)
           else
             let d = d\<lparr>DataNodes := nodes\<rparr>;
                 (err, dbs) = map_until_err (drop_node_db now nid) (Databases d);
                 d = set_Databases dbs d
             in if err \<noteq> None then (err, d)
                else
                  let i = getFreezed (FreezedDataNodes d) nid
                  in (None, if i > -1 then d\<lparr>FreezedDataNodes := remove_at (nat i) (FreezedDataNodes d)\<rparr>
                            else d))"

section \<open>Meta nodes\<close>

definition Data_MetaNode :: "u64 \<Rightarrow> 'x Data \<Rightarrow> NodeInfo option" where
  "Data_MetaNode nid d = find (\<lambda>n. ni_ID n = nid) (MetaNodes d)"

definition Data_CreateMetaNode ::
    "'x influx_lib \<Rightarrow> string \<Rightarrow> string \<Rightarrow> 'x Data \<Rightarrow> (go_error + u64) \<times> 'x Data" where
  "Data_CreateMetaNode L httpAddr tcpAddr d =
     (if list_ex (\<lambda>n. ni_Host n = httpAddr) (MetaNodes d) then (Inl ErrNodeExists, d)
      else
        let existingID = (case find (\<lambda>n. ni_TCPHost n = tcpAddr) (DataNodes d) of
                            None \<Rightarrow> 0 | Some n \<Rightarrow> ni_ID n);
            (existingID, d) =
              (if existingID = 0 then (MaxNodeID d + 1, d\<lparr>MaxNodeID := MaxNodeID d + 1\<rparr>)
               else (existingID, d));
            node = \<lparr>ni_ID = existingID, ni_Host = httpAddr, ni_TCPHost = tcpAddr\<rparr>
        in (Inr existingID,
            d\<lparr>MetaNodes := go_sort (NodeInfos_Less L) (MetaNodes d @ [node])\<rparr>))"

definition Data_DeleteMetaNode :: "u64 \<Rightarrow> 'x Data \<Rightarrow> go_error option \<times> 'x Data" where
  "Data_DeleteMetaNode nid d =
     (if nid = 0 then (Some ErrNodeIDRequired, d)
      else
        let nodes = filter (\<lambda>n. ni_ID n \<noteq> nid) (MetaNodes d)
        in if length nodes = length (MetaNodes d) then (Some ErrNodeNotFound, d)
           else (None, d\<lparr>MetaNodes := nodes\<rparr>))"

section \<open>Copies\<close>

definition cloneNodes :: "NodeInfo list \<Rightarrow> NodeInfo list" where
  "cloneNodes src = (if length src = 0 then [] else map (\<lambda>i. src ! i) [0..<length src])"

definition Data_Clone :: "'x influx_lib \<Rightarrow> 'x Data \<Rightarrow> 'x Data" where
  "Data_Clone L d =
     d\<lparr>meta_Data := (meta_Data d)\<lparr>md_Databases := CloneDatabases L (meta_Data d),
                                  md_Users := CloneUsers L (meta_Data d)\<rparr>,
       DataNodes := cloneNodes (DataNodes d),
       MetaNodes := cloneNodes (MetaNodes d),
       FreezedDataNodes := map (\<lambda>i. FreezedDataNodes d ! i) [0..<length (FreezedDataNodes d)]\<rparr>"

section \<open>Binary form\<close>

text \<open>
  The binary form is the JSON encoding of \<^verbatim>\<open>DataJson\<close>, whose first field is the imported
  package's own binary form. \<^verbatim>\<open>UnmarshalBinary\<close> drops the error of \<^verbatim>\<open>unmarshal\<close>.
\<close>

record DataJson =
  js_Data :: "byte list"
  js_MetaNodes :: "NodeInfo list"
  js_DataNodes :: "NodeInfo list"
  js_MaxNodeID :: u64
  js_FreezedDataNodes :: "u64 list"

record 'x codec =
  md_MarshalBinary :: "'x MetaData \<Rightarrow> go_error + byte list"
  md_UnmarshalBinary :: "byte list \<Rightarrow> 'x MetaData \<Rightarrow> go_error option \<times> 'x MetaData"
  json_Marshal :: "DataJson \<Rightarrow> go_error + byte list"
  json_Unmarshal :: "byte list \<Rightarrow> go_error + DataJson"

definition Data_marshal :: "'x codec \<Rightarrow> 'x Data \<Rightarrow> go_error + byte list" where
  "Data_marshal C d =
     (case md_MarshalBinary C (meta_Data d) of
        Inl e \<Rightarrow> Inl e
      | Inr b \<Rightarrow> json_Marshal C \<lparr>js_Data = b, js_MetaNodes = MetaNodes d, js_DataNodes = DataNodes d,
                    js_MaxNodeID = MaxNodeID d, js_FreezedDataNodes = FreezedDataNodes d\<rparr>)"

definition Data_unmarshal :: "'x codec \<Rightarrow> byte list \<Rightarrow> 'x Data \<Rightarrow> go_error option \<times> 'x Data" where
  "Data_unmarshal C buf d =
     (case json_Unmarshal C buf of
        Inl e \<Rightarrow> (Some e, d)
      | Inr js \<Rightarrow>
          let d = d\<lparr>MetaNodes := js_MetaNodes js, DataNodes := js_DataNodes js,
                    MaxNodeID := js_MaxNodeID js, FreezedDataNodes := js_FreezedDataNodes js\<rparr>;
              (err, m) = md_UnmarshalBinary C (js_Data js) (meta_Data d)
          in (err, d\<lparr>meta_Data := m\<rparr>))"

definition Data_MarshalBinary :: "'x codec \<Rightarrow> 'x Data \<Rightarrow> go_error + byte list" where
  "Data_MarshalBinary C d = Data_marshal C d"

definition Data_UnmarshalBinary :: "'x codec \<Rightarrow> byte list \<Rightarrow> 'x Data \<Rightarrow> go_error option \<times> 'x Data" where
  "Data_UnmarshalBinary C buf d = (None, snd (Data_unmarshal C buf d))"

section \<open>Shard groups\<close>

definition availableNodes :: "'x Data \<Rightarrow> NodeInfo list" where
  "availableNodes d = filter (\<lambda>n. ni_ID n \<notin> set (FreezedDataNodes d)) (DataNodes d)"

definition replica_count :: "int \<Rightarrow> nat \<Rightarrow> int" where
  "replica_count replicaN avail =
     (if replicaN = 0 then 1 else if replicaN > int avail then int avail else replicaN)"

fun new_shards :: "nat \<Rightarrow> u64 \<Rightarrow> ShardInfo list \<times> u64" where
  "new_shards 0 maxID = ([], maxID)"
| "new_shards (Suc n) maxID =
     (let (ss, m) = new_shards n (maxID + 1) in (\<lparr>si_ID = maxID + 1, si_Owners = []\<rparr> # ss, m))"

fun pick_owners :: "NodeInfo list \<Rightarrow> nat \<Rightarrow> nat \<Rightarrow> ShardOwner list \<Rightarrow> ShardOwner list \<times> nat" where
  "pick_owners nodes nodeIndex 0 owners = (owners, nodeIndex)"
| "pick_owners nodes nodeIndex (Suc j) owners =
     pick_owners nodes (Suc nodeIndex) j
       (owners @ [\<lparr>so_NodeID = ni_ID (nodes ! (nodeIndex mod length nodes))\<rparr>])"

fun assign_owners :: "NodeInfo list \<Rightarrow> nat \<Rightarrow> nat \<Rightarrow> ShardInfo list \<Rightarrow> ShardInfo list" where
  "assign_owners nodes nodeIndex replicaN [] = []"
| "assign_owners nodes nodeIndex replicaN (s # ss) =
     (let (owners, nodeIndex) = pick_owners nodes nodeIndex replicaN (si_Owners s)
      in s\<lparr>si_Owners := owners\<rparr> # assign_owners nodes nodeIndex replicaN ss)"

definition group_times :: "'x influx_lib \<Rightarrow> gtime \<Rightarrow> duration \<Rightarrow> gtime \<times> gtime" where
  "group_times L timestamp dur =
     (let start = time_Truncate timestamp dur;
          stop = start + dur
      in (start, if stop > time_Unix 0 (MaxNanoTime L) then time_Unix 0 (MaxNanoTime L + 1) else stop))"

definition Data_CreateShardGroup ::
    "'x influx_lib \<Rightarrow> string \<Rightarrow> string \<Rightarrow> gtime \<Rightarrow> 'x Data \<Rightarrow> go_error option \<times> 'x Data" where
  "Data_CreateShardGroup L database policy timestamp d =
     (if length (DataNodes d) = 0 then (Some ErrNodeNotFound, d)
      else
        case RetentionPolicy L (meta_Data d) database policy of
          Inl e \<Rightarrow> (Some e, d)
        | Inr None \<Rightarrow> (Some (ErrRetentionPolicyNotFound L policy), d)
        | Inr (Some p) \<Rightarrow>
            let rpi = rp_get (meta_Data d) p
            in if ShardGroupByTimestamp L rpi timestamp \<noteq> None then (None, d)
               else
                 let nodes = availableNodes d;
                     replicaN = replica_count (rp_ReplicaN rpi) (length nodes)
                 in if replicaN < 1 then (Some (Errorf ''No replica can be assigned''), d)
                    else
                      let shardN = length nodes div nat replicaN;
                          m = (meta_Data d)\<lparr>md_MaxShardGroupID := md_MaxShardGroupID (meta_Data d) + 1\<rparr>;
                          (start, stop) = group_times L timestamp (rp_ShardGroupDuration rpi);
                          (shards, maxShardID) = new_shards shardN (md_MaxShardID m);
                          m = m\<lparr>md_MaxShardID := maxShardID\<rparr>
                      in if nodes = []
                         then (Some (Panic ''integer divide by zero''), d\<lparr>meta_Data := m\<rparr>)
                         else
                           let nodeIndex = unat (md_Index m mod of_nat (length nodes));
                               sgi = \<lparr>sg_ID = md_MaxShardGroupID m, sg_StartTime = start, sg_EndTime = stop,
                                      sg_DeletedAt = 0,
                                      sg_Shards = assign_owners nodes nodeIndex (nat replicaN) shards,
                                      sg_TruncatedAt = 0\<rparr>;
                               rpi = rpi\<lparr>rp_ShardGroups :=
                                       go_sort (ShardGroupInfos_Less L) (rp_ShardGroups rpi @ [sgi])\<rparr>
                           in (None, d\<lparr>meta_Data := rp_set p rpi m\<rparr>))"

definition add_owner :: "u64 \<Rightarrow> u64 \<Rightarrow> ShardInfo \<Rightarrow> ShardInfo option" where
  "add_owner sid nid s =
     (if si_ID s = sid
      then Some (if list_ex (\<lambda>ow. so_NodeID ow = nid) (si_Owners s) then s else append_owner nid s)
      else None)"

definition remove_owner :: "u64 \<Rightarrow> u64 \<Rightarrow> ShardInfo \<Rightarrow> ShardInfo option" where
  "remove_owner sid nid s =
     (if si_ID s = sid
      then Some (s\<lparr>si_Owners := filter (\<lambda>ow. so_NodeID ow \<noteq> nid) (si_Owners s)\<rparr>)
      else None)"

text \<open>The nested loops over databases, policies, groups and shards that stop at the first hit.\<close>

definition upd_sg :: "(ShardInfo \<Rightarrow> ShardInfo option) \<Rightarrow> ShardGroupInfo \<Rightarrow> ShardGroupInfo option" where
  "upd_sg f sg = map_option (\<lambda>ss. sg\<lparr>sg_Shards := ss\<rparr>) (upd_first f (sg_Shards sg))"

definition upd_rp :: "(ShardInfo \<Rightarrow> ShardInfo option) \<Rightarrow> RetentionPolicyInfo \<Rightarrow> RetentionPolicyInfo option" where
  "upd_rp f rp = map_option (\<lambda>sgs. rp\<lparr>rp_ShardGroups := sgs\<rparr>) (upd_first (upd_sg f) (rp_ShardGroups rp))"

definition upd_db :: "(ShardInfo \<Rightarrow> ShardInfo option) \<Rightarrow> DatabaseInfo \<Rightarrow> DatabaseInfo option" where
  "upd_db f db =
     map_option (\<lambda>rps. db\<lparr>db_RetentionPolicies := rps\<rparr>) (upd_first (upd_rp f) (db_RetentionPolicies db))"

definition Data_AddShardOwner :: "u64 \<Rightarrow> u64 \<Rightarrow> 'x Data \<Rightarrow> 'x Data" where
  "Data_AddShardOwner sid nid d =
     (case upd_first (upd_db (add_owner sid nid)) (Databases d) of
        None \<Rightarrow> d | Some dbs \<Rightarrow> set_Databases dbs d)"

definition Data_RemoveShardOwner :: "u64 \<Rightarrow> u64 \<Rightarrow> 'x Data \<Rightarrow> 'x Data" where
  "Data_RemoveShardOwner sid nid d =
     (case upd_first (upd_db (remove_owner sid nid)) (Databases d) of
        None \<Rightarrow> d | Some dbs \<Rightarrow> set_Databases dbs d)"

definition Data_DeleteShardGroup ::
    "'x influx_lib \<Rightarrow> string \<Rightarrow> string \<Rightarrow> u64 \<Rightarrow> gtime \<Rightarrow> 'x Data \<Rightarrow> go_error option \<times> 'x Data" where
  "Data_DeleteShardGroup L database policy gid t d =
     (case RetentionPolicy L (meta_Data d) database policy of
        Inl e \<Rightarrow> (Some e, d)
      | Inr None \<Rightarrow> (Some (ErrRetentionPolicyNotFound L policy), d)
      | Inr (Some p) \<Rightarrow>
          let rpi = rp_get (meta_Data d) p
          in (case upd_first (\<lambda>g. if sg_ID g = gid then Some (g\<lparr>sg_DeletedAt := t\<rparr>) else None)
                     (rp_ShardGroups rpi) of
                None \<Rightarrow> (Some (ErrShardGroupNotFound L), d)
              | Some sgs \<Rightarrow>
                  (None, d\<lparr>meta_Data := rp_set p (rpi\<lparr>rp_ShardGroups := sgs\<rparr>) (meta_Data d)\<rparr>)))"

section \<open>An example\<close>

definition example_data :: "unit Data" where
  "example_data =
     \<lparr>meta_Data = example_meta, MetaNodes = [],
      DataNodes = [\<lparr>ni_ID = 1, ni_Host = ''h1'', ni_TCPHost = ''t1''\<rparr>,
                   \<lparr>ni_ID = 2, ni_Host = ''h2'', ni_TCPHost = ''t2''\<rparr>,
                   \<lparr>ni_ID = 3, ni_Host = ''h3'', ni_TCPHost = ''t3''\<rparr>],
      FreezedDataNodes = [1], MaxNodeID = 3\<rparr>"

end
