(* ===== verification/MetaDelete.thy ===== *)
theory MetaDelete
  imports MetaData
begin

text \<open>
  Removing a data node (\<^verbatim>\<open>DeleteDataNode\<close>, \<^verbatim>\<open>newShardOwner\<close> of
  \<^verbatim>\<open>services/meta/data.go\<close>): the loops are shown equal to a filter of the owners followed by
  an assignment of the orphaned shards, from which the contract \<open>dropped\<close> of a shard group
  follows. \<open>wf_group\<close> is what the loops rely on.
\<close>

definition owner_ids :: "ShardInfo \<Rightarrow> u64 list" where
  "owner_ids s = map so_NodeID (si_Owners s)"

definition all_groups :: "'x MetaData \<Rightarrow> ShardGroupInfo list" where
  "all_groups m = concat (map (\<lambda>db. concat (map rp_ShardGroups (db_RetentionPolicies db))) (md_Databases m))"

definition all_shards :: "'x MetaData \<Rightarrow> ShardInfo list" where
  "all_shards m = concat (map sg_Shards (all_groups m))"

definition wf_shard :: "ShardInfo \<Rightarrow> bool" where
  "wf_shard s \<longleftrightarrow> distinct (owner_ids s) \<and> 0 \<notin> set (owner_ids s)"

definition wf_group :: "ShardGroupInfo \<Rightarrow> bool" where
  "wf_group g \<longleftrightarrow> distinct (map si_ID (sg_Shards g)) \<and> (\<forall>s\<in>set (sg_Shards g). wf_shard s)"

definition group_owners :: "ShardGroupInfo \<Rightarrow> u64 set" where
  "group_owners g = (\<Union>s\<in>set (sg_Shards g). set (owner_ids s))"

text \<open>
  The contract of removing a node from a group: the group is marked deleted when no other node
  owns a shard of it; otherwise every shard keeps its other owners, and a shard without other
  owners gets one new owner, a node that owns a shard of the group.
\<close>

definition dropped_shard :: "u64 \<Rightarrow> u64 set \<Rightarrow> ShardInfo \<Rightarrow> ShardInfo \<Rightarrow> bool" where
  "dropped_shard nid cands s s' \<longleftrightarrow> si_ID s' = si_ID s \<and>
     (if set (owner_ids s) \<subseteq> {nid} then (\<exists>k\<in>cands. owner_ids s' = [k])
      else owner_ids s' = filter (\<lambda>k. k \<noteq> nid) (owner_ids s))"

definition dropped :: "gtime \<Rightarrow> u64 \<Rightarrow> ShardGroupInfo \<Rightarrow> ShardGroupInfo \<Rightarrow> bool" where
  "dropped now nid g g' \<longleftrightarrow>
     sg_ID g' = sg_ID g \<and> sg_StartTime g' = sg_StartTime g \<and> sg_EndTime g' = sg_EndTime g \<and>
     sg_TruncatedAt g' = sg_TruncatedAt g \<and> nid \<notin> group_owners g' \<and>
     (if group_owners g \<subseteq> {nid}
      then sg_DeletedAt g' = now \<and>
           list_all2 (\<lambda>s s'. si_ID s' = si_ID s \<and> owner_ids s' = []) (sg_Shards g) (sg_Shards g')
      else sg_DeletedAt g' = sg_DeletedAt g \<and>
           list_all2 (dropped_shard nid (group_owners g - {nid})) (sg_Shards g) (sg_Shards g'))"

section \<open>The order of candidates\<close>

interpretation owner_order: sort_order owner_less
  by unfold_locales (auto simp: owner_less_def split: if_splits)

lemma owner_less_total: "a = b \<or> owner_less a b \<or> owner_less b a"
  by (cases a, cases b) (auto simp: owner_less_def)

lemma newShardOwner_hd: "fs \<noteq> [] \<Longrightarrow> newShardOwner fs = fst (hd (go_sort owner_less fs))"
  using length_go_sort [of owner_less fs]
  by (cases "go_sort owner_less fs") (auto simp: newShardOwner_def)

lemma newShardOwner_in: "fs \<noteq> [] \<Longrightarrow> newShardOwner fs \<in> fst ` set fs"
  using owner_order.go_sort_hd [of fs] by (simp add: newShardOwner_hd)

section \<open>Counting owners\<close>

definition freq :: "freqs \<Rightarrow> u64 \<Rightarrow> int" where
  "freq fs k = (case map_of fs k of None \<Rightarrow> 0 | Some n \<Rightarrow> n)"

lemma keys_freq_incr [simp]: "fst ` set (freq_incr k fs) = insert k (fst ` set fs)"
  by (induction k fs rule: freq_incr.induct) auto

lemma distinct_freq_incr: "distinct (map fst fs) \<Longrightarrow> distinct (map fst (freq_incr k fs))"
  by (induction k fs rule: freq_incr.induct) auto

lemma freq_freq_incr: "freq (freq_incr k fs) j = freq fs j + (if j = k then 1 else 0)"
  by (induction k fs rule: freq_incr.induct) (auto simp: freq_def)

lemma keys_fold_freq_incr: "fst ` set (fold freq_incr ks fs) = set ks \<union> fst ` set fs"
  by (induction ks arbitrary: fs) auto

lemma distinct_fold_freq_incr:
  "distinct (map fst fs) \<Longrightarrow> distinct (map fst (fold freq_incr ks fs))"
  by (induction ks arbitrary: fs) (auto intro: distinct_freq_incr)

lemma freq_fold_freq_incr: "freq (fold freq_incr ks fs) j = freq fs j + int (count_list ks j)"
  by (induction ks arbitrary: fs) (auto simp: freq_freq_incr)

lemma keys_freq_delete: "fst ` set (freq_delete k fs) = fst ` set fs - {k}"
  by (force simp: freq_delete_def)

section \<open>The loops as filters\<close>

definition drop_owner :: "u64 \<Rightarrow> ShardInfo \<Rightarrow> ShardInfo" where
  "drop_owner nid s = s\<lparr>si_Owners := filter (\<lambda>ow. so_NodeID ow \<noteq> nid) (si_Owners s)\<rparr>"

lemma owner_ids_drop_owner [simp]:
  "owner_ids (drop_owner nid s) = filter (\<lambda>k. k \<noteq> nid) (owner_ids s)"
  by (simp add: owner_ids_def drop_owner_def filter_map comp_def)

lemma si_ID_drop_owner [simp]: "si_ID (drop_owner nid s) = si_ID s"
  by (simp add: drop_owner_def)

lemma owner_ids_append_owner [simp]: "owner_ids (append_owner nid s) = owner_ids s @ [nid]"
  by (simp add: owner_ids_def append_owner_def)

lemma si_ID_append_owner [simp]: "si_ID (append_owner nid s) = si_ID s"
  by (simp add: append_owner_def)

lemma owner_ids_Nil_iff: "owner_ids s = [] \<longleftrightarrow> si_Owners s = []"
  by (simp add: owner_ids_def)

lemma scan_owners_freqs:
  "snd (scan_owners nid i ows ni fs) = fold freq_incr (map so_NodeID ows) fs"
  by (induction nid i ows ni fs rule: scan_owners.induct) auto

lemma scan_owners_absent:
  "nid \<notin> so_NodeID ` set ows \<Longrightarrow> fst (scan_owners nid i ows ni fs) = ni"
  by (induction nid i ows ni fs rule: scan_owners.induct) auto

lemma scan_owners_split:
  "nid \<notin> so_NodeID ` set zs \<Longrightarrow> so_NodeID ow = nid \<Longrightarrow>
   fst (scan_owners nid i (ys @ ow # zs) ni fs) = int (i + length ys)"
  by (induction ys arbitrary: i ni fs) (auto simp: scan_owners_absent)

lemma relinquish_eq:
  assumes "distinct (owner_ids s)"
  shows "relinquish nid s fs = (drop_owner nid s, fold freq_incr (owner_ids s) fs)"
proof (cases "nid \<in> set (owner_ids s)")
  case False
  then have "filter (\<lambda>ow. so_NodeID ow \<noteq> nid) (si_Owners s) = si_Owners s"
    by (auto simp: owner_ids_def intro!: filter_True)
  moreover have "scan_owners nid 0 (si_Owners s) (-1) fs = (-1, fold freq_incr (owner_ids s) fs)"
    using False scan_owners_absent [of nid "si_Owners s" 0 "-1" fs]
      scan_owners_freqs [of nid 0 "si_Owners s" "-1" fs]
    by (simp add: owner_ids_def prod_eq_iff)
  ultimately show ?thesis
    by (simp add: relinquish_def drop_owner_def)
next
  case True
  then obtain ow where "ow \<in> set (si_Owners s)" and ow: "so_NodeID ow = nid"
    by (auto simp: owner_ids_def)
  then obtain ys zs where ows: "si_Owners s = ys @ ow # zs" by (auto dest: split_list)
  with assms ow have *: "nid \<notin> so_NodeID ` set ys" "nid \<notin> so_NodeID ` set zs"
    by (auto simp: owner_ids_def)
  then have "filter (\<lambda>ow. so_NodeID ow \<noteq> nid) ys = ys" "filter (\<lambda>ow. so_NodeID ow \<noteq> nid) zs = zs"
    by (auto simp: filter_id_conv image_iff)
  then have "filter (\<lambda>ow. so_NodeID ow \<noteq> nid) (si_Owners s) = ys @ zs"
    using ow ows by simp
  moreover have "scan_owners nid 0 (si_Owners s) (-1) fs =
      (int (length ys), fold freq_incr (map so_NodeID (si_Owners s)) fs)"
    using scan_owners_split [OF *(2) ow] scan_owners_freqs [of nid 0 "si_Owners s" "-1" fs]
    by (simp add: ows prod_eq_iff)
  moreover have "remove_at (length ys) (si_Owners s) = ys @ zs"
    by (simp only: ows remove_at_split)
  ultimately show ?thesis
    by (simp add: relinquish_def drop_owner_def owner_ids_def)
qed

lemma scan_shards_eq:
  "\<forall>s\<in>set ss. distinct (owner_ids s) \<Longrightarrow>
   scan_shards nid ss fs =
     (map (drop_owner nid) ss, fold freq_incr (concat (map owner_ids ss)) fs,
      filter (\<lambda>s. si_Owners s = []) (map (drop_owner nid) ss))"
  by (induction nid ss fs rule: scan_shards.induct) (simp_all add: relinquish_eq)

lemma map_until_err_None:
  "\<forall>x\<in>set xs. fst (f x) = None \<Longrightarrow> map_until_err f xs = (None, map (\<lambda>x. snd (f x)) xs)"
  by (induction xs) (auto split: prod.splits option.splits)

section \<open>Reassigning orphaned shards\<close>

lemma upd_first_id:
  assumes "distinct (map si_ID ss)" and "sid \<in> si_ID ` set ss"
  shows "upd_first (\<lambda>s. if si_ID s = sid then Some (f s) else None) ss
       = Some (map (\<lambda>s. if si_ID s = sid then f s else s) ss)"
  using assms
proof (induction ss)
  case (Cons a ss)
  show ?case
  proof (cases "si_ID a = sid")
    case True
    with Cons.prems(1) have "map (\<lambda>s. if si_ID s = sid then f s else s) ss = ss"
      by (intro map_idI) (auto simp: image_iff)
    with True show ?thesis by simp
  qed (use Cons in auto)
qed simp

definition assign_orphans :: "(u64 \<Rightarrow> u64) \<Rightarrow> u64 set \<Rightarrow> ShardInfo \<Rightarrow> ShardInfo" where
  "assign_orphans \<rho> ids s = (if si_ID s \<in> ids then append_owner (\<rho> (si_ID s)) s else s)"

lemma reassign_eq:
  assumes "distinct (map si_ID shards)" and "distinct (map si_ID orphans)"
    and "si_ID ` set orphans \<subseteq> si_ID ` set shards" and "fs \<noteq> []" and "0 \<notin> fst ` set fs"
  shows "\<exists>\<rho>. reassign orphans shards fs =
      (None, map (assign_orphans \<rho> (si_ID ` set orphans)) shards) \<and> range \<rho> \<subseteq> fst ` set fs"
  using assms
proof (induction orphans arbitrary: shards fs)
  case Nil
  then show ?case
    by (auto simp: assign_orphans_def intro!: exI [of _ "\<lambda>_. newShardOwner fs"] newShardOwner_in)
next
  case (Cons orphan orphans)
  define k where "k = newShardOwner fs"
  have k: "k \<in> fst ` set fs" using newShardOwner_in [OF Cons.prems(4)] by (simp add: k_def)
  with Cons.prems(5) have "k \<noteq> 0" by auto
  define step where "step = (\<lambda>s. if si_ID s = si_ID orphan then append_owner k s else s)"
  have ids: "si_ID (step s) = si_ID s" for s by (simp add: step_def)
  have upd: "upd_first (\<lambda>s. if si_ID s = si_ID orphan then Some (append_owner k s) else None) shards
      = Some (map step shards)"
    using upd_first_id [OF Cons.prems(1), of "si_ID orphan" "append_owner k"] Cons.prems(3)
    by (simp add: step_def)
  have "freq_incr k fs \<noteq> []" by (metis keys_freq_incr empty_iff empty_set image_empty insertI1)
  with Cons.prems k ids
  have "\<exists>\<rho>. reassign orphans (map step shards) (freq_incr k fs) =
      (None, map (assign_orphans \<rho> (si_ID ` set orphans)) (map step shards)) \<and>
      range \<rho> \<subseteq> fst ` set (freq_incr k fs)"
    by (intro Cons.IH) (auto simp: comp_def image_image)
  then obtain \<rho> where
    \<rho>: "reassign orphans (map step shards) (freq_incr k fs) =
       (None, map (assign_orphans \<rho> (si_ID ` set orphans)) (map step shards))"
    and range: "range \<rho> \<subseteq> fst ` set fs"
    using k by (auto simp: insert_absorb)
  have "assign_orphans \<rho> (si_ID ` set orphans) (step s) =
      assign_orphans (\<rho>(si_ID orphan := k)) (si_ID ` set (orphan # orphans)) s" for s
    using Cons.prems(2) by (auto simp: assign_orphans_def step_def)
  then have "reassign (orphan # orphans) shards fs =
      (None, map (assign_orphans (\<rho>(si_ID orphan := k)) (si_ID ` set (orphan # orphans))) shards)"
    using \<open>k \<noteq> 0\<close> upd \<rho> by (simp add: k_def [symmetric] comp_def)
  moreover have "range (\<rho>(si_ID orphan := k)) \<subseteq> fst ` set fs" using range k by auto
  ultimately show ?case by blast
qed

section \<open>A group, and the whole metadata\<close>

lemma orphan_iff: "si_Owners (drop_owner nid s) = [] \<longleftrightarrow> set (owner_ids s) \<subseteq> {nid}"
  by (auto simp flip: owner_ids_Nil_iff simp: filter_empty_conv)

lemma all_orphans_iff:
  "length (filter (\<lambda>s. si_Owners s = []) (map (drop_owner nid) ss)) = length ss
     \<longleftrightarrow> (\<forall>s\<in>set ss. set (owner_ids s) \<subseteq> {nid})"
  using filter_length_neq [of "\<lambda>s. si_Owners s = []" "map (drop_owner nid) ss"]
  by (auto simp: orphan_iff)

lemma orphan_ids:
  assumes "distinct (map si_ID ss)" and "s \<in> set ss"
  shows "si_ID s \<in> si_ID ` set (filter (\<lambda>s. si_Owners s = []) (map (drop_owner nid) ss))
     \<longleftrightarrow> set (owner_ids s) \<subseteq> {nid}"
proof -
  have "set (filter (\<lambda>s. si_Owners s = []) (map (drop_owner nid) ss)) =
      drop_owner nid ` {t \<in> set ss. set (owner_ids t) \<subseteq> {nid}}"
    by (auto simp: orphan_iff)
  moreover have "inj_on si_ID (set ss)" using assms(1) by (simp add: distinct_map)
  ultimately show ?thesis
    using assms(2) by (simp add: image_image inj_on_image_mem_iff [of _ "set ss"])
qed

lemma drop_node_group_spec:
  assumes "wf_group g"
  shows "fst (drop_node_group now nid g) = None \<and> dropped now nid g (snd (drop_node_group now nid g))"
proof -
  let ?ss = "map (drop_owner nid) (sg_Shards g)"
  let ?fs = "fold freq_incr (concat (map owner_ids (sg_Shards g))) []"
  let ?orphans = "filter (\<lambda>s. si_Owners s = []) ?ss"
  have scan: "scan_shards nid (sg_Shards g) [] = (?ss, ?fs, ?orphans)"
    using assms by (intro scan_shards_eq) (auto simp: wf_group_def wf_shard_def)
  show ?thesis
  proof (cases "group_owners g \<subseteq> {nid}")
    case True
    then have "length ?orphans = length (sg_Shards g)"
      by (simp only: all_orphans_iff) (auto simp: group_owners_def)
    with True show ?thesis
      by (simp add: drop_node_group_def scan dropped_def list_all2_conv_all_nth)
        (fastforce simp: group_owners_def filter_empty_conv)
  next
    case False
    then have "length ?orphans \<noteq> length (sg_Shards g)" and "sg_Shards g \<noteq> []"
      by (auto simp only: all_orphans_iff) (auto simp: group_owners_def)
    then have run: "drop_node_group now nid g =
        (let (err, shards) = reassign ?orphans ?ss (freq_delete nid ?fs) in (err, g\<lparr>sg_Shards := shards\<rparr>))"
      by (simp add: drop_node_group_def scan)
    have keys: "fst ` set (freq_delete nid ?fs) = group_owners g - {nid}"
      by (simp add: keys_freq_delete keys_fold_freq_incr) (auto simp: group_owners_def)
    have "freq_delete nid ?fs \<noteq> []" using keys False by auto
    moreover have "0 \<notin> fst ` set (freq_delete nid ?fs)"
      using assms unfolding keys by (auto simp: wf_group_def wf_shard_def group_owners_def)
    moreover have "distinct (map si_ID ?ss)" using assms by (simp add: wf_group_def comp_def)
    moreover from this have "distinct (map si_ID ?orphans)" by (rule distinct_map_filter)
    moreover have "si_ID ` set ?orphans \<subseteq> si_ID ` set ?ss" by auto
    ultimately obtain \<rho> where
      eq: "reassign ?orphans ?ss (freq_delete nid ?fs) =
        (None, map (assign_orphans \<rho> (si_ID ` set ?orphans)) ?ss)"
      and \<rho>: "range \<rho> \<subseteq> group_owners g - {nid}"
      using reassign_eq [of ?ss ?orphans "freq_delete nid ?fs"] unfolding keys by blast
    have orphan: "si_ID s \<in> si_ID ` set ?orphans \<longleftrightarrow> set (owner_ids s) \<subseteq> {nid}"
      if "s \<in> set (sg_Shards g)" for s
      using orphan_ids [OF _ that] assms by (simp add: wf_group_def)
    have shard: "dropped_shard nid (group_owners g - {nid}) s
        (assign_orphans \<rho> (si_ID ` set ?orphans) (drop_owner nid s))"
      if "s \<in> set (sg_Shards g)" for s
      using orphan [OF that] \<rho>
      by (auto simp: dropped_shard_def assign_orphans_def filter_empty_conv)
    then have "nid \<notin> set (owner_ids (assign_orphans \<rho> (si_ID ` set ?orphans) (drop_owner nid s)))"
      if "s \<in> set (sg_Shards g)" for s
      using that by (fastforce simp: dropped_shard_def split: if_splits)
    with False shard eq show ?thesis
      by (simp add: run dropped_def list_all2_conv_all_nth) (auto simp: group_owners_def)
  qed
qed

lemma wf_group_dropped:
  assumes "wf_group g" and "dropped now nid g g'"
  shows "wf_group g'"
proof -
  have *: "list_all2 (\<lambda>s s'. si_ID s' = si_ID s \<and> (wf_shard s \<longrightarrow> wf_shard s')) (sg_Shards g) (sg_Shards g')"
  proof (cases "group_owners g \<subseteq> {nid}")
    case True
    with assms(2) show ?thesis
      by (auto simp: dropped_def wf_shard_def elim: list_all2_mono)
  next
    case False
    have "0 \<notin> group_owners g" using assms(1) by (auto simp: wf_group_def wf_shard_def group_owners_def)
    moreover have "list_all2 (dropped_shard nid (group_owners g - {nid})) (sg_Shards g) (sg_Shards g')"
      using False assms(2) by (simp add: dropped_def)
    ultimately show ?thesis
      by (elim list_all2_mono) (auto simp: dropped_shard_def wf_shard_def split: if_splits)
  qed
  then have "map si_ID (sg_Shards g') = map si_ID (sg_Shards g)"
    by (auto simp: list_all2_conv_all_nth intro: nth_equalityI)
  moreover have "list_all2 (\<lambda>s s'. wf_shard s') (sg_Shards g) (sg_Shards g')"
    using * assms(1) by (auto simp: wf_group_def list_all2_conv_all_nth)
  then have "\<forall>s'\<in>set (sg_Shards g'). wf_shard s'"
    by (auto simp: list_all2_conv_all_nth in_set_conv_nth)
  ultimately show ?thesis using assms(1) by (simp add: wf_group_def)
qed

definition drop_groups :: "gtime \<Rightarrow> u64 \<Rightarrow> DatabaseInfo list \<Rightarrow> DatabaseInfo list" where
  "drop_groups now nid dbs =
     map (\<lambda>db. db\<lparr>db_RetentionPolicies :=
        map (\<lambda>rp. rp\<lparr>rp_ShardGroups := map (\<lambda>g. snd (drop_node_group now nid g)) (rp_ShardGroups rp)\<rparr>)
          (db_RetentionPolicies db)\<rparr>) dbs"

lemma in_all_groups:
  "g \<in> set (all_groups m) \<longleftrightarrow>
     (\<exists>db\<in>set (md_Databases m). \<exists>rp\<in>set (db_RetentionPolicies db). g \<in> set (rp_ShardGroups rp))"
  by (auto simp: all_groups_def)

lemma all_groups_drop_groups:
  "md_Databases m' = drop_groups now nid (md_Databases m) \<Longrightarrow>
   all_groups m' = map (\<lambda>g. snd (drop_node_group now nid g)) (all_groups m)"
  by (simp add: all_groups_def drop_groups_def map_concat comp_def)

lemma drop_node_dbs:
  assumes "\<forall>g\<in>set (all_groups m). wf_group g"
  shows "map_until_err (drop_node_db now nid) (md_Databases m) = (None, drop_groups now nid (md_Databases m))"
proof -
  let ?rp = "\<lambda>rp. rp\<lparr>rp_ShardGroups := map (\<lambda>g. snd (drop_node_group now nid g)) (rp_ShardGroups rp)\<rparr>"
  have rp: "drop_node_rp now nid rp = (None, ?rp rp)"
    if "rp \<in> set (db_RetentionPolicies db)" "db \<in> set (md_Databases m)" for db rp
  proof -
    have "\<forall>g\<in>set (rp_ShardGroups rp). fst (drop_node_group now nid g) = None"
      using that assms by (auto simp: in_all_groups intro!: drop_node_group_spec [THEN conjunct1])
    then show ?thesis by (simp add: drop_node_rp_def map_until_err_None)
  qed
  have db: "drop_node_db now nid db = (None, db\<lparr>db_RetentionPolicies := map ?rp (db_RetentionPolicies db)\<rparr>)"
    if "db \<in> set (md_Databases m)" for db
    using that rp map_until_err_None [of "db_RetentionPolicies db" "drop_node_rp now nid"]
    by (simp add: drop_node_db_def)
  then show ?thesis
    using map_until_err_None [of "md_Databases m" "drop_node_db now nid"]
    by (simp add: drop_groups_def)
qed

lemma getFreezed_from_absent: "nid \<notin> set fs \<Longrightarrow> getFreezed_from i fs nid = -1"
  by (induction i fs nid rule: getFreezed_from.induct) auto

lemma getFreezed_from_present:
  "nid \<in> set fs \<Longrightarrow> \<exists>ys zs. fs = ys @ nid # zs \<and> nid \<notin> set ys \<and> getFreezed_from i fs nid = int (i + length ys)"
proof (induction i fs nid rule: getFreezed_from.induct)
  case (2 i n ns nid)
  show ?case
  proof (cases "n = nid")
    case True
    then show ?thesis by (intro exI [of _ "[]"] exI [of _ ns]) simp
  next
    case False
    with 2 obtain ys zs where "ns = ys @ nid # zs" "nid \<notin> set ys"
      "getFreezed_from (Suc i) ns nid = int (Suc i + length ys)" by auto
    with False show ?thesis by (intro exI [of _ "n # ys"] exI [of _ zs]) simp
  qed
qed simp

lemma getFreezed_absent [simp]: "getFreezed fs nid = -1 \<longleftrightarrow> nid \<notin> set fs"
  using getFreezed_from_absent [of nid fs 0] getFreezed_from_present [of nid fs 0]
  by (auto simp: getFreezed_def)

lemma getFreezed_found [simp]: "-1 < getFreezed fs nid \<longleftrightarrow> nid \<in> set fs"
  using getFreezed_from_absent [of nid fs 0] getFreezed_from_present [of nid fs 0]
  by (cases "nid \<in> set fs") (auto simp: getFreezed_def)

lemma remove_at_getFreezed: "nid \<in> set fs \<Longrightarrow> remove_at (nat (getFreezed fs nid)) fs = remove1 nid fs"
  using getFreezed_from_present [of nid fs 0]
  by (auto simp: getFreezed_def remove_at_split remove1_append)

lemma DeleteDataNode_eq:
  assumes "\<forall>g\<in>set (all_groups (meta_Data d)). wf_group g" and "nid \<noteq> 0"
    and "nid \<in> ni_ID ` set (DataNodes d)"
  shows "Data_DeleteDataNode now nid d =
    (None, d\<lparr>DataNodes := filter (\<lambda>n. ni_ID n \<noteq> nid) (DataNodes d),
             FreezedDataNodes := remove1 nid (FreezedDataNodes d),
             meta_Data := (meta_Data d)\<lparr>md_Databases := drop_groups now nid (Databases d)\<rparr>\<rparr>)"
proof -
  have "length (filter (\<lambda>n. ni_ID n \<noteq> nid) (DataNodes d)) \<noteq> length (DataNodes d)"
    using assms(3) by (auto simp: filter_length_neq)
  then show ?thesis
    using assms(2) drop_node_dbs [OF assms(1), of now nid]
    by (cases d) (simp add: Data_DeleteDataNode_def set_Databases_def Let_def remove_at_getFreezed remove1_idem)
qed

lemma DeleteDataNode_groups:
  assumes "\<forall>g\<in>set (all_groups (meta_Data d)). wf_group g" and "nid \<noteq> 0"
    and "nid \<in> ni_ID ` set (DataNodes d)"
  shows "list_all2 (dropped now nid) (all_groups (meta_Data d))
     (all_groups (meta_Data (snd (Data_DeleteDataNode now nid d))))"
proof -
  let ?m = "(meta_Data d)\<lparr>md_Databases := drop_groups now nid (Databases d)\<rparr>"
  have "all_groups ?m = map (\<lambda>g. snd (drop_node_group now nid g)) (all_groups (meta_Data d))"
    by (rule all_groups_drop_groups) simp
  then show ?thesis
    using assms(1)
    by (auto simp: DeleteDataNode_eq [OF assms] list_all2_conv_all_nth
        intro!: drop_node_group_spec [THEN conjunct2])
qed

section \<open>Properties\<close>

text \<open>
  (C2) Removing a data node of a cluster whose shards have distinct, non-zero owners always
  succeeds (the error \<^verbatim>\<open>No node can be reassigned\<close> does not occur): the node disappears
  from the data nodes and from the frozen nodes, and every shard group satisfies the contract
  \<open>dropped\<close>. No shard is left with the removed node as an owner; a group that only the removed
  node served is marked deleted at the current time; in every other group each shard keeps its
  remaining owners, and a shard that would be orphaned gets exactly one new owner, which
  already serves the group.
\<close>

theorem DeleteDataNode_ok:
  assumes "\<forall>g\<in>set (all_groups (meta_Data d)). wf_group g" and "nid \<noteq> 0"
    and "nid \<in> ni_ID ` set (DataNodes d)"
  shows "\<exists>d'. Data_DeleteDataNode now nid d = (None, d') \<and>
     DataNodes d' = filter (\<lambda>n. ni_ID n \<noteq> nid) (DataNodes d) \<and>
     FreezedDataNodes d' = remove1 nid (FreezedDataNodes d) \<and>
     list_all2 (dropped now nid) (all_groups (meta_Data d)) (all_groups (meta_Data d'))"
  using DeleteDataNode_groups [OF assms, of now] by (simp add: DeleteDataNode_eq [OF assms])

lemma example_groups_wf: "\<forall>g\<in>set (all_groups (meta_Data example_data)). wf_group g"
  by code_simp

theorem DeleteDataNode_ok_witness:
  "list_all wf_group (all_groups (meta_Data example_data)) \<and> (1 :: u64) \<noteq> 0 \<and>
   1 \<in> ni_ID ` set (DataNodes example_data) \<and>
   (\<exists>d'. Data_DeleteDataNode 1000 1 example_data = (None, d') \<and>
     DataNodes d' = filter (\<lambda>n. ni_ID n \<noteq> 1) (DataNodes example_data) \<and>
     FreezedDataNodes d' = remove1 1 (FreezedDataNodes example_data) \<and>
     list_all2 (dropped 1000 1) (all_groups (meta_Data example_data)) (all_groups (meta_Data d')))"
  using example_groups_wf DeleteDataNode_ok [OF example_groups_wf, of 1 1000]
  by (simp add: example_data_def list_all_iff)

text \<open>
  The new owner of an orphaned shard is a candidate with the fewest shards of the group,
  the one with the smallest ID among several; the result does not depend on the order in
  which the map of candidates is traversed, so all replicas of the metadata choose the same
  node.
\<close>

theorem newShardOwner_least:
  assumes "distinct (map fst fs)" and "fs \<noteq> []"
  shows "newShardOwner fs \<in> fst ` set fs \<and>
     (\<forall>j\<in>fst ` set fs. freq fs (newShardOwner fs) < freq fs j \<or>
        freq fs (newShardOwner fs) = freq fs j \<and> newShardOwner fs \<le> j) \<and>
     (\<forall>gs. mset gs = mset fs \<longrightarrow> newShardOwner gs = newShardOwner fs)"
proof (intro conjI allI impI ballI)
  show "newShardOwner fs \<in> fst ` set fs" using assms(2) by (rule newShardOwner_in)
next
  fix j assume "j \<in> fst ` set fs"
  then obtain m where j: "(j, m) \<in> set fs" by auto
  obtain k n where hd: "hd (go_sort owner_less fs) = (k, n)" by fastforce
  with owner_order.go_sort_hd [OF assms(2)] j have "(k, n) \<in> set fs" "\<not> owner_less (j, m) (k, n)"
    by auto
  moreover have "newShardOwner fs = k" using hd by (simp add: newShardOwner_hd [OF assms(2)])
  ultimately show "freq fs (newShardOwner fs) < freq fs j \<or>
      freq fs (newShardOwner fs) = freq fs j \<and> newShardOwner fs \<le> j"
    using j assms(1) by (auto simp: freq_def owner_less_def split: if_splits)
next
  fix gs assume "mset gs = mset fs"
  moreover from this have "gs \<noteq> []" using assms(2) by auto
  ultimately show "newShardOwner gs = newShardOwner fs"
    using owner_order.go_sort_hd_perm [of gs fs] owner_less_total assms(2)
    by (simp add: newShardOwner_hd)
qed

theorem newShardOwner_least_witness:
  "distinct (map fst [(3, 2), (1 :: u64, 1 :: int), (2, 1)]) \<and> [(3, 2), (1 :: u64, 1 :: int), (2, 1)] \<noteq> [] \<and>
   newShardOwner [(3, 2), (1, 1), (2, 1)] \<in> fst ` set [(3, 2), (1 :: u64, 1 :: int), (2, 1)] \<and>
   newShardOwner [(3, 2), (1, 1), (2, 1)] = 1 \<and> newShardOwner [(2, 1), (1, 1), (3, 2)] = 1"
  using newShardOwner_least [of "[(3, 2), (1, 1), (2, 1)]"]
  by (simp add: newShardOwner_def go_sort_def owner_less_def)

end
