(* ===== verification/MetaShards.thy ===== *)
theory MetaShards
  imports MetaDelete
begin

text \<open>
  Shard groups and shard owners (\<^verbatim>\<open>CreateShardGroup\<close>, \<^verbatim>\<open>AddShardOwner\<close>,
  \<^verbatim>\<open>RemoveShardOwner\<close>, \<^verbatim>\<open>DeleteShardGroup\<close> of \<^verbatim>\<open>services/meta/data.go\<close>): the placement of
  the shards of a new group, the time windows of groups, and the refinement of the nested
  searches to updates of one map from shards to owners.
\<close>

section \<open>Specifications\<close>

text \<open>A group whose shards are spread over nodes with a number of replicas.\<close>

definition placed :: "NodeInfo list \<Rightarrow> nat \<Rightarrow> ShardGroupInfo \<Rightarrow> bool" where
  "placed nodes replicaN g \<longleftrightarrow>
     length (sg_Shards g) = length nodes div replicaN \<and>
     (\<forall>s\<in>set (sg_Shards g). length (owner_ids s) = replicaN) \<and>
     distinct (concat (map owner_ids (sg_Shards g))) \<and>
     set (concat (map owner_ids (sg_Shards g))) \<subseteq> ni_ID ` set nodes"

text \<open>The owners of every shard, as a map.\<close>

definition owner_map :: "'x Data \<Rightarrow> u64 \<Rightarrow> u64 set option" where
  "owner_map d = map_of (map (\<lambda>s. (si_ID s, set (owner_ids s))) (all_shards (meta_Data d)))"

section \<open>Round robin\<close>

lemma new_shards_eq:
  "new_shards n m = (map (\<lambda>i. \<lparr>si_ID = m + 1 + of_nat i, si_Owners = []\<rparr>) [0..<n], m + of_nat n)"
proof (induction n arbitrary: m)
  case (Suc n)
  have "map (\<lambda>i. \<lparr>si_ID = m + 1 + of_nat i, si_Owners = []\<rparr>) [0..<Suc n] =
      \<lparr>si_ID = m + 1, si_Owners = []\<rparr> # map (\<lambda>i. \<lparr>si_ID = m + 1 + 1 + of_nat i, si_Owners = []\<rparr>) [0..<n]"
    by (simp add: upt_conv_Cons map_Suc_upt [symmetric] ac_simps del: upt_Suc)
  then show ?case by (simp add: Suc.IH ac_simps del: upt_Suc)
qed simp

lemma pick_owners_eq:
  "pick_owners nodes i j ows =
     (ows @ map (\<lambda>k. \<lparr>so_NodeID = ni_ID (nodes ! ((i + k) mod length nodes))\<rparr>) [0..<j], i + j)"
proof (induction j arbitrary: i ows)
  case (Suc j)
  have "[0..<Suc j] = 0 # map Suc [0..<j]" by (simp add: upt_conv_Cons map_Suc_upt del: upt_Suc)
  then show ?case by (simp add: Suc.IH comp_def del: upt_Suc)
qed simp

lemma length_assign_owners [simp]: "length (assign_owners nodes i r ss) = length ss"
  by (induction ss arbitrary: i) (auto simp: pick_owners_eq)

lemma assign_owners_ids [simp]: "map si_ID (assign_owners nodes i r ss) = map si_ID ss"
  by (induction ss arbitrary: i) (auto simp: pick_owners_eq)

lemma assign_owners_length:
  "\<forall>s\<in>set ss. si_Owners s = [] \<Longrightarrow> s \<in> set (assign_owners nodes i r ss) \<Longrightarrow> length (owner_ids s) = r"
  by (induction ss arbitrary: i) (auto simp: pick_owners_eq owner_ids_def)

lemma assign_owners_concat:
  "\<forall>s\<in>set ss. si_Owners s = [] \<Longrightarrow>
   concat (map owner_ids (assign_owners nodes i r ss)) =
     map (\<lambda>k. ni_ID (nodes ! ((i + k) mod length nodes))) [0..<r * length ss]"
proof (induction ss arbitrary: i)
  case (Cons s ss)
  have "[0..<r * length (s # ss)] = [0..<r] @ map (\<lambda>k. k + r) [0..<r * length ss]"
    using upt_add_eq_append [of 0 r "r * length ss"] by (simp add: map_add_upt add.commute)
  then have "map f [0..<r * length (s # ss)] = map f [0..<r] @ map (\<lambda>k. f (k + r)) [0..<r * length ss]"
    for f :: "nat \<Rightarrow> u64" by (simp add: comp_def)
  with Cons show ?case
    by (simp add: pick_owners_eq owner_ids_def comp_def ac_simps)
qed simp

lemma mod_inj_window:
  assumes "(i + k) mod n = (i + l) mod n" and "k < n" and "l < (n :: nat)"
  shows "k = l"
proof -
  have le: "a = b" if "(i + a) mod n = (i + b) mod n" "a \<le> b" "b < n" for a b
  proof -
    have "n dvd (i + b) - (i + a)" using that(1,2) mod_eq_dvd_iff_nat [of "i + a" "i + b" n] by simp
    with that(2,3) show ?thesis by (auto dest: dvd_imp_le)
  qed
  show ?thesis using le [of k l] le [of l k] assms by (cases "k \<le> l") auto
qed

lemma distinct_window:
  assumes "distinct (map ni_ID nodes)" and "w \<le> length nodes"
  shows "distinct (map (\<lambda>k. ni_ID (nodes ! ((i + k) mod length nodes))) [0..<w])"
proof -
  have inj: "inj_on ni_ID (set nodes)" "distinct nodes" using assms(1) by (auto simp: distinct_map)
  have "k = l" if "k < w" "l < w"
    and eq: "ni_ID (nodes ! ((i + k) mod length nodes)) = ni_ID (nodes ! ((i + l) mod length nodes))" for k l
  proof -
    have pos: "0 < length nodes" using that(1) assms(2) by linarith
    then have "(i + k) mod length nodes < length nodes" "(i + l) mod length nodes < length nodes" by auto
    with inj eq have "(i + k) mod length nodes = (i + l) mod length nodes"
      by (metis inj_onD nth_eq_iff_index_eq nth_mem)
    then show ?thesis using that(1,2) assms(2) by (intro mod_inj_window [of i k "length nodes" l]) auto
  qed
  then show ?thesis by (simp add: distinct_map inj_on_def)
qed

lemma assign_owners_placed:
  assumes "distinct (map ni_ID nodes)" and "nodes \<noteq> []" and "sg_Shards g = assign_owners nodes i r ss"
    and "length ss = length nodes div r" and "\<forall>s\<in>set ss. si_Owners s = []"
  shows "placed nodes r g"
proof -
  have "r * length ss \<le> length nodes" by (simp add: assms(4) times_div_less_eq_dividend)
  moreover have "ni_ID (nodes ! ((i + k) mod length nodes)) \<in> ni_ID ` set nodes" for k
    using assms(2) by (intro imageI nth_mem) simp
  ultimately show ?thesis
    using assign_owners_length [OF assms(5)] distinct_window [OF assms(1), of "r * length ss" i]
    unfolding placed_def assms(3) assign_owners_concat [OF assms(5)]
    by (auto simp: assms(4))
qed

section \<open>Creating a group\<close>

definition replicas :: "'x Data \<Rightarrow> RetentionPolicyInfo \<Rightarrow> nat" where
  "replicas d rpi = nat (replica_count (rp_ReplicaN rpi) (length (availableNodes d)))"

definition new_group :: "'x influx_lib \<Rightarrow> gtime \<Rightarrow> 'x Data \<Rightarrow> RetentionPolicyInfo \<Rightarrow> ShardGroupInfo" where
  "new_group L t d rpi =
     \<lparr>sg_ID = md_MaxShardGroupID (meta_Data d) + 1,
      sg_StartTime = fst (group_times L t (rp_ShardGroupDuration rpi)),
      sg_EndTime = snd (group_times L t (rp_ShardGroupDuration rpi)),
      sg_DeletedAt = 0,
      sg_Shards = assign_owners (availableNodes d)
        (unat (md_Index (meta_Data d) mod of_nat (length (availableNodes d)))) (replicas d rpi)
        (fst (new_shards (length (availableNodes d) div replicas d rpi) (md_MaxShardID (meta_Data d)))),
      sg_TruncatedAt = 0\<rparr>"

definition add_group :: "'x influx_lib \<Rightarrow> gtime \<Rightarrow> rp_ptr \<Rightarrow> 'x Data \<Rightarrow> 'x MetaData" where
  "add_group L t p d =
     (let rpi = rp_get (meta_Data d) p
      in rp_set p (rpi\<lparr>rp_ShardGroups :=
             go_sort (ShardGroupInfos_Less L) (rp_ShardGroups rpi @ [new_group L t d rpi])\<rparr>)
           ((meta_Data d)\<lparr>md_MaxShardGroupID := md_MaxShardGroupID (meta_Data d) + 1,
              md_MaxShardID := md_MaxShardID (meta_Data d) +
                of_nat (length (availableNodes d) div replicas d rpi)\<rparr>))"

lemma replicas_pos:
  "0 \<le> rp_ReplicaN rpi \<Longrightarrow> availableNodes d \<noteq> [] \<Longrightarrow>
   0 < replicas d rpi \<and> replicas d rpi \<le> length (availableNodes d)"
  by (cases "availableNodes d") (auto simp: replicas_def replica_count_def)

lemma CreateShardGroup_new:
  assumes "RetentionPolicy L (meta_Data d) db rp = Inr (Some p)"
    and "ShardGroupByTimestamp L (rp_get (meta_Data d) p) t = None"
    and "availableNodes d \<noteq> []" and "0 \<le> rp_ReplicaN (rp_get (meta_Data d) p)"
  shows "Data_CreateShardGroup L db rp t d = (None, d\<lparr>meta_Data := add_group L t p d\<rparr>)"
proof -
  have "DataNodes d \<noteq> []" using assms(3) by (auto simp: availableNodes_def)
  moreover have "\<not> replica_count (rp_ReplicaN (rp_get (meta_Data d) p)) (length (availableNodes d)) < 1"
    using replicas_pos [OF assms(4,3)] by (simp add: replicas_def)
  ultimately show ?thesis
    using assms
    by (simp add: Data_CreateShardGroup_def add_group_def new_group_def replicas_def new_shards_eq
        Let_def split: prod.splits)
qed

lemma new_group_placed:
  assumes "distinct (map ni_ID (DataNodes d))" and "availableNodes d \<noteq> []"
  shows "placed (availableNodes d) (replicas d rpi) (new_group L t d rpi)"
proof -
  have "distinct (map ni_ID (availableNodes d))"
    using assms(1) by (simp add: availableNodes_def distinct_map_filter)
  from assign_owners_placed [OF this assms(2)] show ?thesis
    by (auto simp: new_group_def new_shards_eq)
qed

lemma new_group_ids:
  "map si_ID (sg_Shards (new_group L t d rpi)) =
     map (\<lambda>i. md_MaxShardID (meta_Data d) + 1 + of_nat i)
       [0..<length (availableNodes d) div replicas d rpi]"
  by (simp add: new_group_def new_shards_eq comp_def)

lemma add_group_get:
  assumes "rp_valid (meta_Data d) p"
  shows "rp_get (add_group L t p d) p = (rp_get (meta_Data d) p)
     \<lparr>rp_ShardGroups := go_sort (ShardGroupInfos_Less L)
        (rp_ShardGroups (rp_get (meta_Data d) p) @ [new_group L t d (rp_get (meta_Data d) p)])\<rparr>"
  using assms by (simp add: add_group_def Let_def rp_valid_def)

lemma add_group_other:
  assumes "rp_valid (meta_Data d) p" and "rp_valid (meta_Data d) q" and "q \<noteq> p"
  shows "rp_get (add_group L t p d) q = rp_get (meta_Data d) q"
  using assms
  by (cases p, cases q) (auto simp: add_group_def Let_def rp_valid_def rp_get_def rp_set_def nth_list_update)

lemma group_times_contains:
  assumes "0 < dur" and "t \<le> time_Unix 0 (MaxNanoTime L)"
  shows "fst (group_times L t dur) \<le> t \<and> t < snd (group_times L t dur)"
  using assms time_Truncate_bounds [OF assms(1), of t]
  by (auto simp: group_times_def Let_def time_Unix_def)

lemma CreateShardGroup_frozen:
  assumes "RetentionPolicy L (meta_Data d) db rp = Inr (Some p)"
    and "ShardGroupByTimestamp L (rp_get (meta_Data d) p) t = None"
    and "DataNodes d \<noteq> []" and "\<forall>n\<in>set (DataNodes d). ni_ID n \<in> set (FreezedDataNodes d)"
  shows "Data_CreateShardGroup L db rp t d =
     (if rp_ReplicaN (rp_get (meta_Data d) p) = 0
      then (Some (Panic ''integer divide by zero''),
            d\<lparr>meta_Data := (meta_Data d)\<lparr>md_MaxShardGroupID := md_MaxShardGroupID (meta_Data d) + 1\<rparr>\<rparr>)
      else (Some (Errorf ''No replica can be assigned''), d))"
proof -
  have "availableNodes d = []" using assms(4) by (auto simp: availableNodes_def filter_empty_conv)
  then show ?thesis
    using assms(1-3)
    by (auto simp: Data_CreateShardGroup_def Let_def replica_count_def split: prod.splits)
qed

section \<open>Properties of new groups\<close>

text \<open>
  (C1) A shard group that is created for a timestamp no group covers yet: the call succeeds, the
  policy gets exactly one new group, and no other policy changes. With \<open>n\<close> nodes that are
  not frozen and \<open>r\<close> replicas the group has \<open>n div r\<close> shards with consecutive new IDs; every
  shard has \<open>r\<close> owners; no node owns two of the shards or the same shard twice; no owner is
  frozen. The window of the group contains the timestamp.
\<close>

theorem CreateShardGroup_placement:
  assumes "rp_lookup_ok L" and "RetentionPolicy L (meta_Data d) db rp = Inr (Some p)"
    and "ShardGroupByTimestamp L (rp_get (meta_Data d) p) t = None"
    and "distinct (map ni_ID (DataNodes d))" and "availableNodes d \<noteq> []"
    and "0 \<le> rp_ReplicaN (rp_get (meta_Data d) p)"
    and "0 < rp_ShardGroupDuration (rp_get (meta_Data d) p)" and "t \<le> time_Unix 0 (MaxNanoTime L)"
  shows "\<exists>g m. Data_CreateShardGroup L db rp t d = (None, d\<lparr>meta_Data := m\<rparr>) \<and>
     mset (rp_ShardGroups (rp_get m p)) = add_mset g (mset (rp_ShardGroups (rp_get (meta_Data d) p))) \<and>
     (\<forall>q. rp_valid (meta_Data d) q \<longrightarrow> q \<noteq> p \<longrightarrow> rp_get m q = rp_get (meta_Data d) q) \<and>
     0 < replicas d (rp_get (meta_Data d) p) \<and>
     placed (availableNodes d) (replicas d (rp_get (meta_Data d) p)) g \<and>
     set (concat (map owner_ids (sg_Shards g))) \<inter> set (FreezedDataNodes d) = {} \<and>
     sg_ID g = md_MaxShardGroupID (meta_Data d) + 1 \<and>
     map si_ID (sg_Shards g) = map (\<lambda>i. md_MaxShardID (meta_Data d) + 1 + of_nat i) [0..<length (sg_Shards g)] \<and>
     sg_StartTime g \<le> t \<and> t < sg_EndTime g \<and> sg_DeletedAt g = 0"
proof -
  let ?rpi = "rp_get (meta_Data d) p"
  let ?g = "new_group L t d ?rpi"
  have valid: "rp_valid (meta_Data d) p" using assms(1,2) by (rule rp_lookup_valid)
  have placed: "placed (availableNodes d) (replicas d ?rpi) ?g"
    using assms(4,5) by (rule new_group_placed)
  then have "length (sg_Shards ?g) = length (availableNodes d) div replicas d ?rpi"
    and "set (concat (map owner_ids (sg_Shards ?g))) \<subseteq> ni_ID ` set (availableNodes d)"
    by (auto simp: placed_def)
  moreover have "ni_ID ` set (availableNodes d) \<inter> set (FreezedDataNodes d) = {}"
    by (auto simp: availableNodes_def)
  ultimately show ?thesis
    using placed valid replicas_pos [OF assms(6,5)] group_times_contains [OF assms(7,8)]
      CreateShardGroup_new [OF assms(2,3,5,6)]
    by (intro exI [of _ ?g] exI [of _ "add_group L t p d"])
      (auto simp: add_group_get add_group_other new_group_ids, auto simp: new_group_def)
qed

theorem CreateShardGroup_placement_witness:
  "rp_lookup_ok simple_lib \<and> RetentionPolicy simple_lib example_meta ''db'' ''rp'' = Inr (Some (0, 0)) \<and>
   ShardGroupByTimestamp simple_lib (rp_get example_meta (0, 0)) 333 = None \<and>
   (\<exists>g m. Data_CreateShardGroup simple_lib ''db'' ''rp'' 333 example_data =
       (None, example_data\<lparr>meta_Data := m\<rparr>) \<and>
     placed (availableNodes example_data) 2 g \<and> sg_StartTime g \<le> 333 \<and> 333 < sg_EndTime g)"
proof -
  have lookup: "RetentionPolicy simple_lib (meta_Data example_data) ''db'' ''rp'' = Inr (Some (0, 0))"
    by code_simp
  have rest: "ShardGroupByTimestamp simple_lib (rp_get (meta_Data example_data) (0, 0)) 333 = None"
    "distinct (map ni_ID (DataNodes example_data))" "availableNodes example_data \<noteq> []"
    "0 \<le> rp_ReplicaN (rp_get (meta_Data example_data) (0, 0))"
    "0 < rp_ShardGroupDuration (rp_get (meta_Data example_data) (0, 0))"
    "333 \<le> time_Unix 0 (MaxNanoTime (simple_lib :: unit influx_lib))"
    "replicas example_data (rp_get (meta_Data example_data) (0, 0)) = 2"
    "meta_Data example_data = example_meta"
    by code_simp+
  show ?thesis
    using CreateShardGroup_placement [OF simple_lib_ok(2) lookup rest(1-6)] simple_lib_ok(2) lookup rest(1,7,8)
    by (simp only:) blast
qed

text \<open>
  The windows of the groups of one policy are equal or disjoint: two timestamps get the
  same window, or one window ends before the other begins, also at the end of time where the
  window is cut to the largest representable time.
\<close>

theorem group_times_partition:
  assumes "0 < dur"
  shows "group_times L t dur = group_times L u dur \<or>
     snd (group_times L t dur) \<le> fst (group_times L u dur) \<or>
     snd (group_times L u dur) \<le> fst (group_times L t dur)"
proof -
  have trunc: "time_Truncate x dur = dur * (x div dur)" for x
    using assms by (simp add: time_Truncate_def minus_mod_eq_mult_div [symmetric])
  have step: "dur * a + dur \<le> dur * b" if "a < b" for a b :: int
  proof -
    have "dur * (a + 1) \<le> dur * b" using that assms by (intro mult_left_mono) auto
    then show ?thesis by (simp add: distrib_left)
  qed
  consider "t div dur = u div dur" | "t div dur < u div dur" | "u div dur < t div dur" by linarith
  then show ?thesis
    using step [of "t div dur" "u div dur"] step [of "u div dur" "t div dur"]
    by cases (auto simp: group_times_def Let_def trunc time_Unix_def)
qed

theorem group_times_partition_witness:
  "(0 :: int) < 100 \<and> group_times (simple_lib :: unit influx_lib) 333 100 = (300, 400) \<and>
   (group_times (simple_lib :: unit influx_lib) 333 100 = group_times simple_lib 420 100 \<or>
    snd (group_times (simple_lib :: unit influx_lib) 333 100) \<le> fst (group_times (simple_lib :: unit influx_lib) 420 100) \<or>
    snd (group_times (simple_lib :: unit influx_lib) 420 100) \<le> fst (group_times (simple_lib :: unit influx_lib) 333 100))"
  using group_times_partition [of 100 "simple_lib :: unit influx_lib" 333 420]
  by (simp add: group_times_def Let_def time_Truncate_def simple_lib_def time_Unix_def unix_epoch_def)

text \<open>
  When every data node is frozen and the policy asks for no replica at all
  (\<^verbatim>\<open>ReplicaN\<close> is 0), the guard \<^verbatim>\<open>replicaN < 1\<close> does not fire and the computation of
  the first node divides by zero: the call panics, with the group counter already incremented.
  With any other number of replicas the call returns an error and changes nothing.
\<close>

theorem CreateShardGroup_all_frozen:
  assumes "RetentionPolicy L (meta_Data d) db rp = Inr (Some p)"
    and "ShardGroupByTimestamp L (rp_get (meta_Data d) p) t = None"
    and "DataNodes d \<noteq> []" and "\<forall>n\<in>set (DataNodes d). ni_ID n \<in> set (FreezedDataNodes d)"
  shows "Data_CreateShardGroup L db rp t d =
     (if rp_ReplicaN (rp_get (meta_Data d) p) = 0
      then (Some (Panic ''integer divide by zero''),
            d\<lparr>meta_Data := (meta_Data d)\<lparr>md_MaxShardGroupID := md_MaxShardGroupID (meta_Data d) + 1\<rparr>\<rparr>)
      else (Some (Errorf ''No replica can be assigned''), d))"
  using assms by (rule CreateShardGroup_frozen)

definition frozen_data :: "unit Data" where
  "frozen_data = example_data\<lparr>FreezedDataNodes := [3, 2, 1]\<rparr>"

theorem CreateShardGroup_all_frozen_witness:
  "DataNodes frozen_data \<noteq> [] \<and>
   Data_CreateShardGroup simple_lib ''db'' ''rp'' 333 frozen_data =
     (Some (Errorf ''No replica can be assigned''), frozen_data)"
proof -
  have *: "RetentionPolicy simple_lib (meta_Data frozen_data) ''db'' ''rp'' = Inr (Some (0, 0))"
    "ShardGroupByTimestamp simple_lib (rp_get (meta_Data frozen_data) (0, 0)) 333 = None"
    "DataNodes frozen_data \<noteq> []"
    "\<forall>n\<in>set (DataNodes frozen_data). ni_ID n \<in> set (FreezedDataNodes frozen_data)"
    "rp_ReplicaN (rp_get (meta_Data frozen_data) (0, 0)) \<noteq> 0"
    by code_simp+
  show ?thesis
    using CreateShardGroup_all_frozen [OF *(1-4)] *(3,5) by simp
qed

section \<open>Owners\<close>

lemma upd_first_append:
  "upd_first f (xs @ ys) =
     (case upd_first f xs of Some zs \<Rightarrow> Some (zs @ ys) | None \<Rightarrow> map_option ((@) xs) (upd_first f ys))"
proof (induction xs)
  case Nil
  then show ?case by (cases "upd_first f ys") auto
qed (auto split: option.splits simp: option.map_comp comp_def)

lemma upd_first_concat:
  assumes "\<And>x. map_option get (g x) = upd_first f (get x)"
  shows "map_option (\<lambda>ys. concat (map get ys)) (upd_first g xs) = upd_first f (concat (map get xs))"
proof (induction xs)
  case (Cons x xs)
  show ?case
  proof (cases "g x")
    case None
    then have "upd_first f (get x) = None" by (simp flip: assms)
    with None Cons.IH show ?thesis
      by (simp add: upd_first_append option.map_comp comp_def flip: Cons.IH)
  next
    case (Some y)
    then have "upd_first f (get x) = Some (get y)" by (simp flip: assms)
    with Some show ?thesis by (simp add: upd_first_append)
  qed
qed simp

definition rp_shards :: "RetentionPolicyInfo \<Rightarrow> ShardInfo list" where
  "rp_shards rp = concat (map sg_Shards (rp_ShardGroups rp))"

definition db_shards :: "DatabaseInfo \<Rightarrow> ShardInfo list" where
  "db_shards db = concat (map rp_shards (db_RetentionPolicies db))"

lemma concat_map_concat: "concat (map f (concat xss)) = concat (map (\<lambda>xs. concat (map f xs)) xss)"
  by (induction xss) auto

lemma all_shards_dbs: "all_shards m = concat (map db_shards (md_Databases m))"
  by (simp add: all_shards_def all_groups_def concat_map_concat comp_def
      db_shards_def [abs_def] rp_shards_def [abs_def])

lemma upd_first_shards:
  "map_option (\<lambda>dbs. concat (map db_shards dbs)) (upd_first (upd_db f) dbs) =
     upd_first f (concat (map db_shards dbs))"
proof -
  have "map_option sg_Shards (upd_sg f g) = upd_first f (sg_Shards g)" for g
    by (simp add: upd_sg_def option.map_comp comp_def option.map_ident)
  from upd_first_concat [OF this] have "map_option rp_shards (upd_rp f rp) = upd_first f (rp_shards rp)" for rp
    by (simp add: upd_rp_def rp_shards_def option.map_comp comp_def)
  from upd_first_concat [OF this] have "map_option db_shards (upd_db f db) = upd_first f (db_shards db)" for db
    by (simp add: upd_db_def db_shards_def option.map_comp comp_def)
  from upd_first_concat [OF this] show ?thesis .
qed

lemma shards_after_update:
  "all_shards (meta_Data (case upd_first (upd_db f) (Databases d) of
      None \<Rightarrow> d | Some dbs \<Rightarrow> set_Databases dbs d)) =
   (case upd_first f (all_shards (meta_Data d)) of None \<Rightarrow> all_shards (meta_Data d) | Some ss \<Rightarrow> ss)"
  using upd_first_shards [of f "Databases d"]
  by (auto simp: all_shards_dbs set_Databases_def split: option.splits)

lemma map_of_upd_first:
  assumes "\<And>s. f s = (if si_ID s = sid then Some (h s) else None)" and "\<And>s. si_ID (h s) = si_ID s"
    and "\<And>s. set (owner_ids (h s)) = F (set (owner_ids s))"
  shows "map_of (map (\<lambda>s. (si_ID s, set (owner_ids s)))
      (case upd_first f ss of None \<Rightarrow> ss | Some ss' \<Rightarrow> ss')) =
    (let om = map_of (map (\<lambda>s. (si_ID s, set (owner_ids s))) ss)
     in om(sid := map_option F (om sid)))"
proof (induction ss)
  case Nil
  then show ?case by (auto simp: Let_def)
next
  case (Cons s ss)
  show ?case
  proof (cases "si_ID s = sid")
    case True
    then show ?thesis by (auto simp: assms Let_def)
  next
    case False
    then have "map_of (map (\<lambda>s. (si_ID s, set (owner_ids s)))
        (case upd_first f (s # ss) of None \<Rightarrow> s # ss | Some ss' \<Rightarrow> ss')) =
      (map_of (map (\<lambda>s. (si_ID s, set (owner_ids s)))
        (case upd_first f ss of None \<Rightarrow> ss | Some ss' \<Rightarrow> ss')))(si_ID s \<mapsto> set (owner_ids s))"
      by (cases "upd_first f ss") (simp_all add: assms(1))
    with False show ?thesis by (auto simp: Cons.IH Let_def fun_eq_iff simp del: upd_first.simps)
  qed
qed

text \<open>
  (C4) Adding and removing a shard owner refine updates of the map from shards to owners: the
  nested search changes the owners of the named shard only, adding the node once, or removing
  every occurrence of it; an unknown shard changes nothing. Removing a node after adding it
  therefore gives back the former owners.
\<close>

theorem ShardOwner_refines:
  "owner_map (Data_AddShardOwner sid nid d) =
     (owner_map d)(sid := map_option (insert nid) (owner_map d sid)) \<and>
   owner_map (Data_RemoveShardOwner sid nid d) =
     (owner_map d)(sid := map_option (\<lambda>S. S - {nid}) (owner_map d sid))"
proof
  have add: "set (owner_ids (if list_ex (\<lambda>ow. so_NodeID ow = nid) (si_Owners s) then s else append_owner nid s))
      = insert nid (set (owner_ids s))" for s
    by (auto simp: list_ex_iff owner_ids_def append_owner_def)
  show "owner_map (Data_AddShardOwner sid nid d) =
     (owner_map d)(sid := map_option (insert nid) (owner_map d sid))"
    unfolding owner_map_def Data_AddShardOwner_def shards_after_update
    by (rule trans [OF map_of_upd_first [of "add_owner sid nid", OF add_owner_def _ add]]) (simp_all add: Let_def)
  have remove: "set (owner_ids (s\<lparr>si_Owners := filter (\<lambda>ow. so_NodeID ow \<noteq> nid) (si_Owners s)\<rparr>))
      = set (owner_ids s) - {nid}" for s
    by (auto simp: owner_ids_def)
  show "owner_map (Data_RemoveShardOwner sid nid d) =
     (owner_map d)(sid := map_option (\<lambda>S. S - {nid}) (owner_map d sid))"
    unfolding owner_map_def Data_RemoveShardOwner_def shards_after_update
    by (rule trans [OF map_of_upd_first [of "remove_owner sid nid", OF remove_owner_def _ remove]]) (simp_all add: Let_def)
qed

end
