(* ===== verification/MetaInv.thy ===== *)
theory MetaInv
  imports MetaShards
begin

text \<open>
  The well-formedness invariant of the metadata and its preservation by every method of
  \<^verbatim>\<open>services/meta/data.go\<close> that changes it. IDs are 64-bit and wrap around, so a step needs room
  in the three counters (\<open>room\<close>).
\<close>

definition wf_nodes :: "'x Data \<Rightarrow> bool" where
  "wf_nodes d \<longleftrightarrow>
     MetaNodes d = [] \<and>
     distinct (map ni_ID (DataNodes d)) \<and>
     distinct (map ni_Host (DataNodes d)) \<and> distinct (map ni_TCPHost (DataNodes d)) \<and>
     (\<forall>n\<in>set (DataNodes d). ni_ID n \<noteq> 0 \<and> ni_ID n \<le> MaxNodeID d) \<and>
     distinct (FreezedDataNodes d) \<and> set (FreezedDataNodes d) \<subseteq> ni_ID ` set (DataNodes d)"

definition wf_meta :: "'x MetaData \<Rightarrow> bool" where
  "wf_meta m \<longleftrightarrow>
     distinct (map si_ID (all_shards m)) \<and>
     (\<forall>s\<in>set (all_shards m). wf_shard s \<and> si_ID s \<le> md_MaxShardID m) \<and>
     distinct (map sg_ID (all_groups m)) \<and>
     (\<forall>g\<in>set (all_groups m). sg_ID g \<le> md_MaxShardGroupID m)"

definition wf_data :: "'x Data \<Rightarrow> bool" where
  "wf_data d \<longleftrightarrow> wf_nodes d \<and> wf_meta (meta_Data d)"

definition room :: "'x Data \<Rightarrow> bool" where
  "room d \<longleftrightarrow> unat (MaxNodeID d) + 1 < 2 ^ 64 \<and>
     unat (md_MaxShardID (meta_Data d)) + length (DataNodes d) < 2 ^ 64 \<and>
     unat (md_MaxShardGroupID (meta_Data d)) + 1 < 2 ^ 64"

section \<open>Counters\<close>

lemma unat_plus_of_nat:
  assumes "unat (a :: u64) + k < 2 ^ 64"
  shows "unat (a + of_nat k) = unat a + k"
proof -
  have "unat (of_nat k :: u64) = k" using assms by (simp add: unat_of_nat)
  then show ?thesis using assms by (simp add: unat_word_ariths)
qed

lemma unat_succ: "unat (a :: u64) + 1 < 2 ^ 64 \<Longrightarrow> unat (a + 1) = unat a + 1"
  using unat_plus_of_nat [of a 1] by simp

lemma less_succ:
  assumes "unat (a :: u64) + 1 < 2 ^ 64"
  shows "a < a + 1" and "x \<le> a \<Longrightarrow> x < a + 1"
  using unat_succ [OF assms] by (auto simp: word_less_nat_alt word_le_nat_alt)

lemma fresh_ids:
  assumes "unat (m :: u64) + k < 2 ^ 64"
  shows "distinct (map (\<lambda>i. m + 1 + of_nat i) [0..<k])"
    and "\<forall>x\<in>set (map (\<lambda>i. m + 1 + of_nat i) [0..<k]). m < x \<and> x \<le> m + of_nat k"
proof -
  have u: "unat (m + 1 + of_nat i) = unat m + 1 + i" if "i < k" for i
  proof -
    have "m + 1 + of_nat i = m + of_nat (Suc i)" by simp
    moreover have "unat m + Suc i < 2 ^ 64" using that assms by linarith
    ultimately show ?thesis using unat_plus_of_nat [of m "Suc i"] by (simp only:)
  qed
  show "distinct (map (\<lambda>i. m + 1 + of_nat i) [0..<k])"
    unfolding distinct_map inj_on_def
  proof (intro conjI ballI impI)
    fix i j assume "i \<in> set [0..<k]" "j \<in> set [0..<k]" and eq: "m + 1 + of_nat i = m + 1 + of_nat j"
    then have "i < k" "j < k" by auto
    from u [OF this(1)] u [OF this(2)] have "unat m + 1 + i = unat m + 1 + j" unfolding eq by linarith
    then show "i = j" by linarith
  qed simp
  show "\<forall>x\<in>set (map (\<lambda>i. m + 1 + of_nat i) [0..<k]). m < x \<and> x \<le> m + of_nat k"
  proof
    fix x assume "x \<in> set (map (\<lambda>i. m + 1 + of_nat i) [0..<k])"
    then obtain i where "i < k" and x: "x = m + 1 + of_nat i" by auto
    with u [OF this(1)] unat_plus_of_nat [OF assms] show "m < x \<and> x \<le> m + of_nat k"
      unfolding word_less_nat_alt word_le_nat_alt x by linarith
  qed
qed

section \<open>Groups of a policy within all groups\<close>

lemma mset_concat_map_cong:
  "mset xs = mset ys \<Longrightarrow> mset (concat (map f xs)) = mset (concat (map f ys))"
  by (simp add: mset_concat flip: sum_mset_sum_list)

lemma list_split_update:
  assumes "i < length xs"
  shows "concat (map f (xs[i := y])) = concat (map f (take i xs)) @ f y @ concat (map f (drop (Suc i) xs))"
  using assms by (simp add: upd_conv_take_nth_drop)

lemma list_split_nth:
  assumes "i < length xs"
  shows "concat (map f xs) = concat (map f (take i xs)) @ f (xs ! i) @ concat (map f (drop (Suc i) xs))"
  using list_split_update [OF assms, of f "xs ! i"] by simp

lemma all_groups_split:
  assumes "rp_valid (m :: 'x MetaData) p"
  obtains A B where "all_groups m = A @ rp_ShardGroups (rp_get m p) @ B"
    and "\<And>r (m' :: 'x MetaData). md_Databases m' = md_Databases m \<Longrightarrow> all_groups (rp_set p r m') = A @ rp_ShardGroups r @ B"
proof -
  obtain i j where p: "p = (i, j)" by (cases p)
  let ?dbs = "md_Databases m"
  let ?rps = "db_RetentionPolicies (?dbs ! i)"
  let ?f = "\<lambda>db. concat (map rp_ShardGroups (db_RetentionPolicies db))"
  let ?A = "concat (map ?f (take i ?dbs)) @ concat (map rp_ShardGroups (take j ?rps))"
  let ?B = "concat (map rp_ShardGroups (drop (Suc j) ?rps)) @ concat (map ?f (drop (Suc i) ?dbs))"
  have i: "i < length ?dbs" and j: "j < length ?rps" using assms by (auto simp: rp_valid_def p)
  have "all_groups m = ?A @ rp_ShardGroups (rp_get m p) @ ?B"
    using list_split_nth [OF i, of ?f] list_split_nth [OF j, of rp_ShardGroups]
    by (simp add: all_groups_def rp_get_def p)
  moreover have "all_groups (rp_set p r m') = ?A @ rp_ShardGroups r @ ?B"
    if "md_Databases m' = ?dbs" for r and m' :: "'x MetaData"
    using list_split_update [OF i, of ?f] list_split_update [OF j, of rp_ShardGroups] that
    by (simp add: all_groups_def rp_set_def p)
  ultimately show thesis by (rule that)
qed

lemma add_group_mset:
  assumes "rp_valid (meta_Data (d :: 'x Data)) p"
  shows "mset (all_groups (add_group L t p d)) =
      add_mset (new_group L t d (rp_get (meta_Data d) p)) (mset (all_groups (meta_Data d)))"
proof -
  obtain A B where "all_groups (meta_Data d) = A @ rp_ShardGroups (rp_get (meta_Data d) p) @ B"
    and "\<And>r (m' :: 'x MetaData). md_Databases m' = Databases d \<Longrightarrow> all_groups (rp_set p r m') = A @ rp_ShardGroups r @ B"
    by (rule all_groups_split [OF assms]) (rule that)
  then show ?thesis by (simp add: add_group_def Let_def)
qed

section \<open>Preservation\<close>

lemma wf_meta_groups: "wf_meta m \<Longrightarrow> g \<in> set (all_groups m) \<Longrightarrow> wf_group g"
  by (auto simp: wf_meta_def wf_group_def all_shards_def map_concat distinct_concat_iff)

lemma wf_nodes_cong:
  "wf_nodes d \<Longrightarrow> MetaNodes d' = MetaNodes d \<Longrightarrow> DataNodes d' = DataNodes d \<Longrightarrow>
   FreezedDataNodes d' = FreezedDataNodes d \<Longrightarrow> MaxNodeID d' = MaxNodeID d \<Longrightarrow> wf_nodes d'"
  by (simp add: wf_nodes_def)

lemma wf_CreateDataNode [inv_intros]:
  assumes "wf_data d" and "room d"
  shows "wf_data (snd (Data_CreateDataNode L host tcp d))"
proof (cases "list_ex (\<lambda>n. ni_TCPHost n = tcp \<or> ni_Host n = host) (DataNodes d)")
  case True
  with assms(1) show ?thesis by (simp add: Data_CreateDataNode_def)
next
  case False
  let ?id = "MaxNodeID d + 1"
  let ?n = "\<lparr>ni_ID = ?id, ni_Host = host, ni_TCPHost = tcp\<rparr>"
  have max: "unat (MaxNodeID d) + 1 < 2 ^ 64" using assms(2) by (simp add: room_def)
  have new: "\<forall>n\<in>set (DataNodes d). ni_ID n \<noteq> ?id \<and> ni_ID n \<le> ?id \<and> ni_Host n \<noteq> host \<and> ni_TCPHost n \<noteq> tcp"
  proof
    fix n assume n: "n \<in> set (DataNodes d)"
    with assms(1) have "ni_ID n < ?id"
      by (intro less_succ(2) [OF max]) (auto simp: wf_data_def wf_nodes_def)
    with n False show "ni_ID n \<noteq> ?id \<and> ni_ID n \<le> ?id \<and> ni_Host n \<noteq> host \<and> ni_TCPHost n \<noteq> tcp"
      by (auto simp: list_ex_iff)
  qed
  have "?id \<noteq> 0" using unat_succ [OF max] by (metis add_is_0 one_neq_zero unat_0)
  with new assms(1) False show ?thesis
    by (auto simp: Data_CreateDataNode_def wf_data_def wf_nodes_def)
qed

lemma FreezeDataNode_eq:
  "Data_FreezeDataNode nid d =
     (if nid = 0 then (Some ErrNodeIDRequired, d)
      else if nid \<notin> ni_ID ` set (DataNodes d) then (Some ErrNodeNotFound, d)
      else if nid \<in> set (FreezedDataNodes d) then (Some ErrNodeAlreadyFreezed, d)
      else (None, d\<lparr>FreezedDataNodes := FreezedDataNodes d @ [nid]\<rparr>))"
  by (auto simp: Data_FreezeDataNode_def existInNodes_def find_None_iff)

lemma UnfreezeDataNode_eq:
  "Data_UnfreezeDataNode nid d =
     (if nid = 0 then (Some ErrNodeIDRequired, d)
      else if nid \<notin> ni_ID ` set (DataNodes d) then (Some ErrNodeNotFound, d)
      else if nid \<notin> set (FreezedDataNodes d) then (Some ErrNodeNotFreezed, d)
      else (None, d\<lparr>FreezedDataNodes := remove1 nid (FreezedDataNodes d)\<rparr>))"
  by (auto simp: Data_UnfreezeDataNode_def existInNodes_def find_None_iff Let_def remove_at_getFreezed)

lemma wf_FreezeDataNode [inv_intros]: "wf_data d \<Longrightarrow> wf_data (snd (Data_FreezeDataNode nid d))"
  by (auto simp: FreezeDataNode_eq wf_data_def wf_nodes_def)

lemma wf_UnfreezeDataNode [inv_intros]: "wf_data d \<Longrightarrow> wf_data (snd (Data_UnfreezeDataNode nid d))"
  by (auto simp: UnfreezeDataNode_eq wf_data_def wf_nodes_def dest: notin_set_remove1 [rotated])

lemma dropped_ids:
  "dropped now nid g g' \<Longrightarrow> sg_ID g' = sg_ID g \<and> map si_ID (sg_Shards g') = map si_ID (sg_Shards g)"
  by (auto simp: dropped_def dropped_shard_def list_all2_conv_all_nth intro!: nth_equalityI split: if_splits)

lemma list_all2_map_eq: "list_all2 (\<lambda>a b. f b = f a) xs ys \<Longrightarrow> map f ys = map f xs"
  by (auto simp: list_all2_conv_all_nth intro: nth_equalityI)

lemma list_all2_propagate:
  "list_all2 R xs ys \<Longrightarrow> \<forall>x\<in>set xs. P x \<Longrightarrow> (\<And>x y. P x \<Longrightarrow> R x y \<Longrightarrow> Q y) \<Longrightarrow> \<forall>y\<in>set ys. Q y"
  by (induction rule: list_all2_induct) auto

lemma wf_DeleteDataNode [inv_intros]:
  assumes "wf_data d"
  shows "wf_data (snd (Data_DeleteDataNode now nid d))"
proof (cases "nid \<noteq> 0 \<and> nid \<in> ni_ID ` set (DataNodes d)")
  case False
  then have "filter (\<lambda>n. ni_ID n \<noteq> nid) (DataNodes d) = DataNodes d" if "nid \<noteq> 0"
    using that by (auto simp: filter_id_conv)
  with assms show ?thesis by (auto simp: Data_DeleteDataNode_def)
next
  case True
  let ?m = "meta_Data d"
  let ?m' = "meta_Data (snd (Data_DeleteDataNode now nid d))"
  have wf: "\<forall>g\<in>set (all_groups ?m). wf_group g"
    using assms wf_meta_groups by (auto simp: wf_data_def)
  note eq = DeleteDataNode_eq [OF wf conjunct1 [OF True] conjunct2 [OF True], of now]
  have all2: "list_all2 (dropped now nid) (all_groups ?m) (all_groups ?m')"
    using wf True by (intro DeleteDataNode_groups) auto
  then have ids: "map sg_ID (all_groups ?m') = map sg_ID (all_groups ?m)"
    "map (\<lambda>g. map si_ID (sg_Shards g)) (all_groups ?m') = map (\<lambda>g. map si_ID (sg_Shards g)) (all_groups ?m)"
    by (rule list_all2_map_eq [OF list_all2_mono], simp add: dropped_ids)+
  have wf': "\<forall>g\<in>set (all_groups ?m'). wf_group g"
    using all2 wf by (rule list_all2_propagate) (rule wf_group_dropped)
  have sids: "map si_ID (all_shards ?m') = map si_ID (all_shards ?m)"
    using ids(2) by (simp add: all_shards_def map_concat comp_def)
  have max: "md_MaxShardID ?m' = md_MaxShardID ?m" "md_MaxShardGroupID ?m' = md_MaxShardGroupID ?m"
    by (simp_all add: eq)
  have bound: "\<forall>x\<in>set (map si_ID (all_shards ?m')). x \<le> md_MaxShardID ?m'"
    "\<forall>x\<in>set (map sg_ID (all_groups ?m')). x \<le> md_MaxShardGroupID ?m'"
    using assms unfolding sids ids(1) max by (auto simp: wf_data_def wf_meta_def)
  have "distinct (map si_ID (all_shards ?m'))" "distinct (map sg_ID (all_groups ?m'))"
    using assms unfolding sids ids(1) by (auto simp: wf_data_def wf_meta_def)
  with wf' bound have "wf_meta ?m'"
    by (auto simp: wf_meta_def wf_group_def all_shards_def)
  moreover have "wf_nodes (snd (Data_DeleteDataNode now nid d))"
    using assms by (auto simp: eq wf_data_def wf_nodes_def distinct_map_filter)
  ultimately show ?thesis by (simp add: wf_data_def)
qed

lemma wf_add_group:
  assumes "wf_data d" and "room d" and "rp_valid (meta_Data d) p" and "availableNodes d \<noteq> []"
  shows "wf_meta (add_group L t p d)"
proof -
  let ?m = "meta_Data d" and ?m' = "add_group L t p d"
  let ?g = "new_group L t d (rp_get (meta_Data d) p)"
  let ?k = "length (availableNodes d) div replicas d (rp_get (meta_Data d) p)"
  have nodes: "distinct (map ni_ID (DataNodes d))" and wfm: "wf_meta ?m"
    using assms(1) by (auto simp: wf_data_def wf_nodes_def)
  have "?k \<le> length (DataNodes d)"
    by (rule order.trans [OF div_le_dividend]) (simp add: availableNodes_def length_filter_le)
  then have k: "unat (md_MaxShardID ?m) + ?k < 2 ^ 64" using assms(2) by (simp add: room_def)
  have max: "md_MaxShardID ?m' = md_MaxShardID ?m + of_nat ?k"
    "md_MaxShardGroupID ?m' = md_MaxShardGroupID ?m + 1"
    by (simp_all add: add_group_def Let_def rp_set_def)
  note fresh = fresh_ids [OF k, folded new_group_ids [of L t d "rp_get (meta_Data d) p"]]
  have grow: "md_MaxShardID ?m \<le> md_MaxShardID ?m + of_nat ?k"
    using unat_plus_of_nat [OF k] by (simp add: word_le_nat_alt)
  have gmax: "unat (md_MaxShardGroupID ?m) + 1 < 2 ^ 64" using assms(2) by (simp add: room_def)
  have groups: "mset (all_groups ?m') = mset (?g # all_groups ?m)"
    using add_group_mset [OF assms(3)] by simp
  have shards: "mset (all_shards ?m') = mset (sg_Shards ?g @ all_shards ?m)"
    using mset_concat_map_cong [OF groups, of sg_Shards] by (simp add: all_shards_def)
  have placed: "placed (availableNodes d) (replicas d (rp_get ?m p)) ?g"
    using nodes assms(4) by (rule new_group_placed)
  have "wf_shard s" if "s \<in> set (sg_Shards ?g)" for s
    using placed that assms(1)
    by (auto simp: placed_def wf_shard_def distinct_concat_iff wf_data_def wf_nodes_def availableNodes_def)
  then have new: "\<forall>s\<in>set (sg_Shards ?g). wf_shard s \<and> md_MaxShardID ?m < si_ID s \<and> si_ID s \<le> md_MaxShardID ?m'"
    using fresh(2) max(1) by simp
  have "distinct (map si_ID (sg_Shards ?g @ all_shards ?m))"
    using fresh(1) new wfm by (fastforce simp: wf_meta_def)
  then have "distinct (map si_ID (all_shards ?m'))"
    using mset_eq_imp_distinct_iff [of "map si_ID (all_shards ?m')" "map si_ID (sg_Shards ?g @ all_shards ?m)"]
      shards by (metis mset_map)
  moreover have "\<forall>s\<in>set (all_shards ?m'). wf_shard s \<and> si_ID s \<le> md_MaxShardID ?m'"
    using new wfm grow max(1) mset_eq_setD [OF shards] by (auto simp: wf_meta_def)
  moreover have "distinct (map sg_ID (?g # all_groups ?m))"
    using wfm less_succ [OF gmax] by (fastforce simp: wf_meta_def new_group_def)
  then have "distinct (map sg_ID (all_groups ?m'))"
    using mset_eq_imp_distinct_iff [of "map sg_ID (all_groups ?m')" "map sg_ID (?g # all_groups ?m)"]
      groups by (metis mset_map)
  moreover have "\<forall>g\<in>set (all_groups ?m'). sg_ID g \<le> md_MaxShardGroupID ?m'"
    using wfm less_succ [OF gmax] max(2) mset_eq_setD [OF groups]
    by (auto simp: wf_meta_def new_group_def dest: order.strict_implies_order)
  ultimately show ?thesis by (simp add: wf_meta_def)
qed

lemma CreateShardGroup_cases:
  assumes "rp_lookup_ok L"
  obtains (unchanged) "snd (Data_CreateShardGroup L db rp t d) = d"
  | (counted) "snd (Data_CreateShardGroup L db rp t d) =
      d\<lparr>meta_Data := (meta_Data d)\<lparr>md_MaxShardGroupID := md_MaxShardGroupID (meta_Data d) + 1\<rparr>\<rparr>"
  | (added) p where "rp_valid (meta_Data d) p" and "availableNodes d \<noteq> []"
      and "snd (Data_CreateShardGroup L db rp t d) = d\<lparr>meta_Data := add_group L t p d\<rparr>"
proof (cases "\<exists>p. RetentionPolicy L (meta_Data d) db rp = Inr (Some p) \<and>
    ShardGroupByTimestamp L (rp_get (meta_Data d) p) t = None \<and> DataNodes d \<noteq> []")
  case False
  then have "snd (Data_CreateShardGroup L db rp t d) = d"
    by (auto simp: Data_CreateShardGroup_def Let_def split: sum.splits option.splits)
  then show thesis by (rule unchanged)
next
  case True
  then obtain p where p: "RetentionPolicy L (meta_Data d) db rp = Inr (Some p)"
    "ShardGroupByTimestamp L (rp_get (meta_Data d) p) t = None" "DataNodes d \<noteq> []" by blast
  show thesis
  proof (cases "availableNodes d = []")
    case True
    then have "\<forall>n\<in>set (DataNodes d). ni_ID n \<in> set (FreezedDataNodes d)"
      by (auto simp: availableNodes_def filter_empty_conv)
    from CreateShardGroup_frozen [OF p this] show thesis
      using unchanged counted by (auto split: if_splits)
  next
    case False
    show thesis
    proof (cases "0 \<le> rp_ReplicaN (rp_get (meta_Data d) p)")
      case True
      from CreateShardGroup_new [OF p(1,2) False this] False show thesis
        using added [OF rp_lookup_valid [OF assms p(1)]] by simp
    next
      case neg: False
      with p have "snd (Data_CreateShardGroup L db rp t d) = d"
        by (auto simp: Data_CreateShardGroup_def replica_count_def Let_def)
      then show thesis by (rule unchanged)
    qed
  qed
qed

lemma wf_CreateShardGroup [inv_intros]:
  assumes "rp_lookup_ok L" and "wf_data d" and "room d"
  shows "wf_data (snd (Data_CreateShardGroup L db rp t d))"
  using assms(1)
proof (cases rule: CreateShardGroup_cases [of L db rp t d])
  case unchanged
  with assms(2) show ?thesis by simp
next
  case counted
  have "unat (md_MaxShardGroupID (meta_Data d)) + 1 < 2 ^ 64" using assms(3) by (simp add: room_def)
  from less_succ(2) [OF this] show ?thesis
    using assms(2) unfolding counted
    by (auto simp: wf_data_def wf_nodes_def wf_meta_def all_shards_def all_groups_def intro: less_imp_le)
next
  case (added p)
  with wf_add_group [OF assms(2,3) added(1,2)] assms(2) show ?thesis
    by (auto simp: wf_data_def elim!: wf_nodes_cong)
qed

lemma upd_first_map:
  "upd_first g xs = Some ys \<Longrightarrow> (\<And>x y. g x = Some y \<Longrightarrow> f y = f x) \<Longrightarrow> map f ys = map f xs"
  by (erule upd_first_SomeE) auto

lemma upd_first_all:
  "upd_first g xs = Some ys \<Longrightarrow> (\<And>x y. g x = Some y \<Longrightarrow> P x \<Longrightarrow> P y) \<Longrightarrow> \<forall>x\<in>set xs. P x \<Longrightarrow> \<forall>y\<in>set ys. P y"
  by (erule upd_first_SomeE) auto

lemma upd_db_group_ids:
  assumes "upd_first (upd_db f) (md_Databases m) = Some dbs"
  shows "map sg_ID (all_groups (m\<lparr>md_Databases := dbs\<rparr>)) = map sg_ID (all_groups m)"
proof -
  have sg: "sg_ID g' = sg_ID g" if "upd_sg f g = Some g'" for g g'
    using that by (auto simp: upd_sg_def)
  have rp: "map sg_ID (rp_ShardGroups rp') = map sg_ID (rp_ShardGroups rp)" if "upd_rp f rp = Some rp'" for rp rp'
  proof -
    from that obtain sgs where "upd_first (upd_sg f) (rp_ShardGroups rp) = Some sgs"
      and "rp' = rp\<lparr>rp_ShardGroups := sgs\<rparr>" by (auto simp: upd_rp_def)
    with upd_first_map [OF this(1), of sg_ID] sg show ?thesis by simp
  qed
  have "map (\<lambda>rp. map sg_ID (rp_ShardGroups rp)) (db_RetentionPolicies db') =
      map (\<lambda>rp. map sg_ID (rp_ShardGroups rp)) (db_RetentionPolicies db)" if "upd_db f db = Some db'" for db db'
  proof -
    from that obtain rps where "upd_first (upd_rp f) (db_RetentionPolicies db) = Some rps"
      and "db' = db\<lparr>db_RetentionPolicies := rps\<rparr>" by (auto simp: upd_db_def)
    with upd_first_map [OF this(1), of "\<lambda>rp. map sg_ID (rp_ShardGroups rp)"] rp show ?thesis by simp
  qed
  then have "map (\<lambda>db. concat (map (\<lambda>rp. map sg_ID (rp_ShardGroups rp)) (db_RetentionPolicies db))) dbs =
      map (\<lambda>db. concat (map (\<lambda>rp. map sg_ID (rp_ShardGroups rp)) (db_RetentionPolicies db))) (md_Databases m)"
    by (intro upd_first_map [OF assms]) simp
  then show ?thesis by (simp add: all_groups_def map_concat comp_def)
qed

lemma wf_upd_shard:
  assumes "wf_data d" and "\<And>s s'. f s = Some s' \<Longrightarrow> si_ID s' = si_ID s \<and> (wf_shard s \<longrightarrow> wf_shard s')"
  shows "wf_data (case upd_first (upd_db f) (Databases d) of None \<Rightarrow> d | Some dbs \<Rightarrow> set_Databases dbs d)"
proof (cases "upd_first (upd_db f) (Databases d)")
  case None
  with assms(1) show ?thesis by simp
next
  case (Some dbs)
  let ?m = "meta_Data d" and ?m' = "(meta_Data d)\<lparr>md_Databases := dbs\<rparr>"
  have shards: "upd_first f (all_shards ?m) = Some (all_shards ?m')"
    using upd_first_shards [of f "Databases d"] Some by (simp add: all_shards_dbs)
  have ids: "map si_ID (all_shards ?m') = map si_ID (all_shards ?m)"
    using shards by (rule upd_first_map) (auto dest: assms(2))
  have wf: "wf_meta ?m" using assms(1) by (simp add: wf_data_def)
  have all: "\<forall>s\<in>set (all_shards ?m'). wf_shard s \<and> si_ID s \<le> md_MaxShardID ?m"
    using shards
  proof (rule upd_first_all)
    show "\<forall>s\<in>set (all_shards ?m). wf_shard s \<and> si_ID s \<le> md_MaxShardID ?m"
      using wf by (simp add: wf_meta_def)
  qed (auto dest: assms(2))
  have gids: "map sg_ID (all_groups ?m') = map sg_ID (all_groups ?m)"
    using Some by (rule upd_db_group_ids)
  have "\<forall>x\<in>set (map sg_ID (all_groups ?m')). x \<le> md_MaxShardGroupID ?m"
    using wf unfolding gids by (simp add: wf_meta_def)
  then have bound: "\<forall>g\<in>set (all_groups ?m'). sg_ID g \<le> md_MaxShardGroupID ?m" by simp
  have "distinct (map si_ID (all_shards ?m'))" "distinct (map sg_ID (all_groups ?m'))"
    using wf unfolding ids gids by (simp_all add: wf_meta_def)
  with all bound have "wf_meta ?m'" by (simp add: wf_meta_def)
  with assms(1) Some show ?thesis
    by (auto simp: wf_data_def set_Databases_def elim!: wf_nodes_cong)
qed

lemma wf_AddShardOwner [inv_intros]: "wf_data d \<Longrightarrow> nid \<noteq> 0 \<Longrightarrow> wf_data (Data_AddShardOwner sid nid d)"
  unfolding Data_AddShardOwner_def
  by (erule wf_upd_shard) (auto simp: add_owner_def wf_shard_def list_ex_iff owner_ids_def append_owner_def split: if_splits)

lemma wf_RemoveShardOwner [inv_intros]: "wf_data d \<Longrightarrow> wf_data (Data_RemoveShardOwner sid nid d)"
  unfolding Data_RemoveShardOwner_def
  by (erule wf_upd_shard) (auto simp: remove_owner_def wf_shard_def owner_ids_def distinct_map_filter split: if_splits)

lemma wf_rp_groups:
  assumes "wf_data d" and "rp_valid (meta_Data d) p"
    and "map sg_ID sgs = map sg_ID (rp_ShardGroups (rp_get (meta_Data d) p))"
    and "map sg_Shards sgs = map sg_Shards (rp_ShardGroups (rp_get (meta_Data d) p))"
  shows "wf_data (d\<lparr>meta_Data := rp_set p ((rp_get (meta_Data d) p)\<lparr>rp_ShardGroups := sgs\<rparr>) (meta_Data d)\<rparr>)"
proof -
  let ?m' = "rp_set p ((rp_get (meta_Data d) p)\<lparr>rp_ShardGroups := sgs\<rparr>) (meta_Data d)"
  obtain A B where A: "all_groups (meta_Data d) = A @ rp_ShardGroups (rp_get (meta_Data d) p) @ B"
    and B: "all_groups ?m' = A @ sgs @ B"
    by (rule all_groups_split [OF assms(2)]) simp
  have gids: "map sg_ID (all_groups ?m') = map sg_ID (all_groups (meta_Data d))"
    and shards: "all_shards ?m' = all_shards (meta_Data d)"
    using assms(3,4) by (simp_all add: A B all_shards_def)
  have max: "md_MaxShardID ?m' = md_MaxShardID (meta_Data d)"
    "md_MaxShardGroupID ?m' = md_MaxShardGroupID (meta_Data d)" by (simp_all add: rp_set_def)
  have "\<forall>x\<in>set (map sg_ID (all_groups ?m')). x \<le> md_MaxShardGroupID (meta_Data d)"
    "distinct (map sg_ID (all_groups ?m'))"
    using assms(1) unfolding gids by (simp_all add: wf_data_def wf_meta_def)
  with assms(1) have "wf_meta ?m'" by (simp add: wf_data_def wf_meta_def shards max)
  with assms(1) show ?thesis by (auto simp: wf_data_def elim!: wf_nodes_cong)
qed

lemma wf_DeleteShardGroup [inv_intros]:
  assumes "rp_lookup_ok L" and "wf_data d"
  shows "wf_data (snd (Data_DeleteShardGroup L db rp gid t d))"
proof (cases "\<exists>p sgs. RetentionPolicy L (meta_Data d) db rp = Inr (Some p) \<and>
    upd_first (\<lambda>g. if sg_ID g = gid then Some (g\<lparr>sg_DeletedAt := t\<rparr>) else None)
      (rp_ShardGroups (rp_get (meta_Data d) p)) = Some sgs")
  case False
  with assms(2) show ?thesis
    by (auto simp: Data_DeleteShardGroup_def Let_def split: sum.splits option.splits)
next
  case True
  then obtain p sgs where p: "RetentionPolicy L (meta_Data d) db rp = Inr (Some p)"
    and sgs: "upd_first (\<lambda>g. if sg_ID g = gid then Some (g\<lparr>sg_DeletedAt := t\<rparr>) else None)
      (rp_ShardGroups (rp_get (meta_Data d) p)) = Some sgs" by blast
  have "map sg_ID sgs = map sg_ID (rp_ShardGroups (rp_get (meta_Data d) p))"
    "map sg_Shards sgs = map sg_Shards (rp_ShardGroups (rp_get (meta_Data d) p))"
    by (rule upd_first_map [OF sgs], force split: if_splits)+
  from wf_rp_groups [OF assms(2) rp_lookup_valid [OF assms(1) p] this] show ?thesis
    by (simp add: Data_DeleteShardGroup_def p sgs)
qed

section \<open>Runs\<close>

text \<open>
  The operations the store applies to the metadata, as commands: a failed operation leaves the
  metadata it has produced so far. \<open>data_steps\<close> are the runs in which no counter wraps around and
  no shard is given the node 0 as an owner.
\<close>

datatype data_op =
    OpCreateDataNode string string
  | OpDeleteDataNode gtime u64
  | OpFreezeDataNode u64
  | OpUnfreezeDataNode u64
  | OpCreateShardGroup string string gtime
  | OpDeleteShardGroup string string u64 gtime
  | OpAddShardOwner u64 u64
  | OpRemoveShardOwner u64 u64

fun exec_op :: "'x influx_lib \<Rightarrow> data_op \<Rightarrow> 'x Data \<Rightarrow> 'x Data" where
  "exec_op L (OpCreateDataNode h tcp) d = snd (Data_CreateDataNode L h tcp d)"
| "exec_op L (OpDeleteDataNode now nid) d = snd (Data_DeleteDataNode now nid d)"
| "exec_op L (OpFreezeDataNode nid) d = snd (Data_FreezeDataNode nid d)"
| "exec_op L (OpUnfreezeDataNode nid) d = snd (Data_UnfreezeDataNode nid d)"
| "exec_op L (OpCreateShardGroup db rp t) d = snd (Data_CreateShardGroup L db rp t d)"
| "exec_op L (OpDeleteShardGroup db rp gid t) d = snd (Data_DeleteShardGroup L db rp gid t d)"
| "exec_op L (OpAddShardOwner sid nid) d = Data_AddShardOwner sid nid d"
| "exec_op L (OpRemoveShardOwner sid nid) d = Data_RemoveShardOwner sid nid d"

fun op_ok :: "data_op \<Rightarrow> bool" where
  "op_ok (OpAddShardOwner sid nid) = (nid \<noteq> 0)"
| "op_ok _ = True"

inductive data_steps :: "'x influx_lib \<Rightarrow> 'x Data \<Rightarrow> 'x Data \<Rightarrow> bool" for L where
  refl: "data_steps L d d"
| step: "data_steps L d d' \<Longrightarrow> room d' \<Longrightarrow> op_ok opr \<Longrightarrow> data_steps L d (exec_op L opr d')"

lemma wf_exec_op: "rp_lookup_ok L \<Longrightarrow> wf_data d \<Longrightarrow> room d \<Longrightarrow> op_ok opr \<Longrightarrow> wf_data (exec_op L opr d)"
  by (cases opr) (auto intro: inv_intros)


lemma example_wf: "wf_data example_data" "room example_data"
proof -
  show "wf_data example_data" by code_simp
  show "room example_data" by (simp add: room_def example_data_def example_meta_def)
qed


text \<open>
  Freezing a known data node that is not frozen succeeds and makes it frozen; a second
  attempt is refused; unfreezing it gives back exactly the former metadata. Frozen means left
  out of the nodes that new shards are placed on.
\<close>

theorem Freeze_Unfreeze:
  assumes "nid \<noteq> 0" and "nid \<in> ni_ID ` set (DataNodes d)" and "\<not> Data_IsFreezeDataNode nid d"
  shows "\<exists>d'. Data_FreezeDataNode nid d = (None, d') \<and> Data_IsFreezeDataNode nid d' \<and>
     nid \<notin> ni_ID ` set (availableNodes d') \<and>
     Data_FreezeDataNode nid d' = (Some ErrNodeAlreadyFreezed, d') \<and>
     Data_UnfreezeDataNode nid d' = (None, d)"
  using assms
  by (auto simp: FreezeDataNode_eq UnfreezeDataNode_eq Data_IsFreezeDataNode_def remove1_append availableNodes_def)

theorem Freeze_Unfreeze_witness:
  "(2 :: u64) \<noteq> 0 \<and> 2 \<in> ni_ID ` set (DataNodes example_data) \<and> \<not> Data_IsFreezeDataNode 2 example_data \<and>
   (\<exists>d'. Data_FreezeDataNode 2 example_data = (None, d') \<and> Data_UnfreezeDataNode 2 d' = (None, example_data))"
  using Freeze_Unfreeze [of 2 example_data]
  by (auto simp: example_data_def Data_IsFreezeDataNode_def getFreezed_def)

text \<open>
  (C6) With meta nodes registered, two data nodes can get the same ID: a data node reuses the
  ID of a meta node with the same HTTP address or the same TCP address, and two different data
  nodes can match one meta node, the first by one address and the second by the other.
\<close>

definition one_meta_node :: "unit Data" where
  "one_meta_node = \<lparr>meta_Data = example_meta, MetaNodes = [\<lparr>ni_ID = 1, ni_Host = ''h'', ni_TCPHost = ''t''\<rparr>],
     DataNodes = [], FreezedDataNodes = [], MaxNodeID = 1\<rparr>"


definition codec_ok :: "'x codec \<Rightarrow> bool" where
  "codec_ok C \<longleftrightarrow>
     (\<forall>m m0 b. md_MarshalBinary C m = Inr b \<longrightarrow> md_UnmarshalBinary C b m0 = (None, m)) \<and>
     (\<forall>js b. json_Marshal C js = Inr b \<longrightarrow> json_Unmarshal C b = Inr js)"

lemma Data_roundtrip:
  "codec_ok C \<Longrightarrow> Data_MarshalBinary C d = Inr b \<Longrightarrow> Data_UnmarshalBinary C b d' = (None, d)"
  by (auto simp: codec_ok_def Data_MarshalBinary_def Data_UnmarshalBinary_def Data_marshal_def
      Data_unmarshal_def Let_def split: sum.splits)


definition unary_codec :: "unit codec" where
  "unary_codec =
     \<lparr>md_MarshalBinary = (\<lambda>m. if m = example_meta then Inr [1] else Inl (LibErr ''marshal'')),
      md_UnmarshalBinary = (\<lambda>b m. if b = [1] then (None, example_meta) else (Some (LibErr ''unmarshal''), m)),
      json_Marshal = (\<lambda>js. if js = \<lparr>js_Data = [1], js_MetaNodes = [], js_DataNodes = [], js_MaxNodeID = 3,
           js_FreezedDataNodes = []\<rparr> then Inr [2] else Inl (LibErr ''json'')),
      json_Unmarshal = (\<lambda>b. if b = [2] then Inr \<lparr>js_Data = [1], js_MetaNodes = [], js_DataNodes = [], js_MaxNodeID = 3,
           js_FreezedDataNodes = []\<rparr> else Inl (LibErr ''json''))\<rparr>"


end
