(* ===== verification/MetaStore.thy ===== *)
theory MetaStore
  imports MetaInv
begin

text \<open>
  \<^verbatim>\<open>services/meta/store.go\<close>: the store of the metadata on every node. A method of \<^verbatim>\<open>Client\<close> is a
  function of the client; the methods run under the client's mutex, so each is one step.
  Changes work on a clone of the metadata that \<^verbatim>\<open>commit\<close> installs. The channel \<^verbatim>\<open>changed\<close>, which
  is closed and replaced at every change, is the number of changes so far. The snapshot on disk
  is disabled in the code (\<^verbatim>\<open>snapshot\<close> and \<^verbatim>\<open>Load\<close> do nothing), so committing cannot fail.

  The methods of the imported \<^verbatim>\<open>meta.Data\<close> that only this file calls are the fields of
  \<open>meta_ops\<close>. The hash functions are parameters as well: what is shown of the authentication cache
  holds for all of them.
\<close>

type_synonym privilege = int

record RetentionPolicySpec =
  rps_Name :: string
  rps_ReplicaN :: "int option"
  rps_Duration :: "duration option"
  rps_ShardGroupDuration :: duration

record RetentionPolicyUpdate =
  rpu_Name :: "string option"
  rpu_Duration :: "duration option"
  rpu_ReplicaN :: "int option"
  rpu_ShardGroupDuration :: "duration option"

type_synonym 'x meta_op = "'x MetaData \<Rightarrow> go_error option \<times> 'x MetaData"

record 'x meta_ops =
  lib_Database :: "'x MetaData \<Rightarrow> string \<Rightarrow> nat option"
  lib_CreateDatabase :: "string \<Rightarrow> 'x meta_op"
  lib_DropDatabase :: "string \<Rightarrow> 'x meta_op"
  lib_CreateRetentionPolicy :: "string \<Rightarrow> RetentionPolicyInfo \<Rightarrow> bool \<Rightarrow> 'x meta_op"
  lib_DropRetentionPolicy :: "string \<Rightarrow> string \<Rightarrow> 'x meta_op"
  lib_UpdateRetentionPolicy :: "string \<Rightarrow> string \<Rightarrow> RetentionPolicyUpdate \<Rightarrow> bool \<Rightarrow> 'x meta_op"
  lib_CreateUser :: "string \<Rightarrow> string \<Rightarrow> bool \<Rightarrow> 'x meta_op"
  lib_UpdateUser :: "string \<Rightarrow> string \<Rightarrow> 'x meta_op"
  lib_DropUser :: "string \<Rightarrow> 'x meta_op"
  lib_SetPrivilege :: "string \<Rightarrow> string \<Rightarrow> privilege \<Rightarrow> 'x meta_op"
  lib_SetAdminPrivilege :: "string \<Rightarrow> bool \<Rightarrow> 'x meta_op"
  lib_UserPrivileges :: "'x MetaData \<Rightarrow> string \<Rightarrow> go_error + (string \<times> privilege) list"
  lib_UserPrivilege :: "'x MetaData \<Rightarrow> string \<Rightarrow> string \<Rightarrow> go_error + privilege option"
  lib_AdminUserExists :: "'x MetaData \<Rightarrow> bool"
  lib_CreateContinuousQuery :: "string \<Rightarrow> string \<Rightarrow> string \<Rightarrow> 'x meta_op"
  lib_DropContinuousQuery :: "string \<Rightarrow> string \<Rightarrow> 'x meta_op"
  lib_CreateSubscription :: "string \<Rightarrow> string \<Rightarrow> string \<Rightarrow> string \<Rightarrow> string list \<Rightarrow> 'x meta_op"
  lib_DropSubscription :: "string \<Rightarrow> string \<Rightarrow> string \<Rightarrow> 'x meta_op"
  lib_DropShard :: "u64 \<Rightarrow> 'x MetaData \<Rightarrow> 'x MetaData"
  lib_TruncateShardGroups :: "gtime \<Rightarrow> 'x MetaData \<Rightarrow> 'x MetaData"
  lib_ShardGroupByTimestamp :: "'x MetaData \<Rightarrow> string \<Rightarrow> string \<Rightarrow> gtime \<Rightarrow> go_error + ShardGroupInfo option"
  lib_db_RetentionPolicy :: "DatabaseInfo \<Rightarrow> string \<Rightarrow> RetentionPolicyInfo option"
  sg_Overlaps :: "ShardGroupInfo \<Rightarrow> gtime \<Rightarrow> gtime \<Rightarrow> bool"
  DefaultRetentionPolicyInfo :: RetentionPolicyInfo
  NewRetentionPolicyInfo :: "RetentionPolicySpec \<Rightarrow> RetentionPolicyInfo"
  spec_Matches :: "RetentionPolicySpec \<Rightarrow> RetentionPolicyInfo option \<Rightarrow> bool"
  MinRetentionPolicyDuration :: duration
  ErrRetentionPolicyDurationTooLow :: go_error
  ErrRetentionPolicyConflict :: go_error
  ErrUserExists :: go_error
  ErrUserNotFound :: go_error
  ErrAuthenticate :: go_error
  ErrShardGroupExists :: go_error
  CompareHashAndPassword :: "string \<Rightarrow> string \<Rightarrow> go_error option"
  sha256 :: "byte list \<Rightarrow> byte list"

record authUser =
  au_bhash :: string
  au_salt :: "byte list"
  au_hash :: "byte list"

record 'x Client =
  cacheData :: "'x Data"
  authCache :: "string \<Rightarrow> authUser option"
  changed :: nat
  closing :: bool
  retentionAutoCreate :: bool

abbreviation cMeta :: "'x Client \<Rightarrow> 'x MetaData" where
  "cMeta c \<equiv> meta_Data (cacheData c)"

section \<open>Committing\<close>

definition NewClient :: "'x \<Rightarrow> bool \<Rightarrow> 'x Client" where
  "NewClient rest autoCreate =
     \<lparr>cacheData = \<lparr>meta_Data = \<lparr>md_ClusterID = 0, md_Index = 1, md_Databases = [], md_Users = [],
                       md_MaxShardGroupID = 0, md_MaxShardID = 0, md_rest = rest\<rparr>,
                    MetaNodes = [], DataNodes = [], FreezedDataNodes = [], MaxNodeID = 0\<rparr>,
      authCache = (\<lambda>_. None), changed = 0, closing = False, retentionAutoCreate = autoCreate\<rparr>"

definition snapshot :: "'x Data \<Rightarrow> go_error option" where
  "snapshot data = None"

definition Load :: "'x Client \<Rightarrow> go_error option \<times> 'x Client" where
  "Load c = (None, c)"

definition commit :: "'x Data \<Rightarrow> 'x Client \<Rightarrow> go_error option \<times> 'x Client" where
  "commit data c =
     (let data = data\<lparr>meta_Data := (meta_Data data)\<lparr>md_Index := md_Index (meta_Data data) + 1\<rparr>\<rparr>
      in case snapshot data of
           Some e \<Rightarrow> (Some e, c)
         | None \<Rightarrow> (None, c\<lparr>cacheData := data, changed := changed c + 1\<rparr>))"

definition Client_Open :: "'x Client \<Rightarrow> go_error option \<times> 'x Client" where
  "Client_Open c =
     (case Load c of
        (Some e, c) \<Rightarrow> (Some e, c)
      | (None, c) \<Rightarrow> (if md_Index (cMeta c) = 1 then (snapshot (cacheData c), c) else (None, c)))"

definition Client_Close :: "'x Client \<Rightarrow> go_error option \<times> 'x Client" where
  "Client_Close c = (if closing c then (None, c) else (None, c\<lparr>closing := True\<rparr>))"

text \<open>
  The shape most methods share: clone, change the clone, commit it unless the change failed.
\<close>

definition clone_commit ::
    "'x influx_lib \<Rightarrow> ('x Data \<Rightarrow> go_error option \<times> 'x Data) \<Rightarrow> 'x Client \<Rightarrow> go_error option \<times> 'x Client" where
  "clone_commit L f c =
     (case f (Data_Clone L (cacheData c)) of
        (Some e, _) \<Rightarrow> (Some e, c)
      | (None, data) \<Rightarrow> commit data c)"

definition on_meta :: "'x meta_op \<Rightarrow> 'x Data \<Rightarrow> go_error option \<times> 'x Data" where
  "on_meta f d = (let (err, m) = f (meta_Data d) in (err, d\<lparr>meta_Data := m\<rparr>))"

section \<open>Nodes\<close>

definition Client_ClusterID :: "'x Client \<Rightarrow> u64" where
  "Client_ClusterID c = md_ClusterID (cMeta c)"

definition Client_DataNode :: "u64 \<Rightarrow> 'x Client \<Rightarrow> go_error + NodeInfo" where
  "Client_DataNode nid c =
     (case Data_DataNode nid (cacheData c) of None \<Rightarrow> Inl ErrNodeNotFound | Some n \<Rightarrow> Inr n)"

definition Client_DataNodes :: "'x Client \<Rightarrow> NodeInfo list" where
  "Client_DataNodes c = DataNodes (cacheData c)"

definition Client_DataNodeByHTTPHost :: "string \<Rightarrow> 'x Client \<Rightarrow> go_error + NodeInfo" where
  "Client_DataNodeByHTTPHost httpAddr c =
     (case find (\<lambda>n. ni_Host n = httpAddr) (DataNodes (cacheData c)) of
        None \<Rightarrow> Inl ErrNodeNotFound | Some n \<Rightarrow> Inr n)"

definition Client_DataNodeByTCPHost :: "string \<Rightarrow> 'x Client \<Rightarrow> go_error + NodeInfo" where
  "Client_DataNodeByTCPHost tcpAddr c =
     (case find (\<lambda>n. ni_TCPHost n = tcpAddr) (DataNodes (cacheData c)) of
        None \<Rightarrow> Inl ErrNodeNotFound | Some n \<Rightarrow> Inr n)"

text \<open>This method changes the metadata in place, not a clone of it.\<close>

definition Client_CreateDataNode ::
    "'x influx_lib \<Rightarrow> string \<Rightarrow> string \<Rightarrow> 'x Client \<Rightarrow> (go_error + NodeInfo) \<times> 'x Client" where
  "Client_CreateDataNode L httpAddr tcpAddr c =
     (let (r, data) = Data_CreateDataNode L httpAddr tcpAddr (cacheData c);
          c = c\<lparr>cacheData := data\<rparr>
      in case r of
           Inl e \<Rightarrow> (Inl e, c)
         | Inr _ \<Rightarrow>
             (case Client_DataNodeByTCPHost tcpAddr c of
                Inl e \<Rightarrow> (Inl e, c)
              | Inr n \<Rightarrow>
                  (case commit (cacheData c) c of
                     (Some e, c) \<Rightarrow> (Inl e, c)
                   | (None, c) \<Rightarrow> (Inr n, c))))"

definition Client_DeleteDataNode :: "'x influx_lib \<Rightarrow> gtime \<Rightarrow> u64 \<Rightarrow> 'x Client \<Rightarrow> go_error option \<times> 'x Client" where
  "Client_DeleteDataNode L now nid = clone_commit L (Data_DeleteDataNode now nid)"

definition Client_MetaNodes :: "'x Client \<Rightarrow> NodeInfo list" where
  "Client_MetaNodes c = MetaNodes (cacheData c)"

definition Client_MetaNodeByAddr :: "string \<Rightarrow> 'x Client \<Rightarrow> NodeInfo option" where
  "Client_MetaNodeByAddr addr c = find (\<lambda>n. ni_Host n = addr) (MetaNodes (cacheData c))"

definition Client_IsDataNodeFreezed :: "u64 \<Rightarrow> 'x Client \<Rightarrow> bool" where
  "Client_IsDataNodeFreezed nid c = Data_IsFreezeDataNode nid (cacheData c)"

definition Client_FreezeDataNode :: "'x influx_lib \<Rightarrow> u64 \<Rightarrow> 'x Client \<Rightarrow> go_error option \<times> 'x Client" where
  "Client_FreezeDataNode L nid = clone_commit L (Data_FreezeDataNode nid)"

definition Client_UnfreezeDataNode :: "'x influx_lib \<Rightarrow> u64 \<Rightarrow> 'x Client \<Rightarrow> go_error option \<times> 'x Client" where
  "Client_UnfreezeDataNode L nid = clone_commit L (Data_UnfreezeDataNode nid)"

section \<open>Databases and retention policies\<close>

definition Client_Database :: "string \<Rightarrow> 'x Client \<Rightarrow> DatabaseInfo option" where
  "Client_Database name c = find (\<lambda>d. db_Name d = name) (md_Databases (cMeta c))"

definition Client_Databases :: "'x Client \<Rightarrow> DatabaseInfo list" where
  "Client_Databases c = md_Databases (cMeta c)"

definition db_at :: "'x Data \<Rightarrow> nat option \<Rightarrow> DatabaseInfo option" where
  "db_at d i = map_option (\<lambda>i. Databases d ! i) i"

definition Client_CreateDatabase ::
    "'x influx_lib \<Rightarrow> 'x meta_ops \<Rightarrow> string \<Rightarrow> 'x Client \<Rightarrow> (go_error + DatabaseInfo option) \<times> 'x Client" where
  "Client_CreateDatabase L M name c =
     (let data = Data_Clone L (cacheData c)
      in case lib_Database M (meta_Data data) name of
           Some i \<Rightarrow> (Inr (db_at data (Some i)), c)
         | None \<Rightarrow>
             (case on_meta (lib_CreateDatabase M name) data of
                (Some e, _) \<Rightarrow> (Inl e, c)
              | (None, data) \<Rightarrow>
                  (case (if retentionAutoCreate c
                         then on_meta (lib_CreateRetentionPolicy M name (DefaultRetentionPolicyInfo M) True) data
                         else (None, data)) of
                     (Some e, _) \<Rightarrow> (Inl e, c)
                   | (None, data) \<Rightarrow>
                       let db = db_at data (lib_Database M (meta_Data data) name)
                       in (case commit data c of
                             (Some e, c) \<Rightarrow> (Inl e, c)
                           | (None, c) \<Rightarrow> (Inr db, c)))))"

text \<open>
  The guard on the duration of a policy: set, below the minimum and not 0 (which means forever).
\<close>

definition duration_too_low :: "'x meta_ops \<Rightarrow> RetentionPolicySpec \<Rightarrow> bool" where
  "duration_too_low M spec =
     (case rps_Duration spec of None \<Rightarrow> False | Some d \<Rightarrow> d < MinRetentionPolicyDuration M \<and> d \<noteq> 0)"

definition Client_CreateDatabaseWithRetentionPolicy ::
    "'x influx_lib \<Rightarrow> 'x meta_ops \<Rightarrow> string \<Rightarrow> RetentionPolicySpec option \<Rightarrow> 'x Client
     \<Rightarrow> (go_error + DatabaseInfo option) \<times> 'x Client" where
  "Client_CreateDatabaseWithRetentionPolicy L M name sp c =
     (case sp of
        None \<Rightarrow> (Inl (Errorf ''CreateDatabaseWithRetentionPolicy called with nil spec''), c)
      | Some spec \<Rightarrow>
          let data = Data_Clone L (cacheData c)
          in if duration_too_low M spec then (Inl (ErrRetentionPolicyDurationTooLow M), c)
             else
               case (case lib_Database M (meta_Data data) name of
                       None \<Rightarrow> on_meta (lib_CreateDatabase M name) data
                     | Some _ \<Rightarrow> (None, data)) of
                 (Some e, _) \<Rightarrow> (Inl e, c)
               | (None, data) \<Rightarrow>
                   (case lib_Database M (meta_Data data) name of
                      None \<Rightarrow> (Inl (Panic ''nil pointer dereference''), c)
                    | Some i \<Rightarrow>
                        let rpi = NewRetentionPolicyInfo M spec
                        in case (if length (db_RetentionPolicies (Databases data ! i)) = 0
                                 then on_meta (lib_CreateRetentionPolicy M name rpi True) data
                                 else if \<not> spec_Matches M spec
                                           (lib_db_RetentionPolicy M (Databases data ! i) (rp_Name rpi))
                                 then (Some (ErrRetentionPolicyConflict M), data)
                                 else (None, data)) of
                             (Some e, _) \<Rightarrow> (Inl e, c)
                           | (None, data) \<Rightarrow>
                               if db_DefaultRetentionPolicy (Databases data ! i) \<noteq> rp_Name rpi
                               then (Inl (ErrRetentionPolicyConflict M), c)
                               else
                                 (case commit data c of
                                    (Some e, c) \<Rightarrow> (Inl e, c)
                                  | (None, c) \<Rightarrow> (Inr (db_at data (lib_Database M (meta_Data data) name)), c))))"

definition Client_DropDatabase :: "'x influx_lib \<Rightarrow> 'x meta_ops \<Rightarrow> string \<Rightarrow> 'x Client \<Rightarrow> go_error option \<times> 'x Client" where
  "Client_DropDatabase L M name = clone_commit L (on_meta (lib_DropDatabase M name))"

definition Client_CreateRetentionPolicy ::
    "'x influx_lib \<Rightarrow> 'x meta_ops \<Rightarrow> string \<Rightarrow> RetentionPolicySpec \<Rightarrow> bool \<Rightarrow> 'x Client
     \<Rightarrow> (go_error + RetentionPolicyInfo) \<times> 'x Client" where
  "Client_CreateRetentionPolicy L M database spec makeDefault c =
     (if duration_too_low M spec then (Inl (ErrRetentionPolicyDurationTooLow M), c)
      else
        let rp = NewRetentionPolicyInfo M spec
        in case clone_commit L (on_meta (lib_CreateRetentionPolicy M database rp makeDefault)) c of
             (Some e, c) \<Rightarrow> (Inl e, c)
           | (None, c) \<Rightarrow> (Inr rp, c))"

definition Client_RetentionPolicy ::
    "'x influx_lib \<Rightarrow> 'x meta_ops \<Rightarrow> string \<Rightarrow> string \<Rightarrow> 'x Client \<Rightarrow> go_error + RetentionPolicyInfo option" where
  "Client_RetentionPolicy L M database name c =
     (case lib_Database M (cMeta c) database of
        None \<Rightarrow> Inl (ErrDatabaseNotFound L database)
      | Some i \<Rightarrow> Inr (lib_db_RetentionPolicy M (md_Databases (cMeta c) ! i) name))"

definition Client_DropRetentionPolicy ::
    "'x influx_lib \<Rightarrow> 'x meta_ops \<Rightarrow> string \<Rightarrow> string \<Rightarrow> 'x Client \<Rightarrow> go_error option \<times> 'x Client" where
  "Client_DropRetentionPolicy L M database name = clone_commit L (on_meta (lib_DropRetentionPolicy M database name))"

definition Client_UpdateRetentionPolicy ::
    "'x influx_lib \<Rightarrow> 'x meta_ops \<Rightarrow> string \<Rightarrow> string \<Rightarrow> RetentionPolicyUpdate \<Rightarrow> bool \<Rightarrow> 'x Client
     \<Rightarrow> go_error option \<times> 'x Client" where
  "Client_UpdateRetentionPolicy L M database name rpu makeDefault =
     clone_commit L (on_meta (lib_UpdateRetentionPolicy M database name rpu makeDefault))"

section \<open>Users\<close>

definition Client_Users :: "'x Client \<Rightarrow> UserInfo list" where
  "Client_Users c = md_Users (cMeta c)"

text \<open>The two results of \<^verbatim>\<open>user\<close>: a user or nil, and an error or nil.\<close>

definition Client_user :: "'x meta_ops \<Rightarrow> string \<Rightarrow> 'x Client \<Rightarrow> UserInfo option \<times> go_error option" where
  "Client_user M name c =
     (case find (\<lambda>u. u_Name u = name) (md_Users (cMeta c)) of
        Some u \<Rightarrow> (Some u, None)
      | None \<Rightarrow> (None, Some (ErrUserNotFound M)))"

definition hashWithSalt :: "'x meta_ops \<Rightarrow> byte list \<Rightarrow> string \<Rightarrow> byte list" where
  "hashWithSalt M salt password = sha256 M (salt @ string_bytes password)"

text \<open>The salt is the random bytes that \<^verbatim>\<open>crypto/rand\<close> delivers.\<close>

definition saltedHash :: "'x meta_ops \<Rightarrow> byte list \<Rightarrow> string \<Rightarrow> byte list \<times> byte list" where
  "saltedHash M random password = (take 32 random, hashWithSalt M (take 32 random) password)"

definition Client_CreateUser ::
    "'x influx_lib \<Rightarrow> 'x meta_ops \<Rightarrow> string \<Rightarrow> string \<Rightarrow> bool \<Rightarrow> 'x Client
     \<Rightarrow> (UserInfo option \<times> go_error option) \<times> 'x Client" where
  "Client_CreateUser L M name hashedPassword admin c =
     (let (u, err) = Client_user M name c
      in if err \<noteq> None \<and> u \<noteq> None
         then if u_Hash (the u) \<noteq> hashedPassword \<or> u_Admin (the u) \<noteq> admin
              then ((None, Some (ErrUserExists M)), c)
              else ((u, None), c)
         else
           (case clone_commit L (on_meta (lib_CreateUser M name hashedPassword admin)) c of
              (Some e, c) \<Rightarrow> ((None, Some e), c)
            | (None, c) \<Rightarrow> (Client_user M name c, c)))"

definition forget :: "string \<Rightarrow> 'x Client \<Rightarrow> 'x Client" where
  "forget name c = c\<lparr>authCache := (authCache c)(name := None)\<rparr>"

definition Client_UpdateUser ::
    "'x influx_lib \<Rightarrow> 'x meta_ops \<Rightarrow> string \<Rightarrow> string \<Rightarrow> 'x Client \<Rightarrow> go_error option \<times> 'x Client" where
  "Client_UpdateUser L M name hashedPassword c =
     (case on_meta (lib_UpdateUser M name hashedPassword) (Data_Clone L (cacheData c)) of
        (Some e, _) \<Rightarrow> (Some e, c)
      | (None, data) \<Rightarrow> (let (err, c) = commit data c in (err, forget name c)))"

definition Client_DropUser :: "'x influx_lib \<Rightarrow> 'x meta_ops \<Rightarrow> string \<Rightarrow> 'x Client \<Rightarrow> go_error option \<times> 'x Client" where
  "Client_DropUser L M name c =
     (case on_meta (lib_DropUser M name) (Data_Clone L (cacheData c)) of
        (Some e, _) \<Rightarrow> (Some e, c)
      | (None, data) \<Rightarrow> (let (err, c) = commit data c in (err, forget name c)))"

definition Client_SetPrivilege ::
    "'x influx_lib \<Rightarrow> 'x meta_ops \<Rightarrow> string \<Rightarrow> string \<Rightarrow> privilege \<Rightarrow> 'x Client \<Rightarrow> go_error option \<times> 'x Client" where
  "Client_SetPrivilege L M username database p = clone_commit L (on_meta (lib_SetPrivilege M username database p))"

definition Client_SetAdminPrivilege ::
    "'x influx_lib \<Rightarrow> 'x meta_ops \<Rightarrow> string \<Rightarrow> bool \<Rightarrow> 'x Client \<Rightarrow> go_error option \<times> 'x Client" where
  "Client_SetAdminPrivilege L M username admin = clone_commit L (on_meta (lib_SetAdminPrivilege M username admin))"

definition Client_UserPrivileges :: "'x meta_ops \<Rightarrow> string \<Rightarrow> 'x Client \<Rightarrow> go_error + (string \<times> privilege) list" where
  "Client_UserPrivileges M username c = lib_UserPrivileges M (cMeta c) username"

definition Client_UserPrivilege :: "'x meta_ops \<Rightarrow> string \<Rightarrow> string \<Rightarrow> 'x Client \<Rightarrow> go_error + privilege option" where
  "Client_UserPrivilege M username database c = lib_UserPrivilege M (cMeta c) username database"

definition Client_AdminUserExists :: "'x meta_ops \<Rightarrow> 'x Client \<Rightarrow> bool" where
  "Client_AdminUserExists M c = lib_AdminUserExists M (cMeta c)"

definition Client_Authenticate ::
    "'x meta_ops \<Rightarrow> byte list \<Rightarrow> string \<Rightarrow> string \<Rightarrow> 'x Client \<Rightarrow> (go_error + UserInfo) \<times> 'x Client" where
  "Client_Authenticate M random username password c =
     (case Client_user M username c of
        (_, Some e) \<Rightarrow> (Inl e, c)
      | (None, None) \<Rightarrow> (Inl (ErrUserNotFound M), c)
      | (Some userInfo, None) \<Rightarrow>
          if (case authCache c username of
                None \<Rightarrow> False
              | Some au \<Rightarrow> hashWithSalt M (au_salt au) password = au_hash au)
          then (Inr userInfo, c)
          else if CompareHashAndPassword M (u_Hash userInfo) password \<noteq> None
          then (Inl (ErrAuthenticate M), c)
          else
            let (salt, hashed) = saltedHash M random password
            in (Inr userInfo,
                c\<lparr>authCache := (authCache c)(username \<mapsto>
                    \<lparr>au_bhash = u_Hash userInfo, au_salt = salt, au_hash = hashed\<rparr>)\<rparr>))"

definition Client_UserCount :: "'x Client \<Rightarrow> nat" where
  "Client_UserCount c = length (md_Users (cMeta c))"

section \<open>Shards\<close>

definition u64_less :: "u64 \<Rightarrow> u64 \<Rightarrow> bool" where
  "u64_less a b = (a < b)"

definition Client_ShardIDs :: "'x Client \<Rightarrow> u64 list" where
  "Client_ShardIDs c =
     go_sort u64_less
       (concat (map (\<lambda>dbi. concat (map (\<lambda>rpi. concat (map (\<lambda>sgi. map si_ID (sg_Shards sgi))
          (rp_ShardGroups rpi))) (db_RetentionPolicies dbi))) (md_Databases (cMeta c))))"

text \<open>The positions of the groups of a policy in a time range, and the groups.\<close>

definition groups_in_range ::
    "'x influx_lib \<Rightarrow> 'x meta_ops \<Rightarrow> string \<Rightarrow> string \<Rightarrow> gtime \<Rightarrow> gtime \<Rightarrow> 'x Client
     \<Rightarrow> go_error + (rp_ptr \<times> nat) list" where
  "groups_in_range L M database policy tmin tmax c =
     (case RetentionPolicy L (cMeta c) database policy of
        Inl e \<Rightarrow> Inl e
      | Inr None \<Rightarrow> Inl (ErrRetentionPolicyNotFound L policy)
      | Inr (Some p) \<Rightarrow>
          let gs = rp_ShardGroups (rp_get (cMeta c) p)
          in Inr (map (Pair p)
               (filter (\<lambda>i. \<not> (sg_Deleted L (gs ! i) \<or> \<not> sg_Overlaps M (gs ! i) tmin tmax)) [0..<length gs])))"

definition group_at :: "'x Client \<Rightarrow> rp_ptr \<times> nat \<Rightarrow> ShardGroupInfo" where
  "group_at c = (\<lambda>(p, i). rp_ShardGroups (rp_get (cMeta c) p) ! i)"

definition Client_ShardGroupsByTimeRange ::
    "'x influx_lib \<Rightarrow> 'x meta_ops \<Rightarrow> string \<Rightarrow> string \<Rightarrow> gtime \<Rightarrow> gtime \<Rightarrow> 'x Client
     \<Rightarrow> go_error + ShardGroupInfo list" where
  "Client_ShardGroupsByTimeRange L M database policy tmin tmax c =
     map_sum id (map (group_at c)) (groups_in_range L M database policy tmin tmax c)"

text \<open>
  The measurements of the sources, as pairs of a database and a policy, are what the imported
  \<^verbatim>\<open>Sources.Measurements\<close> returns. The shards are collected by address, so a shard that two
  measurements select is returned once; the order is that of a Go map, here the order of
  insertion.
\<close>

fun collect_shards ::
    "'x influx_lib \<Rightarrow> 'x meta_ops \<Rightarrow> gtime \<Rightarrow> gtime \<Rightarrow> 'x Client \<Rightarrow> (string \<times> string) list
     \<Rightarrow> (rp_ptr \<times> nat \<times> nat) list \<Rightarrow> go_error + (rp_ptr \<times> nat \<times> nat) list" where
  "collect_shards L M tmin tmax c [] acc = Inr acc"
| "collect_shards L M tmin tmax c ((database, policy) # ms) acc =
     (case groups_in_range L M database policy tmin tmax c of
        Inl e \<Rightarrow> Inl e
      | Inr gs \<Rightarrow>
          collect_shards L M tmin tmax c ms
            (acc @ concat (map (\<lambda>(p, i). map (\<lambda>j. (p, i, j)) [0..<length (sg_Shards (group_at c (p, i)))]) gs)))"

definition Client_ShardsByTimeRange ::
    "'x influx_lib \<Rightarrow> 'x meta_ops \<Rightarrow> (string \<times> string) list \<Rightarrow> gtime \<Rightarrow> gtime \<Rightarrow> 'x Client
     \<Rightarrow> go_error + ShardInfo list" where
  "Client_ShardsByTimeRange L M measurements tmin tmax c =
     map_sum id (\<lambda>ptrs. map (\<lambda>(p, i, j). sg_Shards (group_at c (p, i)) ! j) (remdups ptrs))
       (collect_shards L M tmin tmax c measurements [])"

definition Client_AddShardOwner :: "'x influx_lib \<Rightarrow> u64 \<Rightarrow> u64 \<Rightarrow> 'x Client \<Rightarrow> go_error option \<times> 'x Client" where
  "Client_AddShardOwner L shardID nodeID c =
     commit (Data_AddShardOwner shardID nodeID (Data_Clone L (cacheData c))) c"

definition Client_RemoveShardOwner :: "'x influx_lib \<Rightarrow> u64 \<Rightarrow> u64 \<Rightarrow> 'x Client \<Rightarrow> go_error option \<times> 'x Client" where
  "Client_RemoveShardOwner L shardID nodeID c =
     commit (Data_RemoveShardOwner shardID nodeID (Data_Clone L (cacheData c))) c"

definition Client_DropShard :: "'x influx_lib \<Rightarrow> 'x meta_ops \<Rightarrow> u64 \<Rightarrow> 'x Client \<Rightarrow> go_error option \<times> 'x Client" where
  "Client_DropShard L M sid c =
     (let data = Data_Clone L (cacheData c)
      in commit (data\<lparr>meta_Data := lib_DropShard M sid (meta_Data data)\<rparr>) c)"

definition Client_TruncateShardGroups ::
    "'x influx_lib \<Rightarrow> 'x meta_ops \<Rightarrow> gtime \<Rightarrow> 'x Client \<Rightarrow> go_error option \<times> 'x Client" where
  "Client_TruncateShardGroups L M t c =
     (let data = Data_Clone L (cacheData c)
      in commit (data\<lparr>meta_Data := lib_TruncateShardGroups M t (meta_Data data)\<rparr>) c)"

definition group_remains :: "gtime \<Rightarrow> ShardGroupInfo \<Rightarrow> bool" where
  "group_remains expiration sgi = (time_IsZero (sg_DeletedAt sgi) \<or> \<not> expiration > sg_DeletedAt sgi)"

definition prune_dbs :: "gtime \<Rightarrow> DatabaseInfo list \<Rightarrow> DatabaseInfo list" where
  "prune_dbs expiration dbs =
     map (\<lambda>d. d\<lparr>db_RetentionPolicies :=
        map (\<lambda>rp. rp\<lparr>rp_ShardGroups := filter (group_remains expiration) (rp_ShardGroups rp)\<rparr>)
          (db_RetentionPolicies d)\<rparr>) dbs"

definition Client_PruneShardGroups :: "'x influx_lib \<Rightarrow> gtime \<Rightarrow> 'x Client \<Rightarrow> go_error option \<times> 'x Client" where
  "Client_PruneShardGroups L expiration c =
     (let data = Data_Clone L (cacheData c);
          chg = list_ex (\<lambda>d. list_ex (\<lambda>rp. list_ex (\<lambda>g. \<not> group_remains expiration g)
                  (rp_ShardGroups rp)) (db_RetentionPolicies d)) (Databases data);
          data = set_Databases (prune_dbs expiration (Databases data)) data
      in if chg then commit data c else (None, c))"

definition sg_found :: "go_error + ShardGroupInfo option \<Rightarrow> ShardGroupInfo option" where
  "sg_found r = (case r of Inr (Some g) \<Rightarrow> Some g | _ \<Rightarrow> None)"

definition Client_ShardGroupByTimestamp ::
    "'x meta_ops \<Rightarrow> string \<Rightarrow> string \<Rightarrow> gtime \<Rightarrow> 'x Client \<Rightarrow> ShardGroupInfo option" where
  "Client_ShardGroupByTimestamp M database policy timestamp c =
     sg_found (lib_ShardGroupByTimestamp M (cMeta c) database policy timestamp)"

definition createShardGroup ::
    "'x influx_lib \<Rightarrow> 'x meta_ops \<Rightarrow> string \<Rightarrow> string \<Rightarrow> gtime \<Rightarrow> 'x Data
     \<Rightarrow> (go_error + ShardGroupInfo option) \<times> 'x Data" where
  "createShardGroup L M database policy timestamp data =
     (if sg_found (lib_ShardGroupByTimestamp M (meta_Data data) database policy timestamp) \<noteq> None
      then (Inl (ErrShardGroupExists M), data)
      else
        (case Data_CreateShardGroup L database policy timestamp data of
           (Some e, data) \<Rightarrow> (Inl e, data)
         | (None, data) \<Rightarrow>
             (case RetentionPolicy L (meta_Data data) database policy of
                Inl e \<Rightarrow> (Inl e, data)
              | Inr None \<Rightarrow> (Inl (Errorf ''retention policy deleted after shard group created''), data)
              | Inr (Some p) \<Rightarrow>
                  let rpi = rp_get (meta_Data data) p
                  in (Inr (map_option (\<lambda>i. rp_ShardGroups rpi ! i) (ShardGroupByTimestamp L rpi timestamp)), data))))"

definition Client_CreateShardGroup ::
    "'x influx_lib \<Rightarrow> 'x meta_ops \<Rightarrow> string \<Rightarrow> string \<Rightarrow> gtime \<Rightarrow> 'x Client
     \<Rightarrow> (go_error + ShardGroupInfo option) \<times> 'x Client" where
  "Client_CreateShardGroup L M database policy timestamp c =
     (case sg_found (lib_ShardGroupByTimestamp M (cMeta c) database policy timestamp) of
        Some sg \<Rightarrow> (Inr (Some sg), c)
      | None \<Rightarrow>
          let data = Data_Clone L (cacheData c)
          in (case sg_found (lib_ShardGroupByTimestamp M (meta_Data data) database policy timestamp) of
                Some sg \<Rightarrow> (Inr (Some sg), c)
              | None \<Rightarrow>
                  (case createShardGroup L M database policy timestamp data of
                     (Inl e, _) \<Rightarrow> (Inl e, c)
                   | (Inr sgi, data) \<Rightarrow>
                       (case commit data c of
                          (Some e, c) \<Rightarrow> (Inl e, c)
                        | (None, c) \<Rightarrow> (Inr sgi, c)))))"

definition Client_DeleteShardGroup ::
    "'x influx_lib \<Rightarrow> string \<Rightarrow> string \<Rightarrow> u64 \<Rightarrow> gtime \<Rightarrow> 'x Client \<Rightarrow> go_error option \<times> 'x Client" where
  "Client_DeleteShardGroup L database policy gid t = clone_commit L (Data_DeleteShardGroup L database policy gid t)"

text \<open>
  The loop of \<^verbatim>\<open>PrecreateShardGroups\<close> visits the policies by position. A policy is read when
  its turn comes, from the data that earlier iterations have changed. A new group that the
  lookup by timestamp does not find is a nil pointer that the log statement dereferences.
\<close>

definition precreate_rp ::
    "'x influx_lib \<Rightarrow> 'x meta_ops \<Rightarrow> gtime \<Rightarrow> gtime \<Rightarrow> rp_ptr \<Rightarrow> 'x Data \<times> bool \<Rightarrow> go_error + 'x Data \<times> bool" where
  "precreate_rp L M from to p st =
     (let (data, chg) = st;
          di = Databases data ! fst p;
          rp = rp_get (meta_Data data) p
      in if length (rp_ShardGroups rp) = 0 then Inr (data, chg)
         else
           let g = last (rp_ShardGroups rp)
           in if \<not> sg_Deleted L g \<and> sg_EndTime g < to \<and> sg_EndTime g > from
              then
                let next = sg_EndTime g + 1
                in if sg_found (lib_ShardGroupByTimestamp M (meta_Data data) (db_Name di) (rp_Name rp) next) \<noteq> None
                   then Inr (data, chg)
                   else
                     (case createShardGroup L M (db_Name di) (rp_Name rp) next data of
                        (Inl (Panic e), _) \<Rightarrow> Inl (Panic e)
                      | (Inl e, data) \<Rightarrow> Inr (data, chg)
                      | (Inr None, data) \<Rightarrow> Inl (Panic ''nil pointer dereference'')
                      | (Inr (Some _), data) \<Rightarrow> Inr (data, True))
              else Inr (data, chg))"

fun precreate_loop ::
    "'x influx_lib \<Rightarrow> 'x meta_ops \<Rightarrow> gtime \<Rightarrow> gtime \<Rightarrow> rp_ptr list \<Rightarrow> 'x Data \<times> bool \<Rightarrow> go_error + 'x Data \<times> bool" where
  "precreate_loop L M from to [] st = Inr st"
| "precreate_loop L M from to (p # ps) st =
     (case precreate_rp L M from to p st of
        Inl e \<Rightarrow> Inl e
      | Inr st \<Rightarrow> precreate_loop L M from to ps st)"

definition rp_ptrs :: "'x MetaData \<Rightarrow> rp_ptr list" where
  "rp_ptrs m = concat (map (\<lambda>i. map (Pair i) [0..<length (db_RetentionPolicies (md_Databases m ! i))])
                 [0..<length (md_Databases m)])"

definition Client_PrecreateShardGroups ::
    "'x influx_lib \<Rightarrow> 'x meta_ops \<Rightarrow> gtime \<Rightarrow> gtime \<Rightarrow> 'x Client \<Rightarrow> go_error option \<times> 'x Client" where
  "Client_PrecreateShardGroups L M from to c =
     (let data = Data_Clone L (cacheData c)
      in (case precreate_loop L M from to (rp_ptrs (meta_Data data)) (data, False) of
            Inl e \<Rightarrow> (Some e, c)
          | Inr (data, chg) \<Rightarrow> if chg then commit data c else (None, c)))"

fun find_owner_rp :: "'x influx_lib \<Rightarrow> u64 \<Rightarrow> ShardGroupInfo list \<Rightarrow> ShardGroupInfo option" where
  "find_owner_rp L sid [] = None"
| "find_owner_rp L sid (g # gs) =
     (if sg_Deleted L g then find_owner_rp L sid gs
      else if list_ex (\<lambda>sh. si_ID sh = sid) (sg_Shards g) then Some g
      else find_owner_rp L sid gs)"

fun find_owner_rps :: "'x influx_lib \<Rightarrow> u64 \<Rightarrow> RetentionPolicyInfo list \<Rightarrow> (string \<times> ShardGroupInfo) option" where
  "find_owner_rps L sid [] = None"
| "find_owner_rps L sid (rp # rps) =
     (case find_owner_rp L sid (rp_ShardGroups rp) of
        Some g \<Rightarrow> Some (rp_Name rp, g)
      | None \<Rightarrow> find_owner_rps L sid rps)"

fun find_owner_dbs :: "'x influx_lib \<Rightarrow> u64 \<Rightarrow> DatabaseInfo list \<Rightarrow> (string \<times> string \<times> ShardGroupInfo) option" where
  "find_owner_dbs L sid [] = None"
| "find_owner_dbs L sid (db # dbs) =
     (case find_owner_rps L sid (db_RetentionPolicies db) of
        Some (rp, g) \<Rightarrow> Some (db_Name db, rp, g)
      | None \<Rightarrow> find_owner_dbs L sid dbs)"

definition Client_ShardOwner :: "'x influx_lib \<Rightarrow> u64 \<Rightarrow> 'x Client \<Rightarrow> string \<times> string \<times> ShardGroupInfo option" where
  "Client_ShardOwner L shardID c =
     (case find_owner_dbs L shardID (md_Databases (cMeta c)) of
        None \<Rightarrow> ([], [], None)
      | Some (db, rp, g) \<Rightarrow> (db, rp, Some g))"

section \<open>Continuous queries, subscriptions and the data as a whole\<close>

definition Client_CreateContinuousQuery ::
    "'x influx_lib \<Rightarrow> 'x meta_ops \<Rightarrow> string \<Rightarrow> string \<Rightarrow> string \<Rightarrow> 'x Client \<Rightarrow> go_error option \<times> 'x Client" where
  "Client_CreateContinuousQuery L M database name query =
     clone_commit L (on_meta (lib_CreateContinuousQuery M database name query))"

definition Client_DropContinuousQuery ::
    "'x influx_lib \<Rightarrow> 'x meta_ops \<Rightarrow> string \<Rightarrow> string \<Rightarrow> 'x Client \<Rightarrow> go_error option \<times> 'x Client" where
  "Client_DropContinuousQuery L M database name = clone_commit L (on_meta (lib_DropContinuousQuery M database name))"

definition Client_CreateSubscription ::
    "'x influx_lib \<Rightarrow> 'x meta_ops \<Rightarrow> string \<Rightarrow> string \<Rightarrow> string \<Rightarrow> string \<Rightarrow> string list \<Rightarrow> 'x Client
     \<Rightarrow> go_error option \<times> 'x Client" where
  "Client_CreateSubscription L M database rp name mode destinations =
     clone_commit L (on_meta (lib_CreateSubscription M database rp name mode destinations))"

definition Client_DropSubscription ::
    "'x influx_lib \<Rightarrow> 'x meta_ops \<Rightarrow> string \<Rightarrow> string \<Rightarrow> string \<Rightarrow> 'x Client \<Rightarrow> go_error option \<times> 'x Client" where
  "Client_DropSubscription L M database rp name = clone_commit L (on_meta (lib_DropSubscription M database rp name))"

definition Client_SetData :: "'x influx_lib \<Rightarrow> 'x Data \<Rightarrow> 'x Client \<Rightarrow> go_error option \<times> 'x Client" where
  "Client_SetData L data c =
     commit (Data_Clone L data) (c\<lparr>cacheData := (cacheData c)\<lparr>meta_Data := (cMeta c)\<lparr>md_Index := 0\<rparr>\<rparr>\<rparr>)"

definition Client_ReplaceData :: "'x Data \<Rightarrow> 'x Client \<Rightarrow> go_error option \<times> 'x Client" where
  "Client_ReplaceData data c =
     (case snapshot data of
        Some e \<Rightarrow> (Some e, c)
      | None \<Rightarrow> (None, c\<lparr>cacheData := data, changed := changed c + 1\<rparr>))"

definition Client_DataIndex :: "'x Client \<Rightarrow> u64" where
  "Client_DataIndex c = md_Index (cMeta c)"

definition Client_Data :: "'x influx_lib \<Rightarrow> 'x Client \<Rightarrow> 'x Data" where
  "Client_Data L c = Data_Clone L (cacheData c)"

definition Client_WaitForDataChanged :: "'x Client \<Rightarrow> nat" where
  "Client_WaitForDataChanged c = changed c"

definition Client_MarshalBinary :: "'x codec \<Rightarrow> 'x Client \<Rightarrow> go_error + byte list" where
  "Client_MarshalBinary C c = Data_MarshalBinary C (cacheData c)"

section \<open>Operations as commands\<close>

datatype store_op =
    StCreateDataNode string string | StDeleteDataNode gtime u64
  | StFreezeDataNode u64 | StUnfreezeDataNode u64
  | StCreateDatabase string | StCreateDatabaseWithRetentionPolicy string "RetentionPolicySpec option"
  | StDropDatabase string
  | StCreateRetentionPolicy string RetentionPolicySpec bool | StDropRetentionPolicy string string
  | StUpdateRetentionPolicy string string RetentionPolicyUpdate bool
  | StCreateUser string string bool | StUpdateUser string string | StDropUser string
  | StSetPrivilege string string privilege | StSetAdminPrivilege string bool
  | StAddShardOwner u64 u64 | StRemoveShardOwner u64 u64
  | StDropShard u64 | StTruncateShardGroups gtime | StPruneShardGroups gtime
  | StCreateShardGroup string string gtime | StDeleteShardGroup string string u64 gtime
  | StPrecreateShardGroups gtime gtime
  | StCreateContinuousQuery string string string | StDropContinuousQuery string string
  | StCreateSubscription string string string string "string list" | StDropSubscription string string string

fun err_of :: "go_error + 'a \<Rightarrow> go_error option" where
  "err_of (Inl e) = Some e"
| "err_of (Inr _) = None"

fun exec_store :: "'x influx_lib \<Rightarrow> 'x meta_ops \<Rightarrow> store_op \<Rightarrow> 'x Client \<Rightarrow> go_error option \<times> 'x Client" where
  "exec_store L M (StCreateDataNode h tcp) c = map_prod err_of id (Client_CreateDataNode L h tcp c)"
| "exec_store L M (StDeleteDataNode now nid) c = Client_DeleteDataNode L now nid c"
| "exec_store L M (StFreezeDataNode nid) c = Client_FreezeDataNode L nid c"
| "exec_store L M (StUnfreezeDataNode nid) c = Client_UnfreezeDataNode L nid c"
| "exec_store L M (StCreateDatabase n) c = map_prod err_of id (Client_CreateDatabase L M n c)"
| "exec_store L M (StCreateDatabaseWithRetentionPolicy n sp) c =
     map_prod err_of id (Client_CreateDatabaseWithRetentionPolicy L M n sp c)"
| "exec_store L M (StDropDatabase n) c = Client_DropDatabase L M n c"
| "exec_store L M (StCreateRetentionPolicy n sp b) c = map_prod err_of id (Client_CreateRetentionPolicy L M n sp b c)"
| "exec_store L M (StDropRetentionPolicy n rp) c = Client_DropRetentionPolicy L M n rp c"
| "exec_store L M (StUpdateRetentionPolicy n rp u b) c = Client_UpdateRetentionPolicy L M n rp u b c"
| "exec_store L M (StCreateUser n h a) c = map_prod snd id (Client_CreateUser L M n h a c)"
| "exec_store L M (StUpdateUser n h) c = Client_UpdateUser L M n h c"
| "exec_store L M (StDropUser n) c = Client_DropUser L M n c"
| "exec_store L M (StSetPrivilege n d p) c = Client_SetPrivilege L M n d p c"
| "exec_store L M (StSetAdminPrivilege n a) c = Client_SetAdminPrivilege L M n a c"
| "exec_store L M (StAddShardOwner sid nid) c = Client_AddShardOwner L sid nid c"
| "exec_store L M (StRemoveShardOwner sid nid) c = Client_RemoveShardOwner L sid nid c"
| "exec_store L M (StDropShard sid) c = Client_DropShard L M sid c"
| "exec_store L M (StTruncateShardGroups t) c = Client_TruncateShardGroups L M t c"
| "exec_store L M (StPruneShardGroups t) c = Client_PruneShardGroups L t c"
| "exec_store L M (StCreateShardGroup d rp t) c = map_prod err_of id (Client_CreateShardGroup L M d rp t c)"
| "exec_store L M (StDeleteShardGroup d rp gid t) c = Client_DeleteShardGroup L d rp gid t c"
| "exec_store L M (StPrecreateShardGroups from to) c = Client_PrecreateShardGroups L M from to c"
| "exec_store L M (StCreateContinuousQuery d n q) c = Client_CreateContinuousQuery L M d n q c"
| "exec_store L M (StDropContinuousQuery d n) c = Client_DropContinuousQuery L M d n c"
| "exec_store L M (StCreateSubscription d r n m ds) c = Client_CreateSubscription L M d r n m ds c"
| "exec_store L M (StDropSubscription d r n) c = Client_DropSubscription L M d r n c"

end
