(* ===== verification/RaftNode.thy ===== *)
theory RaftNode
  imports RaftLeases MetaStore "HOL-Library.AList"
begin

text \<open>
  \<^verbatim>\<open>raftmeta/apply.go\<close>, the proposals and the application of committed entries of
  \<^verbatim>\<open>raftmeta/node.go\<close>, and the messages of \<^verbatim>\<open>raftmeta/internal/message.go\<close>. The raft library
  delivers committed entries; the model starts there. A proposal carries the request that its
  bytes decode to; \<open>Malformed\<close> stands for bytes that \<^verbatim>\<open>json.Unmarshal\<close> rejects. Every call that
  reads the clock gets the local time as an argument. A failed assertion ends the process.
\<close>

section \<open>Messages\<close>

record raft_RetentionPolicySpec =
  rs_Name :: string
  rs_ReplicaN :: int
  rs_Duration :: duration
  rs_ShardGroupDuration :: duration

datatype request =
    CreateDatabaseReq string
  | SnapShotReq
  | DropDatabaseReq string
  | DropRetentionPolicyReq string string
  | CreateShardGroupReq string string int
  | CreateDataNodeReq string string
  | DeleteDataNodeReq u64
  | CreateRetentionPolicyReq string raft_RetentionPolicySpec bool
  | UpdateRetentionPolicyReq string string raft_RetentionPolicySpec bool
  | CreateDatabaseWithRetentionPolicyReq string raft_RetentionPolicySpec
  | CreateUserReq string string bool
  | DropUserReq string
  | UpdateUserReq string string
  | SetPrivilegeReq string string privilege
  | SetAdminPrivilegeReq string bool
  | AuthenticateReq string string
  | DropShardReq u64
  | TruncateShardGroupsReq gtime
  | PruneShardGroupsReq gtime
  | DeleteShardGroupReq string string u64 gtime
  | PrecreateShardGroupsReq gtime gtime
  | CreateContinuousQueryReq string string string
  | DropContinuousQueryReq string string
  | CreateSubscriptionReq string string string string "string list"
  | DropSubscriptionReq string string string
  | AcquireLeaseReq string u64 int
  | CreateChecksumReq
  | VerifyChecksumReq u64 string u64
  | AddShardOwnerReq u64 u64
  | RemoveShardOwnerReq u64 u64
  | FreezeDataNodeReq u64 bool
  | UnknownReq nat
  | Malformed

record Proposal =
  pr_Key :: string
  pr_req :: request

text \<open>What a proposal returns to the caller that waits for it.\<close>

datatype retval =
    RetDatabase DatabaseInfo
  | RetShardGroup ShardGroupInfo
  | RetDataNode NodeInfo
  | RetRetentionPolicy RetentionPolicyInfo
  | RetUser UserInfo
  | RetLease Lease

section \<open>Proposals\<close>

text \<open>
  \<open>pc_wants\<close> says that the caller passed a place for the result, \<open>pc_ret\<close> is what was written
  there. The channel of a context holds at most the one result that \<^verbatim>\<open>Done\<close> sends: \<open>replies\<close>.
\<close>

record proposalCtx =
  pc_wants :: bool
  pc_ret :: "retval option"
  pc_err :: "go_error option"
  pc_index :: u64

record proposals =
  pp_all :: "string \<Rightarrow> proposalCtx option"
  pp_replies :: "string \<Rightarrow> (go_error option \<times> retval option) option"

definition newProposals :: proposals where
  "newProposals = \<lparr>pp_all = (\<lambda>_. None), pp_replies = (\<lambda>_. None)\<rparr>"

definition proposals_Store :: "string \<Rightarrow> proposalCtx \<Rightarrow> proposals \<Rightarrow> bool \<times> proposals" where
  "proposals_Store key pctx p =
     (if pp_all p key \<noteq> None then (False, p) else (True, p\<lparr>pp_all := (pp_all p)(key \<mapsto> pctx)\<rparr>))"

definition proposals_Delete :: "string \<Rightarrow> proposals \<Rightarrow> proposals" where
  "proposals_Delete key p = (if key = [] then p else p\<lparr>pp_all := (pp_all p)(key := None)\<rparr>)"

definition proposals_pctx :: "string \<Rightarrow> proposals \<Rightarrow> proposalCtx" where
  "proposals_pctx key p =
     (case pp_all p key of
        Some pctx \<Rightarrow> pctx
      | None \<Rightarrow> \<lparr>pc_wants = False, pc_ret = None, pc_err = None, pc_index = 0\<rparr>)"

definition proposals_Done :: "string \<Rightarrow> go_error option \<Rightarrow> proposals \<Rightarrow> (go_error + unit) \<times> proposals" where
  "proposals_Done key err p =
     (if key = [] then (Inr (), p)
      else case pp_all p key of
             None \<Rightarrow> (Inr (), p)
           | Some pd \<Rightarrow>
               if pc_index pd = 0 then (Inl (Panic ''assertion failed''), p)
               else
                 let e = (if err \<noteq> None then err else pc_err pd)
                 in (Inr (), p\<lparr>pp_all := (pp_all p)(key := None),
                               pp_replies := (pp_replies p)(key \<mapsto> (e, pc_ret pd))\<rparr>))"

text \<open>A change of the context that is registered under a key, if there is one.\<close>

definition upd_pctx :: "string \<Rightarrow> (proposalCtx \<Rightarrow> proposalCtx) \<Rightarrow> proposals \<Rightarrow> proposals" where
  "upd_pctx key f p = p\<lparr>pp_all := (pp_all p)(key := map_option f (pp_all p key))\<rparr>"

section \<open>The node\<close>

record Checksum =
  ck_needVerify :: bool
  ck_index :: u64
  ck_checksum :: string

text \<open>The stored snapshot: its index, its configuration, the metadata and the peers.\<close>

type_synonym conf_state = "u64 list"

record raft_snapshot =
  sn_Index :: u64
  sn_ConfState :: conf_state
  sn_Data :: "byte list"
  sn_PeersAddr :: "(u64 \<times> string) list"

record 'x RaftNode =
  rn_ID :: u64
  rn_MetaStore :: "'x Client"
  rn_leases :: ClusterLeases
  rn_ConfState :: conf_state
  rn_peers :: "(u64 \<times> string) list"
  rn_snapshot :: "raft_snapshot option"
  rn_props :: proposals
  rn_appliedIndex :: u64
  rn_lastChecksum :: Checksum

text \<open>The hash of the checksum is \<^verbatim>\<open>x.Md5\<close>, in hexadecimal digits.\<close>

record 'x raft_env =
  env_L :: "'x influx_lib"
  env_M :: "'x meta_ops"
  env_codec :: "'x codec"
  env_Md5 :: "byte list \<Rightarrow> string"

definition SHARDGROUP_INFO_EVICTION :: duration where
  "SHARDGROUP_INFO_EVICTION = -2 * 7 * 24 * 3600 * 1000000000"

section \<open>Applying a request to the meta store\<close>

definition spec_of :: "raft_RetentionPolicySpec \<Rightarrow> RetentionPolicySpec" where
  "spec_of rps =
     \<lparr>rps_Name = rs_Name rps, rps_ReplicaN = Some (rs_ReplicaN rps),
      rps_Duration = (if rs_Duration rps > 0 then Some (rs_Duration rps) else None),
      rps_ShardGroupDuration = rs_ShardGroupDuration rps\<rparr>"

definition update_of :: "raft_RetentionPolicySpec \<Rightarrow> RetentionPolicyUpdate" where
  "update_of rps =
     \<lparr>rpu_Name = (if rs_Name rps \<noteq> [] then Some (rs_Name rps) else None),
      rpu_Duration = (if rs_Duration rps > 0 then Some (rs_Duration rps) else None),
      rpu_ReplicaN = Some (rs_ReplicaN rps),
      rpu_ShardGroupDuration = (if rs_ShardGroupDuration rps > 0 then Some (rs_ShardGroupDuration rps) else None)\<rparr>"

text \<open>A call that returns a value or an error, and a call that returns an error or nil.\<close>

definition ret_call :: "('a \<Rightarrow> retval option) \<Rightarrow> (go_error + 'a) \<times> 'c \<Rightarrow> (go_error option \<times> retval option) \<times> 'c" where
  "ret_call f r = (case r of (Inl e, c) \<Rightarrow> ((Some e, None), c) | (Inr a, c) \<Rightarrow> ((None, f a), c))"

definition err_call :: "go_error option \<times> 'c \<Rightarrow> (go_error option \<times> retval option) \<times> 'c" where
  "err_call r = (case r of (e, c) \<Rightarrow> ((e, None), c))"

primrec apply_store ::
  "'x raft_env \<Rightarrow> gtime \<Rightarrow> byte list \<Rightarrow> request \<Rightarrow> 'x Client \<Rightarrow> (go_error option \<times> retval option) \<times> 'x Client" where
  "apply_store E now rnd (CreateDatabaseReq n) c =
     ret_call (map_option RetDatabase) (Client_CreateDatabase (env_L E) (env_M E) n c)"
| "apply_store E now rnd (DropDatabaseReq n) c = err_call (Client_DropDatabase (env_L E) (env_M E) n c)"
| "apply_store E now rnd (DropRetentionPolicyReq d p) c = err_call (Client_DropRetentionPolicy (env_L E) (env_M E) d p c)"
| "apply_store E now rnd (CreateShardGroupReq d p ts) c =
     ret_call (map_option RetShardGroup) (Client_CreateShardGroup (env_L E) (env_M E) d p (time_Unix ts 0) c)"
| "apply_store E now rnd (CreateDataNodeReq h t) c = ret_call (Some \<circ> RetDataNode) (Client_CreateDataNode (env_L E) h t c)"
| "apply_store E now rnd (DeleteDataNodeReq i) c = err_call (Client_DeleteDataNode (env_L E) now i c)"
| "apply_store E now rnd (CreateRetentionPolicyReq d rps mk) c =
     ret_call (Some \<circ> RetRetentionPolicy) (Client_CreateRetentionPolicy (env_L E) (env_M E) d (spec_of rps) mk c)"
| "apply_store E now rnd (UpdateRetentionPolicyReq d n rps mk) c =
     err_call (Client_UpdateRetentionPolicy (env_L E) (env_M E) d n (update_of rps) mk c)"
| "apply_store E now rnd (CreateDatabaseWithRetentionPolicyReq n rps) c =
     ret_call (map_option RetDatabase)
       (Client_CreateDatabaseWithRetentionPolicy (env_L E) (env_M E) n (Some (spec_of rps)) c)"
| "apply_store E now rnd (CreateUserReq n pw a) c =
     (case Client_CreateUser (env_L E) (env_M E) n pw a c of ((u, e), c) \<Rightarrow> ((e, map_option RetUser u), c))"
| "apply_store E now rnd (DropUserReq n) c = err_call (Client_DropUser (env_L E) (env_M E) n c)"
| "apply_store E now rnd (UpdateUserReq n pw) c = err_call (Client_UpdateUser (env_L E) (env_M E) n pw c)"
| "apply_store E now rnd (SetPrivilegeReq u d p) c = err_call (Client_SetPrivilege (env_L E) (env_M E) u d p c)"
| "apply_store E now rnd (SetAdminPrivilegeReq u a) c = err_call (Client_SetAdminPrivilege (env_L E) (env_M E) u a c)"
| "apply_store E now rnd (AuthenticateReq u pw) c = ret_call (Some \<circ> RetUser) (Client_Authenticate (env_M E) rnd u pw c)"
| "apply_store E now rnd (AddShardOwnerReq sh n) c = err_call (Client_AddShardOwner (env_L E) sh n c)"
| "apply_store E now rnd (RemoveShardOwnerReq sh n) c = err_call (Client_RemoveShardOwner (env_L E) sh n c)"
| "apply_store E now rnd (DropShardReq i) c = err_call (Client_DropShard (env_L E) (env_M E) i c)"
| "apply_store E now rnd (TruncateShardGroupsReq t) c = err_call (Client_TruncateShardGroups (env_L E) (env_M E) t c)"
| "apply_store E now rnd (PruneShardGroupsReq t) c =
     err_call (Client_PruneShardGroups (env_L E) (if time_IsZero t then now + SHARDGROUP_INFO_EVICTION else t) c)"
| "apply_store E now rnd (DeleteShardGroupReq d p i t) c =
     err_call (Client_DeleteShardGroup (env_L E) d p i (if time_IsZero t then now else t) c)"
| "apply_store E now rnd (PrecreateShardGroupsReq from to) c = err_call (Client_PrecreateShardGroups (env_L E) (env_M E) from to c)"
| "apply_store E now rnd (CreateContinuousQueryReq d n q) c = err_call (Client_CreateContinuousQuery (env_L E) (env_M E) d n q c)"
| "apply_store E now rnd (DropContinuousQueryReq d n) c = err_call (Client_DropContinuousQuery (env_L E) (env_M E) d n c)"
| "apply_store E now rnd (CreateSubscriptionReq d rp n m ds) c = err_call (Client_CreateSubscription (env_L E) (env_M E) d rp n m ds c)"
| "apply_store E now rnd (DropSubscriptionReq d rp n) c = err_call (Client_DropSubscription (env_L E) (env_M E) d rp n c)"
| "apply_store E now rnd (FreezeDataNodeReq i fr) c =
     err_call (if fr then Client_FreezeDataNode (env_L E) i c else Client_UnfreezeDataNode (env_L E) i c)"
| "apply_store E now rnd SnapShotReq c = ((None, None), c)"
| "apply_store E now rnd (AcquireLeaseReq n i t) c = ((None, None), c)"
| "apply_store E now rnd CreateChecksumReq c = ((None, None), c)"
| "apply_store E now rnd (VerifyChecksumReq i ck n) c = ((None, None), c)"
| "apply_store E now rnd (UnknownReq n) c = ((None, None), c)"
| "apply_store E now rnd Malformed c = ((None, None), c)"

text \<open>The requests whose result a caller can ask for.\<close>

definition returns_data :: "request \<Rightarrow> bool" where
  "returns_data req =
     (case req of
        CreateDatabaseReq _ \<Rightarrow> True | CreateShardGroupReq _ _ _ \<Rightarrow> True | CreateDataNodeReq _ _ \<Rightarrow> True
      | CreateRetentionPolicyReq _ _ _ \<Rightarrow> True | CreateDatabaseWithRetentionPolicyReq _ _ \<Rightarrow> True
      | CreateUserReq _ _ _ \<Rightarrow> True | AuthenticateReq _ _ \<Rightarrow> True | AcquireLeaseReq _ _ _ \<Rightarrow> True | _ \<Rightarrow> False)"

text \<open>
  Handing the result to the caller: nothing to return is an assertion failure, except for a shard
  group, where it is the error that there are no data nodes.
\<close>

definition finish :: "string \<Rightarrow> request \<Rightarrow> bool \<Rightarrow> go_error option \<times> retval option \<Rightarrow> 'x RaftNode \<Rightarrow> go_error option \<times> 'x RaftNode" where
  "finish key req wants r s =
     (case r of
        (Some e, _) \<Rightarrow> (Some e, s)
      | (None, ret) \<Rightarrow>
          if wants \<and> returns_data req
          then (case ret of
                  Some v \<Rightarrow> (None, s\<lparr>rn_props := upd_pctx key (\<lambda>pc. pc\<lparr>pc_ret := Some v\<rparr>) (rn_props s)\<rparr>)
                | None \<Rightarrow>
                    (case req of
                       CreateShardGroupReq _ _ _ \<Rightarrow> (Some (Errorf ''create shard group fail. have no data nodes available''), s)
                     | _ \<Rightarrow> (Some (Panic ''assertion failed''), s)))
          else (None, s))"

text \<open>The metadata as the checksum sees it: without the times of deletion and truncation.\<close>

definition erase_times :: "'x MetaData \<Rightarrow> 'x MetaData" where
  "erase_times m = m\<lparr>md_Databases := map (\<lambda>db. db\<lparr>db_RetentionPolicies := map (\<lambda>rp. rp\<lparr>rp_ShardGroups :=
     map (\<lambda>sg. sg\<lparr>sg_DeletedAt := time_Unix 0 0, sg_TruncatedAt := time_Unix 0 0\<rparr>) (rp_ShardGroups rp)\<rparr>)
     (db_RetentionPolicies db)\<rparr>) (md_Databases m)\<rparr>"

definition node_checksum :: "'x raft_env \<Rightarrow> 'x Client \<Rightarrow> go_error + string" where
  "node_checksum E c =
     (let mcd = Client_Data (env_L E) c
      in case Data_MarshalBinary (env_codec E) (mcd\<lparr>meta_Data := erase_times (meta_Data mcd)\<rparr>) of
           Inl e \<Rightarrow> Inl e
         | Inr data \<Rightarrow> Inr (env_Md5 E data))"

definition verify_checksum :: "u64 \<Rightarrow> string \<Rightarrow> u64 \<Rightarrow> 'x RaftNode \<Rightarrow> go_error option \<times> 'x RaftNode" where
  "verify_checksum i ck node s =
     (if node = rn_ID s then (None, s\<lparr>rn_lastChecksum := (rn_lastChecksum s)\<lparr>ck_needVerify := False\<rparr>\<rparr>)
      else if ck_index (rn_lastChecksum s) = 0 then (None, s)
      else if ck_index (rn_lastChecksum s) \<noteq> i then (None, s)
      else if ck_checksum (rn_lastChecksum s) = ck then (None, s)
      else (Some (Panic ''verify checksum fail''), s))"

definition applyCommitted ::
  "'x raft_env \<Rightarrow> gtime \<Rightarrow> byte list \<Rightarrow> Proposal \<Rightarrow> u64 \<Rightarrow> 'x RaftNode \<Rightarrow> go_error option \<times> 'x RaftNode" where
  "applyCommitted E now rnd proposal index s =
     (let key = pr_Key proposal;
          req = pr_req proposal;
          wants = pc_wants (proposals_pctx key (rn_props s));
          s = s\<lparr>rn_props := upd_pctx key (\<lambda>pc. pc\<lparr>pc_index := index\<rparr>) (rn_props s)\<rparr>
      in case req of
           Malformed \<Rightarrow> (Some (Panic ''json.Unmarshal''), s)
         | UnknownReq _ \<Rightarrow> (Some (Errorf ''Unknown msg type''), s)
         | AcquireLeaseReq name node reqTime \<Rightarrow>
             (let t = (if reqTime = 0 then (now - unix_epoch) div 1000000 else reqTime);
                  ((lease, e), ls) = Acquire now name node t (rn_leases s)
              in finish key req wants (e, map_option RetLease lease) (s\<lparr>rn_leases := ls\<rparr>))
         | SnapShotReq \<Rightarrow>
             (case Client_MarshalBinary (env_codec E) (rn_MetaStore s) of
                Inl _ \<Rightarrow> (Some (Panic ''MarshalBinary''), s)
              | Inr md \<Rightarrow>
                  (None, s\<lparr>rn_snapshot := Some \<lparr>sn_Index = index, sn_ConfState = rn_ConfState s, sn_Data = md,
                                              sn_PeersAddr = rn_peers s\<rparr>\<rparr>))
         | CreateChecksumReq \<Rightarrow>
             (case node_checksum E (rn_MetaStore s) of
                Inl _ \<Rightarrow> (Some (Panic ''MarshalBinary''), s)
              | Inr ck \<Rightarrow> (None, s\<lparr>rn_lastChecksum := \<lparr>ck_needVerify = True, ck_index = index, ck_checksum = ck\<rparr>\<rparr>))
         | VerifyChecksumReq i ck node \<Rightarrow> verify_checksum i ck node s
         | _ \<Rightarrow>
             (case apply_store E now rnd req (rn_MetaStore s) of
                (r, c) \<Rightarrow> finish key req wants r (s\<lparr>rn_MetaStore := c\<rparr>)))"

section \<open>Applying entries\<close>

text \<open>
  An entry of the log. For a change of the configuration the raft library returns the new
  configuration. \<open>EntryBad\<close> is an entry that is not a proposal.
\<close>

datatype entry_data =
    EntryConfChange bool u64 "(u64 \<times> string) option" conf_state
  | EntryEmpty
  | EntryProposal Proposal
  | EntryBad

record log_entry =
  e_Index :: u64
  e_data :: entry_data

definition setAppliedIndex :: "u64 \<Rightarrow> 'x RaftNode \<Rightarrow> 'x RaftNode" where
  "setAppliedIndex v s = s\<lparr>rn_appliedIndex := v\<rparr>"

definition SetPeer :: "u64 \<Rightarrow> string \<Rightarrow> 'x RaftNode \<Rightarrow> 'x RaftNode" where
  "SetPeer i a s = s\<lparr>rn_peers := AList.update i a (rn_peers s)\<rparr>"

definition DeletePeer :: "u64 \<Rightarrow> 'x RaftNode \<Rightarrow> 'x RaftNode" where
  "DeletePeer i s = s\<lparr>rn_peers := AList.delete i (rn_peers s)\<rparr>"

definition applyConfChange :: "bool \<Rightarrow> u64 \<Rightarrow> (u64 \<times> string) option \<Rightarrow> conf_state \<Rightarrow> 'x RaftNode \<Rightarrow> 'x RaftNode" where
  "applyConfChange remove nodeID ctx cs s =
     (let s = (if remove then DeletePeer nodeID s
               else case ctx of Some (i, a) \<Rightarrow> SetPeer i a s | None \<Rightarrow> s)
      in s\<lparr>rn_ConfState := cs\<rparr>)"

text \<open>The zero value of the metadata, with the fields that only the imported package reads.\<close>

definition zero_Data :: "'x \<Rightarrow> 'x Data" where
  "zero_Data rest =
     \<lparr>meta_Data = \<lparr>md_ClusterID = 0, md_Index = 0, md_Databases = [], md_Users = [], md_MaxShardGroupID = 0,
                    md_MaxShardID = 0, md_rest = rest\<rparr>,
      MetaNodes = [], DataNodes = [], FreezedDataNodes = [], MaxNodeID = 0\<rparr>"

text \<open>Restoring the stored snapshot; \<open>False\<close> when there is none.\<close>

definition restoreFromSnapshot :: "'x raft_env \<Rightarrow> 'x \<Rightarrow> 'x RaftNode \<Rightarrow> (go_error + bool) \<times> 'x RaftNode" where
  "restoreFromSnapshot E rest s =
     (case rn_snapshot s of
        None \<Rightarrow> (Inr False, s)
      | Some sp \<Rightarrow>
          let s = setAppliedIndex (sn_Index sp) (s\<lparr>rn_ConfState := sn_ConfState sp, rn_peers := sn_PeersAddr sp\<rparr>);
              (err, metaData) = Data_UnmarshalBinary (env_codec E) (sn_Data sp) (zero_Data rest)
          in case err of
               Some e \<Rightarrow> (Inl (Panic ''meta data UnmarshalBinary fail''), s)
             | None \<Rightarrow>
                 (case Client_ReplaceData metaData (rn_MetaStore s) of
                    (Some e, c) \<Rightarrow> (Inl (Panic ''meta cli ReplaceData fail''), s\<lparr>rn_MetaStore := c\<rparr>)
                  | (None, c) \<Rightarrow> (Inr True, s\<lparr>rn_MetaStore := c\<rparr>)))"

text \<open>A failed assertion, which ends the process.\<close>

definition fatal :: "go_error option \<Rightarrow> bool" where
  "fatal err = (case err of Some (Panic _) \<Rightarrow> True | _ \<Rightarrow> False)"

lemma fatal_simps [simp]: "\<not> fatal None" "fatal (Some (Panic m))" "\<not> fatal (Some (Errorf x))" "\<not> fatal (Some (LibErr x))"
  by (simp_all add: fatal_def)

definition process_entry :: "'x raft_env \<Rightarrow> gtime \<Rightarrow> byte list \<Rightarrow> log_entry \<Rightarrow> 'x RaftNode \<Rightarrow> (go_error + unit) \<times> 'x RaftNode" where
  "process_entry E now rnd e s =
     (if e_Index e \<le> rn_appliedIndex s then (Inr (), s)
      else if rn_appliedIndex s \<noteq> e_Index e - 1 then (Inl (Panic ''sync error happend''), s)
      else
        case e_data e of
          EntryConfChange rm i ctx cs \<Rightarrow> (Inr (), setAppliedIndex (e_Index e) (applyConfChange rm i ctx cs s))
        | EntryEmpty \<Rightarrow> (Inr (), setAppliedIndex (e_Index e) s)
        | EntryBad \<Rightarrow> (Inl (Panic ''Unable to unmarshal proposal''), s)
        | EntryProposal p \<Rightarrow>
            (case applyCommitted E now rnd p (e_Index e) s of
               (err, s) \<Rightarrow>
                 if fatal err then (Inl (the err), s)
                 else
                   (case proposals_Done (pr_Key p) err (rn_props s) of
                      (Inl m, ps) \<Rightarrow> (Inl m, s\<lparr>rn_props := ps\<rparr>)
                    | (Inr _, ps) \<Rightarrow> (Inr (), setAppliedIndex (e_Index e) (s\<lparr>rn_props := ps\<rparr>)))))"

end
