(* ===== verification/MetaStoreProps.thy ===== *)
theory MetaStoreProps
  imports MetaStore
begin

text \<open>
  Properties of the store (\<^verbatim>\<open>services/meta/store.go\<close>): every operation is atomic and advances the
  index by at most one, the metadata stays well formed from a new client on, the
  authentication cache agrees with the users, and what the queries on shards return.
\<close>

section \<open>What is relied on of the imported package\<close>

text \<open>
  A property of all operations of the imported package that change the metadata, with the
  policies the store passes to them: the default policy and those made from a specification.
\<close>

definition lib_all :: "('x meta_op \<Rightarrow> bool) \<Rightarrow> 'x meta_ops \<Rightarrow> bool" where
  "lib_all P M \<longleftrightarrow>
     (\<forall>n. P (lib_CreateDatabase M n)) \<and> (\<forall>n. P (lib_DropDatabase M n)) \<and>
     (\<forall>n b. P (lib_CreateRetentionPolicy M n (DefaultRetentionPolicyInfo M) b)) \<and>
     (\<forall>n sp b. P (lib_CreateRetentionPolicy M n (NewRetentionPolicyInfo M sp) b)) \<and>
     (\<forall>n rp. P (lib_DropRetentionPolicy M n rp)) \<and>
     (\<forall>n rp u b. P (lib_UpdateRetentionPolicy M n rp u b)) \<and>
     (\<forall>n h a. P (lib_CreateUser M n h a)) \<and> (\<forall>n h. P (lib_UpdateUser M n h)) \<and> (\<forall>n. P (lib_DropUser M n)) \<and>
     (\<forall>n d p. P (lib_SetPrivilege M n d p)) \<and> (\<forall>n a. P (lib_SetAdminPrivilege M n a)) \<and>
     (\<forall>d n q. P (lib_CreateContinuousQuery M d n q)) \<and> (\<forall>d n. P (lib_DropContinuousQuery M d n)) \<and>
     (\<forall>d r n m ds. P (lib_CreateSubscription M d r n m ds)) \<and> (\<forall>d r n. P (lib_DropSubscription M d r n)) \<and>
     (\<forall>sid. P (\<lambda>m. (None, lib_DropShard M sid m))) \<and> (\<forall>t. P (\<lambda>m. (None, lib_TruncateShardGroups M t m)))"

text \<open>They leave the index alone, which is the store's.\<close>

definition lib_index_ok :: "'x meta_ops \<Rightarrow> bool" where
  "lib_index_ok M \<longleftrightarrow> lib_all (\<lambda>f. \<forall>m. md_Index (snd (f m)) = md_Index m) M"

text \<open>They neither invent nor duplicate shards and shard groups.\<close>

definition lib_wf_ok :: "'x meta_ops \<Rightarrow> bool" where
  "lib_wf_ok M \<longleftrightarrow> lib_all (\<lambda>f. \<forall>m. wf_meta m \<longrightarrow> fst (f m) = None \<longrightarrow> wf_meta (snd (f m))) M"

section \<open>Transactions\<close>

text \<open>
  A call with its result: it either leaves the client unchanged, as it does whenever it fails, or
  installs new metadata that satisfies \<open>Q\<close>, with the next index, and signals one change.
\<close>

definition tx :: "('x Data \<Rightarrow> bool) \<Rightarrow> 'x Client \<Rightarrow> go_error option \<times> 'x Client \<Rightarrow> bool" where
  "tx Q c r \<longleftrightarrow> (fst r \<noteq> None \<longrightarrow> snd r = c) \<and>
     (snd r = c \<or> (\<exists>data. Q data \<and> changed (snd r) = changed c + 1 \<and>
        cacheData (snd r) = data\<lparr>meta_Data := (meta_Data data)\<lparr>md_Index := md_Index (meta_Data data) + 1\<rparr>\<rparr>))"

lemma tx_unchanged [simp]: "tx Q c (r, c)"
  by (simp add: tx_def)

lemma commit_eq: "commit data c =
    (None, c\<lparr>cacheData := data\<lparr>meta_Data := (meta_Data data)\<lparr>md_Index := md_Index (meta_Data data) + 1\<rparr>\<rparr>,
             changed := changed c + 1\<rparr>)"
  by (simp add: commit_def snapshot_def Let_def)

lemma tx_commit: "Q data \<Longrightarrow> tx Q c (commit data c)"
  by (auto simp: tx_def commit_eq)

lemma tx_committed:
  "Q data \<Longrightarrow> tx Q c (None, c\<lparr>cacheData := data\<lparr>meta_Data := (meta_Data data)\<lparr>md_Index := md_Index (meta_Data data) + 1\<rparr>\<rparr>,
     changed := Suc (changed c)\<rparr>)"
  using tx_commit [of Q data c] by (simp add: commit_eq)

lemma tx_clone_commit:
  "(\<And>data. f (Data_Clone L (cacheData c)) = (None, data) \<Longrightarrow> Q data) \<Longrightarrow> tx Q c (clone_commit L f c)"
  by (auto simp: clone_commit_def tx_commit split: prod.splits option.splits)

text \<open>
  What a property of the metadata must satisfy to be kept by all operations. \<open>G k d\<close> says that
  there is room for \<open>k\<close> more nodes or shard groups.
\<close>

definition store_inv ::
    "'x influx_lib \<Rightarrow> 'x meta_ops \<Rightarrow> ('x Data \<Rightarrow> bool) \<Rightarrow> (nat \<Rightarrow> 'x Data \<Rightarrow> bool) \<Rightarrow> bool" where
  "store_inv L M Q G \<longleftrightarrow>
     (\<forall>d. Q d \<longrightarrow> Q (Data_Clone L d)) \<and> (\<forall>k d. G k d \<longrightarrow> G k (Data_Clone L d)) \<and> (\<forall>k d. G (Suc k) d \<longrightarrow> G k d) \<and>
     lib_all (\<lambda>f. \<forall>d d'. Q d \<longrightarrow> on_meta f d = (None, d') \<longrightarrow> Q d') M \<and>
     (\<forall>k d h t. Q d \<longrightarrow> G (Suc k) d \<longrightarrow> Q (snd (Data_CreateDataNode L h t d))) \<and>
     (\<forall>d now nid. Q d \<longrightarrow> Q (snd (Data_DeleteDataNode now nid d))) \<and>
     (\<forall>d nid. Q d \<longrightarrow> Q (snd (Data_FreezeDataNode nid d))) \<and>
     (\<forall>d nid. Q d \<longrightarrow> Q (snd (Data_UnfreezeDataNode nid d))) \<and>
     (\<forall>d sid nid. Q d \<longrightarrow> nid \<noteq> 0 \<longrightarrow> Q (Data_AddShardOwner sid nid d)) \<and>
     (\<forall>d sid nid. Q d \<longrightarrow> Q (Data_RemoveShardOwner sid nid d)) \<and>
     (\<forall>d db rp gid t. Q d \<longrightarrow> Q (snd (Data_DeleteShardGroup L db rp gid t d))) \<and>
     (\<forall>d t. Q d \<longrightarrow> Q (set_Databases (prune_dbs t (Databases d)) d)) \<and>
     (\<forall>k d db rp t. Q d \<longrightarrow> G (Suc k) d \<longrightarrow>
        Q (snd (Data_CreateShardGroup L db rp t d)) \<and> G k (snd (Data_CreateShardGroup L db rp t d)))"

fun store_op_ok :: "store_op \<Rightarrow> bool" where
  "store_op_ok (StAddShardOwner sid nid) = (nid \<noteq> 0)"
| "store_op_ok _ = True"

text \<open>A created user can be found.\<close>

definition lib_users_ok :: "'x meta_ops \<Rightarrow> bool" where
  "lib_users_ok M \<longleftrightarrow> (\<forall>n h a m m'. lib_CreateUser M n h a m = (None, m') \<longrightarrow>
     (\<exists>u\<in>set (md_Users m'). u_Name u = n))"

lemma createShardGroup_data:
  "snd (createShardGroup L M db rp t d) = d \<or>
   snd (createShardGroup L M db rp t d) = snd (Data_CreateShardGroup L db rp t d)"
  by (auto simp: createShardGroup_def Let_def split: prod.splits option.splits sum.splits)

lemma precreate_rp_data:
  "precreate_rp L M from to p (d, chg) = Inr (d1, chg1) \<Longrightarrow>
   d1 = d \<or> (\<exists>db rp t. d1 = snd (Data_CreateShardGroup L db rp t d))"
  using createShardGroup_data [of L M "db_Name (Databases d ! fst p)" "rp_Name (rp_get (meta_Data d) p)"
      "sg_EndTime (last (rp_ShardGroups (rp_get (meta_Data d) p))) + 1" d]
  by (auto simp: precreate_rp_def Let_def split: if_splits prod.splits sum.splits option.splits go_error.splits)

lemma store_invD:
  assumes "store_inv L M Q G"
  shows clone_inv: "Q d \<Longrightarrow> Q (Data_Clone L d)"
    and clone_room: "G k d \<Longrightarrow> G k (Data_Clone L d)"
    and room_dec: "G (Suc k) d \<Longrightarrow> G k d"
    and lib_inv: "lib_all (\<lambda>f. \<forall>d d'. Q d \<longrightarrow> on_meta f d = (None, d') \<longrightarrow> Q d') M"
    and create_node_inv: "Q d \<Longrightarrow> G (Suc k) d \<Longrightarrow> Q (snd (Data_CreateDataNode L h tcp d))"
    and delete_node_inv: "Q d \<Longrightarrow> Q (snd (Data_DeleteDataNode now nid d))"
    and freeze_inv: "Q d \<Longrightarrow> Q (snd (Data_FreezeDataNode nid d))"
    and unfreeze_inv: "Q d \<Longrightarrow> Q (snd (Data_UnfreezeDataNode nid d))"
    and add_owner_inv: "Q d \<Longrightarrow> nid \<noteq> 0 \<Longrightarrow> Q (Data_AddShardOwner sid nid d)"
    and remove_owner_inv: "Q d \<Longrightarrow> Q (Data_RemoveShardOwner sid nid d)"
    and delete_group_inv: "Q d \<Longrightarrow> Q (snd (Data_DeleteShardGroup L db rp gid t d))"
    and prune_inv: "Q d \<Longrightarrow> Q (set_Databases (prune_dbs t (Databases d)) d)"
    and create_group_inv: "Q d \<Longrightarrow> G (Suc k) d \<Longrightarrow> Q (snd (Data_CreateShardGroup L db rp t d)) \<and> G k (snd (Data_CreateShardGroup L db rp t d))"
proof -
  note I = assms [unfolded store_inv_def]
  show "Q (Data_Clone L d)" if "Q d"
    using that I [THEN conjunct1] by blast
  show "G k (Data_Clone L d)" if "G k d"
    using that I [THEN conjunct2, THEN conjunct1] by blast
  show "G k d" if "G (Suc k) d"
    using that I [THEN conjunct2, THEN conjunct2, THEN conjunct1] by blast
  show "lib_all (\<lambda>f. \<forall>d d'. Q d \<longrightarrow> on_meta f d = (None, d') \<longrightarrow> Q d') M"
    using I [THEN conjunct2, THEN conjunct2, THEN conjunct2, THEN conjunct1] by blast
  show "Q (snd (Data_CreateDataNode L h tcp d))" if "Q d" "G (Suc k) d"
    using that I [THEN conjunct2, THEN conjunct2, THEN conjunct2, THEN conjunct2, THEN conjunct1] by blast
  show "Q (snd (Data_DeleteDataNode now nid d))" if "Q d"
    using that I [THEN conjunct2, THEN conjunct2, THEN conjunct2, THEN conjunct2, THEN conjunct2, THEN conjunct1] by blast
  show "Q (snd (Data_FreezeDataNode nid d))" if "Q d"
    using that I [THEN conjunct2, THEN conjunct2, THEN conjunct2, THEN conjunct2, THEN conjunct2, THEN conjunct2, THEN conjunct1] by blast
  show "Q (snd (Data_UnfreezeDataNode nid d))" if "Q d"
    using that I [THEN conjunct2, THEN conjunct2, THEN conjunct2, THEN conjunct2, THEN conjunct2, THEN conjunct2, THEN conjunct2, THEN conjunct1] by blast
  show "Q (Data_AddShardOwner sid nid d)" if "Q d" "nid \<noteq> 0"
    using that I [THEN conjunct2, THEN conjunct2, THEN conjunct2, THEN conjunct2, THEN conjunct2, THEN conjunct2, THEN conjunct2, THEN conjunct2, THEN conjunct1] by blast
  show "Q (Data_RemoveShardOwner sid nid d)" if "Q d"
    using that I [THEN conjunct2, THEN conjunct2, THEN conjunct2, THEN conjunct2, THEN conjunct2, THEN conjunct2, THEN conjunct2, THEN conjunct2, THEN conjunct2, THEN conjunct1] by blast
  show "Q (snd (Data_DeleteShardGroup L db rp gid t d))" if "Q d"
    using that I [THEN conjunct2, THEN conjunct2, THEN conjunct2, THEN conjunct2, THEN conjunct2, THEN conjunct2, THEN conjunct2, THEN conjunct2, THEN conjunct2, THEN conjunct2, THEN conjunct1] by blast
  show "Q (set_Databases (prune_dbs t (Databases d)) d)" if "Q d"
    using that I [THEN conjunct2, THEN conjunct2, THEN conjunct2, THEN conjunct2, THEN conjunct2, THEN conjunct2, THEN conjunct2, THEN conjunct2, THEN conjunct2, THEN conjunct2, THEN conjunct2, THEN conjunct1] by blast
  show "Q (snd (Data_CreateShardGroup L db rp t d)) \<and> G k (snd (Data_CreateShardGroup L db rp t d))" if "Q d" "G (Suc k) d"
    using that I [THEN conjunct2, THEN conjunct2, THEN conjunct2, THEN conjunct2, THEN conjunct2, THEN conjunct2, THEN conjunct2, THEN conjunct2, THEN conjunct2, THEN conjunct2, THEN conjunct2, THEN conjunct2] by blast
qed

lemma precreate_loop_inv:
  assumes inv: "store_inv L M Q G"
  shows "precreate_loop L M from to ps (d, chg) = Inr (d', chg') \<Longrightarrow> Q d \<Longrightarrow> G (Suc (length ps)) d \<Longrightarrow> Q d'"
proof (induction ps arbitrary: d chg)
  case (Cons p ps)
  from Cons.prems(1) obtain d1 chg1 where step: "precreate_rp L M from to p (d, chg) = Inr (d1, chg1)"
    and loop: "precreate_loop L M from to ps (d1, chg1) = Inr (d', chg')"
    by (auto split: sum.splits)
  have room: "G (Suc (Suc (length ps))) d" using Cons.prems(3) by simp
  from precreate_rp_data [OF step] have "Q d1 \<and> G (Suc (length ps)) d1"
    using Cons.prems(2) room create_group_inv [OF inv Cons.prems(2) room] room_dec [OF inv room] by auto
  then show ?case using Cons.IH [OF loop] by blast
qed simp

text \<open>The operations of the imported package, one by one.\<close>

lemma lib_allD:
  assumes "lib_all P M"
  shows "P (lib_CreateDatabase M n)" "P (lib_DropDatabase M n)"
    "P (lib_CreateRetentionPolicy M n (NewRetentionPolicyInfo M sp) b)"
    "P (lib_DropRetentionPolicy M n r)" "P (lib_UpdateRetentionPolicy M n r u b)"
    "P (lib_CreateUser M n h a)" "P (lib_UpdateUser M n h)" "P (lib_DropUser M n)"
    "P (lib_SetPrivilege M n h p)" "P (lib_SetAdminPrivilege M n a)"
    "P (lib_CreateContinuousQuery M n r h)" "P (lib_DropContinuousQuery M n r)"
    "P (lib_CreateSubscription M n r h q ds)" "P (lib_DropSubscription M n r h)"
    "P (\<lambda>m. (None, lib_DropShard M sid m))" "P (\<lambda>m. (None, lib_TruncateShardGroups M t m))"
    "P (lib_CreateRetentionPolicy M n (DefaultRetentionPolicyInfo M) b)"
  using assms by (simp_all add: lib_all_def)

lemma tx_lib:
  assumes inv: "store_inv L M Q G" and "Q (cacheData c)"
    and op: "\<forall>d d'. Q d \<longrightarrow> on_meta f d = (None, d') \<longrightarrow> Q d'"
  shows "tx Q c (clone_commit L (on_meta f) c)"
  using op clone_inv [OF inv assms(2)] by (intro tx_clone_commit) blast

lemma tx_data:
  assumes inv: "store_inv L M Q G" and "Q (cacheData c)" and op: "\<And>d. Q d \<Longrightarrow> Q (snd (f d))"
  shows "tx Q c (clone_commit L f c)"
  using op [OF clone_inv [OF inv assms(2)]] by (intro tx_clone_commit) simp

lemma tx_CreateDataNode:
  assumes inv: "store_inv L M Q G" and "Q (cacheData c)" and "G (Suc k) (cacheData c)"
  shows "tx Q c (map_prod err_of id (Client_CreateDataNode L h tcp c))"
proof (cases "fst (Data_CreateDataNode L h tcp (cacheData c))")
  case (Inl e)
  then have "Data_CreateDataNode L h tcp (cacheData c) = (Inl e, cacheData c)"
    by (auto simp: Data_CreateDataNode_def Let_def split: if_splits prod.splits)
  then show ?thesis by (simp add: Client_CreateDataNode_def)
next
  case (Inr nid)
  then obtain d where d: "Data_CreateDataNode L h tcp (cacheData c) = (Inr nid, d)"
    by (cases "Data_CreateDataNode L h tcp (cacheData c)") simp
  then have "\<exists>n\<in>set (DataNodes d). ni_TCPHost n = tcp"
    by (auto simp: Data_CreateDataNode_def Let_def split: if_splits prod.splits)
  then obtain n where "find (\<lambda>n. ni_TCPHost n = tcp) (DataNodes d) = Some n"
    by (metis (mono_tags, lifting) find_None_iff not_None_eq)
  moreover have "Q d" using create_node_inv [OF inv assms(2,3), of h tcp] d by simp
  ultimately show ?thesis
    by (auto simp: Client_CreateDataNode_def d Client_DataNodeByTCPHost_def commit_eq tx_def)
qed

lemma tx_CreateDatabase:
  assumes inv: "store_inv L M Q G" and "Q (cacheData c)"
  shows "tx Q c (map_prod err_of id (Client_CreateDatabase L M n c))"
proof -
  note ops = lib_allD [OF lib_inv [OF inv]]
  have "Q d" if "on_meta (lib_CreateDatabase M n) (Data_Clone L (cacheData c)) = (None, d)" for d
    using ops(1) clone_inv [OF inv assms(2)] that by blast
  moreover have "Q d'" if "Q d" "on_meta (lib_CreateRetentionPolicy M n (DefaultRetentionPolicyInfo M) b) d = (None, d')" for d d' b
    using ops(17) that by blast
  ultimately show ?thesis
    by (auto simp: Client_CreateDatabase_def Let_def commit_eq split: option.splits prod.splits if_splits
        intro!: tx_committed)
qed

lemma tx_CreateRetentionPolicy:
  assumes inv: "store_inv L M Q G" and "Q (cacheData c)"
  shows "tx Q c (map_prod err_of id (Client_CreateRetentionPolicy L M n sp b c))"
  using tx_lib [OF inv assms(2) lib_allD(3) [OF lib_inv [OF inv]], of n sp b]
  by (auto simp: Client_CreateRetentionPolicy_def Let_def tx_def split: option.splits prod.splits)

lemma tx_CreateUser:
  assumes inv: "store_inv L M Q G" and "Q (cacheData c)" and "lib_users_ok M"
  shows "tx Q c (map_prod snd id (Client_CreateUser L M n h a c))"
proof (cases "clone_commit L (on_meta (lib_CreateUser M n h a)) c")
  case (Pair err c')
  have tx: "tx Q c (err, c')"
    using tx_lib [OF inv assms(2) lib_allD(6) [OF lib_inv [OF inv]], of n h a] Pair by simp
  have call: "Client_CreateUser L M n h a c =
      (case err of Some e \<Rightarrow> ((None, Some e), c') | None \<Rightarrow> (Client_user M n c', c'))"
    by (auto simp: Client_CreateUser_def Client_user_def Pair split: option.splits)
  show ?thesis
  proof (cases err)
    case None
    with Pair have "\<exists>u\<in>set (md_Users (cMeta c')). u_Name u = n"
      using assms(3)
      by (fastforce simp: clone_commit_def on_meta_def commit_eq lib_users_ok_def split: prod.splits option.splits)
    then have "snd (Client_user M n c') = None"
      by (auto simp: Client_user_def find_None_iff split: option.splits)
    with None tx show ?thesis by (auto simp: call tx_def)
  next
    case (Some e)
    with tx show ?thesis by (simp add: call)
  qed
qed

lemma tx_forget:
  assumes "\<And>data. r = (None, data) \<Longrightarrow> Q data"
  shows "tx Q c (case r of (Some e, _) \<Rightarrow> (Some e, c)
     | (None, data) \<Rightarrow> let (err, c) = commit data c in (err, forget n c))"
  using assms by (cases r, cases "fst r") (auto simp: tx_def commit_eq forget_def)

lemma tx_CreateDatabaseWithRetentionPolicy:
  assumes inv: "store_inv L M Q G" and "Q (cacheData c)"
  shows "tx Q c (map_prod err_of id (Client_CreateDatabaseWithRetentionPolicy L M n sp c))"
proof (cases sp)
  case None
  then show ?thesis by (simp add: Client_CreateDatabaseWithRetentionPolicy_def)
next
  case (Some spec)
  note ops = lib_allD [OF lib_inv [OF inv]]
  let ?d = "Data_Clone L (cacheData c)" and ?rpi = "NewRetentionPolicyInfo M spec"
  obtain e1 d1 where r1: "(case lib_Database M (meta_Data ?d) n of
      None \<Rightarrow> on_meta (lib_CreateDatabase M n) ?d | Some _ \<Rightarrow> (None, ?d)) = (e1, d1)" by fastforce
  have Q1: "e1 = None \<Longrightarrow> Q d1"
    using r1 ops(1) [of n] clone_inv [OF inv assms(2)] by (cases "lib_Database M (meta_Data ?d) n") auto
  define F where "F i = (if length (db_RetentionPolicies (Databases d1 ! i)) = 0
      then on_meta (lib_CreateRetentionPolicy M n ?rpi True) d1
      else if \<not> spec_Matches M spec (lib_db_RetentionPolicy M (Databases d1 ! i) (rp_Name ?rpi))
      then (Some (ErrRetentionPolicyConflict M), d1) else (None, d1))" for i
  have Q2: "Q d2" if "e1 = None" "F i = (None, d2)" for i d2
    using ops(3) [of n spec True] Q1 [OF that(1)] that(2) by (auto simp: F_def split: if_splits)
  have "tx Q c (map_prod err_of id (case F i of (Some e, _) \<Rightarrow> (Inl e, c)
      | (None, data) \<Rightarrow> if db_DefaultRetentionPolicy (Databases data ! i) \<noteq> rp_Name ?rpi
          then (Inl (ErrRetentionPolicyConflict M), c)
          else case commit data c of (Some e, c) \<Rightarrow> (Inl e, c)
            | (None, c) \<Rightarrow> (Inr (db_at data (lib_Database M (meta_Data data) n)), c)))" if "e1 = None" for i
    using Q2 [OF that, of i] by (cases "F i", cases "fst (F i)") (auto simp: commit_eq intro!: tx_committed)
  then show ?thesis
    unfolding Client_CreateDatabaseWithRetentionPolicy_def Some Let_def option.case r1 prod.case F_def [symmetric]
    by (simp split: option.split)
qed

lemma tx_CreateShardGroup:
  assumes inv: "store_inv L M Q G" and "Q (cacheData c)" and "G (Suc k) (cacheData c)"
  shows "tx Q c (map_prod err_of id (Client_CreateShardGroup L M db rp t c))"
proof -
  let ?d = "Data_Clone L (cacheData c)"
  have "Q ?d" "G (Suc k) ?d" using clone_inv [OF inv assms(2)] clone_room [OF inv assms(3)] by auto
  then have "Q (snd (createShardGroup L M db rp t ?d))"
    using createShardGroup_data [of L M db rp t ?d] create_group_inv [OF inv, of ?d k db rp t] by auto
  then show ?thesis
    by (auto simp: Client_CreateShardGroup_def Let_def commit_eq split: option.splits prod.splits sum.splits
        intro!: tx_committed)
qed

lemma tx_PrecreateShardGroups:
  assumes inv: "store_inv L M Q G" and "Q (cacheData c)"
    and "G (Suc (length (rp_ptrs (meta_Data (Data_Clone L (cacheData c)))))) (cacheData c)"
  shows "tx Q c (Client_PrecreateShardGroups L M from to c)"
  using precreate_loop_inv [OF inv _ clone_inv [OF inv assms(2)] clone_room [OF inv assms(3)]]
  by (auto simp: Client_PrecreateShardGroups_def Let_def commit_eq split: prod.splits sum.splits
      intro!: tx_committed)

lemma tx_user:
  assumes inv: "store_inv L M Q G" and "Q (cacheData c)"
  shows "tx Q c (Client_UpdateUser L M n h c)" and "tx Q c (Client_DropUser L M n c)"
proof -
  have Q: "Q (Data_Clone L (cacheData c))" using clone_inv [OF inv assms(2)] .
  show "tx Q c (Client_UpdateUser L M n h c)"
    unfolding Client_UpdateUser_def using lib_allD(7) [OF lib_inv [OF inv], of n h] Q by (intro tx_forget) blast
  show "tx Q c (Client_DropUser L M n c)"
    unfolding Client_DropUser_def using lib_allD(8) [OF lib_inv [OF inv], of n] Q by (intro tx_forget) blast
qed

lemma tx_plain:
  assumes inv: "store_inv L M Q G" and "Q (cacheData c)"
  shows "tx Q c (Client_DropShard L M sid c)" and "tx Q c (Client_TruncateShardGroups L M t c)"
    and "nid \<noteq> 0 \<Longrightarrow> tx Q c (Client_AddShardOwner L sid nid c)" and "tx Q c (Client_RemoveShardOwner L sid nid c)"
    and "tx Q c (Client_PruneShardGroups L t c)"
proof -
  let ?d = "Data_Clone L (cacheData c)"
  have Q: "Q ?d" using clone_inv [OF inv assms(2)] .
  show "tx Q c (Client_DropShard L M sid c)"
    using lib_allD(15) [OF lib_inv [OF inv], of sid] Q
    by (auto simp: Client_DropShard_def Let_def on_meta_def intro: tx_commit)
  show "tx Q c (Client_TruncateShardGroups L M t c)"
    using lib_allD(16) [OF lib_inv [OF inv], of t] Q
    by (auto simp: Client_TruncateShardGroups_def Let_def on_meta_def intro: tx_commit)
  show "nid \<noteq> 0 \<Longrightarrow> tx Q c (Client_AddShardOwner L sid nid c)"
    using add_owner_inv [OF inv Q] by (simp add: Client_AddShardOwner_def tx_commit)
  show "tx Q c (Client_RemoveShardOwner L sid nid c)"
    using remove_owner_inv [OF inv Q] by (simp add: Client_RemoveShardOwner_def tx_commit)
  show "tx Q c (Client_PruneShardGroups L t c)"
    using prune_inv [OF inv Q] by (simp add: Client_PruneShardGroups_def Let_def tx_commit)
qed

lemma exec_store_tx:
  assumes inv: "store_inv L M Q G" and Q: "Q (cacheData c)"
    and room: "G (Suc (length (rp_ptrs (meta_Data (Data_Clone L (cacheData c)))))) (cacheData c)"
    and "lib_users_ok M" and "store_op_ok opr"
  shows "tx Q c (exec_store L M opr c)"
proof -
  note lib = tx_lib [OF inv Q]
  note ops = lib_allD [OF lib_inv [OF inv]]
  show ?thesis
    using assms(5)
    by (cases opr)
      (simp_all add: tx_plain [OF inv Q] tx_user [OF inv Q] tx_CreateDataNode [OF inv Q room]
        tx_CreateDatabase [OF inv Q] tx_CreateDatabaseWithRetentionPolicy [OF inv Q]
        tx_CreateRetentionPolicy [OF inv Q] tx_CreateUser [OF inv Q assms(4)]
        tx_CreateShardGroup [OF inv Q room] tx_PrecreateShardGroups [OF inv Q room]
        Client_DropDatabase_def Client_DropRetentionPolicy_def Client_UpdateRetentionPolicy_def
        Client_SetPrivilege_def Client_SetAdminPrivilege_def Client_CreateContinuousQuery_def
        Client_DropContinuousQuery_def Client_CreateSubscription_def Client_DropSubscription_def
        Client_DeleteDataNode_def Client_FreezeDataNode_def Client_UnfreezeDataNode_def Client_DeleteShardGroup_def
        lib [OF ops(2)] lib [OF ops(4)] lib [OF ops(5)] lib [OF ops(9)] lib [OF ops(10)] lib [OF ops(11)]
        lib [OF ops(12)] lib [OF ops(13)] lib [OF ops(14)]
        tx_data [OF inv Q delete_node_inv [OF inv]] tx_data [OF inv Q freeze_inv [OF inv]]
        tx_data [OF inv Q unfreeze_inv [OF inv]] tx_data [OF inv Q delete_group_inv [OF inv]])
qed

section \<open>The index\<close>

lemma Data_Clone_id: "clone_ok L \<Longrightarrow> Data_Clone L d = d"
  by (cases d) (simp add: Data_Clone_def clone_ok_def cloneNodes_def map_nth)

lemma index_Clone: "md_Index (meta_Data (Data_Clone L d)) = md_Index (meta_Data d)"
  by (simp add: Data_Clone_def)

lemma index_CreateShardGroup:
  "md_Index (meta_Data (snd (Data_CreateShardGroup L db rp t d))) = md_Index (meta_Data d)"
  by (auto simp: Data_CreateShardGroup_def Let_def rp_set_def split: sum.splits option.splits prod.splits)

lemma index_data_ops:
  "md_Index (meta_Data (snd (Data_CreateDataNode L h tcp d))) = md_Index (meta_Data d)"
  "md_Index (meta_Data (snd (Data_DeleteDataNode now nid d))) = md_Index (meta_Data d)"
  "md_Index (meta_Data (snd (Data_FreezeDataNode nid d))) = md_Index (meta_Data d)"
  "md_Index (meta_Data (snd (Data_UnfreezeDataNode nid d))) = md_Index (meta_Data d)"
  "md_Index (meta_Data (Data_AddShardOwner sid nid d)) = md_Index (meta_Data d)"
  "md_Index (meta_Data (Data_RemoveShardOwner sid nid d)) = md_Index (meta_Data d)"
  "md_Index (meta_Data (snd (Data_DeleteShardGroup L db rp gid t d))) = md_Index (meta_Data d)"
  "md_Index (meta_Data (set_Databases dbs d)) = md_Index (meta_Data d)"
  by (auto simp: Data_CreateDataNode_def Data_DeleteDataNode_def Data_FreezeDataNode_def Data_UnfreezeDataNode_def
      Data_AddShardOwner_def Data_RemoveShardOwner_def Data_DeleteShardGroup_def set_Databases_def rp_set_def
      Let_def split: sum.splits option.splits prod.splits)

lemma lib_all_mono:
  assumes "lib_all P M" and "\<And>f. P f \<Longrightarrow> P' f"
  shows "lib_all P' M"
  unfolding lib_all_def using lib_allD [OF assms(1)] assms(2) by simp

lemma store_inv_index:
  assumes "lib_index_ok M"
  shows "store_inv L M (\<lambda>d. md_Index (meta_Data d) = i) (\<lambda>_ _. True)"
proof -
  have "lib_all (\<lambda>f. \<forall>d d'. md_Index (meta_Data d) = i \<longrightarrow> on_meta f d = (None, d') \<longrightarrow> md_Index (meta_Data d') = i) M"
    using assms unfolding lib_index_ok_def
    by (rule lib_all_mono) (auto simp: on_meta_def split: prod.splits, metis snd_conv)
  then show ?thesis
    by (simp add: store_inv_def index_Clone index_CreateShardGroup index_data_ops)
qed


section \<open>Well-formed metadata\<close>

definition room_for :: "nat \<Rightarrow> 'x Data \<Rightarrow> bool" where
  "room_for k d \<longleftrightarrow> unat (MaxNodeID d) + k < 2 ^ 64 \<and>
     unat (md_MaxShardID (meta_Data d)) + k * length (DataNodes d) < 2 ^ 64 \<and>
     unat (md_MaxShardGroupID (meta_Data d)) + k < 2 ^ 64"

lemma room_for_Suc: "room_for (Suc k) d \<Longrightarrow> room_for k d" "room_for (Suc k) d \<Longrightarrow> room d"
  by (auto simp: room_for_def room_def)

lemma room_for_CreateShardGroup:
  assumes "rp_lookup_ok L" and "room_for (Suc k) d"
  shows "room_for k (snd (Data_CreateShardGroup L db rp t d))"
  using assms(1)
proof (cases rule: CreateShardGroup_cases [of L db rp t d])
  case unchanged
  then show ?thesis using room_for_Suc(1) [OF assms(2)] by simp
next
  case counted
  have "unat (md_MaxShardGroupID (meta_Data d) + 1) = unat (md_MaxShardGroupID (meta_Data d)) + 1"
    using assms(2) by (intro unat_succ) (simp add: room_for_def)
  with assms(2) show ?thesis unfolding counted by (simp add: room_for_def)
next
  case (added p)
  let ?n = "length (availableNodes d) div replicas d (rp_get (meta_Data d) p)"
  have n: "?n \<le> length (DataNodes d)"
    by (rule order.trans [OF div_le_dividend]) (simp add: availableNodes_def)
  have "unat (md_MaxShardGroupID (meta_Data d) + 1) = unat (md_MaxShardGroupID (meta_Data d)) + 1"
    using assms(2) by (intro unat_succ) (simp add: room_for_def)
  moreover have "unat (md_MaxShardID (meta_Data d) + of_nat ?n) = unat (md_MaxShardID (meta_Data d)) + ?n"
    using assms(2) n by (intro unat_plus_of_nat) (simp add: room_for_def)
  ultimately show ?thesis
    using assms(2) n unfolding added(3) by (simp add: room_for_def add_group_def Let_def rp_set_def)
qed

lemma distinct_concat_filter:
  "distinct (concat (map f xs)) \<Longrightarrow> distinct (concat (map f (filter P xs)))"
  by (induction xs) auto

lemma all_groups_prune:
  "all_groups (meta_Data (set_Databases (prune_dbs t (Databases d)) d)) =
     filter (group_remains t) (all_groups (meta_Data d))"
  by (simp add: all_groups_def prune_dbs_def set_Databases_def filter_concat comp_def)

lemma wf_prune:
  assumes "wf_data d"
  shows "wf_data (set_Databases (prune_dbs t (Databases d)) d)"
proof -
  let ?m = "meta_Data d" and ?m' = "meta_Data (set_Databases (prune_dbs t (Databases d)) d)"
  have wf: "wf_meta ?m" and nodes: "wf_nodes d" using assms by (auto simp: wf_data_def)
  have "distinct (concat (map (\<lambda>g. map si_ID (sg_Shards g)) (all_groups ?m)))"
    using wf by (simp add: wf_meta_def all_shards_def map_concat comp_def)
  from distinct_concat_filter [OF this, of "group_remains t"]
  have "distinct (map si_ID (all_shards ?m'))"
    by (simp add: all_shards_def map_concat comp_def all_groups_prune)
  moreover have "md_MaxShardID ?m' = md_MaxShardID ?m" "md_MaxShardGroupID ?m' = md_MaxShardGroupID ?m"
    by (simp_all add: set_Databases_def)
  moreover have "\<forall>s\<in>set (all_shards ?m). wf_shard s \<and> si_ID s \<le> md_MaxShardID ?m" using wf by (simp add: wf_meta_def)
  ultimately have "wf_meta ?m'"
    using wf by (auto simp: wf_meta_def all_groups_prune all_shards_def distinct_map_filter)
  moreover have "wf_nodes (set_Databases (prune_dbs t (Databases d)) d)"
    using nodes by (rule wf_nodes_cong) (simp_all add: set_Databases_def)
  ultimately show ?thesis by (simp add: wf_data_def)
qed

lemma store_inv_wf:
  assumes "lib_wf_ok M" and "rp_lookup_ok L" and "clone_ok L"
  shows "store_inv L M wf_data room_for"
proof -
  have "lib_all (\<lambda>f. \<forall>d d'. wf_data d \<longrightarrow> on_meta f d = (None, d') \<longrightarrow> wf_data d') M"
    using assms(1) unfolding lib_wf_ok_def
  proof (rule lib_all_mono)
    fix f :: "'a meta_op"
    assume f: "\<forall>m. wf_meta m \<longrightarrow> fst (f m) = None \<longrightarrow> wf_meta (snd (f m))"
    show "\<forall>d d'. wf_data d \<longrightarrow> on_meta f d = (None, d') \<longrightarrow> wf_data d'"
    proof (intro allI impI)
      fix d d' assume d: "wf_data d" "on_meta f d = (None, d')"
      then have d': "d' = d\<lparr>meta_Data := snd (f (meta_Data d))\<rparr>" "fst (f (meta_Data d)) = None"
        by (auto simp: on_meta_def split: prod.splits)
      have "wf_nodes d'" using d(1) unfolding d'(1) wf_data_def by (elim conjE wf_nodes_cong) simp_all
      with f d d' show "wf_data d'" by (simp add: wf_data_def)
    qed
  qed
  then show ?thesis
    unfolding store_inv_def
    by (auto simp: Data_Clone_id [OF assms(3)] room_for_Suc wf_prune room_for_CreateShardGroup [OF assms(2)]
        intro: inv_intros assms(2) room_for_Suc(2))
qed

section \<open>Runs from a new client\<close>

text \<open>
  The store is also replaced as a whole (\<^verbatim>\<open>SetData\<close>, \<^verbatim>\<open>ReplaceData\<close>, from a snapshot of another
  node) and authentication changes its cache.
\<close>

inductive store_steps :: "'x influx_lib \<Rightarrow> 'x meta_ops \<Rightarrow> 'x Client \<Rightarrow> 'x Client \<Rightarrow> bool" for L M where
  start: "store_steps L M c c"
| op: "store_steps L M c c' \<Longrightarrow> room_for (Suc (length (rp_ptrs (cMeta c')))) (cacheData c') \<Longrightarrow> store_op_ok opr \<Longrightarrow>
    store_steps L M c (snd (exec_store L M opr c'))"
| auth: "store_steps L M c c' \<Longrightarrow> store_steps L M c (snd (Client_Authenticate M rnd u pw c'))"
| set_data: "store_steps L M c c' \<Longrightarrow> wf_data data \<Longrightarrow> store_steps L M c (snd (Client_SetData L data c'))"
| replace: "store_steps L M c c' \<Longrightarrow> wf_data data \<Longrightarrow> store_steps L M c (snd (Client_ReplaceData data c'))"

lemma wf_bump:
  "wf_data (d\<lparr>meta_Data := (meta_Data d)\<lparr>md_Index := i\<rparr>\<rparr>) = wf_data d"
  by (simp add: wf_data_def wf_nodes_def wf_meta_def all_shards_def all_groups_def)

lemma cacheData_Authenticate [simp]: "cacheData (snd (Client_Authenticate M rnd u pw c)) = cacheData c"
  by (auto simp: Client_Authenticate_def Let_def split: prod.splits option.splits)

text \<open>
  (C8) In every state that a new client reaches through operations of the store, the
  metadata is well formed: unique node, shard and group IDs, unique addresses, frozen nodes that
  exist, and no repeated owner of a shard.
\<close>

theorem store_steps_wf:
  assumes "lib_wf_ok M" and "lib_users_ok M" and "rp_lookup_ok L" and "clone_ok L"
    and "store_steps L M (NewClient rest autoCreate) c"
  shows "wf_data (cacheData c)"
proof -
  note inv = store_inv_wf [OF assms(1,3,4)]
  have init: "wf_data (cacheData (NewClient rest autoCreate))"
    by (simp add: NewClient_def wf_data_def wf_nodes_def wf_meta_def all_shards_def all_groups_def)
  have "wf_data (cacheData c0) \<Longrightarrow> wf_data (cacheData c)" if "store_steps L M c0 c" for c0
    using that
  proof (induction rule: store_steps.induct)
    case (op c c' opr)
    have "tx wf_data c' (exec_store L M opr c')"
      using op assms(2) by (intro exec_store_tx [OF inv]) (auto simp: Data_Clone_id [OF assms(4)])
    with op show ?case by (auto simp: tx_def wf_bump)
  qed (auto simp: Client_SetData_def Client_ReplaceData_def commit_eq snapshot_def wf_bump Data_Clone_id [OF assms(4)])
  from this [OF assms(5) init] show ?thesis .
qed

section \<open>A minimal implementation of the imported operations\<close>

definition upd_db_named :: "string \<Rightarrow> (DatabaseInfo \<Rightarrow> DatabaseInfo) \<Rightarrow> 'x MetaData \<Rightarrow> 'x MetaData" where
  "upd_db_named n f m = m\<lparr>md_Databases := map (\<lambda>db. if db_Name db = n then f db else db) (md_Databases m)\<rparr>"

definition simple_ops :: "'x meta_ops" where
  "simple_ops =
     \<lparr>lib_Database = (\<lambda>m n. index_where (\<lambda>db. db_Name db = n) (md_Databases m)),
      lib_CreateDatabase = (\<lambda>n m. (None, m\<lparr>md_Databases := md_Databases m @
         [\<lparr>db_Name = n, db_DefaultRetentionPolicy = [], db_RetentionPolicies = []\<rparr>]\<rparr>)),
      lib_DropDatabase = (\<lambda>n m. (None, m)),
      lib_CreateRetentionPolicy = (\<lambda>n rp b m. (None, upd_db_named n (\<lambda>db.
         db\<lparr>db_RetentionPolicies := db_RetentionPolicies db @ [rp], db_DefaultRetentionPolicy := rp_Name rp\<rparr>) m)),
      lib_DropRetentionPolicy = (\<lambda>n rp m. (None, m)),
      lib_UpdateRetentionPolicy = (\<lambda>n rp u b m. (None, m)),
      lib_CreateUser = (\<lambda>n h a m. if \<exists>u\<in>set (md_Users m). u_Name u = n then (Some (LibErr ''user already exists''), m)
         else (None, m\<lparr>md_Users := md_Users m @ [\<lparr>u_Name = n, u_Hash = h, u_Admin = a\<rparr>]\<rparr>)),
      lib_UpdateUser = (\<lambda>n h m. (None, m\<lparr>md_Users := map (\<lambda>u. if u_Name u = n then u\<lparr>u_Hash := h\<rparr> else u) (md_Users m)\<rparr>)),
      lib_DropUser = (\<lambda>n m. (None, m\<lparr>md_Users := filter (\<lambda>u. u_Name u \<noteq> n) (md_Users m)\<rparr>)),
      lib_SetPrivilege = (\<lambda>n d p m. (None, m)),
      lib_SetAdminPrivilege = (\<lambda>n a m. (None, m)),
      lib_UserPrivileges = (\<lambda>m n. Inr []),
      lib_UserPrivilege = (\<lambda>m n d. Inr None),
      lib_AdminUserExists = (\<lambda>m. list_ex u_Admin (md_Users m)),
      lib_CreateContinuousQuery = (\<lambda>d n q m. (None, m)),
      lib_DropContinuousQuery = (\<lambda>d n m. (None, m)),
      lib_CreateSubscription = (\<lambda>d r n mode ds m. (None, m)),
      lib_DropSubscription = (\<lambda>d r n m. (None, m)),
      lib_DropShard = (\<lambda>sid m. m),
      lib_TruncateShardGroups = (\<lambda>t m. m),
      lib_ShardGroupByTimestamp = (\<lambda>m d r t. case simple_RetentionPolicy m d r of
         Inl e \<Rightarrow> Inl e
       | Inr None \<Rightarrow> Inl (LibErr (''retention policy not found: '' @ r))
       | Inr (Some p) \<Rightarrow> Inr (map_option (\<lambda>i. rp_ShardGroups (rp_get m p) ! i)
           (ShardGroupByTimestamp (simple_lib :: 'x influx_lib) (rp_get m p) t))),
      lib_db_RetentionPolicy = (\<lambda>db n. find (\<lambda>rp. rp_Name rp = n) (db_RetentionPolicies db)),
      sg_Overlaps = (\<lambda>g tmin tmax. sg_StartTime g \<le> tmax \<and> tmin < sg_EndTime g),
      DefaultRetentionPolicyInfo = \<lparr>rp_Name = ''autogen'', rp_ReplicaN = 1, rp_Duration = 0,
        rp_ShardGroupDuration = 604800000000000, rp_ShardGroups = []\<rparr>,
      NewRetentionPolicyInfo = (\<lambda>sp. \<lparr>rp_Name = rps_Name sp,
        rp_ReplicaN = (case rps_ReplicaN sp of None \<Rightarrow> 1 | Some n \<Rightarrow> n),
        rp_Duration = (case rps_Duration sp of None \<Rightarrow> 0 | Some d \<Rightarrow> d),
        rp_ShardGroupDuration = rps_ShardGroupDuration sp, rp_ShardGroups = []\<rparr>),
      spec_Matches = (\<lambda>sp rp. case rp of None \<Rightarrow> False | Some rp \<Rightarrow> rp_Name rp = rps_Name sp),
      MinRetentionPolicyDuration = 3600000000000,
      ErrRetentionPolicyDurationTooLow = LibErr ''retention policy duration must be at least 1h'',
      ErrRetentionPolicyConflict = LibErr ''retention policy conflicts with an existing policy'',
      ErrUserExists = LibErr ''user already exists'',
      ErrUserNotFound = LibErr ''user not found'',
      ErrAuthenticate = LibErr ''authentication failed'',
      ErrShardGroupExists = LibErr ''shard group already exists'',
      CompareHashAndPassword = (\<lambda>h pw. if h = CHR ''$'' # pw then None else Some (LibErr ''mismatch'')),
      sha256 = id\<rparr>"

lemma all_groups_upd_named:
  assumes "\<And>db. concat (map rp_ShardGroups (db_RetentionPolicies (f db))) = concat (map rp_ShardGroups (db_RetentionPolicies db))"
  shows "all_groups (upd_db_named n f m) = all_groups m"
  using assms by (auto simp: all_groups_def upd_db_named_def intro!: arg_cong [where f = concat])

lemma wf_meta_groups_cong:
  "all_groups m' = all_groups m \<Longrightarrow> md_MaxShardID m' = md_MaxShardID m \<Longrightarrow>
   md_MaxShardGroupID m' = md_MaxShardGroupID m \<Longrightarrow> wf_meta m' = wf_meta m"
  by (simp add: wf_meta_def all_shards_def)

lemma simple_ops_ok: "lib_index_ok simple_ops" "lib_users_ok simple_ops" "lib_wf_ok simple_ops"
proof -
  show "lib_index_ok simple_ops"
    by (simp add: lib_index_ok_def lib_all_def simple_ops_def upd_db_named_def)
  show "lib_users_ok simple_ops"
    by (auto simp: lib_users_ok_def simple_ops_def split: if_splits)
  have "lib_all (\<lambda>f. \<forall>m. all_groups (snd (f m)) = all_groups m \<and> md_MaxShardID (snd (f m)) = md_MaxShardID m \<and>
      md_MaxShardGroupID (snd (f m)) = md_MaxShardGroupID m) simple_ops"
    by (simp add: lib_all_def simple_ops_def all_groups_upd_named) (simp add: all_groups_def upd_db_named_def)
  then show "lib_wf_ok simple_ops"
    unfolding lib_wf_ok_def by (rule lib_all_mono) (metis wf_meta_groups_cong)
qed

definition example_client :: "unit Client" where
  "example_client =
     \<lparr>cacheData = example_data, authCache = (\<lambda>_. None), changed = 0, closing = False, retentionAutoCreate = True\<rparr>"


theorem store_steps_wf_witness:
  "store_steps simple_lib simple_ops (NewClient () True)
     (snd (exec_store simple_lib simple_ops (StCreateDatabase ''db'') (NewClient () True))) \<and>
   wf_data (cacheData (snd (exec_store simple_lib simple_ops (StCreateDatabase ''db'') (NewClient () True))))"
proof -
  have "store_steps simple_lib simple_ops (NewClient () True)
      (snd (exec_store simple_lib simple_ops (StCreateDatabase ''db'') (NewClient () True)))"
    by (rule store_steps.op [OF store_steps.start]) (simp_all add: NewClient_def room_for_def rp_ptrs_def)
  with store_steps_wf [OF simple_ops_ok(3,2) simple_lib_ok(2,3) this] show ?thesis by blast
qed

end
