(* ===== verification/RaftProps.thy ===== *)
theory RaftProps
  imports RaftNode MetaStoreProps
begin

text \<open>
  Replication of the metadata (\<^verbatim>\<open>raftmeta/apply.go\<close>, \<^verbatim>\<open>raftmeta/node.go\<close>): replicas that apply the
  same entries have the same metadata, entries are applied once, a snapshot restores the state at
  which it was taken, and the checksum ignores what depends on the clock of a replica.
\<close>

section \<open>What a replica computes\<close>

text \<open>The part of the meta store that requests depend on.\<close>

definition same_core :: "'x Client \<Rightarrow> 'x Client \<Rightarrow> bool" where
  "same_core c c' \<longleftrightarrow> cacheData c = cacheData c' \<and> retentionAutoCreate c = retentionAutoCreate c'"

lemma same_core_refl [simp]: "same_core c c"
  by (simp add: same_core_def)

text \<open>Requests whose effect on the metadata does not depend on the clock of the replica.\<close>

definition clock_free :: "request \<Rightarrow> bool" where
  "clock_free req =
     (case req of
        DeleteDataNodeReq _ \<Rightarrow> False
      | PruneShardGroupsReq t \<Rightarrow> t \<noteq> 0
      | DeleteShardGroupReq _ _ _ t \<Rightarrow> t \<noteq> 0
      | _ \<Rightarrow> True)"

lemma same_coreE:
  assumes "same_core c c'"
  obtains a n b where "c' = c\<lparr>authCache := a, changed := n, closing := b\<rparr>"
  using assms by (cases c, cases c') (auto simp: same_core_def)

lemma commit_core: "same_core c c' \<Longrightarrow> same_core (snd (commit d c)) (snd (commit d c')) \<and> fst (commit d c) = fst (commit d c')"
  by (simp add: commit_eq same_core_def)

lemma clone_commit_core:
  "same_core c c' \<Longrightarrow> same_core (snd (clone_commit L f c)) (snd (clone_commit L f c')) \<and>
     fst (clone_commit L f c) = fst (clone_commit L f c')"
  by (auto simp: clone_commit_def same_core_def commit_eq split: prod.splits option.splits)

lemma snd_calls [simp]: "snd (err_call r) = snd r" "snd (ret_call f r') = snd r'"
  by (auto simp: err_call_def ret_call_def split: prod.splits sum.splits)

text \<open>Two runs that make the same case distinctions.\<close>

lemma core_cases:
  "\<lbrakk>x = None \<Longrightarrow> same_core (snd A) (snd A'); \<And>y. x = Some y \<Longrightarrow> same_core (snd (B y)) (snd (B' y))\<rbrakk> \<Longrightarrow>
   same_core (snd (case x of None \<Rightarrow> A | Some y \<Rightarrow> B y)) (snd (case x of None \<Rightarrow> A' | Some y \<Rightarrow> B' y))"
  "\<lbrakk>\<And>u v. p = (u, v) \<Longrightarrow> same_core (snd (F u v)) (snd (F' u v))\<rbrakk> \<Longrightarrow>
   same_core (snd (case p of (u, v) \<Rightarrow> F u v)) (snd (case p of (u, v) \<Rightarrow> F' u v))"
  "\<lbrakk>\<And>e. z = Inl e \<Longrightarrow> same_core (snd (G e)) (snd (G' e)); \<And>y. z = Inr y \<Longrightarrow> same_core (snd (H y)) (snd (H' y))\<rbrakk> \<Longrightarrow>
   same_core (snd (case z of Inl e \<Rightarrow> G e | Inr y \<Rightarrow> H y)) (snd (case z of Inl e \<Rightarrow> G' e | Inr y \<Rightarrow> H' y))"
  "\<lbrakk>P \<Longrightarrow> same_core (snd A) (snd A'); \<not> P \<Longrightarrow> same_core (snd D) (snd D')\<rbrakk> \<Longrightarrow>
   same_core (snd (if P then A else D)) (snd (if P then A' else D'))"
  by (simp_all split: option.split prod.split sum.split)

lemma snd_CreateUser: "snd (Client_CreateUser L M u pw a c) = snd (clone_commit L (on_meta (lib_CreateUser M u pw a)) c)"
  by (auto simp: Client_CreateUser_def Client_user_def split: option.splits prod.splits)

lemma create_core:
  assumes "same_core c c'"
  shows "same_core (snd (Client_CreateDatabase L M n c)) (snd (Client_CreateDatabase L M n c'))"
    and "same_core (snd (Client_CreateDatabaseWithRetentionPolicy L M n sp c)) (snd (Client_CreateDatabaseWithRetentionPolicy L M n sp c'))"
    and "same_core (snd (Client_CreateDataNode L h t c)) (snd (Client_CreateDataNode L h t c'))"
    and "same_core (snd (Client_CreateShardGroup L M d p ts c)) (snd (Client_CreateShardGroup L M d p ts c'))"
    and "same_core (snd (Client_CreateRetentionPolicy L M d rps mk c)) (snd (Client_CreateRetentionPolicy L M d rps mk c'))"
    and "same_core (snd (Client_CreateUser L M u pw a c)) (snd (Client_CreateUser L M u pw a c'))"
proof -
  from assms obtain a n b where c': "c' = c\<lparr>authCache := a, changed := n, closing := b\<rparr>" by (rule same_coreE)
  have sel: "cacheData (c\<lparr>authCache := a, changed := n, closing := b\<rparr>) = cacheData c"
    "retentionAutoCreate (c\<lparr>authCache := a, changed := n, closing := b\<rparr>) = retentionAutoCreate c" by simp_all
  show "same_core (snd (Client_CreateDatabase L M n c)) (snd (Client_CreateDatabase L M n c'))" for n
    unfolding c' Client_CreateDatabase_def Let_def sel
    by (intro core_cases) (simp_all add: commit_eq same_core_def)
  show "same_core (snd (Client_CreateDatabaseWithRetentionPolicy L M n sp c)) (snd (Client_CreateDatabaseWithRetentionPolicy L M n sp c'))" for n
    unfolding c' Client_CreateDatabaseWithRetentionPolicy_def Let_def sel
    by (intro core_cases) (simp_all add: commit_eq same_core_def)
  show "same_core (snd (Client_CreateDataNode L h t c)) (snd (Client_CreateDataNode L h t c'))"
    unfolding c' Client_CreateDataNode_def Client_DataNodeByTCPHost_def Let_def sel
    by (intro core_cases) (simp_all add: commit_eq same_core_def split: option.split)
  show "same_core (snd (Client_CreateShardGroup L M d p ts c)) (snd (Client_CreateShardGroup L M d p ts c'))"
    unfolding c' Client_CreateShardGroup_def Let_def sel
    by (intro core_cases) (simp_all add: commit_eq same_core_def)
  show "same_core (snd (Client_CreateRetentionPolicy L M d rps mk c)) (snd (Client_CreateRetentionPolicy L M d rps mk c'))"
    using clone_commit_core [OF assms, of L "on_meta (lib_CreateRetentionPolicy M d (NewRetentionPolicyInfo M rps) mk)"]
    by (auto simp: Client_CreateRetentionPolicy_def Let_def assms split: prod.splits option.splits)
  show "same_core (snd (Client_CreateUser L M u pw a c)) (snd (Client_CreateUser L M u pw a c'))" for u pw a
    using clone_commit_core [OF assms, of L "on_meta (lib_CreateUser M u pw a)"]
    by (simp add: snd_CreateUser)
qed

lemma retentionAutoCreate_Authenticate:
  "retentionAutoCreate (snd (Client_Authenticate M rnd u pw c)) = retentionAutoCreate c"
  by (auto simp: Client_Authenticate_def Let_def split: prod.splits option.splits)

lemma other_core:
  assumes "same_core c c'"
  shows "same_core (snd (Client_UpdateUser L M n pw c)) (snd (Client_UpdateUser L M n pw c'))"
    and "same_core (snd (Client_DropUser L M n c)) (snd (Client_DropUser L M n c'))"
    and "same_core (snd (Client_PruneShardGroups L t c)) (snd (Client_PruneShardGroups L t c'))"
    and "same_core (snd (Client_PrecreateShardGroups L M from to c)) (snd (Client_PrecreateShardGroups L M from to c'))"
    and "same_core (snd (Client_Authenticate M rnd u pw c)) (snd (Client_Authenticate M rnd' u pw c'))"
    and "same_core (snd (Client_AddShardOwner L sh k c)) (snd (Client_AddShardOwner L sh k c'))"
    and "same_core (snd (Client_RemoveShardOwner L sh k c)) (snd (Client_RemoveShardOwner L sh k c'))"
    and "same_core (snd (Client_DropShard L M sh c)) (snd (Client_DropShard L M sh c'))"
    and "same_core (snd (Client_TruncateShardGroups L M t c)) (snd (Client_TruncateShardGroups L M t c'))"
proof -
  from assms obtain a m b where c': "c' = c\<lparr>authCache := a, changed := m, closing := b\<rparr>" by (rule same_coreE)
  show "same_core (snd (Client_UpdateUser L M n pw c)) (snd (Client_UpdateUser L M n pw c'))"
    by (simp add: c' Client_UpdateUser_def forget_def commit_eq same_core_def split: prod.splits option.splits)
  show "same_core (snd (Client_DropUser L M n c)) (snd (Client_DropUser L M n c'))"
    by (simp add: c' Client_DropUser_def forget_def commit_eq same_core_def split: prod.splits option.splits)
  show "same_core (snd (Client_PruneShardGroups L t c)) (snd (Client_PruneShardGroups L t c'))"
    by (simp add: c' Client_PruneShardGroups_def Let_def commit_eq same_core_def)
  show "same_core (snd (Client_PrecreateShardGroups L M from to c)) (snd (Client_PrecreateShardGroups L M from to c'))"
    by (simp add: c' Client_PrecreateShardGroups_def Let_def commit_eq same_core_def split: prod.splits option.splits sum.splits)
  show "same_core (snd (Client_Authenticate M rnd u pw c)) (snd (Client_Authenticate M rnd' u pw c'))"
    using assms by (simp add: same_core_def retentionAutoCreate_Authenticate)
  show "same_core (snd (Client_AddShardOwner L sh k c)) (snd (Client_AddShardOwner L sh k c'))"
    "same_core (snd (Client_RemoveShardOwner L sh k c)) (snd (Client_RemoveShardOwner L sh k c'))"
    "same_core (snd (Client_DropShard L M sh c)) (snd (Client_DropShard L M sh c'))"
    "same_core (snd (Client_TruncateShardGroups L M t c)) (snd (Client_TruncateShardGroups L M t c'))"
    by (simp_all add: c' Client_AddShardOwner_def Client_RemoveShardOwner_def Client_DropShard_def
        Client_TruncateShardGroups_def Let_def commit_eq same_core_def)
qed

lemma apply_store_core:
  assumes "clock_free req" and c: "same_core c c'"
  shows "same_core (snd (apply_store E now rnd req c)) (snd (apply_store E now' rnd' req c'))"
proof (cases req)
  case (CreateUserReq n pw a)
  then show ?thesis using create_core(6) [OF c] by (simp add: split_beta)
qed (use assms(1) c create_core [OF c] other_core [OF c] clone_commit_core [OF c] in
      \<open>simp_all add: clock_free_def time_IsZero_def Client_DropDatabase_def Client_DropRetentionPolicy_def
        Client_UpdateRetentionPolicy_def Client_SetPrivilege_def Client_SetAdminPrivilege_def Client_DeleteShardGroup_def
        Client_CreateContinuousQuery_def Client_DropContinuousQuery_def Client_CreateSubscription_def
        Client_DropSubscription_def Client_FreezeDataNode_def Client_UnfreezeDataNode_def\<close>)

lemma finish_MetaStore [simp]: "rn_MetaStore (snd (finish key req w r s)) = rn_MetaStore s"
  by (auto simp: finish_def split: prod.splits option.splits request.splits)

lemma applyCommitted_MetaStore:
  "rn_MetaStore (snd (applyCommitted E now rnd p i s)) = snd (apply_store E now rnd (pr_req p) (rn_MetaStore s))"
  by (cases "pr_req p")
    (simp_all add: applyCommitted_def Let_def verify_checksum_def split_beta split: sum.splits)

section \<open>Replicas\<close>

text \<open>Entries with the local time and the local random bytes at which a replica applies them.\<close>

fun process_all :: "'x raft_env \<Rightarrow> (gtime \<times> byte list \<times> log_entry) list \<Rightarrow> 'x RaftNode \<Rightarrow> (go_error + unit) \<times> 'x RaftNode" where
  "process_all E [] s = (Inr (), s)"
| "process_all E ((now, rnd, e) # es) s =
     (case process_entry E now rnd e s of (Inl m, s) \<Rightarrow> (Inl m, s) | (Inr _, s) \<Rightarrow> process_all E es s)"

fun entries_of :: "(gtime \<times> byte list \<times> log_entry) list \<Rightarrow> log_entry list" where
  "entries_of [] = []"
| "entries_of ((now, rnd, e) # es) = e # entries_of es"

lemma in_entries_of: "e \<in> set (entries_of xs) \<Longrightarrow> \<exists>now rnd. (now, rnd, e) \<in> set xs"
  by (induction xs rule: entries_of.induct) auto

lemma entries_of_Cons: "e # es = entries_of ys \<Longrightarrow> \<exists>now rnd ys'. ys = (now, rnd, e) # ys' \<and> es = entries_of ys'"
  by (cases ys rule: entries_of.cases) auto

lemma entries_of_Nil: "[] = entries_of ys \<longleftrightarrow> ys = []"
  by (cases ys rule: entries_of.cases) auto

definition entry_clock_free :: "log_entry \<Rightarrow> bool" where
  "entry_clock_free e = (case e_data e of EntryProposal p \<Rightarrow> clock_free (pr_req p) | _ \<Rightarrow> True)"

lemma applyConfChange_same [simp]:
  "rn_MetaStore (applyConfChange rm i ctx cs s) = rn_MetaStore s"
  "rn_appliedIndex (applyConfChange rm i ctx cs s) = rn_appliedIndex s"
  by (auto simp: applyConfChange_def Let_def DeletePeer_def SetPeer_def split: option.splits)

text \<open>An entry that is processed without a failed assertion.\<close>

lemma process_entryE:
  assumes "process_entry E now rnd e s = (Inr (), s')"
  obtains (old) "e_Index e \<le> rn_appliedIndex s" and "s' = s"
    | (new) "rn_appliedIndex s = e_Index e - 1" and "rn_appliedIndex s < e_Index e" and "rn_appliedIndex s' = e_Index e"
      and "rn_MetaStore s' = (case e_data e of EntryProposal p \<Rightarrow> snd (apply_store E now rnd (pr_req p) (rn_MetaStore s)) | _ \<Rightarrow> rn_MetaStore s)"
proof (cases "e_Index e \<le> rn_appliedIndex s")
  case True
  with assms show thesis by (intro old) (simp_all add: process_entry_def)
next
  case False
  show thesis
  proof (rule new)
    show "rn_appliedIndex s = e_Index e - 1" "rn_appliedIndex s < e_Index e"
      using assms False by (auto simp: process_entry_def split: if_splits)
    show "rn_appliedIndex s' = e_Index e"
      using assms False by (auto simp: process_entry_def setAppliedIndex_def split: if_splits entry_data.splits prod.splits option.splits sum.splits)
    show "rn_MetaStore s' = (case e_data e of EntryProposal p \<Rightarrow> snd (apply_store E now rnd (pr_req p) (rn_MetaStore s)) | _ \<Rightarrow> rn_MetaStore s)"
    proof (cases "e_data e")
      case (EntryProposal p)
      obtain err s1 where ap: "applyCommitted E now rnd p (e_Index e) s = (err, s1)" by fastforce
      have "rn_MetaStore s' = rn_MetaStore s1"
        using assms False EntryProposal ap
        by (auto simp: process_entry_def setAppliedIndex_def split: if_splits prod.splits option.splits sum.splits)
      then show ?thesis using applyCommitted_MetaStore [of E now rnd p "e_Index e" s] ap EntryProposal by simp
    qed (use assms False in \<open>auto simp: process_entry_def setAppliedIndex_def split: if_splits\<close>)
  qed
qed

definition in_step :: "'x RaftNode \<Rightarrow> 'x RaftNode \<Rightarrow> bool" where
  "in_step s t \<longleftrightarrow> same_core (rn_MetaStore s) (rn_MetaStore t) \<and> rn_appliedIndex s = rn_appliedIndex t"

lemma process_entry_in_step:
  assumes st: "in_step s t" and free: "entry_clock_free e"
    and s: "process_entry E now rnd e s = (Inr (), s')" and t: "process_entry E now' rnd' e t = (Inr (), t')"
  shows "in_step s' t'"
  using s
proof (cases rule: process_entryE)
  case old
  with t st show ?thesis by (auto simp: in_step_def elim!: process_entryE)
next
  case new
  from t show ?thesis
  proof (cases rule: process_entryE)
    case old
    with new st show ?thesis by (simp add: in_step_def)
  next
    case new': new
    with new st free show ?thesis
      by (auto simp: in_step_def entry_clock_free_def apply_store_core split: entry_data.splits)
  qed
qed

lemma process_all_in_step:
  "in_step s t \<Longrightarrow> list_all entry_clock_free (entries_of xs) \<Longrightarrow> entries_of xs = entries_of ys \<Longrightarrow>
   process_all E xs s = (Inr (), s') \<Longrightarrow> process_all E ys t = (Inr (), t') \<Longrightarrow> in_step s' t'"
proof (induction xs arbitrary: ys s t)
  case (Cons x xs)
  obtain now rnd e where x: "x = (now, rnd, e)" using prod_cases3 by blast
  from Cons.prems(3) x obtain now' rnd' ys' where ys: "ys = (now', rnd', e) # ys'" "entries_of xs = entries_of ys'"
    using entries_of_Cons by fastforce
  from Cons.prems(4) x obtain s1 where s1: "process_entry E now rnd e s = (Inr (), s1)" "process_all E xs s1 = (Inr (), s')"
    by (auto split: prod.splits sum.splits)
  from Cons.prems(5) ys obtain t1 where t1: "process_entry E now' rnd' e t = (Inr (), t1)" "process_all E ys' t1 = (Inr (), t')"
    by (auto split: prod.splits sum.splits)
  have "in_step s1 t1" by (rule process_entry_in_step [OF Cons.prems(1) _ s1(1) t1(1)]) (use Cons.prems(2) x in simp)
  from Cons.IH [OF this _ ys(2) s1(2) t1(2)] Cons.prems(2) x show ?case by simp
qed (simp add: entries_of_Nil)


section \<open>Redelivery\<close>

lemma process_all_index:
  "process_all E xs s = (Inr (), s') \<Longrightarrow>
   rn_appliedIndex s \<le> rn_appliedIndex s' \<and> (\<forall>(now, rnd, e)\<in>set xs. e_Index e \<le> rn_appliedIndex s')"
proof (induction xs arbitrary: s)
  case (Cons x xs)
  obtain now rnd e where x: "x = (now, rnd, e)" using prod_cases3 by blast
  from Cons.prems x obtain s1 where s1: "process_entry E now rnd e s = (Inr (), s1)" "process_all E xs s1 = (Inr (), s')"
    by (auto split: prod.splits sum.splits)
  from s1(1) have "rn_appliedIndex s \<le> rn_appliedIndex s1 \<and> e_Index e \<le> rn_appliedIndex s1"
    by (cases rule: process_entryE) auto
  with Cons.IH [OF s1(2)] show ?case by (auto simp: x)
qed simp

text \<open>
  (C32) Entries are applied once: whatever entries a node has processed, delivering any of them
  again, at any time and in any order, changes nothing.
\<close>

theorem redelivery_ignored:
  assumes "process_all E xs s = (Inr (), s')" and "set (entries_of ys) \<subseteq> set (entries_of xs)"
  shows "process_all E ys s' = (Inr (), s')"
  using assms(2)
proof (induction ys)
  case (Cons y ys)
  obtain now rnd e where y: "y = (now, rnd, e)" using prod_cases3 by blast
  with Cons.prems obtain now' rnd' where "(now', rnd', e) \<in> set xs" using in_entries_of [of e xs] by auto
  with process_all_index [OF assms(1)] have "e_Index e \<le> rn_appliedIndex s'" by auto
  then have "process_entry E now rnd e s' = (Inr (), s')" by (simp add: process_entry_def)
  with Cons show ?case by (simp add: y)
qed simp

section \<open>Snapshots\<close>

lemma snapshot_restores:
  assumes codec: "codec_ok (env_codec E)" and p: "pr_req p = SnapShotReq"
    and s: "applyCommitted E now rnd p i s = (None, s1)" and t: "rn_snapshot t = rn_snapshot s1"
  shows "\<exists>t1. restoreFromSnapshot E rest t = (Inr True, t1) \<and> cacheData (rn_MetaStore t1) = cacheData (rn_MetaStore s) \<and>
     retentionAutoCreate (rn_MetaStore t1) = retentionAutoCreate (rn_MetaStore t) \<and>
     rn_appliedIndex t1 = i \<and> rn_peers t1 = rn_peers s \<and> rn_ConfState t1 = rn_ConfState s"
proof -
  from s p obtain md where md: "Data_MarshalBinary (env_codec E) (cacheData (rn_MetaStore s)) = Inr md"
    and sn: "rn_snapshot s1 = Some \<lparr>sn_Index = i, sn_ConfState = rn_ConfState s, sn_Data = md, sn_PeersAddr = rn_peers s\<rparr>"
    by (auto simp: applyCommitted_def Let_def Client_MarshalBinary_def split: sum.splits)
  have "Data_UnmarshalBinary (env_codec E) md (zero_Data rest) = (None, cacheData (rn_MetaStore s))"
    by (rule Data_roundtrip [OF codec md])
  then show ?thesis
    by (simp add: restoreFromSnapshot_def t sn Client_ReplaceData_def MetaStore.snapshot_def setAppliedIndex_def)
qed

lemma proposals_Done_cases:
  "(\<exists>m ps. proposals_Done key err p = (Inl m, ps)) \<or> (\<exists>ps. proposals_Done key err p = (Inr (), ps))"
  by (auto simp: proposals_Done_def Let_def split: option.splits)

lemma snapshot_entry:
  assumes "e_data e = EntryProposal p" and "pr_req p = SnapShotReq" and new: "rn_appliedIndex s < e_Index e"
    and run: "process_entry E now rnd e s = (Inr (), s1)"
  shows "\<exists>s0. applyCommitted E now rnd p (e_Index e) s = (None, s0) \<and> rn_snapshot s1 = rn_snapshot s0"
proof (cases "Client_MarshalBinary (env_codec E) (rn_MetaStore s)")
  case (Inl m)
  then have "\<exists>s0. applyCommitted E now rnd p (e_Index e) s = (Some (Panic ''MarshalBinary''), s0)"
    using assms(2) by (simp add: applyCommitted_def Let_def)
  with run new assms(1) show ?thesis by (auto simp: process_entry_def split: if_splits)
next
  case (Inr md)
  then obtain s0 where ap: "applyCommitted E now rnd p (e_Index e) s = (None, s0)"
    using assms(2) by (simp add: applyCommitted_def Let_def)
  with run new assms(1) proposals_Done_cases [of "pr_Key p" None "rn_props s0"] show ?thesis
    by (auto simp: process_entry_def setAppliedIndex_def split: if_splits)
qed


section \<open>Checksums\<close>

lemma map_until_err_cong:
  "(\<And>x. fst (f x) = fst (g x) \<and> h (snd (f x)) = h (snd (g x))) \<Longrightarrow>
   fst (map_until_err f xs) = fst (map_until_err g xs) \<and> map h (snd (map_until_err f xs)) = map h (snd (map_until_err g xs))"
proof (induction xs)
  case (Cons x xs)
  obtain e y e' y' where "f x = (e, y)" "g x = (e', y')" by (metis prod.collapse)
  with Cons.prems [of x] Cons.IH [OF Cons.prems] show ?case by (auto simp: split_beta split: option.splits)
qed simp

abbreviation erase_sg :: "ShardGroupInfo \<Rightarrow> ShardGroupInfo" where
  "erase_sg sg \<equiv> sg\<lparr>sg_DeletedAt := time_Unix 0 0, sg_TruncatedAt := time_Unix 0 0\<rparr>"

abbreviation erase_rp :: "RetentionPolicyInfo \<Rightarrow> RetentionPolicyInfo" where
  "erase_rp rp \<equiv> rp\<lparr>rp_ShardGroups := map erase_sg (rp_ShardGroups rp)\<rparr>"

abbreviation erase_db :: "DatabaseInfo \<Rightarrow> DatabaseInfo" where
  "erase_db db \<equiv> db\<lparr>db_RetentionPolicies := map erase_rp (db_RetentionPolicies db)\<rparr>"

lemma drop_node_erase:
  "fst (drop_node_group now i sg) = fst (drop_node_group now' i sg) \<and> erase_sg (snd (drop_node_group now i sg)) = erase_sg (snd (drop_node_group now' i sg))"
  "fst (drop_node_rp now i rp) = fst (drop_node_rp now' i rp) \<and> erase_rp (snd (drop_node_rp now i rp)) = erase_rp (snd (drop_node_rp now' i rp))"
  "fst (drop_node_db now i db) = fst (drop_node_db now' i db) \<and> erase_db (snd (drop_node_db now i db)) = erase_db (snd (drop_node_db now' i db))"
proof -
  show sg: "fst (drop_node_group now i sg) = fst (drop_node_group now' i sg) \<and> erase_sg (snd (drop_node_group now i sg)) = erase_sg (snd (drop_node_group now' i sg))" for sg
    by (auto simp: drop_node_group_def Let_def split: prod.splits)
  show rp: "fst (drop_node_rp now i rp) = fst (drop_node_rp now' i rp) \<and> erase_rp (snd (drop_node_rp now i rp)) = erase_rp (snd (drop_node_rp now' i rp))" for rp
    using map_until_err_cong [of "drop_node_group now i" "drop_node_group now' i" erase_sg, OF sg]
    by (simp add: drop_node_rp_def split_beta)
  show "fst (drop_node_db now i db) = fst (drop_node_db now' i db) \<and> erase_db (snd (drop_node_db now i db)) = erase_db (snd (drop_node_db now' i db))"
    using map_until_err_cong [of "drop_node_rp now i" "drop_node_rp now' i" erase_rp, OF rp]
    by (simp add: drop_node_db_def split_beta)
qed

definition erased :: "'x Data \<Rightarrow> 'x Data" where
  "erased d = d\<lparr>meta_Data := erase_times (meta_Data d)\<rparr>"

lemma DeleteDataNode_erased:
  "fst (Data_DeleteDataNode now i d) = fst (Data_DeleteDataNode now' i d) \<and>
   erased (snd (Data_DeleteDataNode now i d)) = erased (snd (Data_DeleteDataNode now' i d))"
  using map_until_err_cong [of "drop_node_db now i" "drop_node_db now' i" erase_db, OF drop_node_erase(3)]
  by (auto simp: Data_DeleteDataNode_def Let_def erased_def erase_times_def split_beta set_Databases_def)

text \<open>
  The checksum does not depend on the clock of the replica: the removal of a data node marks
  groups with the local time, and replicas that remove it at different times still have the same
  checksum.
\<close>

theorem checksum_ignores_clock:
  assumes "clone_ok (env_L E)"
  shows "node_checksum E (snd (Client_DeleteDataNode (env_L E) now i c)) = node_checksum E (snd (Client_DeleteDataNode (env_L E) now' i c))"
proof -
  have ck: "node_checksum E c = (case Data_MarshalBinary (env_codec E) (erased (cacheData c)) of Inl e \<Rightarrow> Inl e | Inr data \<Rightarrow> Inr (env_Md5 E data))"
    for c by (simp add: node_checksum_def Client_Data_def Data_Clone_id [OF assms] erased_def Let_def)
  have bump: "erased (d\<lparr>meta_Data := (meta_Data d)\<lparr>md_Index := md_Index (meta_Data d) + 1\<rparr>\<rparr>) =
      (let x = erased d in x\<lparr>meta_Data := (meta_Data x)\<lparr>md_Index := md_Index (meta_Data x) + 1\<rparr>\<rparr>)" for d :: "'a Data"
    by (simp add: erased_def erase_times_def)
  let ?d = "Data_Clone (env_L E) (cacheData c)"
  obtain e d d' where del: "Data_DeleteDataNode now i ?d = (e, d)" "Data_DeleteDataNode now' i ?d = (e, d')" and "erased d = erased d'"
    using DeleteDataNode_erased [of now i ?d now'] by (metis prod.collapse)
  then have "erased (cacheData (snd (Client_DeleteDataNode (env_L E) now i c))) = erased (cacheData (snd (Client_DeleteDataNode (env_L E) now' i c)))"
    by (cases e) (simp_all add: Client_DeleteDataNode_def clone_commit_def commit_eq bump)
  then show ?thesis by (simp add: ck)
qed

section \<open>Examples\<close>

definition example_env :: "unit raft_env" where
  "example_env = \<lparr>env_L = simple_lib, env_M = simple_ops, env_codec = unary_codec, env_Md5 = (\<lambda>_. [])\<rparr>"

definition node_with :: "unit Client \<Rightarrow> unit RaftNode" where
  "node_with c =
     \<lparr>rn_ID = 1, rn_MetaStore = c, rn_leases = NewClusterLeases 10, rn_ConfState = [1], rn_peers = [], rn_snapshot = None,
      rn_props = newProposals, rn_appliedIndex = 4, rn_lastChecksum = \<lparr>ck_needVerify = False, ck_index = 0, ck_checksum = []\<rparr>\<rparr>"

definition request_entry :: "u64 \<Rightarrow> request \<Rightarrow> log_entry" where
  "request_entry i req = \<lparr>e_Index = i, e_data = EntryProposal \<lparr>pr_Key = ''k'', pr_req = req\<rparr>\<rparr>"

lemma example_runs:
  "fst (process_all example_env [(100, [], request_entry 5 (FreezeDataNodeReq 2 True))] (node_with example_client)) = Inr ()"
  "fst (process_all example_env [(200, [], request_entry 5 (FreezeDataNodeReq 2 True))] (node_with example_client)) = Inr ()"
  "FreezedDataNodes (cacheData (rn_MetaStore (snd (process_all example_env [(100, [], request_entry 5 (FreezeDataNodeReq 2 True))]
     (node_with example_client))))) = [1, 2]"
  by code_simp+


theorem redelivery_ignored_witness:
  "process_all example_env [(300, [], request_entry 5 (FreezeDataNodeReq 2 True))]
     (snd (process_all example_env [(100, [], request_entry 5 (FreezeDataNodeReq 2 True))] (node_with example_client))) =
   (Inr (), snd (process_all example_env [(100, [], request_entry 5 (FreezeDataNodeReq 2 True))] (node_with example_client)))"
proof -
  let ?xs = "[(100, [], request_entry 5 (FreezeDataNodeReq 2 True))] :: (gtime \<times> byte list \<times> log_entry) list"
  have run: "process_all example_env ?xs (node_with example_client) = (Inr (), snd (process_all example_env ?xs (node_with example_client)))"
    using example_runs(1) by (simp add: prod_eq_iff del: process_all.simps)
  show ?thesis by (rule redelivery_ignored [OF run]) simp
qed

definition plain_client :: "unit Client" where
  "plain_client = example_client\<lparr>cacheData := example_data\<lparr>DataNodes := [], FreezedDataNodes := []\<rparr>\<rparr>"

lemma example_snapshot:
  "fst (process_entry example_env 100 [] (request_entry 5 SnapShotReq) (node_with plain_client)) = Inr ()"
  by code_simp

lemma unary_codec_ok: "codec_ok unary_codec"
  by (auto simp: codec_ok_def unary_codec_def split: if_splits)


theorem checksum_ignores_clock_witness:
  "node_checksum example_env (snd (Client_DeleteDataNode (env_L example_env) 100 1 example_client)) =
   node_checksum example_env (snd (Client_DeleteDataNode (env_L example_env) 200 1 example_client))"
  by (rule checksum_ignores_clock) (simp add: example_env_def simple_lib_ok)


end
