(* ===== verification/RaftPropose.thy ===== *)
theory RaftPropose
  imports RaftProps
begin

text \<open>
  Proposing and waiting (\<^verbatim>\<open>raftmeta/node.go\<close>): \<^verbatim>\<open>ProposeAndWait\<close> registers a context, gives the
  proposal to the raft library and waits for the result of its application. The raft library is a
  parameter: it refuses a proposal with an error, or the node processes some entries while the
  caller waits. The property is that the answer is the result of the request at the place of its
  entry in the log.
\<close>

section \<open>Operations\<close>

text \<open>The format \<^verbatim>\<open>%02d-%d\<close>.\<close>

definition uniqueKey :: "u64 \<Rightarrow> u64 \<Rightarrow> string" where
  "uniqueKey i r =
     (let d = FormatUint (unat i) in (if length d < 2 then CHR ''0'' # d else d) @ ''-'' @ FormatUint (unat r))"

lemma uniqueKey_nonempty [simp]: "uniqueKey i r \<noteq> []"
  by (simp add: uniqueKey_def Let_def)

text \<open>
  What happens around one call: the random number of its key, what the raft library does with the
  proposal, and the error of the context when it ends before the answer is taken.
\<close>

record raft_call =
  rc_rand :: u64
  rc_raft :: "Proposal \<Rightarrow> go_error + (gtime \<times> byte list \<times> log_entry) list"
  rc_ctx :: "go_error option"

definition errInternalRetry :: go_error where
  "errInternalRetry = Errorf ''Retry Raft proposal internally''"

definition DeadlineExceeded :: go_error where
  "DeadlineExceeded = LibErr ''context deadline exceeded''"

text \<open>
  The end of the wait. Without an answer the deadline ends it, which every context has. What the
  application wrote to the place for the result stays there.
\<close>

definition wait_result ::
  "go_error option \<Rightarrow> (go_error option \<times> retval option) option \<Rightarrow> go_error option \<times> retval option" where
  "wait_result ctx reply =
     (let written = (case reply of Some (_, ret) \<Rightarrow> ret | None \<Rightarrow> None)
      in case ctx of
           Some e \<Rightarrow> (Some (if e = DeadlineExceeded then errInternalRetry else e), written)
         | None \<Rightarrow> (case reply of Some (err, _) \<Rightarrow> (err, written) | None \<Rightarrow> (Some errInternalRetry, None)))"

definition register :: "string \<Rightarrow> bool \<Rightarrow> 'x RaftNode \<Rightarrow> bool \<times> 'x RaftNode" where
  "register key wants s =
     (case proposals_Store key \<lparr>pc_wants = wants, pc_ret = None, pc_err = None, pc_index = 0\<rparr> (rn_props s) of
        (ok, ps) \<Rightarrow> (ok, if ok then s\<lparr>rn_props := ps\<lparr>pp_replies := (pp_replies ps)(key := None)\<rparr>\<rparr> else s))"

definition forget_key :: "string \<Rightarrow> 'x RaftNode \<Rightarrow> 'x RaftNode" where
  "forget_key key s = s\<lparr>rn_props := proposals_Delete key (rn_props s)\<rparr>"

definition ProposeAndWait ::
  "'x raft_env \<Rightarrow> raft_call \<Rightarrow> request \<Rightarrow> bool \<Rightarrow> 'x RaftNode \<Rightarrow> (go_error option \<times> retval option) \<times> 'x RaftNode" where
  "ProposeAndWait E call req wants s =
     (let key = uniqueKey (rn_ID s) (rc_rand call)
      in case register key wants s of
           (False, s) \<Rightarrow> ((Some (Panic ''Found existing proposal with key''), None), s)
         | (True, s) \<Rightarrow>
             (case rc_raft call \<lparr>pr_Key = key, pr_req = req\<rparr> of
                Inl e \<Rightarrow> ((Some (Errorf ''While proposing''), None), forget_key key s)
              | Inr es \<Rightarrow>
                  (case process_all E es s of
                     (Inl m, s) \<Rightarrow> ((Some m, None), s)
                   | (Inr _, s) \<Rightarrow> (wait_result (rc_ctx call) (pp_replies (rn_props s) key), forget_key key s))))"

text \<open>What the leader proposes when the timers of \<^verbatim>\<open>Run\<close> fire.\<close>

definition triggerChecksum :: "'x RaftNode \<Rightarrow> request" where
  "triggerChecksum s =
     (if ck_needVerify (rn_lastChecksum s)
      then VerifyChecksumReq (ck_index (rn_lastChecksum s)) (ck_checksum (rn_lastChecksum s)) (rn_ID s)
      else CreateChecksumReq)"

definition triggerSnapshot :: request where
  "triggerSnapshot = SnapShotReq"

text \<open>
  What the storage knows of an earlier run: the index of its snapshot and whether there is a
  snapshot, a hard state or more than the one entry that is always there.
\<close>

definition PastLife :: "bool \<Rightarrow> nat \<Rightarrow> 'x RaftNode \<Rightarrow> u64 \<times> bool" where
  "PastLife hardState num s =
     ((case rn_snapshot s of Some sp \<Rightarrow> sn_Index sp | None \<Rightarrow> 0), rn_snapshot s \<noteq> None \<or> hardState \<or> num > 1)"

definition ShouldTryAcquireLease :: "gtime \<Rightarrow> string \<Rightarrow> u64 \<Rightarrow> 'x RaftNode \<Rightarrow> bool" where
  "ShouldTryAcquireLease now name nodeId s = ShouldTry now name nodeId (rn_leases s)"

definition resetPeersFromConfig :: "(u64 \<times> string) list \<Rightarrow> 'x RaftNode \<Rightarrow> 'x RaftNode" where
  "resetPeersFromConfig peers s = fold (\<lambda>(i, a). SetPeer i a) peers s"

text \<open>
  The start of a node with the peers of its configuration. The raft library is started with the
  configuration or restarted from the storage.
\<close>

definition InitAndStartNode ::
  "'x raft_env \<Rightarrow> 'x \<Rightarrow> (u64 \<times> string) list \<Rightarrow> bool \<Rightarrow> nat \<Rightarrow> 'x RaftNode \<Rightarrow> (go_error + unit) \<times> 'x RaftNode" where
  "InitAndStartNode E rest peers hardState num s =
     (let (idx, restart) = PastLife hardState num s;
          s = setAppliedIndex idx s
      in if restart
         then (case restoreFromSnapshot E rest s of
                 (Inl m, s) \<Rightarrow> (Inl m, s)
               | (Inr restored, s) \<Rightarrow> (Inr (), if restored then s else resetPeersFromConfig peers s))
         else (Inr (), if peers = [] then s else resetPeersFromConfig peers s))"

section \<open>Contexts of other proposals\<close>

lemma process_all_append:
  "process_all E (xs @ ys) s = (case process_all E xs s of (Inl m, s) \<Rightarrow> (Inl m, s) | (Inr _, s) \<Rightarrow> process_all E ys s)"
  by (induction E xs s rule: process_all.induct) (auto split: prod.splits sum.splits)

lemma upd_pctx_simps [simp]:
  "pp_replies (upd_pctx key f p) = pp_replies p"
  "pp_all (upd_pctx key f p) k = (if k = key then map_option f (pp_all p k) else pp_all p k)"
  by (simp_all add: upd_pctx_def)

text \<open>What a proposal of key \<open>k\<close> may change: only the context of \<open>k\<close>, which it neither creates nor removes.\<close>

definition only_ctx :: "string \<Rightarrow> proposals \<Rightarrow> proposals \<Rightarrow> bool" where
  "only_ctx k p p' \<longleftrightarrow> pp_replies p' = pp_replies p \<and> (\<forall>k'. k' \<noteq> k \<longrightarrow> pp_all p' k' = pp_all p k') \<and>
     (pp_all p' k = None \<longleftrightarrow> pp_all p k = None)"

lemma only_ctx_upd: "only_ctx k p p' \<Longrightarrow> only_ctx k p (upd_pctx k f p')"
  by (simp add: only_ctx_def)

lemma finish_ctx: "only_ctx k p (rn_props s) \<Longrightarrow> only_ctx k p (rn_props (snd (finish k req w r s)))"
  by (auto simp: finish_def only_ctx_upd split: prod.splits option.splits request.splits)

lemma applyCommitted_ctx: "only_ctx (pr_Key p) (rn_props s) (rn_props (snd (applyCommitted E now rnd p i s)))"
proof -
  let ?s = "s\<lparr>rn_props := upd_pctx (pr_Key p) (\<lambda>pc. pc\<lparr>pc_index := i\<rparr>) (rn_props s)\<rparr>"
  have "only_ctx (pr_Key p) (rn_props s) (rn_props s)" by (simp add: only_ctx_def)
  then have 1: "only_ctx (pr_Key p) (rn_props s) (rn_props ?s)" by (simp add: only_ctx_upd)
  then have 2: "only_ctx (pr_Key p) (rn_props s) (rn_props (snd (finish (pr_Key p) req w r (?s\<lparr>rn_leases := ls\<rparr>))))"
    and 3: "only_ctx (pr_Key p) (rn_props s) (rn_props (snd (finish (pr_Key p) req w r (?s\<lparr>rn_MetaStore := c\<rparr>))))"
    for req w r ls c by (simp_all add: finish_ctx)
  show ?thesis
    using 1 2 3 by (cases "pr_req p") (simp_all add: applyCommitted_def Let_def verify_checksum_def split_beta split: sum.split)
qed

text \<open>An entry that is processed leaves the contexts and the answers of other keys alone.\<close>

definition entry_key :: "log_entry \<Rightarrow> string" where
  "entry_key e = (case e_data e of EntryProposal p \<Rightarrow> pr_Key p | _ \<Rightarrow> [])"

lemma Done_others:
  assumes "proposals_Done k err p = (Inr (), p')" and "k \<noteq> key \<or> pp_all p key = None"
  shows "pp_all p' key = pp_all p key \<and> pp_replies p' key = pp_replies p key"
  using assms by (auto simp: proposals_Done_def Let_def split: if_splits option.splits)

lemma process_proposalE:
  assumes "process_entry E now rnd e s = (Inr (), s')" and "e_data e = EntryProposal p" and "rn_appliedIndex s < e_Index e"
  obtains err s1 ps where "applyCommitted E now rnd p (e_Index e) s = (err, s1)" and "\<not> fatal err"
    and "proposals_Done (pr_Key p) err (rn_props s1) = (Inr (), ps)"
    and "s' = setAppliedIndex (e_Index e) (s1\<lparr>rn_props := ps\<rparr>)"
proof -
  obtain err s1 where ap: "applyCommitted E now rnd p (e_Index e) s = (err, s1)" by (metis prod.collapse)
  obtain d ps where dn: "proposals_Done (pr_Key p) err (rn_props s1) = (d, ps)" by (metis prod.collapse)
  show thesis
    by (rule that [OF ap]) (use assms ap dn in \<open>auto simp: process_entry_def split: if_splits sum.splits\<close>)
qed

lemma process_entry_others:
  assumes run: "process_entry E now rnd e s = (Inr (), s')" and key: "key \<noteq> []"
    and other: "entry_key e \<noteq> key \<or> pp_all (rn_props s) key = None"
  shows "pp_all (rn_props s') key = pp_all (rn_props s) key \<and> pp_replies (rn_props s') key = pp_replies (rn_props s) key"
proof (cases "rn_appliedIndex s < e_Index e")
  case False
  with run show ?thesis by (simp add: process_entry_def not_less)
next
  case True
  show ?thesis
  proof (cases "e_data e")
    case (EntryProposal p)
    from run EntryProposal True obtain err s1 ps where ap: "applyCommitted E now rnd p (e_Index e) s = (err, s1)"
      and "\<not> fatal err" and dn: "proposals_Done (pr_Key p) err (rn_props s1) = (Inr (), ps)"
      and s': "s' = setAppliedIndex (e_Index e) (s1\<lparr>rn_props := ps\<rparr>)" by (rule process_proposalE)
    have ctx: "only_ctx (pr_Key p) (rn_props s) (rn_props s1)" using applyCommitted_ctx [of p s E now rnd "e_Index e"] ap by simp
    have o: "pr_Key p \<noteq> key \<or> pp_all (rn_props s) key = None" using other EntryProposal by (simp add: entry_key_def)
    then have "pr_Key p \<noteq> key \<or> pp_all (rn_props s1) key = None" using ctx by (auto simp: only_ctx_def)
    from Done_others [OF dn this] ctx o s' show ?thesis by (cases "pr_Key p = key") (auto simp: only_ctx_def setAppliedIndex_def)
  qed (use run True in \<open>auto simp: process_entry_def setAppliedIndex_def applyConfChange_def DeletePeer_def SetPeer_def Let_def
        split: if_splits option.splits\<close>)
qed

lemma process_all_others:
  "process_all E xs s = (Inr (), s') \<Longrightarrow> key \<noteq> [] \<Longrightarrow> key \<notin> entry_key ` set (entries_of xs) \<or> pp_all (rn_props s) key = None \<Longrightarrow>
   pp_all (rn_props s') key = pp_all (rn_props s) key \<and> pp_replies (rn_props s') key = pp_replies (rn_props s) key"
proof (induction xs arbitrary: s)
  case (Cons x xs)
  obtain now rnd e where x: "x = (now, rnd, e)" using prod_cases3 by blast
  from Cons.prems(1) x obtain s1 where s1: "process_entry E now rnd e s = (Inr (), s1)" "process_all E xs s1 = (Inr (), s')"
    by (auto split: prod.splits sum.splits)
  from Cons.prems(3) x have "entry_key e \<noteq> key \<or> pp_all (rn_props s) key = None" by auto
  from process_entry_others [OF s1(1) Cons.prems(2) this] Cons.IH [OF s1(2) Cons.prems(2)] Cons.prems(3) x show ?case by auto
qed simp

section \<open>The answer\<close>

text \<open>The result of a request on a node, and what the caller gets of it.\<close>

definition request_result :: "'x raft_env \<Rightarrow> gtime \<Rightarrow> byte list \<Rightarrow> request \<Rightarrow> 'x RaftNode \<Rightarrow> go_error option \<times> retval option" where
  "request_result E now rnd req s =
     (case req of
        AcquireLeaseReq name node t \<Rightarrow>
          (case Acquire now name node (if t = 0 then (now - unix_epoch) div 1000000 else t) (rn_leases s) of
             ((lease, e), _) \<Rightarrow> (e, map_option RetLease lease))
      | UnknownReq _ \<Rightarrow> (Some (Errorf ''Unknown msg type''), None)
      | _ \<Rightarrow> fst (apply_store E now rnd req (rn_MetaStore s)))"

definition answer :: "bool \<Rightarrow> go_error option \<times> retval option \<Rightarrow> go_error option \<times> retval option" where
  "answer wants r =
     (case r of
        (Some e, _) \<Rightarrow> (Some e, None)
      | (None, ret) \<Rightarrow>
          if \<not> wants then (None, None)
          else if ret = None then (Some (Errorf ''create shard group fail. have no data nodes available''), None)
          else (None, ret))"

definition waiting :: "bool \<Rightarrow> u64 \<Rightarrow> proposalCtx" where
  "waiting wants i = \<lparr>pc_wants = wants, pc_ret = None, pc_err = None, pc_index = i\<rparr>"

lemma finish_answer:
  assumes "finish k req w r s = (err, s')" and "\<not> fatal err"
    and "pp_all (rn_props s) k = Some (waiting w i)" and "w = returns_data req"
  shows "pp_all (rn_props s') k = Some ((waiting w i)\<lparr>pc_ret := snd (answer w r)\<rparr>) \<and> err = fst (answer w r)"
proof (cases r)
  case (Pair e ret)
  show ?thesis
  proof (cases "e = None \<and> w \<and> ret = None")
    case True
    with assms Pair show ?thesis
      by (cases req) (auto simp: finish_def answer_def waiting_def)
  next
    case False
    with assms Pair show ?thesis
      by (auto simp: finish_def answer_def waiting_def split: option.splits if_splits)
  qed
qed

lemma applyCommitted_answer:
  assumes ap: "applyCommitted E now rnd \<lparr>pr_Key = key, pr_req = req\<rparr> i s = (err, s1)" and ok: "\<not> fatal err"
    and ctx: "pp_all (rn_props s) key = Some (waiting w 0)" and w: "w = returns_data req"
  shows "pp_all (rn_props s1) key = Some ((waiting w i)\<lparr>pc_ret := snd (answer w (request_result E now rnd req s))\<rparr>) \<and>
     err = fst (answer w (request_result E now rnd req s))"
proof -
  let ?s = "s\<lparr>rn_props := upd_pctx key (\<lambda>pc. pc\<lparr>pc_index := i\<rparr>) (rn_props s)\<rparr>"
  have at: "pp_all (rn_props ?s) key = Some (waiting w i)" using ctx by (simp add: waiting_def)
  have wants: "pc_wants (proposals_pctx key (rn_props s)) = w" using ctx by (simp add: proposals_pctx_def waiting_def)
  have finished: ?thesis if "finish key req w r s0 = (err, s1)" and "rn_props s0 = rn_props ?s" and "r = request_result E now rnd req s" for r s0
    using finish_answer [OF that(1) ok _ w, of i] at that(2,3) by simp
  have store: ?thesis if "(case apply_store E now rnd req (rn_MetaStore s) of (r, c) \<Rightarrow> finish key req w r (?s\<lparr>rn_MetaStore := c\<rparr>)) = (err, s1)"
    and "request_result E now rnd req s = fst (apply_store E now rnd req (rn_MetaStore s))"
    using that by (intro finished) (auto simp: split_beta)
  note defs = applyCommitted_def Let_def wants request_result_def
  show ?thesis
  proof (cases req)
    case (AcquireLeaseReq n nd t)
    show ?thesis
    proof (rule finished)
      show "finish key req w (request_result E now rnd req s)
          (?s\<lparr>rn_leases := snd (Acquire now n nd (if t = 0 then (now - unix_epoch) div 1000000 else t) (rn_leases s))\<rparr>) = (err, s1)"
        using ap AcquireLeaseReq by (simp add: defs split_beta)
    qed simp_all
  next
    case (VerifyChecksumReq j ck n)
    with ap ok w at show ?thesis
      by (auto simp: defs verify_checksum_def answer_def waiting_def returns_data_def split: if_splits)
  next
    case SnapShotReq
    with ap ok w at show ?thesis by (auto simp: defs answer_def waiting_def returns_data_def split: sum.splits)
  next
    case CreateChecksumReq
    with ap ok w at show ?thesis by (auto simp: defs answer_def waiting_def returns_data_def split: sum.splits)
  next
    case (UnknownReq n)
    with ap ok w at show ?thesis by (auto simp: defs answer_def waiting_def returns_data_def)
  next
    case Malformed
    with ap ok show ?thesis by (auto simp: defs)
  qed (rule store; use ap in \<open>simp add: defs del: apply_store.simps\<close>)+
qed

lemma entry_answers:
  assumes run: "process_entry E now rnd e s = (Inr (), s')" and e: "e_data e = EntryProposal \<lparr>pr_Key = key, pr_req = req\<rparr>"
    and new: "rn_appliedIndex s < e_Index e" and key: "key \<noteq> []"
    and ctx: "pp_all (rn_props s) key = Some (waiting w 0)" and w: "w = returns_data req"
  shows "pp_all (rn_props s') key = None \<and> pp_replies (rn_props s') key = Some (answer w (request_result E now rnd req s))"
proof -
  from run e new obtain err s1 ps where ap: "applyCommitted E now rnd \<lparr>pr_Key = key, pr_req = req\<rparr> (e_Index e) s = (err, s1)"
    and ok: "\<not> fatal err" and dn: "proposals_Done key err (rn_props s1) = (Inr (), ps)" and s': "s' = setAppliedIndex (e_Index e) (s1\<lparr>rn_props := ps\<rparr>)"
    by (auto elim!: process_proposalE [where p = "\<lparr>pr_Key = key, pr_req = req\<rparr>"])
  note 1 = applyCommitted_answer [OF ap ok ctx w]
  have "e_Index e \<noteq> 0" using new by auto
  obtain a b where "answer w (request_result E now rnd req s) = (a, b)" by (metis prod.collapse)
  with \<open>e_Index e \<noteq> 0\<close> dn key 1 have "ps = (rn_props s1)\<lparr>pp_all := (pp_all (rn_props s1))(key := None),
      pp_replies := (pp_replies (rn_props s1))(key \<mapsto> answer w (request_result E now rnd req s))\<rparr>"
    by (auto simp: proposals_Done_def waiting_def Let_def)
  then show ?thesis by (simp add: s' setAppliedIndex_def)
qed

lemma process_all_ConsE:
  assumes "process_all E ((now, rnd, e) # xs) s = (Inr (), s')"
  obtains s1 where "process_entry E now rnd e s = (Inr (), s1)" and "process_all E xs s1 = (Inr (), s')"
  using assms by (auto split: prod.splits sum.splits)

lemma process_all_appendE:
  assumes "process_all E (xs @ ys) s = (Inr (), s')"
  obtains s1 where "process_all E xs s = (Inr (), s1)" and "process_all E ys s1 = (Inr (), s')"
  using assms by (auto simp: process_all_append split: prod.splits sum.splits)

text \<open>
  (C36) The caller of a proposal gets the answer of its own entry: when the raft library commits the
  proposal and the node processes the entries up to and beyond it before the context ends,
  \<^verbatim>\<open>ProposeAndWait\<close> returns the result that the request has on the state after the entries before
  it, whatever entries follow. The entry of the proposal is the only one with its key before that
  point, and it has not been applied yet.
\<close>

theorem proposal_answer:
  assumes key: "key = uniqueKey (rn_ID s) (rc_rand call)"
    and fresh: "pp_all (rn_props s) key = None"
    and raft: "rc_raft call \<lparr>pr_Key = key, pr_req = req\<rparr> =
      Inr (before @ (now, rnd, \<lparr>e_Index = i, e_data = EntryProposal \<lparr>pr_Key = key, pr_req = req\<rparr>\<rparr>) # after)"
    and first: "key \<notin> entry_key ` set (entries_of before)"
    and run: "process_all E before (snd (register key (returns_data req) s)) = (Inr (), s1)"
      "process_all E ((now, rnd, \<lparr>e_Index = i, e_data = EntryProposal \<lparr>pr_Key = key, pr_req = req\<rparr>\<rparr>) # after) s1 = (Inr (), s2)"
    and new: "rn_appliedIndex s1 < i" and ctx: "rc_ctx call = None"
  shows "ProposeAndWait E call req (returns_data req) s =
    (answer (returns_data req) (request_result E now rnd req s1), forget_key key s2)"
proof -
  let ?k = key and ?w = "returns_data req"
  let ?e = "\<lparr>e_Index = i, e_data = EntryProposal \<lparr>pr_Key = ?k, pr_req = req\<rparr>\<rparr>"
  have k: "uniqueKey (rn_ID s) (rc_rand call) = ?k" "?k \<noteq> []" using key by simp_all
  obtain s0 where reg: "register ?k ?w s = (True, s0)" "pp_all (rn_props s0) ?k = Some (waiting ?w 0)"
    using fresh by (simp add: register_def proposals_Store_def waiting_def)
  have at: "pp_all (rn_props s1) ?k = Some (waiting ?w 0)"
    using process_all_others [OF run(1) k(2)] first reg by simp
  from run(2) obtain s3 where s3: "process_entry E now rnd ?e s1 = (Inr (), s3)" "process_all E after s3 = (Inr (), s2)"
    by (rule process_all_ConsE)
  from entry_answers [OF s3(1) _ _ k(2) at HOL.refl] new process_all_others [OF s3(2) k(2)]
  have reply: "pp_replies (rn_props s2) ?k = Some (answer ?w (request_result E now rnd req s1))" by simp
  have all: "process_all E (before @ (now, rnd, ?e) # after) s0 = (Inr (), s2)"
    using run reg(1) by (simp add: process_all_append del: process_all.simps)
  show ?thesis
    using reg(1) raft all reply ctx
    by (simp add: ProposeAndWait_def Let_def wait_result_def k(1) split_beta del: process_all.simps)
qed

section \<open>Example\<close>

text \<open>A raft library that commits the proposal at a given index, between other entries.\<close>

definition commits_at :: "(gtime \<times> byte list \<times> log_entry) list \<Rightarrow> gtime \<Rightarrow> u64 \<Rightarrow> u64 \<Rightarrow> raft_call" where
  "commits_at pre now i r =
     \<lparr>rc_rand = r, rc_raft = (\<lambda>p. Inr (pre @ [(now, [], \<lparr>e_Index = i, e_data = EntryProposal p\<rparr>)])), rc_ctx = None\<rparr>"

abbreviation example_before :: "(gtime \<times> byte list \<times> log_entry) list" where
  "example_before \<equiv> [(100, [], request_entry 5 (FreezeDataNodeReq 2 True))]"

abbreviation example_proposed :: "(gtime \<times> byte list \<times> log_entry) list" where
  "example_proposed \<equiv> [(200, [], \<lparr>e_Index = 6, e_data = EntryProposal \<lparr>pr_Key = ''01-7'', pr_req = CreateDataNodeReq ''h'' ''t''\<rparr>\<rparr>)]"

definition example_registered :: "unit RaftNode" where
  "example_registered = snd (register ''01-7'' True (node_with example_client))"

lemma example_commit:
  "uniqueKey 1 7 = ''01-7''"
  "fst (process_all example_env example_before example_registered) = Inr ()"
  "fst (process_all example_env example_proposed (snd (process_all example_env example_before example_registered))) = Inr ()"
  "rn_appliedIndex (snd (process_all example_env example_before example_registered)) = 5"
  "request_result example_env 200 [] (CreateDataNodeReq ''h'' ''t'') (snd (process_all example_env example_before example_registered)) =
     (None, Some (RetDataNode \<lparr>ni_ID = 4, ni_Host = ''h'', ni_TCPHost = ''t''\<rparr>))"
  by code_simp+

theorem proposal_answer_witness:
  "fst (ProposeAndWait example_env (commits_at example_before 200 6 7) (CreateDataNodeReq ''h'' ''t'') True (node_with example_client)) =
     (None, Some (RetDataNode \<lparr>ni_ID = 4, ni_Host = ''h'', ni_TCPHost = ''t''\<rparr>))"
proof -
  let ?s1 = "snd (process_all example_env example_before example_registered)"
  let ?s2 = "snd (process_all example_env example_proposed ?s1)"
  have w: "returns_data (CreateDataNodeReq ''h'' ''t'')" by (simp add: returns_data_def)
  have r1: "process_all example_env example_before (snd (register ''01-7'' True (node_with example_client))) = (Inr (), ?s1)"
    and r2: "process_all example_env example_proposed ?s1 = (Inr (), ?s2)"
    using example_commit(2,3) by (simp_all add: prod_eq_iff example_registered_def del: process_all.simps)
  have "ProposeAndWait example_env (commits_at example_before 200 6 7) (CreateDataNodeReq ''h'' ''t'')
      (returns_data (CreateDataNodeReq ''h'' ''t'')) (node_with example_client) =
    (answer (returns_data (CreateDataNodeReq ''h'' ''t'')) (request_result example_env 200 [] (CreateDataNodeReq ''h'' ''t'') ?s1), forget_key ''01-7'' ?s2)"
    by (rule proposal_answer [where before = example_before and i = 6 and after = "[]"])
      (use r1 r2 w example_commit(1,4) in \<open>simp_all add: node_with_def commits_at_def newProposals_def entry_key_def request_entry_def del: process_all.simps\<close>)
  then show ?thesis using w by (simp add: example_commit(5) answer_def del: process_all.simps)
qed

end
