(* ===== verification/MetaService.thy ===== *)
theory MetaService
  imports RaftPropose
begin

text \<open>
  \<^verbatim>\<open>raftmeta/meta_service.go\<close>: the HTTP handlers of the meta service. A handler reads and decodes the
  body, proposes a request and turns the result into a response. A body is what the handler gets
  from it: an error of reading, an error of decoding, or the fields of the request; encoding a
  request again gives a body with the same fields. \<open>Inl\<close> as the result of a handler means that the
  process ended.
\<close>

section \<open>Responses\<close>

datatype 'q body = ReadFails go_error | Undecodable go_error | Decoded 'q

text \<open>The texts ``fail'' and ``ok'' and the text of an error.\<close>

datatype ret_msg = RetFail | RetOk | RetErr go_error

text \<open>\<open>rp_data\<close> is the payload, \<open>None\<close> its zero value.\<close>

record 'a resp =
  RetCode :: int
  RetMsg :: ret_msg
  rp_data :: "'a option"

type_synonym ('x, 'a) handler = "'x RaftNode \<Rightarrow> (go_error + 'a resp) \<times> 'x RaftNode"

definition fail_resp :: "go_error \<Rightarrow> 'a resp" where
  "fail_resp e = \<lparr>RetCode = -1, RetMsg = RetErr e, rp_data = None\<rparr>"

definition ok_resp :: "'a option \<Rightarrow> 'a resp" where
  "ok_resp d = \<lparr>RetCode = 0, RetMsg = RetOk, rp_data = d\<rparr>"

definition reading :: "'q body \<Rightarrow> ('q \<Rightarrow> ('x, 'a) handler) \<Rightarrow> ('x, 'a) handler" where
  "reading body k s =
     (case body of
        ReadFails e \<Rightarrow> (Inr (fail_resp e), s)
      | Undecodable e \<Rightarrow> (Inr (fail_resp e), s)
      | Decoded q \<Rightarrow> k q s)"

definition MS_ProposeAndWait ::
  "'x raft_env \<Rightarrow> raft_call \<Rightarrow> request \<Rightarrow> bool \<Rightarrow> 'x RaftNode \<Rightarrow> (go_error option \<times> retval option) \<times> 'x RaftNode" where
  "MS_ProposeAndWait E call req wants s = ProposeAndWait E call req wants s"

text \<open>The common end of the handlers: the error of the proposal, or success with what it returned.\<close>

definition propose :: "'x raft_env \<Rightarrow> raft_call \<Rightarrow> request \<Rightarrow> bool \<Rightarrow> ('x, retval) handler" where
  "propose E call req wants s =
     (case MS_ProposeAndWait E call req wants s of
        ((Some e, _), s) \<Rightarrow> (if fatal (Some e) then Inl e else Inr (fail_resp e), s)
      | ((None, ret), s) \<Rightarrow> (Inr (ok_resp ret), s))"

section \<open>Handlers\<close>

definition MS_CreateDatabase :: "'x raft_env \<Rightarrow> raft_call \<Rightarrow> string body \<Rightarrow> ('x, retval) handler" where
  "MS_CreateDatabase E call body =
     reading body (\<lambda>name s.
       case MS_ProposeAndWait E call (CreateDatabaseReq name) True s of
         ((err, ret), s) \<Rightarrow> (if fatal err then Inl (the err) else Inr (ok_resp ret), s))"

definition MS_DropDatabase :: "'x raft_env \<Rightarrow> raft_call \<Rightarrow> string body \<Rightarrow> ('x, retval) handler" where
  "MS_DropDatabase E call body = reading body (\<lambda>name. propose E call (DropDatabaseReq name) False)"

definition MS_DropRetentionPolicy :: "'x raft_env \<Rightarrow> raft_call \<Rightarrow> (string \<times> string) body \<Rightarrow> ('x, retval) handler" where
  "MS_DropRetentionPolicy E call body =
     reading body (\<lambda>(database, policy). propose E call (DropRetentionPolicyReq database policy) False)"

definition MS_CreateShardGroup :: "'x raft_env \<Rightarrow> raft_call \<Rightarrow> (string \<times> string \<times> int) body \<Rightarrow> ('x, retval) handler" where
  "MS_CreateShardGroup E call body =
     reading body (\<lambda>(database, policy, timestamp). propose E call (CreateShardGroupReq database policy timestamp) True)"

definition MS_CreateDataNode :: "'x raft_env \<Rightarrow> raft_call \<Rightarrow> (string \<times> string) body \<Rightarrow> ('x, retval) handler" where
  "MS_CreateDataNode E call body =
     reading body (\<lambda>(httpAddr, tcpAddr). propose E call (CreateDataNodeReq httpAddr tcpAddr) True)"

definition MS_DeleteDataNode :: "'x raft_env \<Rightarrow> raft_call \<Rightarrow> u64 body \<Rightarrow> ('x, retval) handler" where
  "MS_DeleteDataNode E call body = reading body (\<lambda>i. propose E call (DeleteDataNodeReq i) False)"

definition MS_CreateRetentionPolicy ::
  "'x raft_env \<Rightarrow> raft_call \<Rightarrow> (string \<times> raft_RetentionPolicySpec \<times> bool) body \<Rightarrow> ('x, retval) handler" where
  "MS_CreateRetentionPolicy E call body =
     reading body (\<lambda>(database, rps, makeDefault). propose E call (CreateRetentionPolicyReq database rps makeDefault) True)"

definition MS_UpdateRetentionPolicy ::
  "'x raft_env \<Rightarrow> raft_call \<Rightarrow> (string \<times> string \<times> raft_RetentionPolicySpec \<times> bool) body \<Rightarrow> ('x, retval) handler" where
  "MS_UpdateRetentionPolicy E call body =
     reading body (\<lambda>(database, name, rps, makeDefault).
       propose E call (UpdateRetentionPolicyReq database name rps makeDefault) False)"

definition MS_CreateDatabaseWithRetentionPolicy ::
  "'x raft_env \<Rightarrow> raft_call \<Rightarrow> (string \<times> raft_RetentionPolicySpec) body \<Rightarrow> ('x, retval) handler" where
  "MS_CreateDatabaseWithRetentionPolicy E call body =
     reading body (\<lambda>(name, rps). propose E call (CreateDatabaseWithRetentionPolicyReq name rps) True)"

text \<open>\<open>gen\<close> is \<^verbatim>\<open>bcrypt.GenerateFromPassword\<close> with the default cost.\<close>

definition MS_CreateUser ::
  "'x raft_env \<Rightarrow> raft_call \<Rightarrow> (string \<Rightarrow> go_error + string) \<Rightarrow> (string \<times> string \<times> bool) body \<Rightarrow> ('x, retval) handler" where
  "MS_CreateUser E call gen body =
     reading body (\<lambda>(name, password, admin) s.
       case gen password of
         Inl e \<Rightarrow> (Inr (fail_resp e), s)
       | Inr hash \<Rightarrow> propose E call (CreateUserReq name hash admin) True s)"

definition MS_DropUser :: "'x raft_env \<Rightarrow> raft_call \<Rightarrow> string body \<Rightarrow> ('x, retval) handler" where
  "MS_DropUser E call body = reading body (\<lambda>name. propose E call (DropUserReq name) False)"

definition MS_UpdateUser ::
  "'x raft_env \<Rightarrow> raft_call \<Rightarrow> (string \<Rightarrow> go_error + string) \<Rightarrow> (string \<times> string) body \<Rightarrow> ('x, retval) handler" where
  "MS_UpdateUser E call gen body =
     reading body (\<lambda>(name, password) s.
       case gen password of
         Inl e \<Rightarrow> (Inr (fail_resp e), s)
       | Inr hash \<Rightarrow> propose E call (UpdateUserReq name hash) False s)"

definition MS_SetPrivilege :: "'x raft_env \<Rightarrow> raft_call \<Rightarrow> (string \<times> string \<times> privilege) body \<Rightarrow> ('x, retval) handler" where
  "MS_SetPrivilege E call body =
     reading body (\<lambda>(userName, database, p). propose E call (SetPrivilegeReq userName database p) False)"

definition MS_SetAdminPrivilege :: "'x raft_env \<Rightarrow> raft_call \<Rightarrow> (string \<times> bool) body \<Rightarrow> ('x, retval) handler" where
  "MS_SetAdminPrivilege E call body =
     reading body (\<lambda>(userName, admin). propose E call (SetAdminPrivilegeReq userName admin) False)"

text \<open>Authentication is answered by the node itself, without a proposal.\<close>

definition MS_Authenticate :: "'x raft_env \<Rightarrow> byte list \<Rightarrow> (string \<times> string) body \<Rightarrow> ('x, retval) handler" where
  "MS_Authenticate E rnd body =
     reading body (\<lambda>(userName, password) s.
       case Client_Authenticate (env_M E) rnd userName password (rn_MetaStore s) of
         (Inl e, c) \<Rightarrow> (Inr (fail_resp e), s\<lparr>rn_MetaStore := c\<rparr>)
       | (Inr u, c) \<Rightarrow> (Inr (ok_resp (Some (RetUser u))), s\<lparr>rn_MetaStore := c\<rparr>))"

definition MS_AddShardOwner :: "'x raft_env \<Rightarrow> raft_call \<Rightarrow> (u64 \<times> u64) body \<Rightarrow> ('x, retval) handler" where
  "MS_AddShardOwner E call body = reading body (\<lambda>(shardID, nodeID). propose E call (AddShardOwnerReq shardID nodeID) False)"

definition MS_RemoveShardOwner :: "'x raft_env \<Rightarrow> raft_call \<Rightarrow> (u64 \<times> u64) body \<Rightarrow> ('x, retval) handler" where
  "MS_RemoveShardOwner E call body = reading body (\<lambda>(shardID, nodeID). propose E call (RemoveShardOwnerReq shardID nodeID) False)"

definition MS_DropShard :: "'x raft_env \<Rightarrow> raft_call \<Rightarrow> u64 body \<Rightarrow> ('x, retval) handler" where
  "MS_DropShard E call body = reading body (\<lambda>i. propose E call (DropShardReq i) False)"

definition MS_TruncateShardGroups :: "'x raft_env \<Rightarrow> raft_call \<Rightarrow> gtime body \<Rightarrow> ('x, retval) handler" where
  "MS_TruncateShardGroups E call body = reading body (\<lambda>t. propose E call (TruncateShardGroupsReq t) False)"

text \<open>The body is not read.\<close>

definition MS_PruneShardGroups :: "'x raft_env \<Rightarrow> raft_call \<Rightarrow> gtime \<Rightarrow> ('x, retval) handler" where
  "MS_PruneShardGroups E call now = propose E call (PruneShardGroupsReq (now + SHARDGROUP_INFO_EVICTION)) False"

text \<open>The field \<^verbatim>\<open>Now\<close> of the decoded request is set to the current time, but the body is proposed as it came.\<close>

definition MS_DeleteShardGroup :: "'x raft_env \<Rightarrow> raft_call \<Rightarrow> (string \<times> string \<times> u64 \<times> gtime) body \<Rightarrow> ('x, retval) handler" where
  "MS_DeleteShardGroup E call body =
     reading body (\<lambda>(database, policy, i, t). propose E call (DeleteShardGroupReq database policy i t) False)"

definition MS_PrecreateShardGroups :: "'x raft_env \<Rightarrow> raft_call \<Rightarrow> (gtime \<times> gtime) body \<Rightarrow> ('x, retval) handler" where
  "MS_PrecreateShardGroups E call body = reading body (\<lambda>(from, to). propose E call (PrecreateShardGroupsReq from to) False)"

definition MS_CreateContinuousQuery :: "'x raft_env \<Rightarrow> raft_call \<Rightarrow> (string \<times> string \<times> string) body \<Rightarrow> ('x, retval) handler" where
  "MS_CreateContinuousQuery E call body =
     reading body (\<lambda>(database, name, query). propose E call (CreateContinuousQueryReq database name query) False)"

definition MS_DropContinuousQuery :: "'x raft_env \<Rightarrow> raft_call \<Rightarrow> (string \<times> string) body \<Rightarrow> ('x, retval) handler" where
  "MS_DropContinuousQuery E call body =
     reading body (\<lambda>(database, name). propose E call (DropContinuousQueryReq database name) False)"

definition MS_CreateSubscription ::
  "'x raft_env \<Rightarrow> raft_call \<Rightarrow> (string \<times> string \<times> string \<times> string \<times> string list) body \<Rightarrow> ('x, retval) handler" where
  "MS_CreateSubscription E call body =
     reading body (\<lambda>(database, rp, name, mode, dests). propose E call (CreateSubscriptionReq database rp name mode dests) False)"

definition MS_DropSubscription :: "'x raft_env \<Rightarrow> raft_call \<Rightarrow> (string \<times> string \<times> string) body \<Rightarrow> ('x, retval) handler" where
  "MS_DropSubscription E call body =
     reading body (\<lambda>(database, rp, name). propose E call (DropSubscriptionReq database rp name) False)"

text \<open>A request for a lease is only proposed when it can succeed, with the current time in milliseconds.\<close>

definition MS_AcquireLease :: "'x raft_env \<Rightarrow> raft_call \<Rightarrow> gtime \<Rightarrow> gtime \<Rightarrow> (string \<times> u64 \<times> int) body \<Rightarrow> ('x, retval) handler" where
  "MS_AcquireLease E call now now' body =
     reading body (\<lambda>(name, nodeId, _) s.
       if \<not> ShouldTryAcquireLease now name nodeId s then (Inr (fail_resp ErrAcquiredByOther), s)
       else propose E call (AcquireLeaseReq name nodeId ((now' - unix_epoch) div 1000000)) True s)"

text \<open>\<open>notified\<close> is the result of \<^verbatim>\<open>ReadNotify\<close>.\<close>

definition MS_Data :: "'x raft_env \<Rightarrow> go_error option \<Rightarrow> ('x, byte list) handler" where
  "MS_Data E notified s =
     (case notified of
        Some e \<Rightarrow> (Inr (fail_resp e), s)
      | None \<Rightarrow>
          (case Data_MarshalBinary (env_codec E) (Client_Data (env_L E) (rn_MetaStore s)) of
             Inl e \<Rightarrow> (Inr (fail_resp e), s)
           | Inr bs \<Rightarrow> (Inr (ok_resp (Some bs)), s)))"

definition MS_FreezeDataNode :: "'x raft_env \<Rightarrow> raft_call \<Rightarrow> (u64 \<times> bool) body \<Rightarrow> ('x, retval) handler" where
  "MS_FreezeDataNode E call body = reading body (\<lambda>(i, fr). propose E call (FreezeDataNodeReq i fr) False)"

definition MS_Ping :: "('x, u64) handler" where
  "MS_Ping s = (Inr (ok_resp (Some (Client_DataIndex (rn_MetaStore s)))), s)"

section \<open>What a successful answer means\<close>

lemma answered_by:
  "process_all E es s = (Inr (), s') \<Longrightarrow> pp_all (rn_props s) key = Some (waiting w 0) \<Longrightarrow> pp_replies (rn_props s) key = None \<Longrightarrow>
   pp_replies (rn_props s') key = Some r \<Longrightarrow> key \<noteq> [] \<Longrightarrow> w = returns_data req \<Longrightarrow>
   \<forall>e\<in>set (entries_of es). entry_key e = key \<longrightarrow> e_data e = EntryProposal \<lparr>pr_Key = key, pr_req = req\<rparr> \<Longrightarrow>
   \<exists>pre now rnd e post s1. es = pre @ (now, rnd, e) # post \<and> e_data e = EntryProposal \<lparr>pr_Key = key, pr_req = req\<rparr> \<and>
     process_all E pre s = (Inr (), s1) \<and> rn_appliedIndex s1 < e_Index e \<and> r = answer w (request_result E now rnd req s1)"
proof (induction es arbitrary: s)
  case (Cons x es)
  obtain now rnd e where x: "x = (now, rnd, e)" using prod_cases3 by blast
  from Cons.prems(1) obtain s1 where s1: "process_entry E now rnd e s = (Inr (), s1)" "process_all E es s1 = (Inr (), s')"
    unfolding x by (rule process_all_ConsE)
  show ?case
  proof (cases "entry_key e = key \<and> rn_appliedIndex s < e_Index e")
    case True
    with Cons.prems(7) x have e: "e_data e = EntryProposal \<lparr>pr_Key = key, pr_req = req\<rparr>" by simp
    from entry_answers [OF s1(1) e _ Cons.prems(5,2,6)] True
    have a: "pp_all (rn_props s1) key = None \<and> pp_replies (rn_props s1) key = Some (answer w (request_result E now rnd req s))" by simp
    with process_all_others [OF s1(2) Cons.prems(5)] Cons.prems(4) have "r = answer w (request_result E now rnd req s)" by simp
    with True e show ?thesis by (intro exI [of _ "[]"] exI [of _ now] exI [of _ rnd] exI [of _ e] exI [of _ es] exI [of _ s]) (simp add: x)
  next
    case False
    have "pp_all (rn_props s1) key = pp_all (rn_props s) key \<and> pp_replies (rn_props s1) key = pp_replies (rn_props s) key"
    proof (cases "entry_key e = key")
      case True
      with False s1(1) show ?thesis by (simp add: process_entry_def not_less)
    qed (use process_entry_others [OF s1(1) Cons.prems(5)] in simp)
    with Cons.IH [OF s1(2)] Cons.prems x obtain pre now' rnd' e' post s2 where
      "es = pre @ (now', rnd', e') # post" "e_data e' = EntryProposal \<lparr>pr_Key = key, pr_req = req\<rparr>"
      "process_all E pre s1 = (Inr (), s2)" "rn_appliedIndex s2 < e_Index e'" "r = answer w (request_result E now' rnd' req s2)"
      by auto
    with s1(1) x show ?thesis
      by (intro exI [of _ "x # pre"] exI [of _ now'] exI [of _ rnd'] exI [of _ e'] exI [of _ post] exI [of _ s2]) simp
  qed
qed simp

text \<open>
  Success means applied: when \<^verbatim>\<open>ProposeAndWait\<close> returns without an error, the node has processed
  an entry with the request, and the request succeeded on the metadata that the entries before it
  gave. The raft library delivers no entry with the key of the proposal that is not the proposal.
\<close>

theorem success_means_applied:
  assumes "ProposeAndWait E call req (returns_data req) s = ((None, ret), s')" and "key = uniqueKey (rn_ID s) (rc_rand call)"
    and "\<And>es e. rc_raft call \<lparr>pr_Key = key, pr_req = req\<rparr> = Inr es \<Longrightarrow> e \<in> set (entries_of es) \<Longrightarrow> entry_key e = key \<Longrightarrow>
      e_data e = EntryProposal \<lparr>pr_Key = key, pr_req = req\<rparr>"
  shows "\<exists>pre now rnd e post s1. rc_raft call \<lparr>pr_Key = key, pr_req = req\<rparr> = Inr (pre @ (now, rnd, e) # post) \<and>
    e_data e = EntryProposal \<lparr>pr_Key = key, pr_req = req\<rparr> \<and>
    process_all E pre (snd (register key (returns_data req) s)) = (Inr (), s1) \<and> rn_appliedIndex s1 < e_Index e \<and>
    fst (request_result E now rnd req s1) = None \<and> (None, ret) = answer (returns_data req) (request_result E now rnd req s1)"
proof -
  let ?w = "returns_data req"
  obtain s0 where reg: "register key ?w s = (True, s0)"
    using assms(1,2) by (cases "register key ?w s") (auto simp: ProposeAndWait_def Let_def split: bool.splits)
  have s0: "pp_all (rn_props s0) key = Some (waiting ?w 0)" "pp_replies (rn_props s0) key = None"
    using reg by (auto simp: register_def proposals_Store_def waiting_def split: prod.splits if_splits)
  obtain es where es: "rc_raft call \<lparr>pr_Key = key, pr_req = req\<rparr> = Inr es"
    using assms(1,2) reg by (auto simp: ProposeAndWait_def Let_def split: sum.splits)
  obtain s2 where run: "process_all E es s0 = (Inr (), s2)" and res: "wait_result (rc_ctx call) (pp_replies (rn_props s2) key) = (None, ret)"
    using assms(1,2) reg es by (auto simp: ProposeAndWait_def Let_def split: prod.splits sum.splits)
  from res have reply: "pp_replies (rn_props s2) key = Some (None, ret)"
    by (auto simp: wait_result_def Let_def split: option.splits prod.splits)
  have "key \<noteq> []" using assms(2) by simp
  moreover have "\<forall>e\<in>set (entries_of es). entry_key e = key \<longrightarrow> e_data e = EntryProposal \<lparr>pr_Key = key, pr_req = req\<rparr>"
    using assms(3) [OF es] by blast
  ultimately obtain pre now rnd e post s1 where at: "es = pre @ (now, rnd, e) # post" "e_data e = EntryProposal \<lparr>pr_Key = key, pr_req = req\<rparr>"
    "process_all E pre s0 = (Inr (), s1)" "rn_appliedIndex s1 < e_Index e" "(None, ret) = answer ?w (request_result E now rnd req s1)"
    using answered_by [OF run s0 reply _ HOL.refl] by blast
  have "fst (request_result E now rnd req s1) = None"
    using at(5) by (auto simp: answer_def split: prod.splits option.splits)
  with at es reg show ?thesis
    by (intro exI [of _ pre] exI [of _ now] exI [of _ rnd] exI [of _ e] exI [of _ post] exI [of _ s1]) simp
qed

lemma propose_refused:
  assumes "pp_all (rn_props s) (uniqueKey (rn_ID s) (rc_rand call)) = None" and "rc_raft call = (\<lambda>_. Inl e)"
  shows "\<exists>s'. MS_ProposeAndWait E call req w s = ((Some (Errorf ''While proposing''), None), s') \<and>
    rn_MetaStore s' = rn_MetaStore s \<and> rn_appliedIndex s' = rn_appliedIndex s"
  using assms by (simp add: MS_ProposeAndWait_def ProposeAndWait_def Let_def register_def proposals_Store_def forget_key_def)

text \<open>
  \<^verbatim>\<open>CreateDatabase\<close> hides errors: when the raft library refuses every proposal, as it does without a
  leader, the metadata stays as it is and the handler still answers with success and an empty
  database, while \<^verbatim>\<open>DropDatabase\<close> reports the error in the same situation.
\<close>

theorem CreateDatabase_hides_errors:
  assumes "pp_all (rn_props s) (uniqueKey (rn_ID s) (rc_rand call)) = None" and "rc_raft call = (\<lambda>_. Inl e)"
  shows "\<exists>s' s''. MS_CreateDatabase E call (Decoded name) s = (Inr (ok_resp None), s') \<and> rn_MetaStore s' = rn_MetaStore s \<and>
    MS_DropDatabase E call (Decoded name) s = (Inr (fail_resp (Errorf ''While proposing'')), s'')"
  using propose_refused [OF assms, of E "CreateDatabaseReq name" True] propose_refused [OF assms, of E "DropDatabaseReq name" False]
  by (auto simp: MS_CreateDatabase_def MS_DropDatabase_def reading_def propose_def)

section \<open>Examples\<close>

abbreviation example_freeze :: request where
  "example_freeze \<equiv> FreezeDataNodeReq 2 True"

lemma example_answer:
  "fst (ProposeAndWait example_env (commits_at [] 200 5 7) example_freeze False (node_with example_client)) = (None, None)"
  by code_simp

theorem success_means_applied_witness:
  "\<exists>pre now rnd e post s1. rc_raft (commits_at [] 200 5 7) \<lparr>pr_Key = ''01-7'', pr_req = example_freeze\<rparr> =
     Inr (pre @ (now, rnd, e) # post) \<and> fst (request_result example_env now rnd example_freeze s1) = None"
proof -
  have w: "returns_data example_freeze = False" by (simp add: returns_data_def)
  have "ProposeAndWait example_env (commits_at [] 200 5 7) example_freeze False (node_with example_client) =
      ((None, None), snd (ProposeAndWait example_env (commits_at [] 200 5 7) example_freeze False (node_with example_client)))"
    using example_answer by (simp only: prod_eq_iff fst_conv snd_conv simp_thms)
  note ok = success_means_applied [where req = example_freeze, unfolded w, OF this, of "''01-7''"]
  have "e_data e = EntryProposal \<lparr>pr_Key = ''01-7'', pr_req = example_freeze\<rparr>"
    if "rc_raft (commits_at [] 200 5 7) \<lparr>pr_Key = ''01-7'', pr_req = example_freeze\<rparr> = Inr es" "e \<in> set (entries_of es)" for es e
    using that by (auto simp: commits_at_def)
  with ok example_commit(1) show ?thesis by (simp add: node_with_def commits_at_def) blast
qed

definition no_leader :: raft_call where
  "no_leader = \<lparr>rc_rand = 7, rc_raft = (\<lambda>_. Inl (LibErr ''raft proposal dropped'')), rc_ctx = None\<rparr>"

theorem CreateDatabase_hides_errors_witness:
  "fst (MS_CreateDatabase example_env no_leader (Decoded ''db'') (node_with example_client)) = Inr (ok_resp None)"
proof -
  have "\<exists>s' s''. MS_CreateDatabase example_env no_leader (Decoded ''db'') (node_with example_client) = (Inr (ok_resp None), s') \<and>
      rn_MetaStore s' = rn_MetaStore (node_with example_client) \<and>
      MS_DropDatabase example_env no_leader (Decoded ''db'') (node_with example_client) = (Inr (fail_resp (Errorf ''While proposing'')), s'')"
    by (rule CreateDatabase_hides_errors [where e = "LibErr ''raft proposal dropped''"])
      (simp_all add: no_leader_def node_with_def newProposals_def)
  then show ?thesis by auto
qed

end
