(* ===== verification/MetaClient.thy ===== *)
theory MetaClient
  imports MetaService
begin

text \<open>
  \<^verbatim>\<open>coordinator/meta_client_impl.go\<close>, the client of the meta service, with the paths of
  \<^verbatim>\<open>raftmeta/path.go\<close> and the routes of \<^verbatim>\<open>raftmeta/meta_service.go\<close>. The client posts a request to a
  path and gets an error of the transport or a response. The server is a parameter that threads
  its state; \<open>serve\<close> is the meta service as such a server.
\<close>

section \<open>Paths and routes\<close>

datatype endpoint =
    EP_CreateDatabase | EP_DropDatabase | EP_CreateShardGroup | EP_CreateDataNode | EP_DropRetentionPolicy
  | EP_DeleteDataNode | EP_FreezeDataNode | EP_CreateRetentionPolicy | EP_UpdateRetentionPolicy | EP_CreateUser
  | EP_DropUser | EP_UpdateUser | EP_SetPrivilege | EP_SetAdminPrivilege | EP_Authenticate | EP_DropShard
  | EP_TruncateShardGroups | EP_PruneShardGroups | EP_DeleteShardGroup | EP_PrecreateShardGroups
  | EP_CreateDatabaseWithRetentionPolicy | EP_CreateContinuousQuery | EP_DropContinuousQuery
  | EP_CreateSubscription | EP_DropSubscription | EP_Data | EP_Ping | EP_AcquireLease | EP_AddShardOwner
  | EP_RemoveShardOwner

primrec path_of :: "endpoint \<Rightarrow> string" where
  "path_of EP_CreateDatabase = ''/create_database''"
| "path_of EP_DropDatabase = ''/drop_database''"
| "path_of EP_CreateShardGroup = ''/create_shard_group''"
| "path_of EP_CreateDataNode = ''/create_data_node''"
| "path_of EP_DropRetentionPolicy = ''/drop_retention_policy''"
| "path_of EP_DeleteDataNode = ''/delete_data_node''"
| "path_of EP_FreezeDataNode = ''/freeze_data_node''"
| "path_of EP_CreateRetentionPolicy = ''/create_retention_policy''"
| "path_of EP_UpdateRetentionPolicy = ''/update_retention_policy''"
| "path_of EP_CreateUser = ''/create_user''"
| "path_of EP_DropUser = ''/drop_user''"
| "path_of EP_UpdateUser = ''/upate_user''"
| "path_of EP_SetPrivilege = ''/set_privilege''"
| "path_of EP_SetAdminPrivilege = ''/set_admin_privilege''"
| "path_of EP_Authenticate = ''/authenticate''"
| "path_of EP_DropShard = ''/drop_shard''"
| "path_of EP_TruncateShardGroups = ''/truncate_shard_groups''"
| "path_of EP_PruneShardGroups = ''/prune_shard_groups''"
| "path_of EP_DeleteShardGroup = ''/delete_shard_group''"
| "path_of EP_PrecreateShardGroups = ''/precreate_shard_groups''"
| "path_of EP_CreateDatabaseWithRetentionPolicy = ''/create_database_with_policy''"
| "path_of EP_CreateContinuousQuery = ''/create_continuous_query''"
| "path_of EP_DropContinuousQuery = ''/drop_continuous_queyr''"
| "path_of EP_CreateSubscription = ''/create_subscription''"
| "path_of EP_DropSubscription = ''/drop_subscription''"
| "path_of EP_Data = ''/data''"
| "path_of EP_Ping = ''/ping''"
| "path_of EP_AcquireLease = ''/acquire_lease''"
| "path_of EP_AddShardOwner = ''/add_shard_owner''"
| "path_of EP_RemoveShardOwner = ''/remove_shard_owner''"

text \<open>
  The handler at a path, on a body that decodes to the fields of its request: the endpoint that is
  registered for the handler and the handler itself. Requests without a handler are internal to
  the raft nodes.
\<close>

record 'x service_env =
  se_raft :: "'x raft_env"
  se_gen :: "string \<Rightarrow> go_error + string"
  se_now :: gtime
  se_rnd :: "byte list"

primrec initHttpHandler :: "'x service_env \<Rightarrow> raft_call \<Rightarrow> request \<Rightarrow> (endpoint \<times> ('x, retval) handler) option" where
  "initHttpHandler V call (CreateDatabaseReq n) = Some (EP_CreateDatabase, MS_CreateDatabase (se_raft V) call (Decoded n))"
| "initHttpHandler V call (DropDatabaseReq n) = Some (EP_DropDatabase, MS_DropDatabase (se_raft V) call (Decoded n))"
| "initHttpHandler V call (CreateShardGroupReq d p t) = Some (EP_CreateShardGroup, MS_CreateShardGroup (se_raft V) call (Decoded (d, p, t)))"
| "initHttpHandler V call (CreateDataNodeReq h t) = Some (EP_CreateDataNode, MS_CreateDataNode (se_raft V) call (Decoded (h, t)))"
| "initHttpHandler V call (DropRetentionPolicyReq d p) = Some (EP_DropRetentionPolicy, MS_DropRetentionPolicy (se_raft V) call (Decoded (d, p)))"
| "initHttpHandler V call (DeleteDataNodeReq i) = Some (EP_DeleteDataNode, MS_DeleteDataNode (se_raft V) call (Decoded i))"
| "initHttpHandler V call (FreezeDataNodeReq i f) = Some (EP_FreezeDataNode, MS_FreezeDataNode (se_raft V) call (Decoded (i, f)))"
| "initHttpHandler V call (CreateRetentionPolicyReq d r m) = Some (EP_CreateRetentionPolicy, MS_CreateRetentionPolicy (se_raft V) call (Decoded (d, r, m)))"
| "initHttpHandler V call (UpdateRetentionPolicyReq d n r m) = Some (EP_UpdateRetentionPolicy, MS_UpdateRetentionPolicy (se_raft V) call (Decoded (d, n, r, m)))"
| "initHttpHandler V call (CreateUserReq n p a) = Some (EP_CreateUser, MS_CreateUser (se_raft V) call (se_gen V) (Decoded (n, p, a)))"
| "initHttpHandler V call (DropUserReq n) = Some (EP_DropUser, MS_DropUser (se_raft V) call (Decoded n))"
| "initHttpHandler V call (UpdateUserReq n p) = Some (EP_UpdateUser, MS_UpdateUser (se_raft V) call (se_gen V) (Decoded (n, p)))"
| "initHttpHandler V call (SetPrivilegeReq u d p) = Some (EP_SetPrivilege, MS_SetPrivilege (se_raft V) call (Decoded (u, d, p)))"
| "initHttpHandler V call (SetAdminPrivilegeReq u a) = Some (EP_SetAdminPrivilege, MS_SetAdminPrivilege (se_raft V) call (Decoded (u, a)))"
| "initHttpHandler V call (AuthenticateReq u p) = Some (EP_Authenticate, MS_Authenticate (se_raft V) (se_rnd V) (Decoded (u, p)))"
| "initHttpHandler V call (DropShardReq i) = Some (EP_DropShard, MS_DropShard (se_raft V) call (Decoded i))"
| "initHttpHandler V call (AddShardOwnerReq sh n) = Some (EP_AddShardOwner, MS_AddShardOwner (se_raft V) call (Decoded (sh, n)))"
| "initHttpHandler V call (RemoveShardOwnerReq sh n) = Some (EP_RemoveShardOwner, MS_RemoveShardOwner (se_raft V) call (Decoded (sh, n)))"
| "initHttpHandler V call (TruncateShardGroupsReq t) = Some (EP_TruncateShardGroups, MS_TruncateShardGroups (se_raft V) call (Decoded t))"
| "initHttpHandler V call (PruneShardGroupsReq t) = Some (EP_PruneShardGroups, MS_PruneShardGroups (se_raft V) call (se_now V))"
| "initHttpHandler V call (DeleteShardGroupReq d p i t) = Some (EP_DeleteShardGroup, MS_DeleteShardGroup (se_raft V) call (Decoded (d, p, i, t)))"
| "initHttpHandler V call (PrecreateShardGroupsReq f t) = Some (EP_PrecreateShardGroups, MS_PrecreateShardGroups (se_raft V) call (Decoded (f, t)))"
| "initHttpHandler V call (CreateDatabaseWithRetentionPolicyReq n r) =
     Some (EP_CreateDatabaseWithRetentionPolicy, MS_CreateDatabaseWithRetentionPolicy (se_raft V) call (Decoded (n, r)))"
| "initHttpHandler V call (CreateContinuousQueryReq d n q) = Some (EP_CreateContinuousQuery, MS_CreateContinuousQuery (se_raft V) call (Decoded (d, n, q)))"
| "initHttpHandler V call (DropContinuousQueryReq d n) = Some (EP_DropContinuousQuery, MS_DropContinuousQuery (se_raft V) call (Decoded (d, n)))"
| "initHttpHandler V call (CreateSubscriptionReq d r n m ds) = Some (EP_CreateSubscription, MS_CreateSubscription (se_raft V) call (Decoded (d, r, n, m, ds)))"
| "initHttpHandler V call (DropSubscriptionReq d r n) = Some (EP_DropSubscription, MS_DropSubscription (se_raft V) call (Decoded (d, r, n)))"
| "initHttpHandler V call (AcquireLeaseReq n i t) = Some (EP_AcquireLease, MS_AcquireLease (se_raft V) call (se_now V) (se_now V) (Decoded (n, i, t)))"
| "initHttpHandler V call SnapShotReq = None"
| "initHttpHandler V call CreateChecksumReq = None"
| "initHttpHandler V call (VerifyChecksumReq i c n) = None"
| "initHttpHandler V call (UnknownReq n) = None"
| "initHttpHandler V call Malformed = None"

text \<open>
  A request that is posted to a path. A handler that ends the process leaves the client with an
  error of the transport, and so does a path without a handler. Bodies that are not of the type
  of the handler at the path are left out.
\<close>

definition serve :: "'x service_env \<Rightarrow> raft_call \<Rightarrow> string \<Rightarrow> request \<Rightarrow> 'x RaftNode \<Rightarrow> (go_error + retval resp) \<times> 'x RaftNode" where
  "serve V call path req s =
     (case initHttpHandler V call req of
        None \<Rightarrow> (Inl (LibErr ''404 page not found''), s)
      | Some (ep, h) \<Rightarrow> if path = path_of ep then h s else (Inl (LibErr ''404 page not found''), s))"

text \<open>No path is registered twice, which \<^verbatim>\<open>http.HandleFunc\<close> would answer with a panic.\<close>

definition all_endpoints :: "endpoint list" where
  "all_endpoints =
     [EP_CreateDatabase, EP_DropDatabase, EP_CreateShardGroup, EP_CreateDataNode, EP_DropRetentionPolicy,
      EP_DeleteDataNode, EP_FreezeDataNode, EP_CreateRetentionPolicy, EP_UpdateRetentionPolicy, EP_CreateUser,
      EP_DropUser, EP_UpdateUser, EP_SetPrivilege, EP_SetAdminPrivilege, EP_Authenticate, EP_DropShard,
      EP_TruncateShardGroups, EP_PruneShardGroups, EP_DeleteShardGroup, EP_PrecreateShardGroups,
      EP_CreateDatabaseWithRetentionPolicy, EP_CreateContinuousQuery, EP_DropContinuousQuery,
      EP_CreateSubscription, EP_DropSubscription, EP_Data, EP_Ping, EP_AcquireLease, EP_AddShardOwner,
      EP_RemoveShardOwner]"

lemma all_endpoints: "ep \<in> set all_endpoints"
  by (cases ep) (simp_all add: all_endpoints_def)

lemma distinct_paths:
  "distinct (map path_of all_endpoints @ [''/message'', ''/update_cluster'', ''/status_cluster'', ''/status_node''])"
  by code_simp

section \<open>The client\<close>

text \<open>
  Errors of the client: of the transport, the message of a response that is not a success (the
  text of an error of the server, no longer the error itself), and, for the clients that keep a
  copy of the metadata, an error of the copy.
\<close>

datatype cli_error = HttpErr go_error | RemoteErr ret_msg | LocalErr go_error

type_synonym 's post = "string \<Rightarrow> request \<Rightarrow> 's \<Rightarrow> (go_error + retval resp) \<times> 's"

definition RequestAndParseResponse :: "'s post \<Rightarrow> endpoint \<Rightarrow> request \<Rightarrow> 's \<Rightarrow> (cli_error + retval option) \<times> 's" where
  "RequestAndParseResponse post ep req s =
     (case post (path_of ep) req s of
        (Inl e, s) \<Rightarrow> (Inl (HttpErr e), s)
      | (Inr resp, s) \<Rightarrow> if RetCode resp \<noteq> 0 then (Inl (RemoteErr (RetMsg resp)), s) else (Inr (rp_data resp), s))"

definition call_err :: "'s post \<Rightarrow> endpoint \<Rightarrow> request \<Rightarrow> 's \<Rightarrow> cli_error option \<times> 's" where
  "call_err post ep req s =
     (case RequestAndParseResponse post ep req s of (Inl e, s) \<Rightarrow> (Some e, s) | (Inr _, s) \<Rightarrow> (None, s))"

definition Impl_AcquireLease :: "'s post \<Rightarrow> u64 \<Rightarrow> string \<Rightarrow> 's \<Rightarrow> (cli_error + retval option) \<times> 's" where
  "Impl_AcquireLease post nodeID name = RequestAndParseResponse post EP_AcquireLease (AcquireLeaseReq name nodeID 0)"

definition Impl_CreateDatabase :: "'s post \<Rightarrow> string \<Rightarrow> 's \<Rightarrow> (cli_error + retval option) \<times> 's" where
  "Impl_CreateDatabase post name = RequestAndParseResponse post EP_CreateDatabase (CreateDatabaseReq name)"

definition Impl_DeleteDataNode :: "'s post \<Rightarrow> u64 \<Rightarrow> 's \<Rightarrow> cli_error option \<times> 's" where
  "Impl_DeleteDataNode post i = call_err post EP_DeleteDataNode (DeleteDataNodeReq i)"

definition freezeDataNode :: "'s post \<Rightarrow> u64 \<Rightarrow> bool \<Rightarrow> 's \<Rightarrow> cli_error option \<times> 's" where
  "freezeDataNode post i fr = call_err post EP_FreezeDataNode (FreezeDataNodeReq i fr)"

definition Impl_FreezeDataNode :: "'s post \<Rightarrow> u64 \<Rightarrow> 's \<Rightarrow> cli_error option \<times> 's" where
  "Impl_FreezeDataNode post i = freezeDataNode post i True"

definition Impl_UnfreezeDataNode :: "'s post \<Rightarrow> u64 \<Rightarrow> 's \<Rightarrow> cli_error option \<times> 's" where
  "Impl_UnfreezeDataNode post i = freezeDataNode post i False"

definition Impl_AddShardOwner :: "'s post \<Rightarrow> u64 \<Rightarrow> u64 \<Rightarrow> 's \<Rightarrow> cli_error option \<times> 's" where
  "Impl_AddShardOwner post shardID nodeID = call_err post EP_AddShardOwner (AddShardOwnerReq shardID nodeID)"

definition Impl_RemoveShardOwner :: "'s post \<Rightarrow> u64 \<Rightarrow> u64 \<Rightarrow> 's \<Rightarrow> cli_error option \<times> 's" where
  "Impl_RemoveShardOwner post shardID nodeID = call_err post EP_RemoveShardOwner (RemoveShardOwnerReq shardID nodeID)"

text \<open>\<^verbatim>\<open>timestamp.Unix()\<close> drops the fraction of the second.\<close>

definition time_UnixSec :: "gtime \<Rightarrow> int" where
  "time_UnixSec t = (t - unix_epoch) div 1000000000"

definition Impl_CreateShardGroup :: "'s post \<Rightarrow> string \<Rightarrow> string \<Rightarrow> gtime \<Rightarrow> 's \<Rightarrow> (cli_error + retval option) \<times> 's" where
  "Impl_CreateShardGroup post database policy timestamp =
     RequestAndParseResponse post EP_CreateShardGroup (CreateShardGroupReq database policy (time_UnixSec timestamp))"

definition Impl_CreateDataNode :: "'s post \<Rightarrow> string \<Rightarrow> string \<Rightarrow> 's \<Rightarrow> (cli_error + retval option) \<times> 's" where
  "Impl_CreateDataNode post httpAddr tcpAddr = RequestAndParseResponse post EP_CreateDataNode (CreateDataNodeReq httpAddr tcpAddr)"

definition rps_of :: "RetentionPolicySpec \<Rightarrow> raft_RetentionPolicySpec" where
  "rps_of spec =
     \<lparr>rs_Name = rps_Name spec,
      rs_ReplicaN = (case rps_ReplicaN spec of Some n \<Rightarrow> n | None \<Rightarrow> 1),
      rs_Duration = (case rps_Duration spec of Some d \<Rightarrow> d | None \<Rightarrow> 0),
      rs_ShardGroupDuration = rps_ShardGroupDuration spec\<rparr>"

definition Impl_CreateDatabaseWithRetentionPolicy :: "'s post \<Rightarrow> string \<Rightarrow> RetentionPolicySpec \<Rightarrow> 's \<Rightarrow> (cli_error + retval option) \<times> 's" where
  "Impl_CreateDatabaseWithRetentionPolicy post name spec =
     RequestAndParseResponse post EP_CreateDatabaseWithRetentionPolicy (CreateDatabaseWithRetentionPolicyReq name (rps_of spec))"

definition Impl_CreateContinuousQuery :: "'s post \<Rightarrow> string \<Rightarrow> string \<Rightarrow> string \<Rightarrow> 's \<Rightarrow> cli_error option \<times> 's" where
  "Impl_CreateContinuousQuery post database name query =
     call_err post EP_CreateContinuousQuery (CreateContinuousQueryReq database name query)"

definition Impl_CreateRetentionPolicy :: "'s post \<Rightarrow> string \<Rightarrow> RetentionPolicySpec \<Rightarrow> bool \<Rightarrow> 's \<Rightarrow> (cli_error + retval option) \<times> 's" where
  "Impl_CreateRetentionPolicy post database spec makeDefault =
     RequestAndParseResponse post EP_CreateRetentionPolicy (CreateRetentionPolicyReq database (rps_of spec) makeDefault)"

definition Impl_CreateSubscription :: "'s post \<Rightarrow> string \<Rightarrow> string \<Rightarrow> string \<Rightarrow> string \<Rightarrow> string list \<Rightarrow> 's \<Rightarrow> cli_error option \<times> 's" where
  "Impl_CreateSubscription post database rp name mode destinations =
     call_err post EP_CreateSubscription (CreateSubscriptionReq database rp name mode destinations)"

definition Impl_CreateUser :: "'s post \<Rightarrow> string \<Rightarrow> string \<Rightarrow> bool \<Rightarrow> 's \<Rightarrow> (cli_error + retval option) \<times> 's" where
  "Impl_CreateUser post name password admin = RequestAndParseResponse post EP_CreateUser (CreateUserReq name password admin)"

definition Impl_DropShard :: "'s post \<Rightarrow> u64 \<Rightarrow> 's \<Rightarrow> cli_error option \<times> 's" where
  "Impl_DropShard post i = call_err post EP_DropShard (DropShardReq i)"

definition Impl_DropContinuousQuery :: "'s post \<Rightarrow> string \<Rightarrow> string \<Rightarrow> 's \<Rightarrow> cli_error option \<times> 's" where
  "Impl_DropContinuousQuery post database name = call_err post EP_DropContinuousQuery (DropContinuousQueryReq database name)"

definition Impl_DropDatabase :: "'s post \<Rightarrow> string \<Rightarrow> 's \<Rightarrow> cli_error option \<times> 's" where
  "Impl_DropDatabase post name = call_err post EP_DropDatabase (DropDatabaseReq name)"

definition Impl_DropRetentionPolicy :: "'s post \<Rightarrow> string \<Rightarrow> string \<Rightarrow> 's \<Rightarrow> cli_error option \<times> 's" where
  "Impl_DropRetentionPolicy post database name = call_err post EP_DropRetentionPolicy (DropRetentionPolicyReq database name)"

definition Impl_DropSubscription :: "'s post \<Rightarrow> string \<Rightarrow> string \<Rightarrow> string \<Rightarrow> 's \<Rightarrow> cli_error option \<times> 's" where
  "Impl_DropSubscription post database rp name = call_err post EP_DropSubscription (DropSubscriptionReq database rp name)"

definition Impl_DropUser :: "'s post \<Rightarrow> string \<Rightarrow> 's \<Rightarrow> cli_error option \<times> 's" where
  "Impl_DropUser post name = call_err post EP_DropUser (DropUserReq name)"

definition Impl_SetAdminPrivilege :: "'s post \<Rightarrow> string \<Rightarrow> bool \<Rightarrow> 's \<Rightarrow> cli_error option \<times> 's" where
  "Impl_SetAdminPrivilege post username admin = call_err post EP_SetAdminPrivilege (SetAdminPrivilegeReq username admin)"

definition Impl_SetPrivilege :: "'s post \<Rightarrow> string \<Rightarrow> string \<Rightarrow> privilege \<Rightarrow> 's \<Rightarrow> cli_error option \<times> 's" where
  "Impl_SetPrivilege post username database p = call_err post EP_SetPrivilege (SetPrivilegeReq username database p)"

definition Impl_TruncateShardGroups :: "'s post \<Rightarrow> gtime \<Rightarrow> 's \<Rightarrow> cli_error option \<times> 's" where
  "Impl_TruncateShardGroups post t = call_err post EP_TruncateShardGroups (TruncateShardGroupsReq t)"

text \<open>The field \<^verbatim>\<open>Now\<close> is not set: the zero time.\<close>

definition Impl_DeleteShardGroup :: "'s post \<Rightarrow> string \<Rightarrow> string \<Rightarrow> u64 \<Rightarrow> 's \<Rightarrow> cli_error option \<times> 's" where
  "Impl_DeleteShardGroup post database policy i = call_err post EP_DeleteShardGroup (DeleteShardGroupReq database policy i 0)"

text \<open>The body is the empty string, which the handler does not read.\<close>

definition Impl_PruneShardGroups :: "'s post \<Rightarrow> 's \<Rightarrow> cli_error option \<times> 's" where
  "Impl_PruneShardGroups post = call_err post EP_PruneShardGroups (PruneShardGroupsReq 0)"

definition Impl_PrecreateShardGroups :: "'s post \<Rightarrow> gtime \<Rightarrow> gtime \<Rightarrow> 's \<Rightarrow> cli_error option \<times> 's" where
  "Impl_PrecreateShardGroups post from to = call_err post EP_PrecreateShardGroups (PrecreateShardGroupsReq from to)"

definition rps_of_update :: "RetentionPolicyUpdate \<Rightarrow> raft_RetentionPolicySpec" where
  "rps_of_update rpu =
     \<lparr>rs_Name = (case rpu_Name rpu of Some n \<Rightarrow> n | None \<Rightarrow> []),
      rs_ReplicaN = (case rpu_ReplicaN rpu of Some n \<Rightarrow> n | None \<Rightarrow> 1),
      rs_Duration = (case rpu_Duration rpu of Some d \<Rightarrow> d | None \<Rightarrow> 0),
      rs_ShardGroupDuration = (case rpu_ShardGroupDuration rpu of Some d \<Rightarrow> d | None \<Rightarrow> 0)\<rparr>"

text \<open>The field \<^verbatim>\<open>MakeDefault\<close> is not set.\<close>

definition Impl_UpdateRetentionPolicy :: "'s post \<Rightarrow> string \<Rightarrow> string \<Rightarrow> RetentionPolicyUpdate \<Rightarrow> bool \<Rightarrow> 's \<Rightarrow> cli_error option \<times> 's" where
  "Impl_UpdateRetentionPolicy post database name rpu makeDefault =
     call_err post EP_UpdateRetentionPolicy (UpdateRetentionPolicyReq database name (rps_of_update rpu) False)"

definition Impl_UpdateUser :: "'s post \<Rightarrow> string \<Rightarrow> string \<Rightarrow> 's \<Rightarrow> cli_error option \<times> 's" where
  "Impl_UpdateUser post name password = call_err post EP_UpdateUser (UpdateUserReq name password)"

definition Impl_Authenticate :: "'s post \<Rightarrow> string \<Rightarrow> string \<Rightarrow> 's \<Rightarrow> (cli_error + retval option) \<times> 's" where
  "Impl_Authenticate post username password = RequestAndParseResponse post EP_Authenticate (AuthenticateReq username password)"

text \<open>The metadata and its index, as the server answers on their paths.\<close>

definition Impl_Data :: "'x codec \<Rightarrow> 'x \<Rightarrow> go_error + byte list resp \<Rightarrow> cli_error + 'x Data" where
  "Impl_Data C rest got =
     (case got of
        Inl e \<Rightarrow> Inl (HttpErr e)
      | Inr resp \<Rightarrow>
          if RetCode resp \<noteq> 0 then Inl (RemoteErr (RetMsg resp))
          else
            case Data_UnmarshalBinary C (case rp_data resp of Some bs \<Rightarrow> bs | None \<Rightarrow> []) (zero_Data rest) of
              (Some e, _) \<Rightarrow> Inl (LocalErr e)
            | (None, data) \<Rightarrow> Inr data)"

definition Impl_Ping :: "go_error + u64 resp \<Rightarrow> cli_error + u64" where
  "Impl_Ping got =
     (case got of
        Inl e \<Rightarrow> Inl (HttpErr e)
      | Inr resp \<Rightarrow>
          if RetCode resp \<noteq> 0 then Inl (RemoteErr (RetMsg resp))
          else Inr (case rp_data resp of Some i \<Rightarrow> i | None \<Rightarrow> 0))"

section \<open>What a request carries\<close>

text \<open>
  Requests about retention policies: which specifications and updates reach the meta store as
  the caller gave them. A specification needs a replica count and no duration that is zero or
  negative; an update needs the same of both durations and no empty name. An update without a
  replica count, such as a change of the duration only, sets the replica count to 1, and the flag
  that makes the policy the default is never sent.
\<close>

theorem retention_policy_requests:
  "(spec_of (rps_of sp) = sp \<longleftrightarrow> rps_ReplicaN sp \<noteq> None \<and> (\<forall>d. rps_Duration sp = Some d \<longrightarrow> 0 < d)) \<and>
   (update_of (rps_of_update u) = u \<longleftrightarrow>
      rpu_ReplicaN u \<noteq> None \<and> rpu_Name u \<noteq> Some [] \<and> (\<forall>d. rpu_Duration u = Some d \<longrightarrow> 0 < d) \<and>
      (\<forall>d. rpu_ShardGroupDuration u = Some d \<longrightarrow> 0 < d)) \<and>
   (rpu_ReplicaN u = None \<longrightarrow> rpu_ReplicaN (update_of (rps_of_update u)) = Some 1) \<and>
   Impl_UpdateRetentionPolicy post d n u True s = Impl_UpdateRetentionPolicy post d n u False s"
  by (cases sp, cases u)
    (auto simp: spec_of_def rps_of_def update_of_def rps_of_update_def Impl_UpdateRetentionPolicy_def split: option.split)

definition duration_update :: RetentionPolicyUpdate where
  "duration_update = \<lparr>rpu_Name = None, rpu_Duration = Some 3600, rpu_ReplicaN = None, rpu_ShardGroupDuration = None\<rparr>"

theorem retention_policy_requests_witness:
  "update_of (rps_of_update duration_update) = duration_update\<lparr>rpu_ReplicaN := Some 1\<rparr> \<and>
   rpu_ReplicaN (update_of (rps_of_update duration_update)) = Some 1"
  using retention_policy_requests [where u = duration_update]
  by (simp add: duration_update_def update_of_def rps_of_update_def)

end
