(* ===== verification/ClusterMeta.thy ===== *)
theory ClusterMeta
  imports MetaClient
begin

text \<open>
  \<^verbatim>\<open>coordinator/cluster_meta_client.go\<close>: the client of a data node, which sends every change to the meta
  service, repeats it on its own copy of the metadata when the service succeeded, and replaces the
  copy when the service reports a higher index. Queries are answered by the copy.
\<close>

section \<open>Operations\<close>

record 'x ClusterMetaClient =
  cm_NodeID :: u64
  cm_cache :: "'x Client"

definition NewMetaClient :: "'x \<Rightarrow> bool \<Rightarrow> u64 \<Rightarrow> 'x ClusterMetaClient" where
  "NewMetaClient rest autoCreate nodeID = \<lparr>cm_NodeID = nodeID, cm_cache = NewClient rest autoCreate\<rparr>"

text \<open>The change of the copy after the answer of the service.\<close>

definition then_cache ::
  "cli_error option \<times> 's \<Rightarrow> ('x Client \<Rightarrow> go_error option \<times> 'x Client) \<Rightarrow> 'x ClusterMetaClient
    \<Rightarrow> cli_error option \<times> 's \<times> 'x ClusterMetaClient" where
  "then_cache r f me =
     (case r of
        (Some e, s) \<Rightarrow> (Some e, s, me)
      | (None, s) \<Rightarrow> (case f (cm_cache me) of (e, c) \<Rightarrow> (map_option LocalErr e, s, me\<lparr>cm_cache := c\<rparr>)))"

definition then_cache_ret ::
  "(cli_error + 'r) \<times> 's \<Rightarrow> ('x Client \<Rightarrow> (go_error + 'a) \<times> 'x Client) \<Rightarrow> 'x ClusterMetaClient
    \<Rightarrow> (cli_error + 'a) \<times> 's \<times> 'x ClusterMetaClient" where
  "then_cache_ret r f me =
     (case r of
        (Inl e, s) \<Rightarrow> (Inl e, s, me)
      | (Inr _, s) \<Rightarrow>
          (case f (cm_cache me) of
             (Inl e, c) \<Rightarrow> (Inl (LocalErr e), s, me\<lparr>cm_cache := c\<rparr>)
           | (Inr a, c) \<Rightarrow> (Inr a, s, me\<lparr>cm_cache := c\<rparr>)))"

text \<open>Operations of the cluster client get the imported functions, the server and the server's state.\<close>

type_synonym ('s, 'x, 'a) cm_op = "'s \<Rightarrow> 'x ClusterMetaClient \<Rightarrow> 'a \<times> 's \<times> 'x ClusterMetaClient"

definition CM_Open :: "'x ClusterMetaClient \<Rightarrow> go_error option \<times> 'x ClusterMetaClient" where
  "CM_Open me = (case Client_Open (cm_cache me) of (e, c) \<Rightarrow> (e, me\<lparr>cm_cache := c\<rparr>))"

definition CM_MarshalBinary :: "'x codec \<Rightarrow> 'x ClusterMetaClient \<Rightarrow> go_error + byte list" where
  "CM_MarshalBinary C me = Client_MarshalBinary C (cm_cache me)"

definition CM_AcquireLease :: "'s post \<Rightarrow> string \<Rightarrow> 's \<Rightarrow> 'x ClusterMetaClient \<Rightarrow> (cli_error + retval option) \<times> 's" where
  "CM_AcquireLease post name s me = Impl_AcquireLease post (cm_NodeID me) name s"

definition CM_ClusterID :: "'x ClusterMetaClient \<Rightarrow> u64" where
  "CM_ClusterID me = Client_ClusterID (cm_cache me)"

text \<open>\<open>got\<close> is the answer of the service on \<^verbatim>\<open>/data\<close>, \<open>pinged\<close> the one on \<^verbatim>\<open>/ping\<close>.\<close>

definition syncData :: "'x codec \<Rightarrow> 'x \<Rightarrow> go_error + byte list resp \<Rightarrow> 'x ClusterMetaClient \<Rightarrow> cli_error option \<times> 'x ClusterMetaClient" where
  "syncData C rest got me =
     (case Impl_Data C rest got of
        Inl e \<Rightarrow> (Some e, me)
      | Inr data \<Rightarrow> (case Client_ReplaceData data (cm_cache me) of (e, c) \<Rightarrow> (map_option LocalErr e, me\<lparr>cm_cache := c\<rparr>)))"

definition sync_tick ::
  "'x codec \<Rightarrow> 'x \<Rightarrow> go_error + u64 resp \<Rightarrow> go_error + byte list resp \<Rightarrow> 'x ClusterMetaClient \<Rightarrow> 'x ClusterMetaClient" where
  "sync_tick C rest pinged got me =
     (case Impl_Ping pinged of
        Inl _ \<Rightarrow> me
      | Inr index \<Rightarrow> if index > Client_DataIndex (cm_cache me) then snd (syncData C rest got me) else me)"

definition CM_CreateDatabase :: "'x influx_lib \<Rightarrow> 'x meta_ops \<Rightarrow> 's post \<Rightarrow> string \<Rightarrow> ('s, 'x, cli_error + DatabaseInfo option) cm_op" where
  "CM_CreateDatabase L M post name s = then_cache_ret (Impl_CreateDatabase post name s) (Client_CreateDatabase L M name)"

definition CM_DeleteDataNode :: "'x influx_lib \<Rightarrow> 's post \<Rightarrow> gtime \<Rightarrow> u64 \<Rightarrow> ('s, 'x, cli_error option) cm_op" where
  "CM_DeleteDataNode L post now i s = then_cache (Impl_DeleteDataNode post i s) (Client_DeleteDataNode L now i)"

definition CM_IsDataNodeFreezed :: "u64 \<Rightarrow> 'x ClusterMetaClient \<Rightarrow> bool" where
  "CM_IsDataNodeFreezed i me = Client_IsDataNodeFreezed i (cm_cache me)"

definition CM_FreezeDataNode :: "'x influx_lib \<Rightarrow> 's post \<Rightarrow> u64 \<Rightarrow> ('s, 'x, cli_error option) cm_op" where
  "CM_FreezeDataNode L post i s = then_cache (Impl_FreezeDataNode post i s) (Client_FreezeDataNode L i)"

definition CM_UnfreezeDataNode :: "'x influx_lib \<Rightarrow> 's post \<Rightarrow> u64 \<Rightarrow> ('s, 'x, cli_error option) cm_op" where
  "CM_UnfreezeDataNode L post i s = then_cache (Impl_UnfreezeDataNode post i s) (Client_UnfreezeDataNode L i)"

definition CM_Database :: "string \<Rightarrow> 'x ClusterMetaClient \<Rightarrow> DatabaseInfo option" where
  "CM_Database name me = Client_Database name (cm_cache me)"

definition CM_AddShardOwner :: "'x influx_lib \<Rightarrow> 's post \<Rightarrow> u64 \<Rightarrow> u64 \<Rightarrow> ('s, 'x, cli_error option) cm_op" where
  "CM_AddShardOwner L post shardID nodeID s = then_cache (Impl_AddShardOwner post shardID nodeID s) (Client_AddShardOwner L shardID nodeID)"

definition CM_RemoveShardOwner :: "'x influx_lib \<Rightarrow> 's post \<Rightarrow> u64 \<Rightarrow> u64 \<Rightarrow> ('s, 'x, cli_error option) cm_op" where
  "CM_RemoveShardOwner L post shardID nodeID s = then_cache (Impl_RemoveShardOwner post shardID nodeID s) (Client_RemoveShardOwner L shardID nodeID)"

text \<open>The group that the service answers with is dropped.\<close>

definition CM_CreateShardGroup ::
  "'x influx_lib \<Rightarrow> 'x meta_ops \<Rightarrow> 's post \<Rightarrow> string \<Rightarrow> string \<Rightarrow> gtime \<Rightarrow> ('s, 'x, cli_error + ShardGroupInfo option) cm_op" where
  "CM_CreateShardGroup L M post database policy timestamp s me =
     (case Client_ShardGroupByTimestamp M database policy timestamp (cm_cache me) of
        Some sg \<Rightarrow> (Inr (Some sg), s, me)
      | None \<Rightarrow>
          then_cache_ret (Impl_CreateShardGroup post database policy timestamp s)
            (Client_CreateShardGroup L M database policy timestamp) me)"

definition CM_CreateDataNode :: "'x influx_lib \<Rightarrow> 's post \<Rightarrow> string \<Rightarrow> string \<Rightarrow> ('s, 'x, cli_error + NodeInfo) cm_op" where
  "CM_CreateDataNode L post httpAddr tcpAddr s =
     then_cache_ret (Impl_CreateDataNode post httpAddr tcpAddr s) (Client_CreateDataNode L httpAddr tcpAddr)"

definition CM_DataNode :: "u64 \<Rightarrow> 'x ClusterMetaClient \<Rightarrow> go_error + NodeInfo" where
  "CM_DataNode i me = Client_DataNode i (cm_cache me)"

definition CM_DataNodes :: "'x ClusterMetaClient \<Rightarrow> NodeInfo list" where
  "CM_DataNodes me = Client_DataNodes (cm_cache me)"

definition CM_ShardOwner :: "'x influx_lib \<Rightarrow> u64 \<Rightarrow> 'x ClusterMetaClient \<Rightarrow> string \<times> string \<times> ShardGroupInfo option" where
  "CM_ShardOwner L i me = Client_ShardOwner L i (cm_cache me)"

definition CM_CreateDatabaseWithRetentionPolicy ::
  "'x influx_lib \<Rightarrow> 'x meta_ops \<Rightarrow> 's post \<Rightarrow> string \<Rightarrow> RetentionPolicySpec \<Rightarrow> ('s, 'x, cli_error + DatabaseInfo option) cm_op" where
  "CM_CreateDatabaseWithRetentionPolicy L M post name spec s =
     then_cache_ret (Impl_CreateDatabaseWithRetentionPolicy post name spec s) (Client_CreateDatabaseWithRetentionPolicy L M name (Some spec))"

definition CM_CreateContinuousQuery ::
  "'x influx_lib \<Rightarrow> 'x meta_ops \<Rightarrow> 's post \<Rightarrow> string \<Rightarrow> string \<Rightarrow> string \<Rightarrow> ('s, 'x, cli_error option) cm_op" where
  "CM_CreateContinuousQuery L M post database name query s =
     then_cache (Impl_CreateContinuousQuery post database name query s) (Client_CreateContinuousQuery L M database name query)"

definition CM_CreateRetentionPolicy ::
  "'x influx_lib \<Rightarrow> 'x meta_ops \<Rightarrow> 's post \<Rightarrow> string \<Rightarrow> RetentionPolicySpec \<Rightarrow> bool \<Rightarrow> ('s, 'x, cli_error + RetentionPolicyInfo) cm_op" where
  "CM_CreateRetentionPolicy L M post database spec makeDefault s =
     then_cache_ret (Impl_CreateRetentionPolicy post database spec makeDefault s) (Client_CreateRetentionPolicy L M database spec makeDefault)"

definition CM_CreateSubscription ::
  "'x influx_lib \<Rightarrow> 'x meta_ops \<Rightarrow> 's post \<Rightarrow> string \<Rightarrow> string \<Rightarrow> string \<Rightarrow> string \<Rightarrow> string list \<Rightarrow> ('s, 'x, cli_error option) cm_op" where
  "CM_CreateSubscription L M post database rp name mode dests s =
     then_cache (Impl_CreateSubscription post database rp name mode dests s) (Client_CreateSubscription L M database rp name mode dests)"

definition CM_CreateUser :: "'s post \<Rightarrow> string \<Rightarrow> string \<Rightarrow> bool \<Rightarrow> ('s, 'x, cli_error + retval option) cm_op" where
  "CM_CreateUser post name password admin s me = (case Impl_CreateUser post name password admin s of (r, s) \<Rightarrow> (r, s, me))"

definition CM_Databases :: "'x ClusterMetaClient \<Rightarrow> DatabaseInfo list" where
  "CM_Databases me = Client_Databases (cm_cache me)"

definition CM_DropShard :: "'x influx_lib \<Rightarrow> 'x meta_ops \<Rightarrow> 's post \<Rightarrow> u64 \<Rightarrow> ('s, 'x, cli_error option) cm_op" where
  "CM_DropShard L M post i s = then_cache (Impl_DropShard post i s) (Client_DropShard L M i)"

definition CM_DropContinuousQuery :: "'x influx_lib \<Rightarrow> 'x meta_ops \<Rightarrow> 's post \<Rightarrow> string \<Rightarrow> string \<Rightarrow> ('s, 'x, cli_error option) cm_op" where
  "CM_DropContinuousQuery L M post database name s =
     then_cache (Impl_DropContinuousQuery post database name s) (Client_DropContinuousQuery L M database name)"

definition CM_DropDatabase :: "'x influx_lib \<Rightarrow> 'x meta_ops \<Rightarrow> 's post \<Rightarrow> string \<Rightarrow> ('s, 'x, cli_error option) cm_op" where
  "CM_DropDatabase L M post name s = then_cache (Impl_DropDatabase post name s) (Client_DropDatabase L M name)"

definition CM_DropRetentionPolicy :: "'x influx_lib \<Rightarrow> 'x meta_ops \<Rightarrow> 's post \<Rightarrow> string \<Rightarrow> string \<Rightarrow> ('s, 'x, cli_error option) cm_op" where
  "CM_DropRetentionPolicy L M post database name s =
     then_cache (Impl_DropRetentionPolicy post database name s) (Client_DropRetentionPolicy L M database name)"

definition CM_DropSubscription ::
  "'x influx_lib \<Rightarrow> 'x meta_ops \<Rightarrow> 's post \<Rightarrow> string \<Rightarrow> string \<Rightarrow> string \<Rightarrow> ('s, 'x, cli_error option) cm_op" where
  "CM_DropSubscription L M post database rp name s =
     then_cache (Impl_DropSubscription post database rp name s) (Client_DropSubscription L M database rp name)"

definition CM_DropUser :: "'x influx_lib \<Rightarrow> 'x meta_ops \<Rightarrow> 's post \<Rightarrow> string \<Rightarrow> ('s, 'x, cli_error option) cm_op" where
  "CM_DropUser L M post name s = then_cache (Impl_DropUser post name s) (Client_DropUser L M name)"

definition CM_RetentionPolicy :: "'x influx_lib \<Rightarrow> 'x meta_ops \<Rightarrow> string \<Rightarrow> string \<Rightarrow> 'x ClusterMetaClient \<Rightarrow> go_error + RetentionPolicyInfo option" where
  "CM_RetentionPolicy L M database name me = Client_RetentionPolicy L M database name (cm_cache me)"

definition CM_SetAdminPrivilege :: "'x influx_lib \<Rightarrow> 'x meta_ops \<Rightarrow> 's post \<Rightarrow> string \<Rightarrow> bool \<Rightarrow> ('s, 'x, cli_error option) cm_op" where
  "CM_SetAdminPrivilege L M post username admin s =
     then_cache (Impl_SetAdminPrivilege post username admin s) (Client_SetAdminPrivilege L M username admin)"

definition CM_SetPrivilege :: "'x influx_lib \<Rightarrow> 'x meta_ops \<Rightarrow> 's post \<Rightarrow> string \<Rightarrow> string \<Rightarrow> privilege \<Rightarrow> ('s, 'x, cli_error option) cm_op" where
  "CM_SetPrivilege L M post username database p s =
     then_cache (Impl_SetPrivilege post username database p s) (Client_SetPrivilege L M username database p)"

definition CM_ShardGroupsByTimeRange ::
  "'x influx_lib \<Rightarrow> 'x meta_ops \<Rightarrow> string \<Rightarrow> string \<Rightarrow> gtime \<Rightarrow> gtime \<Rightarrow> 'x ClusterMetaClient \<Rightarrow> go_error + ShardGroupInfo list" where
  "CM_ShardGroupsByTimeRange L M database policy tmin tmax me = Client_ShardGroupsByTimeRange L M database policy tmin tmax (cm_cache me)"

definition CM_TruncateShardGroups :: "'x influx_lib \<Rightarrow> 'x meta_ops \<Rightarrow> 's post \<Rightarrow> gtime \<Rightarrow> ('s, 'x, cli_error option) cm_op" where
  "CM_TruncateShardGroups L M post t s = then_cache (Impl_TruncateShardGroups post t s) (Client_TruncateShardGroups L M t)"

definition CM_DeleteShardGroup :: "'x influx_lib \<Rightarrow> 's post \<Rightarrow> gtime \<Rightarrow> string \<Rightarrow> string \<Rightarrow> u64 \<Rightarrow> ('s, 'x, cli_error option) cm_op" where
  "CM_DeleteShardGroup L post now database policy i s =
     then_cache (Impl_DeleteShardGroup post database policy i s) (Client_DeleteShardGroup L database policy i now)"

definition CM_PruneShardGroups :: "'s post \<Rightarrow> ('s, 'x, cli_error option) cm_op" where
  "CM_PruneShardGroups post s me = (case Impl_PruneShardGroups post s of (e, s) \<Rightarrow> (e, s, me))"

definition CM_PrecreateShardGroups :: "'x influx_lib \<Rightarrow> 'x meta_ops \<Rightarrow> 's post \<Rightarrow> gtime \<Rightarrow> gtime \<Rightarrow> ('s, 'x, cli_error option) cm_op" where
  "CM_PrecreateShardGroups L M post from to s =
     then_cache (Impl_PrecreateShardGroups post from to s) (Client_PrecreateShardGroups L M from to)"

definition CM_UpdateRetentionPolicy ::
  "'x influx_lib \<Rightarrow> 'x meta_ops \<Rightarrow> 's post \<Rightarrow> string \<Rightarrow> string \<Rightarrow> RetentionPolicyUpdate \<Rightarrow> bool \<Rightarrow> ('s, 'x, cli_error option) cm_op" where
  "CM_UpdateRetentionPolicy L M post database name rpu makeDefault s =
     then_cache (Impl_UpdateRetentionPolicy post database name rpu makeDefault s) (Client_UpdateRetentionPolicy L M database name rpu makeDefault)"

definition CM_UpdateUser :: "'s post \<Rightarrow> string \<Rightarrow> string \<Rightarrow> ('s, 'x, cli_error option) cm_op" where
  "CM_UpdateUser post name password s me = (case Impl_UpdateUser post name password s of (e, s) \<Rightarrow> (e, s, me))"

definition CM_UserPrivilege :: "'x meta_ops \<Rightarrow> string \<Rightarrow> string \<Rightarrow> 'x ClusterMetaClient \<Rightarrow> go_error + privilege option" where
  "CM_UserPrivilege M username database me = Client_UserPrivilege M username database (cm_cache me)"

definition CM_UserPrivileges :: "'x meta_ops \<Rightarrow> string \<Rightarrow> 'x ClusterMetaClient \<Rightarrow> go_error + (string \<times> privilege) list" where
  "CM_UserPrivileges M username me = Client_UserPrivileges M username (cm_cache me)"

definition CM_AdminUserExists :: "'x meta_ops \<Rightarrow> 'x ClusterMetaClient \<Rightarrow> bool" where
  "CM_AdminUserExists M me = Client_AdminUserExists M (cm_cache me)"

definition CM_Authenticate :: "'x meta_ops \<Rightarrow> 's post \<Rightarrow> byte list \<Rightarrow> string \<Rightarrow> string \<Rightarrow> ('s, 'x, cli_error + UserInfo) cm_op" where
  "CM_Authenticate M post rnd username password s =
     then_cache_ret (Impl_Authenticate post username password s) (Client_Authenticate M rnd username password)"

definition CM_UserCount :: "'x ClusterMetaClient \<Rightarrow> nat" where
  "CM_UserCount me = Client_UserCount (cm_cache me)"

definition CM_ShardIDs :: "'x ClusterMetaClient \<Rightarrow> u64 list" where
  "CM_ShardIDs me = Client_ShardIDs (cm_cache me)"

definition CM_Users :: "'x ClusterMetaClient \<Rightarrow> UserInfo list" where
  "CM_Users me = Client_Users (cm_cache me)"

definition CM_User :: "'x meta_ops \<Rightarrow> string \<Rightarrow> 'x ClusterMetaClient \<Rightarrow> UserInfo option \<times> go_error option" where
  "CM_User M name me = Client_user M name (cm_cache me)"

definition CM_DataNodeByTCPHost :: "string \<Rightarrow> 'x ClusterMetaClient \<Rightarrow> go_error + NodeInfo" where
  "CM_DataNodeByTCPHost addr me = Client_DataNodeByTCPHost addr (cm_cache me)"

end
