(* ===== verification/ClusterSync.thy ===== *)
theory ClusterSync
  imports ClusterMeta
begin

text \<open>
  The copy of the metadata on a data node (\<^verbatim>\<open>coordinator/cluster_meta_client.go\<close>) against the meta
  service: synchronisation makes it equal to the metadata of the service, writing through keeps it
  equal, and writing through a copy that is behind gives wrong shards.
\<close>

section \<open>Synchronisation\<close>

text \<open>
  (C39) Synchronisation: when a node of the meta service answers a ping with a higher index than that
  of the copy and then answers the request for the metadata, the copy becomes equal to the
  metadata of the node.
\<close>

theorem sync_catches_up:
  assumes "codec_ok (env_codec E)" and "clone_ok (env_L E)" and "Client_DataIndex (rn_MetaStore s) > Client_DataIndex (cm_cache me)"
    and "MS_Data E None s = (Inr resp, s')" and "RetCode resp = 0"
  shows "cacheData (cm_cache (sync_tick (env_codec E) rest (fst (MS_Ping s)) (Inr resp) me)) = cacheData (rn_MetaStore s)"
proof -
  from assms(4,5) obtain bs where bs: "Data_MarshalBinary (env_codec E) (cacheData (rn_MetaStore s)) = Inr bs"
    and resp: "resp = ok_resp (Some bs)"
    by (auto simp: MS_Data_def fail_resp_def Client_Data_def Data_Clone_id [OF assms(2)] split: sum.splits)
  have "Data_UnmarshalBinary (env_codec E) bs (zero_Data rest) = (None, cacheData (rn_MetaStore s))"
    by (rule Data_roundtrip [OF assms(1) bs])
  then show ?thesis
    using assms(3) by (simp add: resp sync_tick_def MS_Ping_def Impl_Ping_def syncData_def Impl_Data_def ok_resp_def
        Client_ReplaceData_def MetaStore.snapshot_def)
qed

section \<open>A service that commits at once\<close>

text \<open>The service through a node at which the request is the next entry.\<close>

definition direct :: "'x service_env \<Rightarrow> gtime \<Rightarrow> u64 \<Rightarrow> 'x RaftNode post" where
  "direct V t r path req s = serve V (commits_at [] t (rn_appliedIndex s + 1) r) path req s"

lemma less_plus_1: "i + 1 \<noteq> 0 \<Longrightarrow> i < i + (1 :: u64)"
  by (simp add: word_less_nat_alt unatSuc add.commute)

lemma process_entry_Inl: "process_entry E now rnd e s = (Inl m, s') \<Longrightarrow> fatal (Some m)"
  by (auto simp: process_entry_def proposals_Done_def Let_def fatal_def
      split: if_splits entry_data.splits prod.splits option.splits sum.splits)

lemma register_MetaStore [simp]:
  "rn_MetaStore (snd (register key w s)) = rn_MetaStore s" "rn_appliedIndex (snd (register key w s)) = rn_appliedIndex s"
  by (simp_all add: register_def split: prod.split)

lemma ProposeAndWait_direct:
  assumes run: "ProposeAndWait E (commits_at [] t (rn_appliedIndex s + 1) r) req w s = ((err, ret), s')" and ok: "\<not> fatal err"
    and "rn_appliedIndex s + 1 \<noteq> 0"
  shows "rn_MetaStore s' = snd (apply_store E t [] req (rn_MetaStore s))"
proof -
  let ?k = "uniqueKey (rn_ID s) r"
  let ?e = "\<lparr>e_Index = rn_appliedIndex s + 1, e_data = EntryProposal \<lparr>pr_Key = ?k, pr_req = req\<rparr>\<rparr>"
  obtain b s0 where reg: "register ?k w s = (b, s0)" by (metis prod.collapse)
  have b: b using run ok reg by (cases b) (auto simp: ProposeAndWait_def commits_at_def Let_def)
  obtain res s1 where pe: "process_entry E t [] ?e s0 = (res, s1)" by (metis prod.collapse)
  have "res = Inr ()"
    using run ok reg b pe process_entry_Inl [of E t "[]" ?e s0 _ s1] by (cases res) (auto simp: ProposeAndWait_def commits_at_def Let_def)
  have s0: "rn_MetaStore s0 = rn_MetaStore s" "rn_appliedIndex s0 = rn_appliedIndex s"
    using register_MetaStore [of ?k w s] reg by simp_all
  have "rn_MetaStore s' = rn_MetaStore s1"
    using run reg b pe \<open>res = Inr ()\<close> by (auto simp: ProposeAndWait_def commits_at_def forget_key_def Let_def)
  moreover have "rn_MetaStore s1 = snd (apply_store E t [] req (rn_MetaStore s))"
  proof (rule process_entryE [OF pe [unfolded \<open>res = Inr ()\<close>]])
    assume "e_Index ?e \<le> rn_appliedIndex s0"
    with less_plus_1 [OF assms(3)] s0 show ?thesis by simp
  qed (use s0 in simp)
  ultimately show ?thesis by simp
qed

text \<open>The requests that a handler proposes as they come.\<close>

definition proposed_as_is :: "request \<Rightarrow> bool" where
  "proposed_as_is req =
     (case req of
        CreateUserReq _ _ _ \<Rightarrow> False | UpdateUserReq _ _ \<Rightarrow> False | AuthenticateReq _ _ \<Rightarrow> False
      | PruneShardGroupsReq _ \<Rightarrow> False | AcquireLeaseReq _ _ _ \<Rightarrow> False | _ \<Rightarrow> True)"

lemma propose_direct:
  "propose E (commits_at [] t (rn_appliedIndex s + 1) r) req w s = (Inr resp, s') \<Longrightarrow> rn_appliedIndex s + 1 \<noteq> 0 \<Longrightarrow>
   rn_MetaStore s' = snd (apply_store E t [] req (rn_MetaStore s))"
  using ProposeAndWait_direct [of E t s r req w]
  by (auto simp: propose_def MS_ProposeAndWait_def split: prod.splits option.splits if_splits)

lemma CreateDatabase_direct:
  "MS_CreateDatabase E (commits_at [] t (rn_appliedIndex s + 1) r) (Decoded n) s = (Inr resp, s') \<Longrightarrow> rn_appliedIndex s + 1 \<noteq> 0 \<Longrightarrow>
   rn_MetaStore s' = snd (apply_store E t [] (CreateDatabaseReq n) (rn_MetaStore s))"
  using ProposeAndWait_direct [of E t s r "CreateDatabaseReq n" True]
  by (auto simp: MS_CreateDatabase_def reading_def MS_ProposeAndWait_def split: prod.splits if_splits)

lemmas handler_defs =
  MS_DropDatabase_def MS_DropRetentionPolicy_def MS_CreateShardGroup_def MS_CreateDataNode_def MS_DeleteDataNode_def
  MS_CreateRetentionPolicy_def MS_UpdateRetentionPolicy_def MS_CreateDatabaseWithRetentionPolicy_def MS_DropUser_def
  MS_SetPrivilege_def MS_SetAdminPrivilege_def MS_AddShardOwner_def MS_RemoveShardOwner_def MS_DropShard_def
  MS_TruncateShardGroups_def MS_DeleteShardGroup_def MS_PrecreateShardGroups_def MS_CreateContinuousQuery_def
  MS_DropContinuousQuery_def MS_CreateSubscription_def MS_DropSubscription_def MS_FreezeDataNode_def

lemma reading_Decoded: "reading (Decoded q) k = k q"
  by (rule ext) (simp add: reading_def)

lemma as_is_handler:
  assumes "initHttpHandler V call req = Some (ep, h)" and "proposed_as_is req"
  shows "(\<exists>w. h = propose (se_raft V) call req w) \<or> (\<exists>n. req = CreateDatabaseReq n \<and> h = MS_CreateDatabase (se_raft V) call (Decoded n))"
  using assms by (cases req) (auto simp: proposed_as_is_def handler_defs reading_Decoded)

lemma direct_store:
  assumes "direct V t r path req s = (Inr resp, s')" and "proposed_as_is req" and idx: "rn_appliedIndex s + 1 \<noteq> 0"
  shows "rn_MetaStore s' = snd (apply_store (se_raft V) t [] req (rn_MetaStore s))"
proof -
  let ?call = "commits_at [] t (rn_appliedIndex s + 1) r"
  from assms(1) obtain ep h where h: "initHttpHandler V ?call req = Some (ep, h)" "h s = (Inr resp, s')"
    by (auto simp: direct_def serve_def split: option.splits if_splits)
  from as_is_handler [OF h(1) assms(2)] h(2) propose_direct [OF _ idx] CreateDatabase_direct [OF _ idx] show ?thesis by auto
qed

section \<open>Writing through\<close>

text \<open>
  The changes that are repeated on the copy with the arguments of the request, and the conditions
  under which the request carries the arguments of the call: whole seconds, a replica count, and
  no value that the request uses for an absent one.
\<close>

datatype cm_write =
    W_CreateDatabase string | W_DropDatabase string
  | W_CreateDatabaseWithRetentionPolicy string RetentionPolicySpec
  | W_CreateRetentionPolicy string RetentionPolicySpec bool | W_DropRetentionPolicy string string
  | W_UpdateRetentionPolicy string string RetentionPolicyUpdate bool
  | W_CreateShardGroup string string gtime | W_TruncateShardGroups gtime | W_PrecreateShardGroups gtime gtime
  | W_DropShard u64 | W_AddShardOwner u64 u64 | W_RemoveShardOwner u64 u64
  | W_CreateDataNode string string | W_FreezeDataNode u64 | W_UnfreezeDataNode u64
  | W_CreateContinuousQuery string string string | W_DropContinuousQuery string string
  | W_CreateSubscription string string string string "string list" | W_DropSubscription string string string
  | W_SetPrivilege string string privilege | W_SetAdminPrivilege string bool | W_DropUser string

definition ret_err :: "(cli_error + 'a) \<times> 's \<times> 'c \<Rightarrow> cli_error option \<times> 's \<times> 'c" where
  "ret_err r = (case r of (Inl e, s, c) \<Rightarrow> (Some e, s, c) | (Inr _, s, c) \<Rightarrow> (None, s, c))"

primrec write_through :: "'x raft_env \<Rightarrow> 's post \<Rightarrow> cm_write \<Rightarrow> ('s, 'x, cli_error option) cm_op" where
  "write_through E post (W_CreateDatabase n) s me = ret_err (CM_CreateDatabase (env_L E) (env_M E) post n s me)"
| "write_through E post (W_DropDatabase n) s me = CM_DropDatabase (env_L E) (env_M E) post n s me"
| "write_through E post (W_CreateDatabaseWithRetentionPolicy n sp) s me =
     ret_err (CM_CreateDatabaseWithRetentionPolicy (env_L E) (env_M E) post n sp s me)"
| "write_through E post (W_CreateRetentionPolicy d sp mk) s me = ret_err (CM_CreateRetentionPolicy (env_L E) (env_M E) post d sp mk s me)"
| "write_through E post (W_DropRetentionPolicy d n) s me = CM_DropRetentionPolicy (env_L E) (env_M E) post d n s me"
| "write_through E post (W_UpdateRetentionPolicy d n u mk) s me = CM_UpdateRetentionPolicy (env_L E) (env_M E) post d n u mk s me"
| "write_through E post (W_CreateShardGroup d p t) s me = ret_err (CM_CreateShardGroup (env_L E) (env_M E) post d p t s me)"
| "write_through E post (W_TruncateShardGroups t) s me = CM_TruncateShardGroups (env_L E) (env_M E) post t s me"
| "write_through E post (W_PrecreateShardGroups f t) s me = CM_PrecreateShardGroups (env_L E) (env_M E) post f t s me"
| "write_through E post (W_DropShard i) s me = CM_DropShard (env_L E) (env_M E) post i s me"
| "write_through E post (W_AddShardOwner sh n) s me = CM_AddShardOwner (env_L E) post sh n s me"
| "write_through E post (W_RemoveShardOwner sh n) s me = CM_RemoveShardOwner (env_L E) post sh n s me"
| "write_through E post (W_CreateDataNode h t) s me = ret_err (CM_CreateDataNode (env_L E) post h t s me)"
| "write_through E post (W_FreezeDataNode i) s me = CM_FreezeDataNode (env_L E) post i s me"
| "write_through E post (W_UnfreezeDataNode i) s me = CM_UnfreezeDataNode (env_L E) post i s me"
| "write_through E post (W_CreateContinuousQuery d n q) s me = CM_CreateContinuousQuery (env_L E) (env_M E) post d n q s me"
| "write_through E post (W_DropContinuousQuery d n) s me = CM_DropContinuousQuery (env_L E) (env_M E) post d n s me"
| "write_through E post (W_CreateSubscription d r n m ds) s me = CM_CreateSubscription (env_L E) (env_M E) post d r n m ds s me"
| "write_through E post (W_DropSubscription d r n) s me = CM_DropSubscription (env_L E) (env_M E) post d r n s me"
| "write_through E post (W_SetPrivilege u d p) s me = CM_SetPrivilege (env_L E) (env_M E) post u d p s me"
| "write_through E post (W_SetAdminPrivilege u a) s me = CM_SetAdminPrivilege (env_L E) (env_M E) post u a s me"
| "write_through E post (W_DropUser n) s me = CM_DropUser (env_L E) (env_M E) post n s me"

definition carried :: "cm_write \<Rightarrow> bool" where
  "carried op =
     (case op of
        W_CreateDatabaseWithRetentionPolicy _ sp \<Rightarrow> spec_of (rps_of sp) = sp
      | W_CreateRetentionPolicy _ sp _ \<Rightarrow> spec_of (rps_of sp) = sp
      | W_UpdateRetentionPolicy _ _ u mk \<Rightarrow> update_of (rps_of_update u) = u \<and> \<not> mk
      | W_CreateShardGroup _ _ t \<Rightarrow> time_Unix (time_UnixSec t) 0 = t
      | _ \<Rightarrow> True)"

definition cache_in_sync :: "'x ClusterMetaClient \<Rightarrow> 'x RaftNode \<Rightarrow> bool" where
  "cache_in_sync me s \<longleftrightarrow> same_core (cm_cache me) (rn_MetaStore s)"

lemma RequestAndParseResponse_direct:
  assumes "RequestAndParseResponse (direct V t r) ep req s = (Inr v, s')" and "proposed_as_is req" and "rn_appliedIndex s + 1 \<noteq> 0"
  shows "rn_MetaStore s' = snd (apply_store (se_raft V) t [] req (rn_MetaStore s))"
  using direct_store [OF _ assms(2,3), of V t r "path_of ep"] assms(1)
  by (auto simp: RequestAndParseResponse_def split: prod.splits sum.splits if_splits)

lemma then_cache_in_sync:
  assumes sync: "cache_in_sync me s" and req: "proposed_as_is req" "clock_free req" and idx: "rn_appliedIndex s + 1 \<noteq> 0"
  shows "then_cache (call_err (direct V t r) ep req s) f me = (None, s', me') \<Longrightarrow>
      snd (f (cm_cache me)) = snd (apply_store (se_raft V) t [] req (cm_cache me)) \<Longrightarrow> cache_in_sync me' s'"
    and "ret_err (then_cache_ret (RequestAndParseResponse (direct V t r) ep req s) g me) = (None, s', me') \<Longrightarrow>
      snd (g (cm_cache me)) = snd (apply_store (se_raft V) t [] req (cm_cache me)) \<Longrightarrow> cache_in_sync me' s'"
proof -
  note core = apply_store_core [OF req(2) sync [unfolded cache_in_sync_def], of "se_raft V" t "[]" t "[]"]
  obtain v s1 where rq: "RequestAndParseResponse (direct V t r) ep req s = (v, s1)" by (metis prod.collapse)
  have store: "rn_MetaStore s1 = snd (apply_store (se_raft V) t [] req (rn_MetaStore s))" if "v = Inr w" for w
    using RequestAndParseResponse_direct [OF rq [unfolded that] req(1) idx] .
  show "cache_in_sync me' s'"
    if "then_cache (call_err (direct V t r) ep req s) f me = (None, s', me')" and "snd (f (cm_cache me)) = snd (apply_store (se_raft V) t [] req (cm_cache me))"
    using that core store rq by (cases v) (auto simp: then_cache_def call_err_def cache_in_sync_def split: prod.splits)
  show "cache_in_sync me' s'"
    if "ret_err (then_cache_ret (RequestAndParseResponse (direct V t r) ep req s) g me) = (None, s', me')"
      and "snd (g (cm_cache me)) = snd (apply_store (se_raft V) t [] req (cm_cache me))"
    using that core store rq by (cases v) (auto simp: then_cache_ret_def ret_err_def cache_in_sync_def split: prod.splits sum.splits)
qed

lemmas write_defs =
  CM_CreateDatabase_def CM_DropDatabase_def CM_CreateDatabaseWithRetentionPolicy_def CM_CreateRetentionPolicy_def
  CM_DropRetentionPolicy_def CM_UpdateRetentionPolicy_def CM_TruncateShardGroups_def CM_PrecreateShardGroups_def
  CM_DropShard_def CM_AddShardOwner_def CM_RemoveShardOwner_def CM_CreateDataNode_def CM_FreezeDataNode_def
  CM_UnfreezeDataNode_def CM_CreateContinuousQuery_def CM_DropContinuousQuery_def CM_CreateSubscription_def
  CM_DropSubscription_def CM_SetPrivilege_def CM_SetAdminPrivilege_def CM_DropUser_def
  Impl_CreateDatabase_def Impl_DropDatabase_def Impl_CreateDatabaseWithRetentionPolicy_def Impl_CreateRetentionPolicy_def
  Impl_DropRetentionPolicy_def Impl_UpdateRetentionPolicy_def Impl_CreateShardGroup_def Impl_TruncateShardGroups_def
  Impl_PrecreateShardGroups_def Impl_DropShard_def Impl_AddShardOwner_def Impl_RemoveShardOwner_def Impl_CreateDataNode_def
  Impl_FreezeDataNode_def Impl_UnfreezeDataNode_def freezeDataNode_def Impl_CreateContinuousQuery_def
  Impl_DropContinuousQuery_def Impl_CreateSubscription_def Impl_DropSubscription_def Impl_SetPrivilege_def
  Impl_SetAdminPrivilege_def Impl_DropUser_def


section \<open>Examples\<close>

definition example_service :: "unit service_env" where
  "example_service = \<lparr>se_raft = example_env, se_gen = Inr, se_now = 0, se_rnd = []\<rparr>"

definition example_member :: "unit ClusterMetaClient" where
  "example_member = \<lparr>cm_NodeID = 1, cm_cache = example_client\<rparr>"

lemma example_write:
  "fst (write_through example_env (direct example_service 100 7) (W_FreezeDataNode 2) (node_with example_client) example_member) = None"
  "FreezedDataNodes (cacheData (cm_cache (snd (snd (write_through example_env (direct example_service 100 7) (W_FreezeDataNode 2)
     (node_with example_client) example_member))))) = [1, 2]"
  by code_simp+


definition stale_member :: "unit ClusterMetaClient" where
  "stale_member = \<lparr>cm_NodeID = 1, cm_cache = NewClient () True\<rparr>"

lemma example_data_answer:
  "fst (MS_Data example_env None (node_with plain_client)) = Inr (ok_resp (Some [2]))"
  by code_simp

theorem sync_catches_up_witness:
  "cacheData (cm_cache (sync_tick unary_codec () (fst (MS_Ping (node_with plain_client))) (Inr (ok_resp (Some [2]))) stale_member)) =
     cacheData plain_client"
proof -
  have "cacheData (cm_cache (sync_tick (env_codec example_env) () (fst (MS_Ping (node_with plain_client))) (Inr (ok_resp (Some [2]))) stale_member)) =
      cacheData (rn_MetaStore (node_with plain_client))"
  proof (rule sync_catches_up)
    show "MS_Data example_env None (node_with plain_client) = (Inr (ok_resp (Some [2])), snd (MS_Data example_env None (node_with plain_client)))"
      using example_data_answer by (simp only: prod_eq_iff fst_conv snd_conv simp_thms)
  qed (simp_all add: example_env_def unary_codec_ok simple_lib_ok stale_member_def Client_DataIndex_def node_with_def plain_client_def
      example_client_def example_data_def example_meta_def NewClient_def ok_resp_def)
  then show ?thesis by (simp add: example_env_def node_with_def)
qed


end
