(* ===== verification/LinearRead.thy ===== *)
theory LinearRead
  imports Prelude
begin

text \<open>
  \<^verbatim>\<open>raftmeta/linearizable_read.go\<close> and \<^verbatim>\<open>raftmeta/util.go\<close>: reads that wait until the node has applied
  everything that was committed when they started. Readers and the read loop run concurrently, so
  the model is a step relation: one function for each piece of code between two points at which
  another goroutine can run, and one step for each of them. Sequence numbers are assumed not to wrap
  around while an old read state is still on its way. Notifiers are numbered in the order of
  their creation. The fields \<open>lr_commit\<close>, \<open>rd_commit\<close> and \<open>lr_issued\<close> are histories that the code does not
  have: the highest committed index of the cluster now, when a read started and when the read
  index with a sequence number was requested.
\<close>

section \<open>The code\<close>

text \<open>Where the read loop is: waiting for readers, having taken a notifier, waiting for the read state, waiting for the applied index, returned.\<close>

datatype loop_phase =
    LoopIdle
  | LoopTaken nat "byte list"
  | LoopAsked nat "byte list"
  | LoopApply nat u64
  | LoopStopped

record reader =
  rd_notifier :: nat
  rd_commit :: u64

record Linearizabler =
  readNotifier :: nat
  readwaitc :: bool
  seq :: u64
  lr_phase :: loop_phase
  lr_done :: "nat \<Rightarrow> (go_error option) option"
  lr_applied :: u64
  lr_commit :: u64
  lr_issued :: "byte list \<Rightarrow> u64 option"
  lr_readers :: "reader list"

definition NewLinearizabler :: "u64 \<Rightarrow> u64 \<Rightarrow> Linearizabler" where
  "NewLinearizabler applied commit =
     \<lparr>readNotifier = 0, readwaitc = False, seq = 1, lr_phase = LoopIdle, lr_done = (\<lambda>_. None),
      lr_applied = applied, lr_commit = commit, lr_issued = (\<lambda>_. None), lr_readers = []\<rparr>"

definition notify :: "nat \<Rightarrow> go_error option \<Rightarrow> Linearizabler \<Rightarrow> Linearizabler" where
  "notify n err l = l\<lparr>lr_done := (lr_done l)(n \<mapsto> err)\<rparr>"

text \<open>The beginning of \<^verbatim>\<open>ReadNotify\<close>: the reader takes the current notifier and then wakes the loop; it ends when its notifier has been notified or its context is done.\<close>

definition ReadNotify_start :: "Linearizabler \<Rightarrow> Linearizabler" where
  "ReadNotify_start l =
     l\<lparr>lr_readers := \<lparr>rd_notifier = readNotifier l, rd_commit = lr_commit l\<rparr> # lr_readers l\<rparr>"

text \<open>The channel has room for one signal; a second one is dropped.\<close>

definition ReadNotify_signal :: "Linearizabler \<Rightarrow> Linearizabler" where
  "ReadNotify_signal l = l\<lparr>readwaitc := True\<rparr>"

definition ReadNotify_result :: "reader \<Rightarrow> Linearizabler \<Rightarrow> (go_error option) option" where
  "ReadNotify_result r l = lr_done l (rd_notifier r)"

definition ReadLoop_take :: "Linearizabler \<Rightarrow> Linearizabler" where
  "ReadLoop_take l =
     l\<lparr>readwaitc := False, readNotifier := readNotifier l + 1, seq := seq l + 1,
       lr_phase := LoopTaken (readNotifier l) (PutUint64 (seq l))\<rparr>"

text \<open>\<open>err\<close> is the error of \<^verbatim>\<open>ReadIndex\<close>.\<close>

definition ErrStopped :: go_error where
  "ErrStopped = LibErr ''raft: stopped''"

definition ReadLoop_ask :: "go_error option \<Rightarrow> nat \<Rightarrow> byte list \<Rightarrow> Linearizabler \<Rightarrow> Linearizabler" where
  "ReadLoop_ask err n rctx l =
     (case err of
        None \<Rightarrow> l\<lparr>lr_phase := LoopAsked n rctx, lr_issued := (lr_issued l)(rctx \<mapsto> lr_commit l)\<rparr>
      | Some e \<Rightarrow>
          if e = ErrStopped then l\<lparr>lr_phase := LoopStopped\<rparr>
          else (notify n (Some e) l)\<lparr>lr_phase := LoopIdle\<rparr>)"

text \<open>A read state with the context and the index of a request; those of other requests are ignored.\<close>

definition ReadLoop_state :: "byte list \<Rightarrow> u64 \<Rightarrow> nat \<Rightarrow> byte list \<Rightarrow> Linearizabler \<Rightarrow> Linearizabler" where
  "ReadLoop_state ctx idx n rctx l = (if ctx = rctx then l\<lparr>lr_phase := LoopApply n idx\<rparr> else l)"

text \<open>A change of the leader or the end of the timeout.\<close>

definition ReadLoop_giveup :: "string \<Rightarrow> nat \<Rightarrow> Linearizabler \<Rightarrow> Linearizabler" where
  "ReadLoop_giveup why n l = (notify n (Some (Errorf why)) l)\<lparr>lr_phase := LoopIdle\<rparr>"

definition ReadLoop_finish :: "nat \<Rightarrow> Linearizabler \<Rightarrow> Linearizabler" where
  "ReadLoop_finish n l = (notify n None l)\<lparr>lr_phase := LoopIdle\<rparr>"

definition ReadLoop_stop :: "Linearizabler \<Rightarrow> Linearizabler" where
  "ReadLoop_stop l = l\<lparr>lr_phase := LoopStopped\<rparr>"

section \<open>Runs\<close>

text \<open>
  The steps of readers, of the loop, of the raft library, which commits entries and answers a
  request for a read index with an index that is not below what was committed when it was asked,
  and of the node, which applies committed entries.
\<close>

inductive lin_step :: "Linearizabler \<Rightarrow> Linearizabler \<Rightarrow> bool" where
  read: "lin_step l (ReadNotify_start l)"
| signal: "lr_readers l \<noteq> [] \<Longrightarrow> lin_step l (ReadNotify_signal l)"
| take: "lr_phase l = LoopIdle \<Longrightarrow> readwaitc l \<Longrightarrow> lin_step l (ReadLoop_take l)"
| ask: "lr_phase l = LoopTaken n rctx \<Longrightarrow> lin_step l (ReadLoop_ask err n rctx l)"
| state: "lr_phase l = LoopAsked n rctx \<Longrightarrow> lr_issued l ctx = Some k \<Longrightarrow> k \<le> idx \<Longrightarrow> lin_step l (ReadLoop_state ctx idx n rctx l)"
| giveup: "lr_phase l = LoopAsked n rctx \<Longrightarrow> lin_step l (ReadLoop_giveup why n l)"
| finish: "lr_phase l = LoopApply n idx \<Longrightarrow> idx \<le> lr_applied l \<Longrightarrow> lin_step l (ReadLoop_finish n l)"
| stop: "(\<And>n rctx. lr_phase l \<noteq> LoopTaken n rctx) \<Longrightarrow> lin_step l (ReadLoop_stop l)"
| commit: "lr_commit l \<le> c \<Longrightarrow> lin_step l (l\<lparr>lr_commit := c\<rparr>)"
| apply_entry: "lr_applied l \<le> a \<Longrightarrow> a \<le> lr_commit l \<Longrightarrow> lin_step l (l\<lparr>lr_applied := a\<rparr>)"

inductive lin_reach :: "Linearizabler \<Rightarrow> Linearizabler \<Rightarrow> bool" for l0 where
  lin_start: "lin_reach l0 l0"
| lin_more: "lin_reach l0 l \<Longrightarrow> lin_step l l' \<Longrightarrow> lin_reach l0 l'"

text \<open>Readers of a notifier started when at most \<open>k\<close> was committed.\<close>

definition readers_below :: "nat \<Rightarrow> u64 \<Rightarrow> Linearizabler \<Rightarrow> bool" where
  "readers_below n k l \<longleftrightarrow> (\<forall>r\<in>set (lr_readers l). rd_notifier r = n \<longrightarrow> rd_commit r \<le> k)"

text \<open>
  The invariant: readers have old or the current notifier; a notifier that the loop has taken is
  not the current one; its readers started before the read index was requested; and the readers
  of a notifier that was notified without an error are covered by the applied index.
\<close>

fun phase_ok :: "loop_phase \<Rightarrow> Linearizabler \<Rightarrow> bool" where
  "phase_ok LoopIdle l = True"
| "phase_ok (LoopTaken n rctx) l = (n < readNotifier l \<and> lr_done l n = None)"
| "phase_ok (LoopAsked n rctx) l = (n < readNotifier l \<and> lr_done l n = None \<and> (\<exists>k. lr_issued l rctx = Some k \<and> readers_below n k l))"
| "phase_ok (LoopApply n idx) l = (n < readNotifier l \<and> lr_done l n = None \<and> readers_below n idx l)"
| "phase_ok LoopStopped l = True"

definition lin_inv :: "Linearizabler \<Rightarrow> bool" where
  "lin_inv l \<longleftrightarrow> (\<forall>r\<in>set (lr_readers l). rd_notifier r \<le> readNotifier l \<and> rd_commit r \<le> lr_commit l) \<and>
     phase_ok (lr_phase l) l \<and>
     (\<forall>n. readNotifier l \<le> n \<longrightarrow> lr_done l n = None) \<and>
     (\<forall>n. lr_done l n = Some None \<longrightarrow> readers_below n (lr_applied l) l)"

lemmas lin_defs =
  ReadNotify_start_def ReadNotify_signal_def ReadLoop_take_def ReadLoop_ask_def ReadLoop_state_def ReadLoop_giveup_def ReadLoop_finish_def
  ReadLoop_stop_def notify_def

lemma phase_ok_cong:
  "phase_ok p l \<Longrightarrow> readNotifier l \<le> readNotifier l' \<Longrightarrow> lr_done l' = lr_done l \<Longrightarrow> lr_issued l' = lr_issued l \<Longrightarrow>
   (\<And>n k. n < readNotifier l \<Longrightarrow> readers_below n k l \<Longrightarrow> readers_below n k l') \<Longrightarrow> phase_ok p l'"
  by (cases "(p, l)" rule: phase_ok.cases) auto

lemma lin_inv_init: "lin_inv (NewLinearizabler a c)"
  by (simp add: lin_inv_def NewLinearizabler_def)

lemma lin_inv_step:
  assumes "lin_step l l'" and inv: "lin_inv l"
  shows "lin_inv l'"
  using assms(1)
proof cases
  case read
  have "phase_ok (lr_phase l) (ReadNotify_start l)"
    by (rule phase_ok_cong [of _ l]) (use inv in \<open>auto simp: lin_inv_def lin_defs readers_below_def\<close>)
  moreover have "lr_done l n \<noteq> Some None" if "readNotifier l = n" for n using inv that by (auto simp: lin_inv_def)
  ultimately show ?thesis using inv by (auto simp: read lin_inv_def lin_defs readers_below_def)
next
  case signal
  have "phase_ok (lr_phase l) l'" by (rule phase_ok_cong [of _ l]) (use inv signal in \<open>auto simp: lin_inv_def lin_defs readers_below_def\<close>)
  then show ?thesis using inv signal by (auto simp: lin_inv_def lin_defs readers_below_def)
next
  case take
  then show ?thesis using inv by (fastforce simp: lin_inv_def lin_defs readers_below_def)
next
  case (ask n rctx err)
  then show ?thesis using inv by (auto simp: lin_inv_def lin_defs readers_below_def split: option.split)
next
  case (state n rctx ctx k idx)
  then show ?thesis using inv by (fastforce simp: lin_inv_def lin_defs readers_below_def)
next
  case (giveup n rctx why)
  then show ?thesis using inv by (auto simp: lin_inv_def lin_defs readers_below_def)
next
  case (finish n idx)
  then show ?thesis using inv by (fastforce simp: lin_inv_def lin_defs readers_below_def)
next
  case stop
  then show ?thesis using inv by (auto simp: lin_inv_def lin_defs readers_below_def)
next
  case (commit c)
  have "phase_ok (lr_phase l) l'" by (rule phase_ok_cong [of _ l]) (use inv commit in \<open>auto simp: lin_inv_def readers_below_def\<close>)
  then show ?thesis using inv commit by (fastforce simp: lin_inv_def readers_below_def)
next
  case (apply_entry a)
  have "phase_ok (lr_phase l) l'" by (rule phase_ok_cong [of _ l]) (use inv apply_entry in \<open>auto simp: lin_inv_def readers_below_def\<close>)
  then show ?thesis using inv apply_entry by (fastforce simp: lin_inv_def readers_below_def)
qed

lemma lin_inv_reach: "lin_reach (NewLinearizabler a c) l \<Longrightarrow> lin_inv l"
  by (induction rule: lin_reach.induct) (auto simp: lin_inv_init lin_inv_step)

text \<open>
  (C37) Linearizable reads: in every run of readers, the read loop, the raft library and the node, a
  read that returns without an error has waited until the node applied everything that was
  committed in the cluster when the read started.
\<close>

theorem linearizable_read:
  assumes "lin_reach (NewLinearizabler a c) l" and "r \<in> set (lr_readers l)" and "ReadNotify_result r l = Some None"
  shows "rd_commit r \<le> lr_applied l"
  using lin_inv_reach [OF assms(1)] assms(2,3) by (auto simp: lin_inv_def readers_below_def ReadNotify_result_def)

text \<open>A read that starts at commit index 7 while the node has applied 5.\<close>

definition example_read :: Linearizabler where
  "example_read = ReadLoop_finish 0 ((ReadLoop_state (PutUint64 1) 7 0 (PutUint64 1) (ReadLoop_ask None 0 (PutUint64 1)
     (ReadLoop_take (ReadNotify_signal (ReadNotify_start (NewLinearizabler 5 7))))))\<lparr>lr_applied := 7\<rparr>)"

lemma example_read_reach: "lin_reach (NewLinearizabler 5 7) example_read"
proof -
  let ?l0 = "NewLinearizabler 5 7"
  let ?l1 = "ReadNotify_start ?l0"
  let ?m1 = "ReadNotify_signal ?l1"
  let ?l2 = "ReadLoop_take ?m1"
  let ?l3 = "ReadLoop_ask None 0 (PutUint64 1) ?l2"
  let ?l4 = "ReadLoop_state (PutUint64 1) 7 0 (PutUint64 1) ?l3"
  have 1: "lin_reach ?l0 ?l1" by (rule lin_more [OF lin_start lin_step.read])
  have s1: "lin_reach ?l0 ?m1" by (rule lin_more [OF 1 lin_step.signal]) (simp add: lin_defs)
  have 2: "lin_reach ?l0 ?l2" by (rule lin_more [OF s1 lin_step.take]) (simp_all add: lin_defs NewLinearizabler_def)
  have 3: "lin_reach ?l0 ?l3" by (rule lin_more [OF 2 lin_step.ask]) (simp add: lin_defs NewLinearizabler_def)
  have 4: "lin_reach ?l0 ?l4" by (rule lin_more [OF 3 lin_step.state [where k = 7]]) (simp_all add: lin_defs NewLinearizabler_def)
  have 5: "lin_reach ?l0 (?l4\<lparr>lr_applied := 7\<rparr>)"
    by (rule lin_more [OF 4 lin_step.apply_entry]) (simp_all add: lin_defs NewLinearizabler_def)
  show ?thesis unfolding example_read_def
    by (rule lin_more [OF 5 lin_step.finish [where idx = 7]]) (simp_all add: lin_defs NewLinearizabler_def)
qed

theorem linearizable_read_witness:
  "\<lparr>rd_notifier = 0, rd_commit = 7\<rparr> \<in> set (lr_readers example_read) \<and>
   ReadNotify_result \<lparr>rd_notifier = 0, rd_commit = 7\<rparr> example_read = Some None \<and> 7 \<le> lr_applied example_read"
proof -
  let ?r = "\<lparr>rd_notifier = 0, rd_commit = 7\<rparr> :: reader"
  have r: "?r \<in> set (lr_readers example_read)" "ReadNotify_result ?r example_read = Some None"
    by (simp_all add: example_read_def lin_defs NewLinearizabler_def ReadNotify_result_def)
  from linearizable_read [OF example_read_reach r] r show ?thesis by simp
qed

end
