(* ===== verification/PointsWriter.thy ===== *)
theory PointsWriter
  imports Influx
begin

text \<open>
  \<^verbatim>\<open>coordinator/points_writer.go\<close>: mapping points to shards and writing them to the owners of the
  shards. The interfaces of the \<^verbatim>\<open>PointsWriter\<close> (the meta client, the local store, the remote writer
  and the hinted handoff) are functions on a state \<open>'w\<close> of the world. Goroutines that send to a
  channel run in the order in which their results arrive, which is an argument; so is what ends a
  wait early.
\<close>

section \<open>Searching\<close>

text \<open>\<^verbatim>\<open>sort.Search\<close>: the smallest index in \<open>[i, j)\<close> at which \<open>f\<close> holds, by bisection, or \<open>j\<close>.\<close>

function search_between :: "(nat \<Rightarrow> bool) \<Rightarrow> nat \<Rightarrow> nat \<Rightarrow> nat" where
  "search_between f i j =
     (if i < j then let h = (i + j) div 2 in if \<not> f h then search_between f (h + 1) j else search_between f i h else i)"
  by pat_completeness auto
termination by (relation "measure (\<lambda>(f, i, j). j - i)") auto

declare search_between.simps [simp del]

definition sort_Search :: "nat \<Rightarrow> (nat \<Rightarrow> bool) \<Rightarrow> nat" where
  "sort_Search n f = search_between f 0 n"

section \<open>Types\<close>

text \<open>
  What is imported: the time and the hash of a point, the shard of a group for a hash, the order
  of \<^verbatim>\<open>meta.ShardGroupInfos\<close> and the lowest time of a point.
\<close>

record 'p points_lib =
  pt_Time :: "'p \<Rightarrow> gtime"
  pt_HashID :: "'p \<Rightarrow> u64"
  sg_ShardFor :: "ShardGroupInfo \<Rightarrow> u64 \<Rightarrow> ShardInfo"
  sgi_Less :: "ShardGroupInfo \<Rightarrow> ShardGroupInfo \<Rightarrow> bool"
  MinNanoTime :: int

record ('w, 'p) pw_env =
  pw_lib :: "'p points_lib"
  pw_NodeID :: u64
  pw_Database :: "string \<Rightarrow> 'w \<Rightarrow> DatabaseInfo option"
  pw_RetentionPolicy :: "string \<Rightarrow> string \<Rightarrow> 'w \<Rightarrow> go_error + RetentionPolicyInfo option"
  pw_CreateShardGroup :: "string \<Rightarrow> string \<Rightarrow> gtime \<Rightarrow> 'w \<Rightarrow> (go_error + ShardGroupInfo option) \<times> 'w"
  pw_CreateShard :: "string \<Rightarrow> string \<Rightarrow> u64 \<Rightarrow> bool \<Rightarrow> 'w \<Rightarrow> go_error option \<times> 'w"
  pw_WriteToShard :: "u64 \<Rightarrow> 'p list \<Rightarrow> 'w \<Rightarrow> go_error option \<times> 'w"
  pw_WriteShard :: "u64 \<Rightarrow> u64 \<Rightarrow> 'p list \<Rightarrow> 'w \<Rightarrow> go_error option \<times> 'w"
  pw_HintedHandoff :: "u64 \<Rightarrow> u64 \<Rightarrow> 'p list \<Rightarrow> 'w \<Rightarrow> go_error option \<times> 'w"
  pw_Error :: "go_error \<Rightarrow> string"

record WriteStatistics =
  st_WriteReq :: int
  st_PointWriteReq :: int
  st_PointWriteReqLocal :: int
  st_PointWriteReqRemote :: int
  st_WriteOK :: int
  st_WriteDropped :: int
  st_WriteTimeout :: int
  st_WritePartial :: int
  st_WritePointReqHH :: int
  st_WriteErr :: int
  st_SubWriteOK :: int
  st_SubWriteDrop :: int

text \<open>A subscriber is its channel: the requests in it and its capacity.\<close>

record 'p WritePointsRequest =
  wr_Database :: string
  wr_RetentionPolicy :: string
  wr_Points :: "'p list"

record 'p subscriber =
  sub_queue :: "'p WritePointsRequest list"
  sub_cap :: nat

record ('w, 'p) PointsWriter =
  pw_world :: 'w
  pw_closing :: bool
  pw_subPoints :: "'p subscriber list"
  pw_stats :: WriteStatistics

definition NewPointsWriter :: "'w \<Rightarrow> ('w, 'p) PointsWriter" where
  "NewPointsWriter w =
     \<lparr>pw_world = w, pw_closing = False, pw_subPoints = [],
      pw_stats = \<lparr>st_WriteReq = 0, st_PointWriteReq = 0, st_PointWriteReqLocal = 0, st_PointWriteReqRemote = 0, st_WriteOK = 0,
        st_WriteDropped = 0, st_WriteTimeout = 0, st_WritePartial = 0, st_WritePointReqHH = 0, st_WriteErr = 0,
        st_SubWriteOK = 0, st_SubWriteDrop = 0\<rparr>\<rparr>"

definition PointsWriter_Open :: "('w, 'p) PointsWriter \<Rightarrow> go_error option \<times> ('w, 'p) PointsWriter" where
  "PointsWriter_Open p = (None, p\<lparr>pw_closing := False\<rparr>)"

text \<open>Closing a channel twice is a panic.\<close>

definition PointsWriter_Close :: "('w, 'p) PointsWriter \<Rightarrow> go_error option \<times> ('w, 'p) PointsWriter" where
  "PointsWriter_Close p =
     (if pw_closing p then (Some (Panic ''close of closed channel''), p)
      else (None, p\<lparr>pw_closing := True, pw_subPoints := []\<rparr>))"

definition AddWriteSubscriber :: "'p subscriber \<Rightarrow> ('w, 'p) PointsWriter \<Rightarrow> ('w, 'p) PointsWriter" where
  "AddWriteSubscriber c p = p\<lparr>pw_subPoints := pw_subPoints p @ [c]\<rparr>"

definition PointsWriter_Statistics :: "('w, 'p) PointsWriter \<Rightarrow> (string \<times> int) list" where
  "PointsWriter_Statistics p =
     (let s = pw_stats p
      in [(''req'', st_WriteReq s), (''pointReq'', st_PointWriteReq s), (''pointReqLocal'', st_PointWriteReqLocal s),
          (''pointReqRemote'', st_PointWriteReqRemote s), (''writeOk'', st_WriteOK s), (''writeDrop'', st_WriteDropped s),
          (''writeTimeout'', st_WriteTimeout s), (''writePartial'', st_WritePartial s), (''pointReqHH'', st_WritePointReqHH s),
          (''writeError'', st_WriteErr s), (''subWriteOk'', st_SubWriteOK s), (''subWriteDrop'', st_SubWriteDrop s)])"

section \<open>Shard groups\<close>

type_synonym sgList = "ShardGroupInfo list"

definition ShardGroupAt :: "gtime \<Rightarrow> sgList \<Rightarrow> ShardGroupInfo option" where
  "ShardGroupAt t l =
     (let idx = sort_Search (length l) (\<lambda>i. sg_EndTime (l ! i) > t)
      in if idx = length l \<or> t < sg_StartTime (l ! idx) then None else Some (l ! idx))"

definition Covers :: "gtime \<Rightarrow> sgList \<Rightarrow> bool" where
  "Covers t l = (if l = [] then False else ShardGroupAt t l \<noteq> None)"

definition sgList_Append :: "'p points_lib \<Rightarrow> ShardGroupInfo \<Rightarrow> sgList \<Rightarrow> sgList" where
  "sgList_Append P sgi l = go_sort (sgi_Less P) (l @ [sgi])"

section \<open>Mapping points\<close>

text \<open>The maps of a mapping are keyed by the ID of the shard.\<close>

record 'p ShardMapping =
  sm_Points :: "u64 \<Rightarrow> 'p list option"
  sm_Shards :: "u64 \<Rightarrow> ShardInfo option"
  sm_IDs :: "u64 list"
  sm_Dropped :: "'p list"

text \<open>\<open>sm_IDs\<close> are the keys of the map in the order of their first insertion.\<close>

definition NewShardMapping :: "'p ShardMapping" where
  "NewShardMapping = \<lparr>sm_Points = (\<lambda>_. None), sm_Shards = (\<lambda>_. None), sm_IDs = [], sm_Dropped = []\<rparr>"

definition MapPoint :: "ShardInfo \<Rightarrow> 'p \<Rightarrow> 'p ShardMapping \<Rightarrow> 'p ShardMapping" where
  "MapPoint sh p m =
     m\<lparr>sm_Points := (sm_Points m)(si_ID sh \<mapsto> (case sm_Points m (si_ID sh) of Some ps \<Rightarrow> ps @ [p] | None \<Rightarrow> [p])),
       sm_Shards := (sm_Shards m)(si_ID sh \<mapsto> sh),
       sm_IDs := (if sm_Points m (si_ID sh) = None then sm_IDs m @ [si_ID sh] else sm_IDs m)\<rparr>"

fun groups_for ::
  "('w, 'p) pw_env \<Rightarrow> string \<Rightarrow> string \<Rightarrow> gtime \<Rightarrow> 'p list \<Rightarrow> sgList \<Rightarrow> 'w \<Rightarrow> (go_error + sgList) \<times> 'w" where
  "groups_for E db rp tmin [] l w = (Inr l, w)"
| "groups_for E db rp tmin (p # ps) l w =
     (let t = pt_Time (pw_lib E) p
      in if t < tmin \<or> Covers t l then groups_for E db rp tmin ps l w
         else
           case pw_CreateShardGroup E db rp t w of
             (Inl e, w) \<Rightarrow> (Inl e, w)
           | (Inr None, w) \<Rightarrow> (Inl (Errorf ''nil shard group''), w)
           | (Inr (Some sg), w) \<Rightarrow> groups_for E db rp tmin ps (sgList_Append (pw_lib E) sg l) w)"

definition map_one :: "'p points_lib \<Rightarrow> sgList \<Rightarrow> 'p \<Rightarrow> 'p ShardMapping \<Rightarrow> 'p ShardMapping" where
  "map_one P l p m =
     (case ShardGroupAt (pt_Time P p) l of
        None \<Rightarrow> m\<lparr>sm_Dropped := sm_Dropped m @ [p]\<rparr>
      | Some sg \<Rightarrow> MapPoint (sg_ShardFor P sg (pt_HashID P p)) p m)"

definition MapShards ::
  "('w, 'p) pw_env \<Rightarrow> gtime \<Rightarrow> 'p WritePointsRequest \<Rightarrow> ('w, 'p) PointsWriter \<Rightarrow> (go_error + 'p ShardMapping) \<times> ('w, 'p) PointsWriter" where
  "MapShards E now wp pw =
     (case pw_RetentionPolicy E (wr_Database wp) (wr_RetentionPolicy wp) (pw_world pw) of
        Inl e \<Rightarrow> (Inl e, pw)
      | Inr None \<Rightarrow> (Inl (LibErr ''retention policy not found''), pw)
      | Inr (Some rp) \<Rightarrow>
          let tmin = (if rp_Duration rp > 0 then now - rp_Duration rp else time_Unix 0 (MinNanoTime (pw_lib E)))
          in case groups_for E (wr_Database wp) (wr_RetentionPolicy wp) tmin (wr_Points wp) [] (pw_world pw) of
               (Inl e, w) \<Rightarrow> (Inl e, pw\<lparr>pw_world := w\<rparr>)
             | (Inr l, w) \<Rightarrow>
                 let m = fold (map_one (pw_lib E) l) (wr_Points wp) NewShardMapping;
                     s = pw_stats pw
                 in (Inr m, pw\<lparr>pw_world := w, pw_stats := s\<lparr>st_WriteDropped := st_WriteDropped s + int (length (sm_Dropped m))\<rparr>\<rparr>))"

section \<open>Writing\<close>

datatype ConsistencyLevel = ConsistencyLevelAny | ConsistencyLevelOne | ConsistencyLevelQuorum | ConsistencyLevelAll

definition required_writes :: "ConsistencyLevel \<Rightarrow> nat \<Rightarrow> nat" where
  "required_writes level owners =
     (case level of
        ConsistencyLevelAny \<Rightarrow> 1
      | ConsistencyLevelOne \<Rightarrow> 1
      | ConsistencyLevelQuorum \<Rightarrow> owners div 2 + 1
      | ConsistencyLevelAll \<Rightarrow> owners)"

text \<open>\<^verbatim>\<open>strings.Contains\<close>.\<close>

fun is_prefix :: "string \<Rightarrow> string \<Rightarrow> bool" where
  "is_prefix [] ys = True"
| "is_prefix (x # xs) [] = False"
| "is_prefix (x # xs) (y # ys) = (x = y \<and> is_prefix xs ys)"

fun strings_Contains :: "string \<Rightarrow> string \<Rightarrow> bool" where
  "strings_Contains [] sub = (sub = [])"
| "strings_Contains (c # s) sub = (is_prefix sub (c # s) \<or> strings_Contains s sub)"

definition canRetry :: "(go_error \<Rightarrow> string) \<Rightarrow> go_error option \<Rightarrow> bool" where
  "canRetry text err =
     (case err of
        None \<Rightarrow> True
      | Some e \<Rightarrow> if strings_Contains (text e) ''field type conflict'' then False else True)"

definition ErrShardNotFound :: go_error where
  "ErrShardNotFound = LibErr ''shard not found''"

definition ErrShardDeletion :: go_error where
  "ErrShardDeletion = LibErr ''shard is being deleted''"

definition upd_stats :: "(WriteStatistics \<Rightarrow> WriteStatistics) \<Rightarrow> ('w, 'p) PointsWriter \<Rightarrow> ('w, 'p) PointsWriter" where
  "upd_stats f pw = pw\<lparr>pw_stats := f (pw_stats pw)\<rparr>"

definition on_world :: "('w \<Rightarrow> go_error option \<times> 'w) \<Rightarrow> ('w, 'p) PointsWriter \<Rightarrow> go_error option \<times> ('w, 'p) PointsWriter" where
  "on_world f pw = (case f (pw_world pw) of (e, w) \<Rightarrow> (e, pw\<lparr>pw_world := w\<rparr>))"

text \<open>The write to the store of the node itself; a shard that the store does not have yet is created.\<close>

definition local_write ::
  "('w, 'p) pw_env \<Rightarrow> string \<Rightarrow> string \<Rightarrow> u64 \<Rightarrow> 'p list \<Rightarrow> ('w, 'p) PointsWriter \<Rightarrow> go_error option \<times> ('w, 'p) PointsWriter" where
  "local_write E db rp shardID points pw =
     (let pw = upd_stats (\<lambda>s. s\<lparr>st_PointWriteReqLocal := st_PointWriteReqLocal s + int (length points)\<rparr>) pw
      in case on_world (pw_WriteToShard E shardID points) pw of
           (err, pw) \<Rightarrow>
             if err \<noteq> Some ErrShardNotFound then (err, pw)
             else
               case on_world (pw_CreateShard E db rp shardID True) pw of
                 (Some e, pw) \<Rightarrow> (Some e, pw)
               | (None, pw) \<Rightarrow> on_world (pw_WriteToShard E shardID points) pw)"

text \<open>The write to another node, which is queued as a hint when it fails and can be retried.\<close>

definition remote_write ::
  "('w, 'p) pw_env \<Rightarrow> ConsistencyLevel \<Rightarrow> u64 \<Rightarrow> u64 \<Rightarrow> 'p list \<Rightarrow> ('w, 'p) PointsWriter \<Rightarrow> go_error option \<times> ('w, 'p) PointsWriter" where
  "remote_write E level shardID nodeID points pw =
     (let pw = upd_stats (\<lambda>s. s\<lparr>st_PointWriteReqRemote := st_PointWriteReqRemote s + int (length points)\<rparr>) pw
      in case on_world (pw_WriteShard E shardID nodeID points) pw of
           (err, pw) \<Rightarrow>
             if err \<noteq> None \<and> canRetry (pw_Error E) err
             then
               let pw = upd_stats (\<lambda>s. s\<lparr>st_WritePointReqHH := st_WritePointReqHH s + int (length points)\<rparr>) pw
               in case on_world (pw_HintedHandoff E shardID nodeID points) pw of
                    (Some hherr, pw) \<Rightarrow> (Some hherr, pw)
                  | (None, pw) \<Rightarrow> if level = ConsistencyLevelAny then (None, pw) else (err, pw)
             else (err, pw))"

definition write_owner ::
  "('w, 'p) pw_env \<Rightarrow> string \<Rightarrow> string \<Rightarrow> ConsistencyLevel \<Rightarrow> u64 \<Rightarrow> 'p list \<Rightarrow> ShardOwner \<Rightarrow> ('w, 'p) PointsWriter
    \<Rightarrow> go_error option \<times> ('w, 'p) PointsWriter" where
  "write_owner E db rp level shardID points owner pw =
     (if pw_NodeID E = so_NodeID owner then local_write E db rp shardID points pw
      else remote_write E level shardID (so_NodeID owner) points pw)"

fun write_owners ::
  "('w, 'p) pw_env \<Rightarrow> string \<Rightarrow> string \<Rightarrow> ConsistencyLevel \<Rightarrow> u64 \<Rightarrow> 'p list \<Rightarrow> ShardOwner list \<Rightarrow> ('w, 'p) PointsWriter
    \<Rightarrow> (go_error option) list \<times> ('w, 'p) PointsWriter" where
  "write_owners E db rp level shardID points [] pw = ([], pw)"
| "write_owners E db rp level shardID points (ow # ows) pw =
     (let (e, pw) = write_owner E db rp level shardID points ow pw;
          (es, pw) = write_owners E db rp level shardID points ows pw
      in (e # es, pw))"

text \<open>
  Waiting for results: each event is a result or the end of the wait. \<open>early\<close> says after how many
  results the writer is closed or the timeout ends. What was still running then has run to its end
  in the state returned.
\<close>

datatype wait_end = WaitClosing | WaitTimeout

definition wait_events :: "(nat \<times> wait_end) option \<Rightarrow> 'a list \<Rightarrow> ('a + wait_end) list" where
  "wait_events early rs =
     (case early of
        Some (k, e) \<Rightarrow> if k < length rs then map Inl (take k rs) @ [Inr e] else map Inl rs
      | None \<Rightarrow> map Inl rs)"

fun await_owners ::
  "(go_error \<Rightarrow> string) \<Rightarrow> nat \<Rightarrow> (go_error option + wait_end) list \<Rightarrow> nat \<Rightarrow> go_error option \<Rightarrow> WriteStatistics \<Rightarrow> go_error option \<times> WriteStatistics" where
  "await_owners txt req [] wrote werr s =
     (if wrote > 0 then (Some ErrPartialWrite, s\<lparr>st_WritePartial := st_WritePartial s + 1\<rparr>)
      else
        case werr of
          Some e \<Rightarrow> (Some (Errorf (''write failed: '' @ txt e)), s)
        | None \<Rightarrow> (Some ErrWriteFailed, s))"
| "await_owners txt req (Inr WaitClosing # evs) wrote werr s = (Some ErrWriteFailed, s)"
| "await_owners txt req (Inr WaitTimeout # evs) wrote werr s = (Some ErrTimeout, s\<lparr>st_WriteTimeout := st_WriteTimeout s + 1\<rparr>)"
| "await_owners txt req (Inl (Some e) # evs) wrote werr s =
     await_owners txt req evs wrote (if werr = None then Some e else werr) (s\<lparr>st_WriteErr := st_WriteErr s + 1\<rparr>)"
| "await_owners txt req (Inl None # evs) wrote werr s =
     (if wrote + 1 \<ge> req then (None, s\<lparr>st_WriteOK := st_WriteOK s + 1\<rparr>)
      else await_owners txt req evs (wrote + 1) werr s)"

definition writeToShard ::
  "('w, 'p) pw_env \<Rightarrow> ShardOwner list \<Rightarrow> (nat \<times> wait_end) option \<Rightarrow> ShardInfo \<Rightarrow> string \<Rightarrow> string \<Rightarrow> ConsistencyLevel \<Rightarrow> 'p list
    \<Rightarrow> ('w, 'p) PointsWriter \<Rightarrow> go_error option \<times> ('w, 'p) PointsWriter" where
  "writeToShard E order early shard db rp level points pw =
     (let (rs, pw) = write_owners E db rp level (si_ID shard) points order pw;
          (err, s) = await_owners (pw_Error E) (required_writes level (length (si_Owners shard))) (wait_events early rs) 0 None (pw_stats pw)
      in (err, pw\<lparr>pw_stats := s\<rparr>))"

text \<open>
  The order of everything that runs concurrently in one write: the shards in the order of their
  results, the owners of a shard in the order of theirs, and what ends each wait early.
\<close>

record schedule =
  sc_shards :: "u64 list"
  sc_owners :: "u64 \<Rightarrow> ShardOwner list"
  sc_early :: "u64 \<Rightarrow> (nat \<times> wait_end) option"
  sc_wait :: "(nat \<times> wait_end) option"

definition write_shard ::
  "('w, 'p) pw_env \<Rightarrow> schedule \<Rightarrow> string \<Rightarrow> string \<Rightarrow> ConsistencyLevel \<Rightarrow> 'p ShardMapping \<Rightarrow> u64 \<Rightarrow> ('w, 'p) PointsWriter
    \<Rightarrow> go_error option \<times> ('w, 'p) PointsWriter" where
  "write_shard E sc db rp level m i pw =
     (case (sm_Shards m i, sm_Points m i) of
        (Some sh, Some ps) \<Rightarrow>
          (case writeToShard E (sc_owners sc i) (sc_early sc i) sh db rp level ps pw of
             (err, pw) \<Rightarrow> (if err = Some ErrShardDeletion then Some (LibErr ''partial write: shard is pending deletion'') else err, pw))
      | _ \<Rightarrow> (None, pw))"

fun write_shards ::
  "('w, 'p) pw_env \<Rightarrow> schedule \<Rightarrow> string \<Rightarrow> string \<Rightarrow> ConsistencyLevel \<Rightarrow> 'p ShardMapping \<Rightarrow> u64 list \<Rightarrow> ('w, 'p) PointsWriter
    \<Rightarrow> (go_error option) list \<times> ('w, 'p) PointsWriter" where
  "write_shards E sc db rp level m [] pw = ([], pw)"
| "write_shards E sc db rp level m (i # ids) pw =
     (let (e, pw) = write_shard E sc db rp level m i pw;
          (es, pw) = write_shards E sc db rp level m ids pw
      in (e # es, pw))"

text \<open>A request goes to the subscribers whose channel has room.\<close>

definition send_sub :: "'p WritePointsRequest \<Rightarrow> 'p subscriber \<Rightarrow> bool \<times> 'p subscriber" where
  "send_sub r c = (if length (sub_queue c) < sub_cap c then (True, c\<lparr>sub_queue := sub_queue c @ [r]\<rparr>) else (False, c))"

definition send_subs :: "'p WritePointsRequest \<Rightarrow> ('w, 'p) PointsWriter \<Rightarrow> ('w, 'p) PointsWriter" where
  "send_subs r pw =
     (let sent = map (send_sub r) (pw_subPoints pw);
          ok = int (length (filter fst sent));
          dropped = int (length sent) - ok
      in upd_stats (\<lambda>s. s\<lparr>st_SubWriteOK := st_SubWriteOK s + ok, st_SubWriteDrop := st_SubWriteDrop s + dropped\<rparr>)
           (pw\<lparr>pw_subPoints := map snd sent\<rparr>))"

fun await_shards :: "(go_error option + wait_end) list \<Rightarrow> go_error option \<Rightarrow> WriteStatistics \<Rightarrow> go_error option \<times> WriteStatistics" where
  "await_shards [] err s = (err, s)"
| "await_shards (Inr WaitClosing # evs) err s = (Some ErrWriteFailed, s)"
| "await_shards (Inr WaitTimeout # evs) err s = (Some ErrTimeout, s\<lparr>st_WriteTimeout := st_WriteTimeout s + 1\<rparr>)"
| "await_shards (Inl (Some e) # evs) err s = (Some e, s)"
| "await_shards (Inl None # evs) err s = await_shards evs err s"

definition policy_for :: "('w, 'p) pw_env \<Rightarrow> string \<Rightarrow> string \<Rightarrow> 'w \<Rightarrow> go_error + string" where
  "policy_for E db rp w =
     (if rp \<noteq> [] then Inr rp
      else
        case pw_Database E db w of
          None \<Rightarrow> Inl (LibErr ''database not found'')
        | Some d \<Rightarrow> Inr (db_DefaultRetentionPolicy d))"

definition WritePointsPrivileged ::
  "('w, 'p) pw_env \<Rightarrow> gtime \<Rightarrow> schedule \<Rightarrow> string \<Rightarrow> string \<Rightarrow> ConsistencyLevel \<Rightarrow> 'p list \<Rightarrow> ('w, 'p) PointsWriter
    \<Rightarrow> go_error option \<times> ('w, 'p) PointsWriter" where
  "WritePointsPrivileged E now sc db rp level points pw =
     (let pw = upd_stats (\<lambda>s. s\<lparr>st_WriteReq := st_WriteReq s + 1, st_PointWriteReq := st_PointWriteReq s + int (length points)\<rparr>) pw
      in case policy_for E db rp (pw_world pw) of
           Inl e \<Rightarrow> (Some e, pw)
         | Inr rp \<Rightarrow>
             let req = \<lparr>wr_Database = db, wr_RetentionPolicy = rp, wr_Points = points\<rparr>
             in case MapShards E now req pw of
                  (Inl e, pw) \<Rightarrow> (Some e, pw)
                | (Inr m, pw) \<Rightarrow>
                    let (rs, pw) = write_shards E sc db rp level m (sc_shards sc) pw;
                        pw = send_subs req pw;
                        err = (if sm_Dropped m \<noteq> [] then Some (LibErr ''partial write: points beyond retention policy'') else None);
                        (err, s) = await_shards (wait_events (sc_wait sc) rs) err (pw_stats pw)
                    in (err, pw\<lparr>pw_stats := s\<rparr>))"

definition WritePoints ::
  "('w, 'p) pw_env \<Rightarrow> gtime \<Rightarrow> schedule \<Rightarrow> string \<Rightarrow> string \<Rightarrow> ConsistencyLevel \<Rightarrow> 'p list \<Rightarrow> ('w, 'p) PointsWriter
    \<Rightarrow> go_error option \<times> ('w, 'p) PointsWriter" where
  "WritePoints E now sc db rp level points pw = WritePointsPrivileged E now sc db rp level points pw"

definition WritePointsInto ::
  "('w, 'p) pw_env \<Rightarrow> gtime \<Rightarrow> schedule \<Rightarrow> 'p WritePointsRequest \<Rightarrow> ('w, 'p) PointsWriter \<Rightarrow> go_error option \<times> ('w, 'p) PointsWriter" where
  "WritePointsInto E now sc req pw =
     WritePointsPrivileged E now sc (wr_Database req) (wr_RetentionPolicy req) ConsistencyLevelOne (wr_Points req) pw"

end
