(* ===== verification/MetaQueries.thy ===== *)
theory MetaQueries
  imports MetaStoreProps
begin

text \<open>
  Further properties of \<^verbatim>\<open>services/meta/store.go\<close>: authentication and its cache, the queries on
  shards, pruning, and the creation of shard groups through the store.
\<close>

section \<open>Authentication\<close>

text \<open>
  An entry of the cache agrees with the users when it accepts only passwords that the hash of
  the user accepts.
\<close>

definition cache_ok :: "'x meta_ops \<Rightarrow> 'x Client \<Rightarrow> bool" where
  "cache_ok M c \<longleftrightarrow> (\<forall>n au u pw. authCache c n = Some au \<longrightarrow>
     find (\<lambda>u. u_Name u = n) (md_Users (cMeta c)) = Some u \<longrightarrow>
     hashWithSalt M (au_salt au) pw = au_hash au \<longrightarrow> CompareHashAndPassword M (u_Hash u) pw = None)"

text \<open>No two passwords have the same salted hash.\<close>

definition hash_ok :: "'x meta_ops \<Rightarrow> bool" where
  "hash_ok M \<longleftrightarrow> (\<forall>salt pw pw'. hashWithSalt M salt pw = hashWithSalt M salt pw' \<longrightarrow> pw = pw')"

text \<open>The imported operations on one user leave the other users alone.\<close>

definition lib_one_user :: "'x meta_ops \<Rightarrow> bool" where
  "lib_one_user M \<longleftrightarrow> (\<forall>n h m k. k \<noteq> n \<longrightarrow>
     find (\<lambda>u. u_Name u = k) (md_Users (snd (lib_UpdateUser M n h m))) = find (\<lambda>u. u_Name u = k) (md_Users m) \<and>
     find (\<lambda>u. u_Name u = k) (md_Users (snd (lib_DropUser M n m))) = find (\<lambda>u. u_Name u = k) (md_Users m))"

lemma Authenticate_accepts:
  assumes "cache_ok M c"
  shows "fst (Client_Authenticate M rnd n pw c) = Inr u \<longleftrightarrow>
     find (\<lambda>u. u_Name u = n) (md_Users (cMeta c)) = Some u \<and> CompareHashAndPassword M (u_Hash u) pw = None"
  using assms
  by (auto simp: Client_Authenticate_def Client_user_def cache_ok_def Let_def
      split: prod.splits option.splits if_splits)

lemma hash_okD: "hash_ok M \<Longrightarrow> hashWithSalt M salt pw = hashWithSalt M salt pw' \<Longrightarrow> pw = pw'"
  by (auto simp: hash_ok_def)

lemma Authenticate_cache:
  assumes "cache_ok M c" and "hash_ok M"
  shows "cache_ok M (snd (Client_Authenticate M rnd n pw c))"
  using assms(1)
  by (auto simp: Client_Authenticate_def Client_user_def cache_ok_def saltedHash_def Let_def
      split: prod.splits option.splits if_splits dest!: hash_okD [OF assms(2)])


lemma simple_find_other:
  assumes "k \<noteq> n"
  shows "find (\<lambda>u. u_Name u = k) (map (\<lambda>u. if u_Name u = n then u\<lparr>u_Hash := h\<rparr> else u) us) = find (\<lambda>u. u_Name u = k) us"
    and "find (\<lambda>u. u_Name u = k) (filter (\<lambda>u. u_Name u \<noteq> n) us) = find (\<lambda>u. u_Name u = k) us"
  using assms by (induction us) auto

lemma string_bytes_inj: "string_bytes s = string_bytes s' \<Longrightarrow> s = s'"
proof (induction s arbitrary: s')
  case Nil
  then show ?case by (simp add: string_bytes_def)
next
  case (Cons a s)
  then obtain b t where s': "s' = b # t" by (cases s') (auto simp: string_bytes_def)
  have "(of_char a :: nat) mod 256 = of_char b mod 256"
    using Cons.prems s' by (auto simp: string_bytes_def unat_of_nat dest: arg_cong [of _ _ unat])
  then have "a = b" by simp
  with Cons s' show ?case by (simp add: string_bytes_def)
qed

lemma simple_auth_ok: "hash_ok simple_ops" "lib_one_user simple_ops"
  using string_bytes_inj
  by (auto simp: hash_ok_def hashWithSalt_def simple_ops_def lib_one_user_def simple_find_other)

definition alice :: "string \<Rightarrow> UserInfo" where
  "alice pw = \<lparr>u_Name = ''alice'', u_Hash = CHR ''$'' # pw, u_Admin = False\<rparr>"

definition alice_data :: "string \<Rightarrow> unit Data" where
  "alice_data pw = example_data\<lparr>meta_Data := example_meta\<lparr>md_Users := [alice pw]\<rparr>\<rparr>"

definition alice_client :: "unit Client" where
  "alice_client = example_client\<lparr>cacheData := alice_data ''old''\<rparr>"


text \<open>
  Replacing the metadata as a whole keeps the entries of the cache: after a client has
  authenticated with the old password and has then received metadata in which the password is
  changed, the old password is still accepted.
\<close>

theorem Authenticate_stale_after_ReplaceData:
  "let c = snd (Client_Authenticate simple_ops [1, 2, 3] ''alice'' ''old'' alice_client);
       c = snd (Client_ReplaceData (alice_data ''new'') c)
   in CompareHashAndPassword (simple_ops :: unit meta_ops) (u_Hash (alice ''new'')) ''old'' \<noteq> None \<and>
      fst (Client_Authenticate simple_ops [4, 5, 6] ''alice'' ''old'' c) = Inr (alice ''new'')"
  by code_simp

text \<open>
  The check whether a user already exists never fires: the call always goes to the imported
  \<^verbatim>\<open>CreateUser\<close>, also for a user that exists with the same password and privilege, so that creating
  a user twice is an error although the code provides for returning the existing user.
\<close>

theorem CreateUser_never_returns_existing:
  "Client_CreateUser L M n h a c =
     (case clone_commit L (on_meta (lib_CreateUser M n h a)) c of
        (Some e, c) \<Rightarrow> ((None, Some e), c)
      | (None, c) \<Rightarrow> (Client_user M n c, c))"
  by (auto simp: Client_CreateUser_def Client_user_def split: option.splits)

section \<open>Queries on shards\<close>

interpretation shard_id_order: sort_order u64_less
  by unfold_locales (auto simp: u64_less_def)

text \<open>
  The list of shard IDs is ascending and holds every shard of every database, policy and
  group exactly as often as it occurs.
\<close>

theorem ShardIDs_sorted:
  "sorted (Client_ShardIDs c) \<and> mset (Client_ShardIDs c) = mset (map si_ID (all_shards (cMeta c)))"
proof
  show "sorted (Client_ShardIDs c)"
    using shard_id_order.go_sort_sorted by (simp add: Client_ShardIDs_def u64_less_def not_less)
  show "mset (Client_ShardIDs c) = mset (map si_ID (all_shards (cMeta c)))"
    by (simp add: Client_ShardIDs_def all_shards_dbs db_shards_def [abs_def] rp_shards_def [abs_def]
        map_concat comp_def)
qed

lemma ball_all_groups:
  "(\<forall>g\<in>set (all_groups m). P g) \<longleftrightarrow>
     (\<forall>db\<in>set (md_Databases m). \<forall>rp\<in>set (db_RetentionPolicies db). \<forall>g\<in>set (rp_ShardGroups rp). P g)"
  by (auto simp: all_groups_def)

lemma find_owner_rp_Some:
  "find_owner_rp L sid gs = Some g \<Longrightarrow> g \<in> set gs \<and> \<not> sg_Deleted L g \<and> sid \<in> si_ID ` set (sg_Shards g)"
  by (induction gs) (auto simp: list_ex_iff split: if_splits)

lemma find_owner_rp_None:
  "find_owner_rp L sid gs = None \<longleftrightarrow> (\<forall>g\<in>set gs. sg_Deleted L g \<or> sid \<notin> si_ID ` set (sg_Shards g))"
  by (induction gs) (auto simp: list_ex_iff)

lemma find_owner_rps_Some:
  "find_owner_rps L sid rps = Some (rn, g) \<Longrightarrow>
   \<exists>rp\<in>set rps. rp_Name rp = rn \<and> find_owner_rp L sid (rp_ShardGroups rp) = Some g"
  by (induction rps) (auto split: option.splits)

lemma find_owner_rps_None:
  "find_owner_rps L sid rps = None \<longleftrightarrow> (\<forall>rp\<in>set rps. find_owner_rp L sid (rp_ShardGroups rp) = None)"
  by (induction rps) (auto split: option.splits)

lemma find_owner_dbs_Some:
  "find_owner_dbs L sid dbs = Some (dn, rn, g) \<Longrightarrow>
   \<exists>db\<in>set dbs. db_Name db = dn \<and> find_owner_rps L sid (db_RetentionPolicies db) = Some (rn, g)"
  by (induction dbs) (auto split: option.splits)

lemma find_owner_dbs_None:
  "find_owner_dbs L sid dbs = None \<longleftrightarrow> (\<forall>db\<in>set dbs. find_owner_rps L sid (db_RetentionPolicies db) = None)"
  by (induction dbs) (auto split: option.splits)

text \<open>
  \<^verbatim>\<open>ShardOwner\<close> finds a shard exactly when a group that is not deleted contains it, and then
  returns such a group with the names of the policy and the database it belongs to.
\<close>

theorem ShardOwner_correct:
  "case Client_ShardOwner L sid c of
     (dn, rn, Some g) \<Rightarrow> \<not> sg_Deleted L g \<and> sid \<in> si_ID ` set (sg_Shards g) \<and>
        (\<exists>db. db \<in> set (md_Databases (cMeta c)) \<and> db_Name db = dn \<and>
           (\<exists>rp. rp \<in> set (db_RetentionPolicies db) \<and> rp_Name rp = rn \<and> g \<in> set (rp_ShardGroups rp)))
   | (dn, rn, None) \<Rightarrow>
        dn = [] \<and> rn = [] \<and>
        filter (\<lambda>g. \<not> sg_Deleted L g \<and> sid \<in> si_ID ` set (sg_Shards g)) (all_groups (cMeta c)) = []"
proof (cases "find_owner_dbs L sid (md_Databases (cMeta c))")
  case None
  then have "filter (\<lambda>g. \<not> sg_Deleted L g \<and> sid \<in> si_ID ` set (sg_Shards g)) (all_groups (cMeta c)) = []"
    by (simp add: find_owner_dbs_None find_owner_rps_None find_owner_rp_None filter_empty_conv ball_all_groups)
  with None show ?thesis by (simp add: Client_ShardOwner_def)
next
  case (Some r)
  obtain dn rn g where r: "r = (dn, rn, g)" by (cases r)
  from find_owner_dbs_Some [OF Some [unfolded r]] obtain db where
    db: "db \<in> set (md_Databases (cMeta c))" "db_Name db = dn"
    and "find_owner_rps L sid (db_RetentionPolicies db) = Some (rn, g)" by blast
  from find_owner_rps_Some [OF this(3)] obtain rp where
    "rp \<in> set (db_RetentionPolicies db)" "rp_Name rp = rn" "find_owner_rp L sid (rp_ShardGroups rp) = Some g" by blast
  with db find_owner_rp_Some [OF this(3)] Some r show ?thesis by (auto simp: Client_ShardOwner_def)
qed

text \<open>
  Pruning removes exactly the groups that were marked deleted before the given time, keeps
  the order of the others, and commits a change only when there is one.
\<close>

theorem PruneShardGroups_exact:
  assumes "clone_ok L"
  shows "fst (Client_PruneShardGroups L t c) = None \<and>
     all_groups (cMeta (snd (Client_PruneShardGroups L t c))) =
       filter (\<lambda>g. sg_DeletedAt g = 0 \<or> t \<le> sg_DeletedAt g) (all_groups (cMeta c)) \<and>
     changed (snd (Client_PruneShardGroups L t c)) =
       changed c + (if list_all (\<lambda>g. sg_DeletedAt g = 0 \<or> t \<le> sg_DeletedAt g) (all_groups (cMeta c)) then 0 else 1)"
proof -
  have remains: "group_remains t = (\<lambda>g. sg_DeletedAt g = 0 \<or> t \<le> sg_DeletedAt g)"
    by (auto simp: group_remains_def time_IsZero_def)
  have chg: "list_ex (\<lambda>d. list_ex (\<lambda>rp. list_ex (\<lambda>g. \<not> group_remains t g) (rp_ShardGroups rp))
      (db_RetentionPolicies d)) (md_Databases (cMeta c)) \<longleftrightarrow> \<not> list_all (group_remains t) (all_groups (cMeta c))"
    by (auto simp: list_ex_iff list_all_iff ball_all_groups)
  have id: "filter (group_remains t) (all_groups (cMeta c)) = all_groups (cMeta c)"
    if "list_all (group_remains t) (all_groups (cMeta c))"
    using that by (simp add: list_all_iff)
  have bump: "all_groups (m\<lparr>md_Index := i\<rparr>) = all_groups m" for m :: "'a MetaData" and i
    by (simp add: all_groups_def)
  show ?thesis
    using chg id all_groups_prune [of t "cacheData c"]
    by (auto simp: Client_PruneShardGroups_def Let_def Data_Clone_id [OF assms] commit_eq bump remains)
qed

theorem PruneShardGroups_exact_witness:
  "clone_ok (simple_lib :: unit influx_lib) \<and>
   all_groups (cMeta (snd (Client_PruneShardGroups simple_lib 1000 example_client))) =
     filter (\<lambda>g. sg_DeletedAt g = 0 \<or> 1000 \<le> sg_DeletedAt g) (all_groups (cMeta example_client))"
  using PruneShardGroups_exact [OF simple_lib_ok(3), of 1000 example_client] simple_lib_ok(3) by blast

section \<open>Creating shard groups through the store\<close>

text \<open>
  What the imported lookups promise: the policy found depends on the names only; the group found
  contains the time and is not deleted, and one is found when there is one; the lookup in the
  whole metadata is the lookup of the policy followed by the lookup in the policy.
\<close>

definition rp_names :: "'x MetaData \<Rightarrow> (string \<times> string list) list" where
  "rp_names m = map (\<lambda>db. (db_Name db, map rp_Name (db_RetentionPolicies db))) (md_Databases m)"

definition sg_lookup_ok :: "'x influx_lib \<Rightarrow> bool" where
  "sg_lookup_ok L \<longleftrightarrow>
     (\<forall>rp t i. ShardGroupByTimestamp L rp t = Some i \<longrightarrow> i < length (rp_ShardGroups rp) \<and>
        sg_StartTime (rp_ShardGroups rp ! i) \<le> t \<and> t < sg_EndTime (rp_ShardGroups rp ! i)) \<and>
     (\<forall>rp t g. g \<in> set (rp_ShardGroups rp) \<longrightarrow> sg_StartTime g \<le> t \<longrightarrow> t < sg_EndTime g \<longrightarrow>
        sg_DeletedAt g = 0 \<longrightarrow> sg_TruncatedAt g = 0 \<longrightarrow> ShardGroupByTimestamp L rp t \<noteq> None)"

definition lookups_ok :: "'x influx_lib \<Rightarrow> 'x meta_ops \<Rightarrow> bool" where
  "lookups_ok L M \<longleftrightarrow> sg_lookup_ok L \<and>
     (\<forall>m m'. rp_names m = rp_names m' \<longrightarrow> RetentionPolicy L m = RetentionPolicy L m') \<and>
     (\<forall>m db rp t. sg_found (lib_ShardGroupByTimestamp M m db rp t) =
        (case RetentionPolicy L m db rp of
           Inr (Some p) \<Rightarrow> map_option (\<lambda>i. rp_ShardGroups (rp_get m p) ! i) (ShardGroupByTimestamp L (rp_get m p) t)
         | _ \<Rightarrow> None))"

lemma rp_names_set:
  assumes "rp_valid m p" and "rp_Name r = rp_Name (rp_get m p)"
  shows "rp_names (rp_set p r m) = rp_names m"
proof -
  obtain i j where p: "p = (i, j)" by (cases p)
  have "(map rp_Name (db_RetentionPolicies (md_Databases m ! i)))[j := rp_Name r] =
      map rp_Name (db_RetentionPolicies (md_Databases m ! i))"
    using assms by (simp add: p rp_valid_def rp_get_def map_update [symmetric])
  then have "map rp_Name ((db_RetentionPolicies (md_Databases m ! i))[j := r]) =
      map rp_Name (db_RetentionPolicies (md_Databases m ! i))" by (simp only: map_update)
  moreover have "i < length (md_Databases m)" using assms(1) by (simp add: p rp_valid_def)
  ultimately show ?thesis
    by (auto simp: rp_names_def rp_set_def p map_update intro!: list_update_same_conv [THEN iffD2])
qed

lemma rp_names_add_group: "rp_valid (meta_Data d) p \<Longrightarrow> rp_names (add_group L t p d) = rp_names (meta_Data d)"
proof -
  assume valid: "rp_valid (meta_Data d) p"
  let ?m = "(meta_Data d)\<lparr>md_MaxShardGroupID := md_MaxShardGroupID (meta_Data d) + 1,
      md_MaxShardID := md_MaxShardID (meta_Data d) +
        of_nat (length (availableNodes d) div replicas d (rp_get (meta_Data d) p))\<rparr>"
  have "rp_valid ?m p" "rp_get ?m p = rp_get (meta_Data d) p" "rp_names ?m = rp_names (meta_Data d)"
    using valid by (simp_all add: rp_valid_def rp_get_def rp_names_def)
  then show ?thesis by (simp add: add_group_def Let_def rp_names_set)
qed

lemma rp_names_index [simp]: "rp_names (m\<lparr>md_Index := i\<rparr>) = rp_names m"
  by (simp add: rp_names_def)

lemma rp_get_index [simp]: "rp_get (m\<lparr>md_Index := i\<rparr>) p = rp_get m p"
  by (simp add: rp_get_def)

lemma lookupsD:
  assumes "lookups_ok L M"
  shows "sg_found (lib_ShardGroupByTimestamp M m db rp t) =
        (case RetentionPolicy L m db rp of
           Inr (Some p) \<Rightarrow> map_option (\<lambda>i. rp_ShardGroups (rp_get m p) ! i) (ShardGroupByTimestamp L (rp_get m p) t)
         | _ \<Rightarrow> None)"
    and "rp_names m = rp_names m' \<Longrightarrow> RetentionPolicy L m db rp = RetentionPolicy L m' db rp"
    and "ShardGroupByTimestamp L r t = Some i \<Longrightarrow>
        sg_StartTime (rp_ShardGroups r ! i) \<le> t \<and> t < sg_EndTime (rp_ShardGroups r ! i)"
    and "g \<in> set (rp_ShardGroups r) \<Longrightarrow> sg_StartTime g \<le> t \<Longrightarrow> t < sg_EndTime g \<Longrightarrow>
        sg_DeletedAt g = 0 \<Longrightarrow> sg_TruncatedAt g = 0 \<Longrightarrow> \<exists>i. ShardGroupByTimestamp L r t = Some i"
proof -
  note A = assms [unfolded lookups_ok_def sg_lookup_ok_def]
  show "sg_found (lib_ShardGroupByTimestamp M m db rp t) =
        (case RetentionPolicy L m db rp of
           Inr (Some p) \<Rightarrow> map_option (\<lambda>i. rp_ShardGroups (rp_get m p) ! i) (ShardGroupByTimestamp L (rp_get m p) t)
         | _ \<Rightarrow> None)"
    using A [THEN conjunct2, THEN conjunct2] by blast
  show "RetentionPolicy L m db rp = RetentionPolicy L m' db rp" if "rp_names m = rp_names m'"
    using that A [THEN conjunct2, THEN conjunct1] by metis
  show "sg_StartTime (rp_ShardGroups r ! i) \<le> t \<and> t < sg_EndTime (rp_ShardGroups r ! i)"
    if "ShardGroupByTimestamp L r t = Some i"
    using that A [THEN conjunct1, THEN conjunct1] by blast
  show "\<exists>i. ShardGroupByTimestamp L r t = Some i"
    if "g \<in> set (rp_ShardGroups r)" "sg_StartTime g \<le> t" "t < sg_EndTime g" "sg_DeletedAt g = 0" "sg_TruncatedAt g = 0"
    using that A [THEN conjunct1, THEN conjunct2] by blast
qed

text \<open>The two ways in which the store answers: with a group that is there, or with one that it adds.\<close>

lemma CreateShardGroup_found:
  assumes "lookups_ok L M" and "RetentionPolicy L (cMeta c) db rp = Inr (Some p)"
    and "ShardGroupByTimestamp L (rp_get (cMeta c) p) t = Some i"
  shows "Client_CreateShardGroup L M db rp t c = (Inr (Some (rp_ShardGroups (rp_get (cMeta c) p) ! i)), c)"
  using lookupsD(1) [OF assms(1), of "cMeta c" db rp t] assms(2,3)
  by (simp add: Client_CreateShardGroup_def)

lemma CreateShardGroup_added:
  assumes "lookups_ok L M" and "rp_lookup_ok L" and "clone_ok L"
    and "RetentionPolicy L (cMeta c) db rp = Inr (Some p)"
    and "availableNodes (cacheData c) \<noteq> []" and "0 \<le> rp_ReplicaN (rp_get (cMeta c) p)"
    and "0 < rp_ShardGroupDuration (rp_get (cMeta c) p)" and "t \<le> time_Unix 0 (MaxNanoTime L)"
    and "ShardGroupByTimestamp L (rp_get (cMeta c) p) t = None"
  obtains i where "ShardGroupByTimestamp L (rp_get (add_group L t p (cacheData c)) p) t = Some i"
    and "Client_CreateShardGroup L M db rp t c =
      (Inr (Some (rp_ShardGroups (rp_get (add_group L t p (cacheData c)) p) ! i)),
       snd (commit ((cacheData c)\<lparr>meta_Data := add_group L t p (cacheData c)\<rparr>) c))"
    and "\<And>k. RetentionPolicy L ((add_group L t p (cacheData c))\<lparr>md_Index := k\<rparr>) db rp = Inr (Some p)"
proof -
  let ?m = "add_group L t p (cacheData c)"
  let ?g0 = "new_group L t (cacheData c) (rp_get (cMeta c) p)"
  have valid: "rp_valid (cMeta c) p" using assms(2,4) by (rule rp_lookup_valid)
  have new: "Data_CreateShardGroup L db rp t (cacheData c) = (None, (cacheData c)\<lparr>meta_Data := ?m\<rparr>)"
    using assms(4,9,5,6) by (rule CreateShardGroup_new)
  have lookup: "RetentionPolicy L ?m db rp = Inr (Some p)"
    using lookupsD(2) [OF assms(1) rp_names_add_group [OF valid], of L t db rp] assms(4) by simp
  then have lookup': "RetentionPolicy L (?m\<lparr>md_Index := k\<rparr>) db rp = Inr (Some p)" for k
    using lookupsD(2) [OF assms(1), of "?m\<lparr>md_Index := k\<rparr>" ?m db rp] by simp
  have "?g0 \<in> set (rp_ShardGroups (rp_get ?m p))" using add_group_get [OF valid, of L t] by simp
  moreover have "sg_StartTime ?g0 \<le> t" "t < sg_EndTime ?g0" "sg_DeletedAt ?g0 = 0" "sg_TruncatedAt ?g0 = 0"
    using group_times_contains [OF assms(7,8)] by (simp_all add: new_group_def)
  ultimately obtain i where i: "ShardGroupByTimestamp L (rp_get ?m p) t = Some i"
    using lookupsD(4) [OF assms(1)] by blast
  have before: "sg_found (lib_ShardGroupByTimestamp M (cMeta c) db rp t) = None"
    using lookupsD(1) [OF assms(1), of "cMeta c" db rp t] assms(4,9) by simp
  have "Client_CreateShardGroup L M db rp t c =
      (Inr (Some (rp_ShardGroups (rp_get ?m p) ! i)), snd (commit ((cacheData c)\<lparr>meta_Data := ?m\<rparr>) c))"
    using before lookup i
    by (simp add: Client_CreateShardGroup_def createShardGroup_def Data_Clone_id [OF assms(3)] new Let_def commit_eq)
  then show thesis using that i lookup' by blast
qed


lemma index_where_map: "index_where P (map f xs) = index_where (\<lambda>x. P (f x)) xs"
  by (induction xs) auto

lemma simple_lookups_ok: "lookups_ok simple_lib simple_ops"
proof -
  have "sg_lookup_ok simple_lib"
  proof -
    have "\<exists>i. index_where P xs = Some i" if "x \<in> set xs" "P x" for P and x :: ShardGroupInfo and xs
      using that by (induction xs) auto
    then show ?thesis
      by (fastforce simp: sg_lookup_ok_def simple_lib_def dest: index_where_Some)
  qed
  moreover have "RetentionPolicy simple_lib m = RetentionPolicy simple_lib m'"
    if "rp_names m = rp_names m'" for m m' :: "'a MetaData"
  proof (intro ext)
    fix db rp
    have n: "map db_Name (md_Databases m) = map db_Name (md_Databases m')"
      and r: "map (\<lambda>d. map rp_Name (db_RetentionPolicies d)) (md_Databases m) =
        map (\<lambda>d. map rp_Name (db_RetentionPolicies d)) (md_Databases m')"
      using arg_cong [OF that, of "map fst"] arg_cong [OF that, of "map snd"]
      by (simp_all only: rp_names_def comp_def map_map fst_conv snd_conv)
    have i: "index_where (\<lambda>d. db_Name d = db) (md_Databases m) = index_where (\<lambda>d. db_Name d = db) (md_Databases m')"
      using index_where_map [of "\<lambda>x. x = db" db_Name] n by metis
    have "index_where (\<lambda>x. rp_Name x = rp) (db_RetentionPolicies (md_Databases m ! k)) =
        index_where (\<lambda>x. rp_Name x = rp) (db_RetentionPolicies (md_Databases m' ! k))"
      if "k < length (md_Databases m)" for k
    proof -
      have "length (md_Databases m) = length (md_Databases m')" using arg_cong [OF n, of length] by simp
      with that have "map rp_Name (db_RetentionPolicies (md_Databases m ! k)) =
          map rp_Name (db_RetentionPolicies (md_Databases m' ! k))"
        using arg_cong [OF r, of "\<lambda>xs. xs ! k"] by simp
      then show ?thesis using index_where_map [of "\<lambda>x. x = rp" rp_Name] by metis
    qed
    note rps = this
    show "RetentionPolicy simple_lib m db rp = RetentionPolicy simple_lib m' db rp"
    proof (cases "index_where (\<lambda>d. db_Name d = db) (md_Databases m)")
      case None
      with i [symmetric] show ?thesis by (simp add: simple_lib_def simple_RetentionPolicy_def)
    next
      case (Some k)
      with i [symmetric] rps [of k] index_where_Some [OF Some] show ?thesis
        by (simp add: simple_lib_def simple_RetentionPolicy_def)
    qed
  qed
  moreover have "sg_found (lib_ShardGroupByTimestamp simple_ops m db rp t) =
      (case RetentionPolicy simple_lib m db rp of
         Inr (Some p) \<Rightarrow> map_option (\<lambda>i. rp_ShardGroups (rp_get m p) ! i) (ShardGroupByTimestamp (simple_lib :: 'a influx_lib) (rp_get m p) t)
       | _ \<Rightarrow> None)" for m :: "'a MetaData" and db rp t
    by (auto simp: simple_ops_def simple_lib_def sg_found_def split: sum.splits option.splits)
  ultimately show ?thesis unfolding lookups_ok_def by blast
qed


end
