(* ===== verification/PointsMapping.thy ===== *)
theory PointsMapping
  imports PointsWriter MetaQueries
begin

text \<open>
  Mapping the points of a request to shards: the bisection of \<^verbatim>\<open>ShardGroupAt\<close> is a linear search, and
  with a meta client that hands out groups of one duration every point within the retention
  policy gets a shard of a group that contains its time. The meta client is a locale, interpreted
  on the store.
\<close>

section \<open>Bisection\<close>

lemma search_between_spec:
  assumes "\<forall>a b. a \<le> b \<longrightarrow> b < n \<longrightarrow> f a \<longrightarrow> f b" and "i \<le> j" and "j \<le> n"
    and "\<forall>k<i. \<not> f k" and "\<forall>k. j \<le> k \<longrightarrow> k < n \<longrightarrow> f k"
  shows "search_between f i j \<le> n \<and> (\<forall>k < search_between f i j. \<not> f k) \<and>
     (\<forall>k. search_between f i j \<le> k \<longrightarrow> k < n \<longrightarrow> f k)"
  using assms
proof (induction f i j rule: search_between.induct)
  case (1 f i j)
  let ?h = "(i + j) div 2"
  note mono = "1.prems"(1)
  consider "\<not> i < j" | "i < j" "f ?h" | "i < j" "\<not> f ?h" by blast
  then show ?case
  proof cases
    case 1
    then have "search_between f i j = i" by (simp add: search_between.simps [of f i j])
    with 1 "1.prems" show ?thesis by simp
  next
    case 2
    have "\<forall>k. ?h \<le> k \<longrightarrow> k < n \<longrightarrow> f k" using mono 2(2) by blast
    with "1.IH"(2) [OF 2(1) HOL.refl] 2 "1.prems" show ?thesis
      by (simp add: search_between.simps [of f i j] Let_def)
  next
    case 3
    have h: "?h < n" using 3(1) "1.prems"(3) by linarith
    have "\<not> f k" if "k < ?h + 1" for k
      using mono [rule_format, of k ?h] 3 that h by auto
    with "1.IH"(1) [OF 3(1) HOL.refl] 3 "1.prems" show ?thesis
      by (simp add: search_between.simps [of f i j] Let_def)
  qed
qed

text \<open>\<^verbatim>\<open>ShardGroupAt\<close> as a linear search: the first group that ends after the time, if it has begun.\<close>

definition first_ending :: "gtime \<Rightarrow> sgList \<Rightarrow> ShardGroupInfo option" where
  "first_ending t l =
     (case find (\<lambda>g. t < sg_EndTime g) l of
        Some g \<Rightarrow> if t < sg_StartTime g then None else Some g
      | None \<Rightarrow> None)"

abbreviation by_end_order :: "sgList \<Rightarrow> bool" where
  "by_end_order l \<equiv> sorted_wrt (\<lambda>a b. sg_EndTime a \<le> sg_EndTime b) l"

lemma ShardGroupAt_first_ending:
  assumes "by_end_order l"
  shows "ShardGroupAt t l = first_ending t l"
proof -
  let ?f = "\<lambda>i. t < sg_EndTime (l ! i)"
  let ?i = "sort_Search (length l) ?f"
  have mono: "\<forall>a b. a \<le> b \<longrightarrow> b < length l \<longrightarrow> ?f a \<longrightarrow> ?f b"
  proof (intro allI impI)
    fix a b
    assume "a \<le> b" "b < length l" "?f a"
    then show "?f b" using assms [unfolded sorted_wrt_iff_nth_less, rule_format, of a b] by (cases "a = b") auto
  qed
  have "?i \<le> length l \<and> (\<forall>k < ?i. \<not> ?f k) \<and> (\<forall>k. ?i \<le> k \<longrightarrow> k < length l \<longrightarrow> ?f k)"
    unfolding sort_Search_def by (rule search_between_spec [OF mono]) simp_all
  then have s: "?i \<le> length l" "\<forall>k < ?i. \<not> ?f k" "\<forall>k. ?i \<le> k \<longrightarrow> k < length l \<longrightarrow> ?f k" by blast+
  define k where "k = ?i"
  note s = s [folded k_def]
  have at: "ShardGroupAt t l = (if k = length l \<or> t < sg_StartTime (l ! k) then None else Some (l ! k))"
    unfolding ShardGroupAt_def Let_def k_def ..
  show ?thesis
  proof (cases "k = length l")
    case True
    have "\<not> t < sg_EndTime g" if "g \<in> set l" for g
      using that s(2) True by (auto simp: in_set_conv_nth)
    then have "find (\<lambda>g. t < sg_EndTime g) l = None" by (auto simp: find_None_iff)
    with True at show ?thesis by (simp add: first_ending_def)
  next
    case False
    with s have "k < length l" "?f k" by simp_all
    with s(2) have "find (\<lambda>g. t < sg_EndTime g) l = Some (l ! k)"
      by (auto simp: find_Some_iff)
    with False at show ?thesis by (simp add: first_ending_def)
  qed
qed

section \<open>The order of groups\<close>

text \<open>
  The order of \<^verbatim>\<open>meta.ShardGroupInfos\<close> on groups that are not truncated: by end, then by start.
\<close>

definition by_end :: "ShardGroupInfo \<Rightarrow> ShardGroupInfo \<Rightarrow> bool" where
  "by_end a b \<longleftrightarrow> sg_EndTime a < sg_EndTime b \<or> (sg_EndTime a = sg_EndTime b \<and> sg_StartTime a < sg_StartTime b)"

interpretation end_order: sort_order by_end
  by unfold_locales (auto simp: by_end_def)

definition group_order_ok :: "'p points_lib \<Rightarrow> bool" where
  "group_order_ok P \<longleftrightarrow>
     (\<forall>a b. sg_TruncatedAt a = 0 \<longrightarrow> sg_TruncatedAt b = 0 \<longrightarrow> sgi_Less P a b = by_end a b)"

lemma go_insert_cong:
  assumes "\<And>a b. a \<in> A \<Longrightarrow> b \<in> A \<Longrightarrow> lt a b = lt' a b" and "x \<in> A" and "set ys \<subseteq> A"
  shows "go_insert lt x ys = go_insert lt' x ys"
  using assms(3) by (induction ys) (auto simp: assms(1,2))

lemma go_sort_cong:
  assumes "\<And>a b. a \<in> set xs \<Longrightarrow> b \<in> set xs \<Longrightarrow> lt a b = lt' a b"
  shows "go_sort lt xs = go_sort lt' xs"
proof -
  have "fold (go_insert lt) zs acc = fold (go_insert lt') zs acc"
    if "set zs \<subseteq> set xs" "set acc \<subseteq> set xs" for zs acc
    using that
  proof (induction zs arbitrary: acc)
    case (Cons z zs)
    have "set (go_insert lt' z acc) = insert z (set acc)"
      by (metis mset_go_insert set_mset_mset set_mset_add_mset_insert)
    with Cons show ?case using go_insert_cong [of "set xs" lt lt' z acc] assms by simp
  qed simp
  then show ?thesis by (simp add: go_sort_def)
qed

lemma Append_sorted:
  assumes "group_order_ok P" and "\<forall>g\<in>set (sg # l). sg_TruncatedAt g = 0"
  shows "by_end_order (sgList_Append P sg l)" and "set (sgList_Append P sg l) = insert sg (set l)"
proof -
  have "go_sort (sgi_Less P) (l @ [sg]) = go_sort by_end (l @ [sg])"
    by (rule go_sort_cong) (use assms in \<open>auto simp: group_order_ok_def\<close>)
  then have "sgList_Append P sg l = go_sort by_end (l @ [sg])" by (simp add: sgList_Append_def)
  moreover have "by_end_order (go_sort by_end (l @ [sg]))"
    by (rule sorted_wrt_mono_rel [OF _ end_order.go_sort_sorted]) (auto simp: by_end_def)
  ultimately show "by_end_order (sgList_Append P sg l)" by simp
  show "set (sgList_Append P sg l) = insert sg (set l)" by (simp add: sgList_Append_def)
qed

section \<open>What a mapping holds\<close>

definition points_of :: "'p ShardMapping \<Rightarrow> u64 \<Rightarrow> 'p list" where
  "points_of m i = (case sm_Points m i of Some ps \<Rightarrow> ps | None \<Rightarrow> [])"

definition shard_of :: "'p points_lib \<Rightarrow> sgList \<Rightarrow> 'p \<Rightarrow> u64 option" where
  "shard_of P l p = map_option (\<lambda>g. si_ID (sg_ShardFor P g (pt_HashID P p))) (ShardGroupAt (pt_Time P p) l)"

lemma points_of_MapPoint [simp]:
  "points_of (MapPoint sh p m) i = (if i = si_ID sh then points_of m i @ [p] else points_of m i)"
  by (auto simp: points_of_def MapPoint_def split: option.splits)

lemma MapPoint_Dropped [simp]: "sm_Dropped (MapPoint sh p m) = sm_Dropped m"
  by (simp add: MapPoint_def)

lemma points_of_map_one [simp]:
  "points_of (map_one P l p m) i = points_of m i @ (if shard_of P l p = Some i then [p] else [])"
  by (cases "ShardGroupAt (pt_Time P p) l") (simp_all add: map_one_def shard_of_def, simp add: points_of_def)

lemma map_shards_points:
  "points_of (fold (map_one P l) ps m) i = points_of m i @ filter (\<lambda>p. shard_of P l p = Some i) ps"
  by (induction ps arbitrary: m) simp_all

lemma map_shards_dropped:
  "sm_Dropped (fold (map_one P l) ps m) = sm_Dropped m @ filter (\<lambda>p. shard_of P l p = None) ps"
  by (induction ps arbitrary: m) (auto simp: map_one_def shard_of_def split: option.splits)

text \<open>The two maps and the list of their keys agree, and a shard is stored under its own ID.\<close>

definition sm_ok :: "'p ShardMapping \<Rightarrow> bool" where
  "sm_ok m \<longleftrightarrow> distinct (sm_IDs m) \<and> set (sm_IDs m) = dom (sm_Points m) \<and> dom (sm_Shards m) = dom (sm_Points m) \<and>
     (\<forall>i sh. sm_Shards m i = Some sh \<longrightarrow> si_ID sh = i)"

lemma sm_ok_New [simp]: "sm_ok NewShardMapping"
  by (simp add: sm_ok_def NewShardMapping_def)

lemma sm_ok_MapPoint: "sm_ok m \<Longrightarrow> sm_ok (MapPoint sh p m)"
  by (auto simp: sm_ok_def MapPoint_def)

lemma sm_ok_map_one: "sm_ok m \<Longrightarrow> sm_ok (map_one P l p m)"
  by (cases "ShardGroupAt (pt_Time P p) l") (simp_all add: map_one_def sm_ok_MapPoint, simp add: sm_ok_def)

lemma sm_ok_fold: "sm_ok m \<Longrightarrow> sm_ok (fold (map_one P l) ps m)"
  by (induction ps arbitrary: m) (simp_all add: sm_ok_map_one)

lemma MapShards_sm_ok: "fst (MapShards E now wp pw) = Inr m \<Longrightarrow> sm_ok m"
  by (auto simp: MapShards_def Let_def sm_ok_fold split: sum.splits option.splits prod.splits)

section \<open>A source of shard groups\<close>

definition in_group :: "gtime \<Rightarrow> ShardGroupInfo \<Rightarrow> bool" where
  "in_group t g \<longleftrightarrow> sg_StartTime g \<le> t \<and> t < sg_EndTime g"

lemma ShardGroupAt_in:
  assumes "by_end_order l" and "ShardGroupAt t l = Some g"
  shows "g \<in> set l" and "in_group t g"
  using assms(2)
  by (auto simp: ShardGroupAt_first_ending [OF assms(1)] first_ending_def in_group_def find_Some_iff
      split: option.splits if_splits)

text \<open>
  The contract of the meta client: up to a last time it answers with a group that contains the
  time, and all groups that it hands out are windows of one partition of the time.
\<close>

locale group_source =
  fixes create :: "gtime \<Rightarrow> 'w \<Rightarrow> (go_error + ShardGroupInfo option) \<times> 'w"
    and window :: "ShardGroupInfo \<Rightarrow> bool"
    and ok :: "'w \<Rightarrow> bool"
    and limit :: gtime
  assumes create_group: "ok w \<Longrightarrow> t \<le> limit \<Longrightarrow>
      \<exists>g w'. create t w = (Inr (Some g), w') \<and> ok w' \<and> window g \<and> in_group t g"
    and window_partition: "window g \<Longrightarrow> window h \<Longrightarrow>
      (sg_StartTime g = sg_StartTime h \<and> sg_EndTime g = sg_EndTime h) \<or>
      sg_EndTime g \<le> sg_StartTime h \<or> sg_EndTime h \<le> sg_StartTime g"
    and window_untruncated: "window g \<Longrightarrow> sg_TruncatedAt g = 0"
    and window_nonempty: "window g \<Longrightarrow> sg_StartTime g < sg_EndTime g"
begin

lemma first_ending_finds:
  assumes "by_end_order l" and "\<forall>g\<in>set l. window g" and "g \<in> set l" and "in_group t g"
  shows "\<exists>h\<in>set l. ShardGroupAt t l = Some h \<and> in_group t h"
proof -
  obtain h where h: "find (\<lambda>g. t < sg_EndTime g) l = Some h"
    using assms(3,4) by (cases "find (\<lambda>g. t < sg_EndTime g) l") (auto simp: find_None_iff in_group_def)
  then obtain i where i: "i < length l" "t < sg_EndTime h" "h = l ! i" "\<forall>j<i. \<not> t < sg_EndTime (l ! j)"
    by (auto simp: find_Some_iff)
  obtain k where k: "k < length l" "g = l ! k" using assms(3) by (auto simp: in_set_conv_nth)
  have "i \<le> k" using i(4) k assms(4) by (auto simp: in_group_def not_less [symmetric])
  then have "sg_EndTime h \<le> sg_EndTime g"
    using assms(1) [unfolded sorted_wrt_iff_nth_less, rule_format, of i k] i(3) k by (cases "i = k") auto
  moreover have "window h" "window g" using assms(2,3) i(1,3) by auto
  ultimately have "sg_StartTime h \<le> t"
    using window_partition [of g h] window_nonempty [of h] assms(4) i(2) by (auto simp: in_group_def)
  with h i show ?thesis
    by (auto simp: ShardGroupAt_first_ending [OF assms(1)] first_ending_def in_group_def)
qed

lemma groups_for_covers:
  assumes "group_order_ok (pw_lib E)" and "pw_CreateShardGroup E db rp = create"
    and "\<forall>p\<in>set ps. pt_Time (pw_lib E) p \<le> limit"
    and "ok w" and "by_end_order l" and "\<forall>g\<in>set l. window g"
  shows "\<exists>l' w'. groups_for E db rp tmin ps l w = (Inr l', w') \<and> ok w' \<and> by_end_order l' \<and> (\<forall>g\<in>set l'. window g) \<and>
     set l \<subseteq> set l' \<and> (\<forall>p\<in>set ps. tmin \<le> pt_Time (pw_lib E) p \<longrightarrow> (\<exists>g\<in>set l'. in_group (pt_Time (pw_lib E) p) g))"
  using assms(3-)
proof (induction ps arbitrary: l w)
  case (Cons p ps)
  let ?t = "pt_Time (pw_lib E) p"
  consider "?t < tmin" | "tmin \<le> ?t" "Covers ?t l" | "tmin \<le> ?t" "\<not> Covers ?t l" by linarith
  then show ?case
  proof cases
    case 1
    with Cons.IH [of w l] Cons.prems show ?thesis by simp
  next
    case 2
    then obtain g where "ShardGroupAt ?t l = Some g" by (auto simp: Covers_def split: if_splits)
    with ShardGroupAt_in [OF Cons.prems(3)] have "g \<in> set l" "in_group ?t g" by blast+
    with 2 Cons.IH [of w l] Cons.prems show ?thesis by fastforce
  next
    case 3
    obtain g w' where g: "create ?t w = (Inr (Some g), w')" "ok w'" "window g" "in_group ?t g"
      using create_group [OF Cons.prems(2), of ?t] Cons.prems(1) by auto
    let ?l = "sgList_Append (pw_lib E) g l"
    have l: "by_end_order ?l" "set ?l = insert g (set l)"
      using Append_sorted [OF assms(1), of g l] window_untruncated g(3) Cons.prems(4) by auto
    then obtain l' w2 where "groups_for E db rp tmin ps ?l w' = (Inr l', w2)" "ok w2" "by_end_order l'"
      "\<forall>g\<in>set l'. window g" "set ?l \<subseteq> set l'"
      "\<forall>p\<in>set ps. tmin \<le> pt_Time (pw_lib E) p \<longrightarrow> (\<exists>g\<in>set l'. in_group (pt_Time (pw_lib E) p) g)"
      using Cons.IH [OF _ g(2) l(1)] Cons.prems(1,4) g(3) by auto
    with 3 g l(2) show ?thesis by (auto simp: assms(2) intro!: bexI [of _ g])
  qed
qed simp

end

section \<open>The store as a source\<close>

text \<open>
  The store hands out groups of the windows of the shard group duration, as long as all groups of
  the policy have been created with this duration and none was truncated.
\<close>

definition aligned :: "'x influx_lib \<Rightarrow> duration \<Rightarrow> ShardGroupInfo \<Rightarrow> bool" where
  "aligned L d g \<longleftrightarrow> 0 < d \<and> sg_TruncatedAt g = 0 \<and> sg_StartTime g < sg_EndTime g \<and>
     (sg_StartTime g, sg_EndTime g) = group_times L (sg_StartTime g) d"

definition policy_aligned :: "'x influx_lib \<Rightarrow> string \<Rightarrow> string \<Rightarrow> duration \<Rightarrow> 'x Client \<Rightarrow> bool" where
  "policy_aligned L db rp d c \<longleftrightarrow> availableNodes (cacheData c) \<noteq> [] \<and> 0 < d \<and>
     (case RetentionPolicy L (cMeta c) db rp of
        Inr (Some p) \<Rightarrow> 0 \<le> rp_ReplicaN (rp_get (cMeta c) p) \<and> rp_ShardGroupDuration (rp_get (cMeta c) p) = d \<and>
          list_all (aligned L d) (rp_ShardGroups (rp_get (cMeta c) p))
      | _ \<Rightarrow> False)"

lemma group_times_start:
  assumes "0 < d"
  shows "group_times L (fst (group_times L t d)) d = group_times L t d"
proof -
  have "time_Truncate (time_Truncate t d) d = time_Truncate t d"
    using assms by (simp add: time_Truncate_def minus_mod_eq_mult_div)
  then show ?thesis by (simp add: group_times_def Let_def)
qed

lemma new_group_aligned:
  assumes "0 < rp_ShardGroupDuration r" and "t \<le> time_Unix 0 (MaxNanoTime L)"
  shows "aligned L (rp_ShardGroupDuration r) (new_group L t d r)"
  using group_times_contains [OF assms] group_times_start [OF assms(1), of L t] assms(1)
  by (simp add: aligned_def new_group_def)

lemma lookups_index: "lookups_ok L M \<Longrightarrow> ShardGroupByTimestamp L r t = Some i \<Longrightarrow> i < length (rp_ShardGroups r)"
  by (auto simp: lookups_ok_def sg_lookup_ok_def)

lemma store_creates:
  assumes lib: "lookups_ok L M" "rp_lookup_ok L" "clone_ok L"
    and ok: "policy_aligned L db rp d c" and t: "t \<le> time_Unix 0 (MaxNanoTime L)"
  shows "\<exists>g c'. Client_CreateShardGroup L M db rp t c = (Inr (Some g), c') \<and> policy_aligned L db rp d c' \<and>
     aligned L d g \<and> in_group t g"
proof -
  from ok obtain p where p: "RetentionPolicy L (cMeta c) db rp = Inr (Some p)" "0 \<le> rp_ReplicaN (rp_get (cMeta c) p)"
    and d: "rp_ShardGroupDuration (rp_get (cMeta c) p) = d" "0 < d"
    and n: "availableNodes (cacheData c) \<noteq> []" and a: "list_all (aligned L d) (rp_ShardGroups (rp_get (cMeta c) p))"
    by (auto simp: policy_aligned_def split: sum.splits option.splits)
  show ?thesis
  proof (cases "ShardGroupByTimestamp L (rp_get (cMeta c) p) t")
    case (Some i)
    with a lookups_index [OF lib(1) Some] lookupsD(3) [OF lib(1) Some] ok CreateShardGroup_found [OF lib(1) p(1) Some]
    show ?thesis by (auto simp: in_group_def list_all_length)
  next
    case None
    let ?m = "add_group L t p (cacheData c)"
    let ?c = "snd (commit ((cacheData c)\<lparr>meta_Data := ?m\<rparr>) c)"
    obtain i where i: "ShardGroupByTimestamp L (rp_get ?m p) t = Some i"
      and res: "Client_CreateShardGroup L M db rp t c = (Inr (Some (rp_ShardGroups (rp_get ?m p) ! i)), ?c)"
      and lookup: "\<And>k. RetentionPolicy L (?m\<lparr>md_Index := k\<rparr>) db rp = Inr (Some p)"
      using CreateShardGroup_added [OF lib p(1) n p(2) _ t None] d by blast
    have get: "rp_get ?m p = (rp_get (cMeta c) p)\<lparr>rp_ShardGroups := go_sort (ShardGroupInfos_Less L)
        (rp_ShardGroups (rp_get (cMeta c) p) @ [new_group L t (cacheData c) (rp_get (cMeta c) p)])\<rparr>"
      using add_group_get rp_lookup_valid [OF lib(2) p(1)] by blast
    have all: "list_all (aligned L d) (rp_ShardGroups (rp_get ?m p))"
      using a new_group_aligned [of "rp_get (cMeta c) p" t L "cacheData c"] d t by (auto simp: get list_all_iff)
    then have "policy_aligned L db rp d ?c"
      using lookup n p(2) d get by (simp add: policy_aligned_def commit_eq availableNodes_def)
    with all res lookups_index [OF lib(1) i] lookupsD(3) [OF lib(1) i] show ?thesis
      by (auto simp: in_group_def list_all_length)
  qed
qed

definition store_source_ok :: "'x influx_lib \<Rightarrow> 'x meta_ops \<Rightarrow> string \<Rightarrow> string \<Rightarrow> duration \<Rightarrow> 'x Client \<Rightarrow> bool" where
  "store_source_ok L M db rp d c \<longleftrightarrow> lookups_ok L M \<and> rp_lookup_ok L \<and> clone_ok L \<and> policy_aligned L db rp d c"

interpretation store_groups: group_source "Client_CreateShardGroup L M db rp" "aligned L d" "store_source_ok L M db rp d"
    "time_Unix 0 (MaxNanoTime L)"
proof
  show "\<exists>g c'. Client_CreateShardGroup L M db rp t c = (Inr (Some g), c') \<and> store_source_ok L M db rp d c' \<and>
      aligned L d g \<and> in_group t g"
    if "store_source_ok L M db rp d c" and "t \<le> time_Unix 0 (MaxNanoTime L)" for c t
    using store_creates [of L M db rp d c t] that by (simp add: store_source_ok_def)
  show "(sg_StartTime g = sg_StartTime h \<and> sg_EndTime g = sg_EndTime h) \<or>
      sg_EndTime g \<le> sg_StartTime h \<or> sg_EndTime h \<le> sg_StartTime g"
    if "aligned L d g" and "aligned L d h" for g h
    using that group_times_partition [of d L "sg_StartTime g" "sg_StartTime h"]
    unfolding aligned_def by (metis fst_conv snd_conv)
qed (simp_all add: aligned_def)


text \<open>
  An instance: a point is its time and its hash; the shard for a hash is the one at the position
  of the hash modulo the number of shards.
\<close>

definition plain_points :: "(int \<times> u64) points_lib" where
  "plain_points =
     \<lparr>pt_Time = fst, pt_HashID = snd, sg_ShardFor = (\<lambda>g h. sg_Shards g ! (unat h mod length (sg_Shards g))),
      sgi_Less = by_end, MinNanoTime = - unix_epoch\<rparr>"

definition store_env :: "(unit Client, int \<times> u64) pw_env" where
  "store_env =
     \<lparr>pw_lib = plain_points, pw_NodeID = 1,
      pw_Database = (\<lambda>db c. find (\<lambda>d. db_Name d = db) (md_Databases (cMeta c))),
      pw_RetentionPolicy = (\<lambda>db rp c. map_sum id (map_option (rp_get (cMeta c))) (RetentionPolicy simple_lib (cMeta c) db rp)),
      pw_CreateShardGroup = Client_CreateShardGroup simple_lib simple_ops,
      pw_CreateShard = (\<lambda>_ _ _ _ w. (None, w)), pw_WriteToShard = (\<lambda>_ _ w. (None, w)),
      pw_WriteShard = (\<lambda>_ _ _ w. (None, w)), pw_HintedHandoff = (\<lambda>_ _ _ w. (None, w)), pw_Error = (\<lambda>_. [])\<rparr>"

lemma plain_points_ok: "group_order_ok plain_points"
  by (simp add: group_order_ok_def plain_points_def)


definition widened_client :: "unit Client" where
  "widened_client =
     example_client\<lparr>cacheData := example_data\<lparr>meta_Data := rp_set (0, 0)
       ((rp_get example_meta (0, 0))\<lparr>rp_ShardGroupDuration := 400\<rparr>) example_meta\<rparr>\<rparr>"


end
