(* ===== verification/PointsAck.thy ===== *)
theory PointsAck
  imports PointsMapping
begin

text \<open>
  What success of a write means: no point was dropped and the points of each shard are on as many
  owners of the shard as the consistency level requires. What a node holds is a predicate on the
  world; the laws below are what the writers of the three interfaces promise.
\<close>

section \<open>The writers\<close>

text \<open>
  \<open>has w n i ps\<close>: node \<open>n\<close> has the points \<open>ps\<close> in shard \<open>i\<close>; \<open>hinted w n i ps\<close>: they are queued for it.
  A writer that reports success has stored the points, and nothing written is lost.
\<close>

definition keeps :: "('w \<Rightarrow> u64 \<Rightarrow> u64 \<Rightarrow> 'p list \<Rightarrow> bool) \<Rightarrow> ('w \<Rightarrow> 'e \<times> 'w) \<Rightarrow> bool" where
  "keeps has f \<longleftrightarrow> (\<forall>w n i ps. has w n i ps \<longrightarrow> has (snd (f w)) n i ps)"

definition writers_ok ::
  "('w, 'p) pw_env \<Rightarrow> ('w \<Rightarrow> u64 \<Rightarrow> u64 \<Rightarrow> 'p list \<Rightarrow> bool) \<Rightarrow> ('w \<Rightarrow> u64 \<Rightarrow> u64 \<Rightarrow> 'p list \<Rightarrow> bool) \<Rightarrow> bool" where
  "writers_ok E has hinted \<longleftrightarrow>
     (\<forall>h\<in>{has, hinted}.
        (\<forall>db rp i b. keeps h (pw_CreateShard E db rp i b)) \<and> (\<forall>i ps. keeps h (pw_WriteToShard E i ps)) \<and>
        (\<forall>i n ps. keeps h (pw_WriteShard E i n ps)) \<and> (\<forall>i n ps. keeps h (pw_HintedHandoff E i n ps))) \<and>
     (\<forall>i ps w w'. pw_WriteToShard E i ps w = (None, w') \<longrightarrow> has w' (pw_NodeID E) i ps) \<and>
     (\<forall>i n ps w w'. pw_WriteShard E i n ps w = (None, w') \<longrightarrow> has w' n i ps) \<and>
     (\<forall>i n ps w w'. pw_HintedHandoff E i n ps w = (None, w') \<longrightarrow> hinted w' n i ps)"

text \<open>A hint counts for the level \<^verbatim>\<open>ANY\<close> only.\<close>

definition counts ::
  "('w \<Rightarrow> u64 \<Rightarrow> u64 \<Rightarrow> 'p list \<Rightarrow> bool) \<Rightarrow> ('w \<Rightarrow> u64 \<Rightarrow> u64 \<Rightarrow> 'p list \<Rightarrow> bool) \<Rightarrow> ConsistencyLevel
    \<Rightarrow> 'w \<Rightarrow> u64 \<Rightarrow> u64 \<Rightarrow> 'p list \<Rightarrow> bool" where
  "counts has hinted level w n i ps \<longleftrightarrow> has w n i ps \<or> (level = ConsistencyLevelAny \<and> hinted w n i ps)"

lemma writers_keep:
  assumes "writers_ok E has hinted"
  shows "keeps (counts has hinted level) (pw_CreateShard E db rp i b)"
    and "keeps (counts has hinted level) (pw_WriteToShard E i ps)"
    and "keeps (counts has hinted level) (pw_WriteShard E i n ps)"
    and "keeps (counts has hinted level) (pw_HintedHandoff E i n ps)"
  using assms by (auto simp: writers_ok_def keeps_def counts_def)

lemma writers_store:
  assumes "writers_ok E has hinted"
  shows "pw_WriteToShard E i ps w = (None, w') \<Longrightarrow> counts has hinted level w' (pw_NodeID E) i ps"
    and "pw_WriteShard E i n ps w = (None, w') \<Longrightarrow> counts has hinted level w' n i ps"
    and "pw_HintedHandoff E i n ps w = (None, w') \<Longrightarrow> counts has hinted ConsistencyLevelAny w' n i ps"
  using assms by (auto simp: writers_ok_def counts_def)

lemma keepsD: "keeps h f \<Longrightarrow> f w = (e, w') \<Longrightarrow> h w n i ps \<Longrightarrow> h w' n i ps"
  unfolding keeps_def by (metis snd_conv)

section \<open>One owner\<close>

lemma on_world_eq: "on_world f pw = (fst (f (pw_world pw)), pw\<lparr>pw_world := snd (f (pw_world pw))\<rparr>)"
  by (simp add: on_world_def split: prod.splits)

lemma upd_stats_world [simp]: "pw_world (upd_stats f pw) = pw_world pw"
  by (simp add: upd_stats_def)

lemma local_write_counts:
  assumes ok: "writers_ok E has hinted" and res: "local_write E db rp i ps pw = (e, pw')"
  shows "counts has hinted level (pw_world pw) n j qs \<Longrightarrow> counts has hinted level (pw_world pw') n j qs"
    and "e = None \<Longrightarrow> counts has hinted level (pw_world pw') (pw_NodeID E) i ps"
proof -
  note keep = writers_keep(1,2) [OF ok, of level, THEN keepsD]
  note store = writers_store(1) [OF ok, of i ps _ _ level]
  show "counts has hinted level (pw_world pw) n j qs \<Longrightarrow> counts has hinted level (pw_world pw') n j qs"
    using res
    by (auto simp: local_write_def Let_def on_world_def split: prod.splits option.splits if_splits; blast intro: keep)
  show "e = None \<Longrightarrow> counts has hinted level (pw_world pw') (pw_NodeID E) i ps"
    using res
    by (auto simp: local_write_def Let_def on_world_def split: prod.splits option.splits if_splits; blast intro: store)
qed

lemma remote_write_counts:
  assumes ok: "writers_ok E has hinted" and res: "remote_write E level i m ps pw = (e, pw')"
  shows "counts has hinted level (pw_world pw) n j qs \<Longrightarrow> counts has hinted level (pw_world pw') n j qs"
    and "e = None \<Longrightarrow> counts has hinted level (pw_world pw') m i ps"
proof -
  note keep = writers_keep(3,4) [OF ok, THEN keepsD]
  note store = writers_store(2,3) [OF ok]
  show "counts has hinted level (pw_world pw) n j qs \<Longrightarrow> counts has hinted level (pw_world pw') n j qs"
    using res
    by (auto simp: remote_write_def Let_def on_world_def split: prod.splits option.splits if_splits; blast intro: keep)
  show "e = None \<Longrightarrow> counts has hinted level (pw_world pw') m i ps"
    using res
    by (auto simp: remote_write_def Let_def on_world_def split: prod.splits option.splits if_splits; blast intro: store)
qed

lemma write_owner_counts:
  assumes ok: "writers_ok E has hinted" and res: "write_owner E db rp level i ps ow pw = (e, pw')"
  shows "counts has hinted level (pw_world pw) n j qs \<Longrightarrow> counts has hinted level (pw_world pw') n j qs"
    and "e = None \<Longrightarrow> counts has hinted level (pw_world pw') (so_NodeID ow) i ps"
  using local_write_counts [OF ok, of db rp i ps pw e pw' level] remote_write_counts [OF ok, of level i "so_NodeID ow" ps pw e pw'] res
  by (auto simp: write_owner_def split: if_splits)

section \<open>One shard\<close>

lemma write_owners_counts:
  assumes ok: "writers_ok E has hinted" and "write_owners E db rp level i ps ows pw = (es, pw')"
  shows "(counts has hinted level (pw_world pw) n j qs \<longrightarrow> counts has hinted level (pw_world pw') n j qs) \<and>
     length (filter (\<lambda>e. e = None) es) \<le> length (filter (\<lambda>ow. counts has hinted level (pw_world pw') (so_NodeID ow) i ps) ows)"
  using assms(2)
proof (induction ows arbitrary: pw es n j qs)
  case (Cons ow ows)
  obtain e pw1 where 1: "write_owner E db rp level i ps ow pw = (e, pw1)" by (cases "write_owner E db rp level i ps ow pw")
  obtain es2 pw2 where 2: "write_owners E db rp level i ps ows pw1 = (es2, pw2)"
    by (cases "write_owners E db rp level i ps ows pw1")
  have eq: "es = e # es2" "pw' = pw2" using Cons.prems by (simp_all add: 1 2)
  note IH = Cons.IH [OF 2 [folded eq(2)]]
  have keep: "counts has hinted level (pw_world pw) n j qs \<Longrightarrow> counts has hinted level (pw_world pw') n j qs"
    using IH write_owner_counts(1) [OF ok 1] by blast
  have "e = None \<Longrightarrow> counts has hinted level (pw_world pw') (so_NodeID ow) i ps"
    using IH write_owner_counts(2) [OF ok 1] by blast
  with keep IH show ?case by (auto simp: eq(1) intro: le_SucI)
qed simp

lemma await_owners_ok:
  "await_owners f req evs wrote werr s = (None, s') \<Longrightarrow> req \<le> wrote + length (filter (\<lambda>e. e = Inl None) evs)"
  by (induction f req evs wrote werr s rule: await_owners.induct) (auto split: if_splits option.splits)

lemma wait_events_count: "length (filter (\<lambda>e. e = Inl x) (wait_events early rs)) \<le> length (filter (\<lambda>e. e = x) rs)"
proof -
  have "length (filter (\<lambda>e. e = x) (take k rs)) \<le> length (filter (\<lambda>e. e = x) rs)" for k
    by (metis append_take_drop_id filter_append length_append le_add1)
  then show ?thesis by (auto simp: wait_events_def comp_def filter_map split: option.splits)
qed

lemma filter_mset_length: "mset xs = mset ys \<Longrightarrow> length (filter P xs) = length (filter P ys)"
  by (metis mset_filter size_mset)

lemma writeToShard_counts:
  assumes ok: "writers_ok E has hinted" and res: "writeToShard E order early sh db rp level ps pw = (e, pw')"
  shows "counts has hinted level (pw_world pw) n j qs \<Longrightarrow> counts has hinted level (pw_world pw') n j qs"
    and "e = None \<Longrightarrow> mset order = mset (si_Owners sh) \<Longrightarrow>
      required_writes level (length (si_Owners sh)) \<le>
        length (filter (\<lambda>ow. counts has hinted level (pw_world pw') (so_NodeID ow) (si_ID sh) ps) (si_Owners sh))"
proof -
  obtain es pw1 where 1: "write_owners E db rp level (si_ID sh) ps order pw = (es, pw1)"
    by (cases "write_owners E db rp level (si_ID sh) ps order pw")
  obtain e2 s where 2: "await_owners (pw_Error E) (required_writes level (length (si_Owners sh))) (wait_events early es) 0 None
      (pw_stats pw1) = (e2, s)" by fastforce
  have eq: "e = e2" "pw_world pw' = pw_world pw1" using res by (auto simp: writeToShard_def 1 2)
  show "counts has hinted level (pw_world pw) n j qs \<Longrightarrow> counts has hinted level (pw_world pw') n j qs"
    using write_owners_counts [OF ok 1] by (simp add: eq)
  show "required_writes level (length (si_Owners sh)) \<le>
        length (filter (\<lambda>ow. counts has hinted level (pw_world pw') (so_NodeID ow) (si_ID sh) ps) (si_Owners sh))"
    if "e = None" and perm: "mset order = mset (si_Owners sh)"
  proof -
    have "required_writes level (length (si_Owners sh)) \<le> length (filter (\<lambda>e. e = Inl None) (wait_events early es))"
      using await_owners_ok 2 that(1) eq(1) by fastforce
    also have "\<dots> \<le> length (filter (\<lambda>e. e = None) es)" by (rule wait_events_count)
    also have "\<dots> \<le> length (filter (\<lambda>ow. counts has hinted level (pw_world pw1) (so_NodeID ow) (si_ID sh) ps) order)"
      using write_owners_counts [OF ok 1] by blast
    finally show ?thesis unfolding eq(2) filter_mset_length [OF perm] .
  qed
qed

section \<open>The whole request\<close>

text \<open>The orders of a schedule are orders of the shards of the mapping and of their owners.\<close>

definition schedule_ok :: "schedule \<Rightarrow> 'p ShardMapping \<Rightarrow> bool" where
  "schedule_ok sc m \<longleftrightarrow> mset (sc_shards sc) = mset (sm_IDs m) \<and>
     list_all (\<lambda>i. case sm_Shards m i of Some sh \<Rightarrow> mset (sc_owners sc i) = mset (si_Owners sh) | None \<Rightarrow> True) (sm_IDs m)"

definition enough ::
  "('w \<Rightarrow> u64 \<Rightarrow> u64 \<Rightarrow> 'p list \<Rightarrow> bool) \<Rightarrow> ('w \<Rightarrow> u64 \<Rightarrow> u64 \<Rightarrow> 'p list \<Rightarrow> bool) \<Rightarrow> ConsistencyLevel
    \<Rightarrow> 'w \<Rightarrow> 'p ShardMapping \<Rightarrow> ShardInfo \<Rightarrow> bool" where
  "enough has hinted level w m sh \<longleftrightarrow> required_writes level (length (si_Owners sh)) \<le>
     length (filter (\<lambda>ow. counts has hinted level w (so_NodeID ow) (si_ID sh) (points_of m (si_ID sh))) (si_Owners sh))"

lemma enough_mono:
  assumes "enough has hinted level w m sh"
    and "\<And>n j qs. counts has hinted level w n j qs \<Longrightarrow> counts has hinted level w' n j qs"
  shows "enough has hinted level w' m sh"
proof -
  have "length (filter P xs) \<le> length (filter Q xs)" if "\<And>x. P x \<Longrightarrow> Q x" for P Q and xs :: "ShardOwner list"
    using that by (induction xs) auto
  then show ?thesis using assms unfolding enough_def by (meson order_trans)
qed

lemma write_shard_counts:
  assumes ok: "writers_ok E has hinted" and m: "sm_ok m" and res: "write_shard E sc db rp level m i pw = (e, pw')"
  shows "counts has hinted level (pw_world pw) n j qs \<Longrightarrow> counts has hinted level (pw_world pw') n j qs"
    and "e = None \<Longrightarrow> sm_Shards m i = Some sh \<Longrightarrow> mset (sc_owners sc i) = mset (si_Owners sh) \<Longrightarrow>
      enough has hinted level (pw_world pw') m sh"
proof -
  show "counts has hinted level (pw_world pw) n j qs \<Longrightarrow> counts has hinted level (pw_world pw') n j qs"
    using res writeToShard_counts(1) [OF ok] by (auto simp: write_shard_def split: option.splits prod.splits)
  show "enough has hinted level (pw_world pw') m sh"
    if none: "e = None" and sh: "sm_Shards m i = Some sh" and perm: "mset (sc_owners sc i) = mset (si_Owners sh)"
  proof -
    have id: "si_ID sh = i" using m sh by (simp add: sm_ok_def)
    have "i \<in> dom (sm_Points m)" using m sh unfolding sm_ok_def by blast
    then obtain ps where ps: "sm_Points m i = Some ps" by blast
    have "writeToShard E (sc_owners sc i) (sc_early sc i) sh db rp level ps pw = (None, pw')"
      using res none by (auto simp: write_shard_def sh ps split: prod.splits if_splits)
    from writeToShard_counts(2) [OF ok this HOL.refl perm] show ?thesis
      by (simp add: enough_def id points_of_def ps)
  qed
qed

lemma write_shards_counts:
  assumes ok: "writers_ok E has hinted" and m: "sm_ok m"
    and "write_shards E sc db rp level m ids pw = (es, pw')"
  shows "(\<forall>n j qs. counts has hinted level (pw_world pw) n j qs \<longrightarrow> counts has hinted level (pw_world pw') n j qs) \<and>
     (list_all (\<lambda>e. e = None) es \<longrightarrow> (\<forall>i\<in>set ids. \<forall>sh. sm_Shards m i = Some sh \<longrightarrow>
        mset (sc_owners sc i) = mset (si_Owners sh) \<longrightarrow> enough has hinted level (pw_world pw') m sh))"
  using assms(3)
proof (induction ids arbitrary: pw es)
  case (Cons i ids)
  obtain e pw1 where 1: "write_shard E sc db rp level m i pw = (e, pw1)" by (cases "write_shard E sc db rp level m i pw")
  obtain es2 pw2 where 2: "write_shards E sc db rp level m ids pw1 = (es2, pw2)"
    by (cases "write_shards E sc db rp level m ids pw1")
  have eq: "es = e # es2" "pw' = pw2" using Cons.prems by (simp_all add: 1 2)
  note IH = Cons.IH [OF 2 [folded eq(2)]]
  have "enough has hinted level (pw_world pw') m sh"
    if "e = None" "sm_Shards m i = Some sh" "mset (sc_owners sc i) = mset (si_Owners sh)" for sh
    using write_shard_counts(2) [OF ok m 1 that] IH enough_mono [of has hinted level "pw_world pw1" m sh] by blast
  with IH write_shard_counts(1) [OF ok m 1] show ?case by (auto simp: eq(1))
qed simp

lemma await_shards_ok:
  "await_shards evs err s = (None, s') \<Longrightarrow> err = None \<and> list_all (\<lambda>e. e = Inl None) evs"
  by (induction evs err s rule: await_shards.induct) auto

lemma wait_events_all: "list_all (\<lambda>e. e = Inl x) (wait_events early rs) \<Longrightarrow> list_all (\<lambda>e. e = x) rs"
  by (cases early; cases "the early"; cases "fst (the early) < length rs")
    (simp_all add: wait_events_def list.pred_map comp_def)

lemma MapShards_world:
  "pw_world pw = pw_world pw2 \<Longrightarrow> fst (MapShards E now wp pw) = fst (MapShards E now wp pw2)"
  by (simp add: MapShards_def Let_def split: sum.splits option.splits prod.splits)

lemma send_subs_world [simp]: "pw_world (send_subs r pw) = pw_world pw"
  by (simp add: send_subs_def Let_def)


text \<open>
  \<^verbatim>\<open>writeToShard\<close> wraps the errors of the writers, so its caller never sees \<^verbatim>\<open>tsdb.ErrShardDeletion\<close> and
  the partial write error for a shard that is being deleted is never reported.
\<close>

lemma await_owners_no_deletion: "fst (await_owners f req evs wrote werr s) \<noteq> Some ErrShardDeletion"
  by (induction f req evs wrote werr s rule: await_owners.induct) (simp_all add: ErrShardDeletion_def split: option.splits)

lemma shard_deletion_unreported: "fst (writeToShard E order early sh db rp level ps pw) \<noteq> Some ErrShardDeletion"
  using await_owners_no_deletion by (simp add: writeToShard_def split: prod.splits) (metis fst_conv)

text \<open>A cluster of nodes that keep a log of what is written to them; node 3 does not answer.\<close>

record log_world =
  lw_stored :: "(u64 \<times> u64 \<times> (int \<times> u64) list) list"
  lw_hints :: "(u64 \<times> u64 \<times> (int \<times> u64) list) list"

definition log_env :: "(log_world, int \<times> u64) pw_env" where
  "log_env =
     \<lparr>pw_lib = plain_points, pw_NodeID = 1,
      pw_Database = (\<lambda>db w. find (\<lambda>d. db_Name d = db) (md_Databases example_meta)),
      pw_RetentionPolicy = (\<lambda>db rp w. Inr (Some (rp_get example_meta (0, 0)))),
      pw_CreateShardGroup = (\<lambda>db rp t w. (Inr (find (in_group t) (rp_ShardGroups (rp_get example_meta (0, 0)))), w)),
      pw_CreateShard = (\<lambda>_ _ _ _ w. (None, w)),
      pw_WriteToShard = (\<lambda>i ps w. (None, w\<lparr>lw_stored := (1, i, ps) # lw_stored w\<rparr>)),
      pw_WriteShard = (\<lambda>i n ps w. if n = 3 then (Some ErrTimeout, w) else (None, w\<lparr>lw_stored := (n, i, ps) # lw_stored w\<rparr>)),
      pw_HintedHandoff = (\<lambda>i n ps w. (None, w\<lparr>lw_hints := (n, i, ps) # lw_hints w\<rparr>)),
      pw_Error = (\<lambda>_. ''timeout'')\<rparr>"

definition log_has :: "log_world \<Rightarrow> u64 \<Rightarrow> u64 \<Rightarrow> (int \<times> u64) list \<Rightarrow> bool" where
  "log_has w n i ps \<longleftrightarrow> (n, i, ps) \<in> set (lw_stored w)"

definition log_hinted :: "log_world \<Rightarrow> u64 \<Rightarrow> u64 \<Rightarrow> (int \<times> u64) list \<Rightarrow> bool" where
  "log_hinted w n i ps \<longleftrightarrow> (n, i, ps) \<in> set (lw_hints w)"

lemma log_writers_ok: "writers_ok log_env log_has log_hinted"
  by (auto simp: writers_ok_def keeps_def log_env_def log_has_def log_hinted_def split: if_splits)

definition log_writer :: "(log_world, int \<times> u64) PointsWriter" where
  "log_writer = NewPointsWriter \<lparr>lw_stored = [], lw_hints = []\<rparr>"

definition log_schedule :: schedule where
  "log_schedule =
     \<lparr>sc_shards = [2, 1], sc_owners = (\<lambda>i. if i = 1 then [\<lparr>so_NodeID = 2\<rparr>, \<lparr>so_NodeID = 1\<rparr>] else [\<lparr>so_NodeID = 1\<rparr>]),
      sc_early = (\<lambda>_. None), sc_wait = None\<rparr>"

definition log_mapping :: "(int \<times> u64) ShardMapping" where
  "log_mapping = projr (fst (MapShards log_env 1000
     \<lparr>wr_Database = ''db'', wr_RetentionPolicy = ''rp'', wr_Points = [(150, 0), (160, 1), (170, 0)]\<rparr> log_writer))"

definition log_result :: "go_error option \<times> (log_world, int \<times> u64) PointsWriter" where
  "log_result = WritePointsPrivileged log_env 1000 log_schedule ''db'' [] ConsistencyLevelQuorum [(150, 0), (160, 1), (170, 0)] log_writer"


end
