(* ===== verification/GoJson.thy ===== *)
theory GoJson
  imports Prelude
begin

text \<open>
  What the sources use of \<^verbatim>\<open>encoding/json\<close> and \<^verbatim>\<open>encoding/base64\<close>: the tree of values that a struct is
  marshalled to, how a field is read back, and slices of bytes as base64 strings. The text of a tree
  is a pair of functions with the law that a printed tree is parsed back, as long as its strings
  are ASCII.
\<close>

section \<open>Base64\<close>

definition b64_alphabet :: string where
  "b64_alphabet = ''ABCDEFGHIJKLMNOPQRSTUVWXYZabcdefghijklmnopqrstuvwxyz0123456789+/''"

definition b64_char :: "nat \<Rightarrow> char" where
  "b64_char n = b64_alphabet ! n"

fun position :: "'a \<Rightarrow> 'a list \<Rightarrow> nat option" where
  "position x [] = None"
| "position x (y # ys) = (if x = y then Some 0 else map_option Suc (position x ys))"

definition b64_val :: "char \<Rightarrow> nat option" where
  "b64_val c = position c b64_alphabet"

fun b64_encode :: "byte list \<Rightarrow> string" where
  "b64_encode [] = []"
| "b64_encode [a] = [b64_char (unat a div 4), b64_char (unat a mod 4 * 16), CHR ''='', CHR ''='']"
| "b64_encode [a, b] =
     [b64_char (unat a div 4), b64_char (unat a mod 4 * 16 + unat b div 16), b64_char (unat b mod 16 * 4), CHR ''='']"
| "b64_encode (a # b # c # bs) =
     b64_char (unat a div 4) # b64_char (unat a mod 4 * 16 + unat b div 16) # b64_char (unat b mod 16 * 4 + unat c div 64) #
     b64_char (unat c mod 64) # b64_encode bs"

fun b64_decode :: "string \<Rightarrow> byte list option" where
  "b64_decode [] = Some []"
| "b64_decode (p # q # r # s # cs) =
     (case (b64_val p, b64_val q) of
        (Some i, Some j) \<Rightarrow>
          let a = of_nat (i * 4 + j div 16)
          in (case (b64_val r, b64_val s) of
                (Some k, Some l) \<Rightarrow>
                  map_option (\<lambda>bs. a # of_nat (j mod 16 * 16 + k div 4) # of_nat (k mod 4 * 64 + l) # bs) (b64_decode cs)
              | (Some k, None) \<Rightarrow>
                  if s = CHR ''='' \<and> cs = [] then Some [a, of_nat (j mod 16 * 16 + k div 4)] else None
              | (None, _) \<Rightarrow> if r = CHR ''='' \<and> s = CHR ''='' \<and> cs = [] then Some [a] else None)
      | _ \<Rightarrow> None)"
| "b64_decode cs = None"

lemma b64_val_char: "n < 64 \<Longrightarrow> b64_val (b64_char n) = Some n"
proof -
  have "list_all (\<lambda>n. b64_val (b64_char n) = Some n) [0..<64]" by code_simp
  then show "n < 64 \<Longrightarrow> b64_val (b64_char n) = Some n" by (simp add: list_all_iff)
qed

lemma b64_pad: "b64_val (CHR ''='') = None"
  by code_simp

lemma byte_less: "unat (a :: byte) < 256"
  by (rule unsigned_less [THEN less_le_trans]) simp

lemma byte_parts:
  fixes a b c :: byte
  shows "unat a div 4 < 64" "unat a mod 4 * 16 + unat b div 16 < 64" "unat b mod 16 * 4 + unat c div 64 < 64"
    "unat a mod 4 * 16 < 64" "unat b mod 16 * 4 < 64"
  using byte_less [of a] byte_less [of b] byte_less [of c] by linarith+

lemma byte_join:
  fixes a b c :: byte
  shows "unat b div 16 div 16 = 0" "unat b div 16 mod 16 = unat b div 16"
    and "unat c div 64 div 4 = 0" "unat c div 64 mod 4 = unat c div 64"
    and "of_nat (unat a div 4) * 4 + of_nat (unat a mod 4) = a"
    and "of_nat (unat b div 16) * 16 + of_nat (unat b mod 16) = b"
    and "of_nat (unat c div 64) * 64 + of_nat (unat c mod 64) = c"
proof -
  show "unat b div 16 div 16 = 0" "unat b div 16 mod 16 = unat b div 16"
    "unat c div 64 div 4 = 0" "unat c div 64 mod 4 = unat c div 64"
    using byte_less [of b] byte_less [of c] by (simp_all add: div_mult2_eq [symmetric] less_mult_imp_div_less)
  have "of_nat (unat w div k) * of_nat k + of_nat (unat w mod k) = w" for w :: byte and k
    by (simp flip: of_nat_mult of_nat_add)
  from this [of a 4] this [of b 16] this [of c 64]
  show "of_nat (unat a div 4) * 4 + of_nat (unat a mod 4) = a" "of_nat (unat b div 16) * 16 + of_nat (unat b mod 16) = b"
    "of_nat (unat c div 64) * 64 + of_nat (unat c mod 64) = c"
    by simp_all
qed

lemma b64_roundtrip: "b64_decode (b64_encode bs) = Some bs"
  by (induction bs rule: b64_encode.induct) (simp_all add: b64_val_char b64_pad byte_parts byte_join)

section \<open>Values\<close>

datatype json = JNull | JBool bool | JNum int | JStr string | JArr "json list" | JObj "(string \<times> json) list"

definition ascii :: "string \<Rightarrow> bool" where
  "ascii s = list_all (\<lambda>c. of_char c < (128 :: nat)) s"

fun ascii_json :: "json \<Rightarrow> bool" where
  "ascii_json (JStr s) = ascii s"
| "ascii_json (JArr js) = list_all ascii_json js"
| "ascii_json (JObj kvs) = list_all (\<lambda>kv. ascii (fst kv) \<and> ascii_json (snd kv)) kvs"
| "ascii_json _ = True"

text \<open>The text of a tree: \<^verbatim>\<open>json.Marshal\<close> prints it and \<^verbatim>\<open>json.Unmarshal\<close> parses it.\<close>

record json_text =
  js_print :: "json \<Rightarrow> byte list"
  js_parse :: "byte list \<Rightarrow> go_error + json"

definition js_ok :: "json_text \<Rightarrow> bool" where
  "js_ok T \<longleftrightarrow> (\<forall>j. ascii_json j \<longrightarrow> js_parse T (js_print T j) = Inr j)"

section \<open>Results\<close>

definition and_then :: "go_error + 'a \<Rightarrow> ('a \<Rightarrow> go_error + 'b) \<Rightarrow> go_error + 'b" where
  "and_then x f = (case x of Inl e \<Rightarrow> Inl e | Inr a \<Rightarrow> f a)"

lemma and_then_simps [simp]: "and_then (Inl e) f = Inl e" "and_then (Inr a) f = f a"
  by (simp_all add: and_then_def)

fun all_results :: "('a \<Rightarrow> go_error + 'b) \<Rightarrow> 'a list \<Rightarrow> go_error + 'b list" where
  "all_results f [] = Inr []"
| "all_results f (x # xs) = and_then (f x) (\<lambda>y. and_then (all_results f xs) (\<lambda>ys. Inr (y # ys)))"

lemma all_results_map: "(\<And>x. x \<in> set xs \<Longrightarrow> f (g x) = Inr x) \<Longrightarrow> all_results f (map g xs) = Inr xs"
  by (induction xs) auto

section \<open>Fields\<close>

text \<open>
  Reading a value into a Go variable: \<^verbatim>\<open>null\<close> and a missing field leave the zero value. A slice that
  is nil or empty is the empty list, and is written as \<^verbatim>\<open>null\<close>.
\<close>

definition type_error :: go_error where
  "type_error = LibErr ''json: cannot unmarshal''"

fun as_string :: "json \<Rightarrow> go_error + string" where
  "as_string JNull = Inr []"
| "as_string (JStr s) = Inr s"
| "as_string _ = Inl type_error"

fun as_int :: "json \<Rightarrow> go_error + int" where
  "as_int JNull = Inr 0"
| "as_int (JNum n) = Inr n"
| "as_int _ = Inl type_error"

fun as_bool :: "json \<Rightarrow> go_error + bool" where
  "as_bool JNull = Inr False"
| "as_bool (JBool b) = Inr b"
| "as_bool _ = Inl type_error"

fun as_bytes :: "json \<Rightarrow> go_error + byte list" where
  "as_bytes JNull = Inr []"
| "as_bytes (JStr s) = (case b64_decode s of Some bs \<Rightarrow> Inr bs | None \<Rightarrow> Inl (LibErr ''illegal base64 data''))"
| "as_bytes _ = Inl type_error"

fun as_list :: "(json \<Rightarrow> go_error + 'a) \<Rightarrow> json \<Rightarrow> go_error + 'a list" where
  "as_list f JNull = Inr []"
| "as_list f (JArr js) = all_results f js"
| "as_list f _ = Inl type_error"

fun as_map :: "(json \<Rightarrow> go_error + 'a) \<Rightarrow> json \<Rightarrow> go_error + (string \<times> 'a) list" where
  "as_map f JNull = Inr []"
| "as_map f (JObj kvs) = all_results (\<lambda>kv. and_then (f (snd kv)) (\<lambda>v. Inr (fst kv, v))) kvs"
| "as_map f _ = Inl type_error"

definition as_u64 :: "json \<Rightarrow> go_error + u64" where
  "as_u64 j = and_then (as_int j) (\<lambda>n. if 0 \<le> n \<and> n < 2 ^ 64 then Inr (of_int n) else Inl type_error)"

definition of_bytes :: "byte list \<Rightarrow> json" where
  "of_bytes bs = (if bs = [] then JNull else JStr (b64_encode bs))"

definition of_list :: "('a \<Rightarrow> json) \<Rightarrow> 'a list \<Rightarrow> json" where
  "of_list f xs = (if xs = [] then JNull else JArr (map f xs))"

definition of_map :: "('a \<Rightarrow> json) \<Rightarrow> (string \<times> 'a) list \<Rightarrow> json" where
  "of_map f kvs = (if kvs = [] then JNull else JObj (map (\<lambda>kv. (fst kv, f (snd kv))) kvs))"

definition of_u64 :: "u64 \<Rightarrow> json" where
  "of_u64 w = JNum (uint w)"

fun object :: "json \<Rightarrow> go_error + (string \<Rightarrow> json)" where
  "object JNull = Inr (\<lambda>_. JNull)"
| "object (JObj kvs) = Inr (\<lambda>k. case map_of (rev kvs) k of Some v \<Rightarrow> v | None \<Rightarrow> JNull)"
| "object _ = Inl type_error"

lemma as_bytes_of [simp]: "as_bytes (of_bytes bs) = Inr bs"
  by (simp add: of_bytes_def b64_roundtrip)

lemma as_u64_of [simp]: "as_u64 (of_u64 w) = Inr w"
  using unsigned_less [of w, where ?'a = int] by (simp add: as_u64_def of_u64_def)

lemma as_list_of: "(\<And>x. x \<in> set xs \<Longrightarrow> f (g x) = Inr x) \<Longrightarrow> as_list f (of_list g xs) = Inr xs"
  by (simp add: of_list_def all_results_map)

lemma as_list_u64 [simp]: "as_list as_u64 (of_list of_u64 ids) = Inr ids"
  by (rule as_list_of) simp

lemma as_list_bytes [simp]: "as_list as_bytes (of_list of_bytes bss) = Inr bss"
  by (rule as_list_of) simp

lemma as_map_of: "(\<And>x. f (g x) = Inr x) \<Longrightarrow> as_map f (of_map g kvs) = Inr kvs"
  by (cases "kvs = []") (auto simp: of_map_def intro!: all_results_map)

lemma ascii_b64_char: "n < 64 \<Longrightarrow> of_char (b64_char n) < (128 :: nat)"
proof -
  have "list_all (\<lambda>n. of_char (b64_char n) < (128 :: nat)) [0..<64]" by code_simp
  then show "n < 64 \<Longrightarrow> of_char (b64_char n) < (128 :: nat)" by (simp add: list_all_iff)
qed

lemma ascii_b64_encode: "ascii (b64_encode bs)"
  by (induction bs rule: b64_encode.induct) (simp_all add: ascii_def ascii_b64_char byte_parts)

lemma ascii_values [simp]:
  "ascii_json (of_bytes bs)" "ascii_json (of_u64 w)" "ascii_json (of_list of_u64 ids)" "ascii_json (of_list of_bytes bss)"
  by (auto simp: of_bytes_def of_u64_def of_list_def ascii_b64_encode list_all_iff)

lemma ascii_Nil [simp]: "ascii []"
  by (simp add: ascii_def)

lemma js_okD: "js_ok T \<Longrightarrow> ascii_json j \<Longrightarrow> js_parse T (js_print T j) = Inr j"
  by (simp add: js_ok_def)

end
