(* ===== verification/RemoteRpc.thy ===== *)
theory RemoteRpc
  imports GoJson
begin

text \<open>
  \<^verbatim>\<open>coordinator/rpc.go\<close>: the requests and responses between data nodes and their binary forms. The
  protobuf library, the generated message types, InfluxQL and the imported types with a binary form
  of their own are parameters; JSON is the tree of \<open>GoJson\<close>. Values of imported types that only travel
  as JSON (tag keys, tag values, iterator costs, query results) are their trees.
\<close>

section \<open>Imported types\<close>

record Measurement =
  m_Database :: string
  m_RetentionPolicy :: string
  m_Name :: string
  m_Regex :: "string option"
  m_IsTarget :: bool
  m_SystemIterator :: string

datatype Source = SourceMeasurement Measurement | SourceSubQuery string

type_synonym Sources = "Source list"

text \<open>The generated protobuf messages; optional fields are options.\<close>

record pbWriteShardRequest =
  pbw_ShardID :: "u64 option"
  pbw_Points :: "byte list list"
  pbw_Database :: "string option"
  pbw_RetentionPolicy :: "string option"

record pbWriteShardResponse =
  pr_Code :: "int option"
  pr_Message :: "string option"

record pbExecuteStatementRequest =
  ps_Statement :: "string option"
  ps_Database :: "string option"

record pbCreateIteratorRequest =
  pi_ShardIDs :: "u64 list"
  pi_Measurement :: "byte list"
  pi_Opt :: "byte list"
  pi_SpanContext :: "byte list option"

record pbFieldDimensionsRequest =
  pf_ShardIDs :: "u64 list"
  pf_Sources :: "byte list"

record pbFieldDimensionsResponse =
  pd_Fields :: "byte list"
  pd_Dimensions :: "string list"
  pd_Err :: "string option"

text \<open>A binary form: how a value is marshalled and unmarshalled.\<close>

type_synonym 'm bin = "('m \<Rightarrow> go_error + byte list) \<times> (byte list \<Rightarrow> go_error + 'm)"

definition bin_ok :: "'m bin \<Rightarrow> bool" where
  "bin_ok c \<longleftrightarrow> (\<forall>m b. fst c m = Inr b \<longrightarrow> snd c b = Inr m)"

record ('e, 'o, 'p) rpc_lib =
  rl_json :: json_text
  rl_Sources :: "Sources bin"
  rl_Options :: "'o bin"
  rl_Span :: "(u64 \<times> u64) bin"
  rl_Point :: "'p bin"
  rl_String :: "'e \<Rightarrow> string"
  rl_ParseExpr :: "string \<Rightarrow> go_error + 'e"
  rl_Compile :: "string \<Rightarrow> go_error + string"
  rl_WriteShardRequest :: "pbWriteShardRequest bin"
  rl_WriteShardResponse :: "pbWriteShardResponse bin"
  rl_ExecuteStatementRequest :: "pbExecuteStatementRequest bin"
  rl_CreateIteratorRequest :: "pbCreateIteratorRequest bin"
  rl_FieldDimensionsRequest :: "pbFieldDimensionsRequest bin"
  rl_FieldDimensionsResponse :: "pbFieldDimensionsResponse bin"
  rl_Error :: "go_error \<Rightarrow> string"

text \<open>What is documented of them: a binary form is read back.\<close>

definition rpc_lib_ok :: "('e, 'o, 'p) rpc_lib \<Rightarrow> bool" where
  "rpc_lib_ok R \<longleftrightarrow> js_ok (rl_json R) \<and> bin_ok (rl_Sources R) \<and> bin_ok (rl_Options R) \<and> bin_ok (rl_Span R) \<and> bin_ok (rl_Point R) \<and>
     bin_ok (rl_WriteShardRequest R) \<and> bin_ok (rl_WriteShardResponse R) \<and> bin_ok (rl_ExecuteStatementRequest R) \<and>
     bin_ok (rl_CreateIteratorRequest R) \<and> bin_ok (rl_FieldDimensionsRequest R) \<and> bin_ok (rl_FieldDimensionsResponse R)"

text \<open>\<^verbatim>\<open>json.Marshal\<close> of a struct and \<^verbatim>\<open>json.Unmarshal\<close> into one.\<close>

definition marshal_struct :: "('e, 'o, 'p) rpc_lib \<Rightarrow> (string \<times> json) list \<Rightarrow> go_error + byte list" where
  "marshal_struct R kvs = Inr (js_print (rl_json R) (JObj kvs))"

definition unmarshal_struct :: "('e, 'o, 'p) rpc_lib \<Rightarrow> byte list \<Rightarrow> go_error + (string \<Rightarrow> json)" where
  "unmarshal_struct R b = and_then (js_parse (rl_json R) b) object"

text \<open>A condition that is nil is the empty string.\<close>

definition cond_String :: "('e, 'o, 'p) rpc_lib \<Rightarrow> 'e option \<Rightarrow> string" where
  "cond_String R cond = (case cond of None \<Rightarrow> [] | Some e \<Rightarrow> rl_String R e)"

definition cond_Parse :: "('e, 'o, 'p) rpc_lib \<Rightarrow> string \<Rightarrow> go_error + 'e option" where
  "cond_Parse R s = (if s \<noteq> [] then and_then (rl_ParseExpr R s) (\<lambda>e. Inr (Some e)) else Inr None)"

text \<open>
  A condition that the parser made is printed as an ASCII text that parses back to it; a tree that
  was put together otherwise may lose its parentheses.
\<close>

definition cond_ok :: "('e, 'o, 'p) rpc_lib \<Rightarrow> 'e option \<Rightarrow> bool" where
  "cond_ok R cond \<longleftrightarrow> ascii (cond_String R cond) \<and> cond_Parse R (cond_String R cond) = Inr cond"

section \<open>Writing a shard\<close>

definition SetShardID :: "u64 \<Rightarrow> pbWriteShardRequest \<Rightarrow> pbWriteShardRequest" where
  "SetShardID i w = w\<lparr>pbw_ShardID := Some i\<rparr>"

definition ws_ShardID :: "pbWriteShardRequest \<Rightarrow> u64" where
  "ws_ShardID w = (case pbw_ShardID w of Some i \<Rightarrow> i | None \<Rightarrow> 0)"

definition ws_SetDatabase :: "string \<Rightarrow> pbWriteShardRequest \<Rightarrow> pbWriteShardRequest" where
  "ws_SetDatabase db w = w\<lparr>pbw_Database := Some db\<rparr>"

definition ws_SetRetentionPolicy :: "string \<Rightarrow> pbWriteShardRequest \<Rightarrow> pbWriteShardRequest" where
  "ws_SetRetentionPolicy rp w = w\<lparr>pbw_RetentionPolicy := Some rp\<rparr>"

definition ws_Database :: "pbWriteShardRequest \<Rightarrow> string" where
  "ws_Database w = (case pbw_Database w of Some s \<Rightarrow> s | None \<Rightarrow> [])"

definition ws_RetentionPolicy :: "pbWriteShardRequest \<Rightarrow> string" where
  "ws_RetentionPolicy w = (case pbw_RetentionPolicy w of Some s \<Rightarrow> s | None \<Rightarrow> [])"

text \<open>A point that cannot be marshalled or unmarshalled is a panic.\<close>

fun AddPoints :: "('e, 'o, 'p) rpc_lib \<Rightarrow> 'p list \<Rightarrow> pbWriteShardRequest \<Rightarrow> go_error + pbWriteShardRequest" where
  "AddPoints R [] w = Inr w"
| "AddPoints R (p # ps) w =
     (case fst (rl_Point R) p of
        Inl e \<Rightarrow> Inl (Panic ''failed to marshal point'')
      | Inr b \<Rightarrow> AddPoints R ps (w\<lparr>pbw_Points := pbw_Points w @ [b]\<rparr>))"

definition unmarshalPoints :: "('e, 'o, 'p) rpc_lib \<Rightarrow> pbWriteShardRequest \<Rightarrow> go_error + 'p list" where
  "unmarshalPoints R w =
     all_results (\<lambda>b. case snd (rl_Point R) b of Inl e \<Rightarrow> Inl (Panic ''failed to parse point'') | Inr p \<Rightarrow> Inr p) (pbw_Points w)"

definition wsr_SetCode :: "int \<Rightarrow> pbWriteShardResponse \<Rightarrow> pbWriteShardResponse" where
  "wsr_SetCode code w = w\<lparr>pr_Code := Some code\<rparr>"

definition wsr_SetMessage :: "string \<Rightarrow> pbWriteShardResponse \<Rightarrow> pbWriteShardResponse" where
  "wsr_SetMessage m w = w\<lparr>pr_Message := Some m\<rparr>"

definition wsr_Code :: "pbWriteShardResponse \<Rightarrow> int" where
  "wsr_Code w = (case pr_Code w of Some c \<Rightarrow> c | None \<Rightarrow> 0)"

definition wsr_Message :: "pbWriteShardResponse \<Rightarrow> string" where
  "wsr_Message w = (case pr_Message w of Some m \<Rightarrow> m | None \<Rightarrow> [])"

section \<open>Statements\<close>

definition es_SetStatement :: "string \<Rightarrow> pbExecuteStatementRequest \<Rightarrow> pbExecuteStatementRequest" where
  "es_SetStatement s r = r\<lparr>ps_Statement := Some s\<rparr>"

definition es_SetDatabase :: "string \<Rightarrow> pbExecuteStatementRequest \<Rightarrow> pbExecuteStatementRequest" where
  "es_SetDatabase db r = r\<lparr>ps_Database := Some db\<rparr>"

definition es_Statement :: "pbExecuteStatementRequest \<Rightarrow> string" where
  "es_Statement r = (case ps_Statement r of Some s \<Rightarrow> s | None \<Rightarrow> [])"

definition es_Database :: "pbExecuteStatementRequest \<Rightarrow> string" where
  "es_Database r = (case ps_Database r of Some s \<Rightarrow> s | None \<Rightarrow> [])"

text \<open>
  The response of a task manager statement: the result is JSON inside JSON. When the outer text
  is not JSON, \<^verbatim>\<open>UnmarshalBinary\<close> returns no error and leaves the response empty.
\<close>

record TaskManagerStatementResponse =
  tm_Result :: json
  tm_Err :: string

definition tm_MarshalBinary :: "('e, 'o, 'p) rpc_lib \<Rightarrow> TaskManagerStatementResponse \<Rightarrow> go_error + byte list" where
  "tm_MarshalBinary R w =
     marshal_struct R [(''Result'', of_bytes (js_print (rl_json R) (tm_Result w))), (''Err'', JStr (tm_Err w))]"

definition tm_UnmarshalBinary :: "('e, 'o, 'p) rpc_lib \<Rightarrow> byte list \<Rightarrow> go_error + TaskManagerStatementResponse" where
  "tm_UnmarshalBinary R b =
     (case and_then (unmarshal_struct R b) (\<lambda>f. and_then (as_bytes (f ''Result'')) (\<lambda>r. and_then (as_string (f ''Err'')) (\<lambda>e. Inr (r, e)))) of
        Inl err \<Rightarrow> Inr \<lparr>tm_Result = JNull, tm_Err = []\<rparr>
      | Inr (r, e) \<Rightarrow> and_then (js_parse (rl_json R) r) (\<lambda>j. Inr \<lparr>tm_Result = j, tm_Err = e\<rparr>))"

section \<open>Types of fields\<close>

record MapTypeRequest =
  mt_Sources :: Sources
  mt_Field :: string
  mt_ShardIDs :: "u64 list"

definition mt_MarshalBinary :: "('e, 'o, 'p) rpc_lib \<Rightarrow> MapTypeRequest \<Rightarrow> go_error + byte list" where
  "mt_MarshalBinary R r =
     and_then (fst (rl_Sources R) (mt_Sources r)) (\<lambda>src.
       marshal_struct R [(''Sources'', of_bytes src), (''Field'', JStr (mt_Field r)), (''ShardIDs'', of_list of_u64 (mt_ShardIDs r))])"

definition mt_UnmarshalBinary :: "('e, 'o, 'p) rpc_lib \<Rightarrow> byte list \<Rightarrow> go_error + MapTypeRequest" where
  "mt_UnmarshalBinary R b =
     and_then (unmarshal_struct R b) (\<lambda>f.
     and_then (as_bytes (f ''Sources'')) (\<lambda>src.
     and_then (as_string (f ''Field'')) (\<lambda>field.
     and_then (as_list as_u64 (f ''ShardIDs'')) (\<lambda>ids.
     and_then (snd (rl_Sources R) src) (\<lambda>sources.
       Inr \<lparr>mt_Sources = sources, mt_Field = field, mt_ShardIDs = ids\<rparr>)))))"

record MapTypeResponse =
  mr_DataType :: int
  mr_Err :: string

definition mr_MarshalBinary :: "('e, 'o, 'p) rpc_lib \<Rightarrow> MapTypeResponse \<Rightarrow> go_error + byte list" where
  "mr_MarshalBinary R r = marshal_struct R [(''DataType'', JNum (mr_DataType r)), (''Err'', JStr (mr_Err r))]"

definition mr_UnmarshalBinary :: "('e, 'o, 'p) rpc_lib \<Rightarrow> byte list \<Rightarrow> go_error + MapTypeResponse" where
  "mr_UnmarshalBinary R b =
     and_then (unmarshal_struct R b) (\<lambda>f.
     and_then (as_int (f ''DataType'')) (\<lambda>t.
     and_then (as_string (f ''Err'')) (\<lambda>e. Inr \<lparr>mr_DataType = t, mr_Err = e\<rparr>)))"

section \<open>Costs of iterators\<close>

record 'o IteratorCostRequest =
  ic_Sources :: Sources
  ic_Opt :: 'o
  ic_ShardIDs :: "u64 list"

definition ic_MarshalBinary :: "('e, 'o, 'p) rpc_lib \<Rightarrow> 'o IteratorCostRequest \<Rightarrow> go_error + byte list" where
  "ic_MarshalBinary R r =
     and_then (fst (rl_Sources R) (ic_Sources r)) (\<lambda>src.
     and_then (fst (rl_Options R) (ic_Opt r)) (\<lambda>opt.
       marshal_struct R [(''Sources'', of_bytes src), (''Opt'', of_bytes opt), (''ShardIDs'', of_list of_u64 (ic_ShardIDs r))]))"

definition ic_UnmarshalBinary :: "('e, 'o, 'p) rpc_lib \<Rightarrow> byte list \<Rightarrow> go_error + 'o IteratorCostRequest" where
  "ic_UnmarshalBinary R b =
     and_then (unmarshal_struct R b) (\<lambda>f.
     and_then (as_bytes (f ''Sources'')) (\<lambda>src.
     and_then (as_bytes (f ''Opt'')) (\<lambda>opt.
     and_then (as_list as_u64 (f ''ShardIDs'')) (\<lambda>ids.
     and_then (snd (rl_Sources R) src) (\<lambda>sources.
     and_then (snd (rl_Options R) opt) (\<lambda>opt.
       Inr \<lparr>ic_Sources = sources, ic_Opt = opt, ic_ShardIDs = ids\<rparr>))))))"

record IteratorCostResponse =
  icr_Cost :: json
  icr_Err :: string

definition icr_MarshalBinary :: "('e, 'o, 'p) rpc_lib \<Rightarrow> IteratorCostResponse \<Rightarrow> go_error + byte list" where
  "icr_MarshalBinary R r = marshal_struct R [(''Cost'', icr_Cost r), (''Err'', JStr (icr_Err r))]"

definition icr_UnmarshalBinary :: "('e, 'o, 'p) rpc_lib \<Rightarrow> byte list \<Rightarrow> go_error + IteratorCostResponse" where
  "icr_UnmarshalBinary R b =
     and_then (unmarshal_struct R b) (\<lambda>f.
     and_then (as_string (f ''Err'')) (\<lambda>e. Inr \<lparr>icr_Cost = f ''Cost'', icr_Err = e\<rparr>))"

section \<open>Deleting\<close>

record DeleteMeasurementRequest =
  dm_Database :: string
  dm_Name :: string

definition dm_MarshalBinary :: "('e, 'o, 'p) rpc_lib \<Rightarrow> DeleteMeasurementRequest \<Rightarrow> go_error + byte list" where
  "dm_MarshalBinary R r = marshal_struct R [(''Database'', JStr (dm_Database r)), (''Name'', JStr (dm_Name r))]"

definition dm_UnmarshalBinary :: "('e, 'o, 'p) rpc_lib \<Rightarrow> byte list \<Rightarrow> go_error + DeleteMeasurementRequest" where
  "dm_UnmarshalBinary R b =
     and_then (unmarshal_struct R b) (\<lambda>f.
     and_then (as_string (f ''Database'')) (\<lambda>db.
     and_then (as_string (f ''Name'')) (\<lambda>name. Inr \<lparr>dm_Database = db, dm_Name = name\<rparr>)))"

text \<open>The responses that have only an error: of deleting a measurement, a database and series.\<close>

definition err_MarshalBinary :: "('e, 'o, 'p) rpc_lib \<Rightarrow> string \<Rightarrow> go_error + byte list" where
  "err_MarshalBinary R err = marshal_struct R [(''Err'', JStr err)]"

definition err_UnmarshalBinary :: "('e, 'o, 'p) rpc_lib \<Rightarrow> byte list \<Rightarrow> go_error + string" where
  "err_UnmarshalBinary R b = and_then (unmarshal_struct R b) (\<lambda>f. as_string (f ''Err''))"

text \<open>The requests that have only a database: deleting it and counting its series.\<close>

definition dbreq_MarshalBinary :: "('e, 'o, 'p) rpc_lib \<Rightarrow> string \<Rightarrow> go_error + byte list" where
  "dbreq_MarshalBinary R db = marshal_struct R [(''Database'', JStr db)]"

definition dbreq_UnmarshalBinary :: "('e, 'o, 'p) rpc_lib \<Rightarrow> byte list \<Rightarrow> go_error + string" where
  "dbreq_UnmarshalBinary R b = and_then (unmarshal_struct R b) (\<lambda>f. as_string (f ''Database''))"

record 'e DeleteSeriesRequest =
  ds_Database :: string
  ds_Sources :: Sources
  ds_Cond :: "'e option"

definition ds_MarshalBinary :: "('e, 'o, 'p) rpc_lib \<Rightarrow> 'e DeleteSeriesRequest \<Rightarrow> go_error + byte list" where
  "ds_MarshalBinary R r =
     and_then (fst (rl_Sources R) (ds_Sources r)) (\<lambda>src.
       marshal_struct R [(''Database'', JStr (ds_Database r)), (''Sources'', of_bytes src), (''Cond'', JStr (cond_String R (ds_Cond r)))])"

definition ds_UnmarshalBinary :: "('e, 'o, 'p) rpc_lib \<Rightarrow> byte list \<Rightarrow> go_error + 'e DeleteSeriesRequest" where
  "ds_UnmarshalBinary R b =
     and_then (unmarshal_struct R b) (\<lambda>f.
     and_then (as_string (f ''Database'')) (\<lambda>db.
     and_then (as_bytes (f ''Sources'')) (\<lambda>src.
     and_then (as_string (f ''Cond'')) (\<lambda>c.
     and_then (snd (rl_Sources R) src) (\<lambda>sources.
     and_then (cond_Parse R c) (\<lambda>cond.
       Inr \<lparr>ds_Database = db, ds_Sources = sources, ds_Cond = cond\<rparr>))))))"

section \<open>Series, measurements and tags\<close>

record SeriesCardinalityResponse =
  sr_N :: int
  sr_Err :: string

definition sr_MarshalBinary :: "('e, 'o, 'p) rpc_lib \<Rightarrow> SeriesCardinalityResponse \<Rightarrow> go_error + byte list" where
  "sr_MarshalBinary R r = marshal_struct R [(''N'', JNum (sr_N r)), (''Err'', JStr (sr_Err r))]"

definition sr_UnmarshalBinary :: "('e, 'o, 'p) rpc_lib \<Rightarrow> byte list \<Rightarrow> go_error + SeriesCardinalityResponse" where
  "sr_UnmarshalBinary R b =
     and_then (unmarshal_struct R b) (\<lambda>f.
     and_then (as_int (f ''N'')) (\<lambda>n.
     and_then (as_string (f ''Err'')) (\<lambda>e. Inr \<lparr>sr_N = n, sr_Err = e\<rparr>)))"

record 'e MeasurementNamesRequest =
  mn_Database :: string
  mn_Cond :: "'e option"

definition mn_MarshalBinary :: "('e, 'o, 'p) rpc_lib \<Rightarrow> 'e MeasurementNamesRequest \<Rightarrow> go_error + byte list" where
  "mn_MarshalBinary R r = marshal_struct R [(''Database'', JStr (mn_Database r)), (''Cond'', JStr (cond_String R (mn_Cond r)))]"

definition mn_UnmarshalBinary :: "('e, 'o, 'p) rpc_lib \<Rightarrow> byte list \<Rightarrow> go_error + 'e MeasurementNamesRequest" where
  "mn_UnmarshalBinary R b =
     and_then (unmarshal_struct R b) (\<lambda>f.
     and_then (as_string (f ''Database'')) (\<lambda>db.
     and_then (as_string (f ''Cond'')) (\<lambda>c.
     and_then (cond_Parse R c) (\<lambda>cond. Inr \<lparr>mn_Database = db, mn_Cond = cond\<rparr>))))"

record MeasurementNamesResponse =
  mnr_Names :: "byte list list"
  mnr_Err :: string

definition mnr_MarshalBinary :: "('e, 'o, 'p) rpc_lib \<Rightarrow> MeasurementNamesResponse \<Rightarrow> go_error + byte list" where
  "mnr_MarshalBinary R r = marshal_struct R [(''Names'', of_list of_bytes (mnr_Names r)), (''Err'', JStr (mnr_Err r))]"

definition mnr_UnmarshalBinary :: "('e, 'o, 'p) rpc_lib \<Rightarrow> byte list \<Rightarrow> go_error + MeasurementNamesResponse" where
  "mnr_UnmarshalBinary R b =
     and_then (unmarshal_struct R b) (\<lambda>f.
     and_then (as_list as_bytes (f ''Names'')) (\<lambda>names.
     and_then (as_string (f ''Err'')) (\<lambda>e. Inr \<lparr>mnr_Names = names, mnr_Err = e\<rparr>)))"

text \<open>The IDs of the shards are JSON inside JSON.\<close>

record 'e TagKeysRequest =
  tk_ShardIDs :: "u64 list"
  tk_Cond :: "'e option"

definition tk_MarshalBinary :: "('e, 'o, 'p) rpc_lib \<Rightarrow> 'e TagKeysRequest \<Rightarrow> go_error + byte list" where
  "tk_MarshalBinary R r =
     marshal_struct R
       [(''ShardIDs'', of_bytes (js_print (rl_json R) (of_list of_u64 (tk_ShardIDs r)))), (''Cond'', JStr (cond_String R (tk_Cond r)))]"

definition tk_UnmarshalBinary :: "('e, 'o, 'p) rpc_lib \<Rightarrow> byte list \<Rightarrow> go_error + 'e TagKeysRequest" where
  "tk_UnmarshalBinary R b =
     and_then (unmarshal_struct R b) (\<lambda>f.
     and_then (as_bytes (f ''ShardIDs'')) (\<lambda>ids.
     and_then (as_string (f ''Cond'')) (\<lambda>c.
     and_then (cond_Parse R c) (\<lambda>cond.
     and_then (js_parse (rl_json R) ids) (\<lambda>j.
     and_then (as_list as_u64 j) (\<lambda>ids. Inr \<lparr>tk_ShardIDs = ids, tk_Cond = cond\<rparr>))))))"

text \<open>The responses with tag keys and with tag values differ in the name of the field.\<close>

record TagsResponse =
  tr_Tags :: "json list"
  tr_Err :: string

definition tr_MarshalBinary :: "('e, 'o, 'p) rpc_lib \<Rightarrow> string \<Rightarrow> TagsResponse \<Rightarrow> go_error + byte list" where
  "tr_MarshalBinary R name r = marshal_struct R [(name, of_list id (tr_Tags r)), (''Err'', JStr (tr_Err r))]"

definition tr_UnmarshalBinary :: "('e, 'o, 'p) rpc_lib \<Rightarrow> string \<Rightarrow> byte list \<Rightarrow> go_error + TagsResponse" where
  "tr_UnmarshalBinary R name b =
     and_then (unmarshal_struct R b) (\<lambda>f.
     and_then (as_list Inr (f name)) (\<lambda>tags.
     and_then (as_string (f ''Err'')) (\<lambda>e. Inr \<lparr>tr_Tags = tags, tr_Err = e\<rparr>)))"

definition TagKeysResponse_MarshalBinary :: "('e, 'o, 'p) rpc_lib \<Rightarrow> TagsResponse \<Rightarrow> go_error + byte list" where
  "TagKeysResponse_MarshalBinary R = tr_MarshalBinary R ''TagKeys''"

definition TagKeysResponse_UnmarshalBinary :: "('e, 'o, 'p) rpc_lib \<Rightarrow> byte list \<Rightarrow> go_error + TagsResponse" where
  "TagKeysResponse_UnmarshalBinary R = tr_UnmarshalBinary R ''TagKeys''"

definition TagValuesResponse_MarshalBinary :: "('e, 'o, 'p) rpc_lib \<Rightarrow> TagsResponse \<Rightarrow> go_error + byte list" where
  "TagValuesResponse_MarshalBinary R = tr_MarshalBinary R ''TagValues''"

definition TagValuesResponse_UnmarshalBinary :: "('e, 'o, 'p) rpc_lib \<Rightarrow> byte list \<Rightarrow> go_error + TagsResponse" where
  "TagValuesResponse_UnmarshalBinary R = tr_UnmarshalBinary R ''TagValues''"

section \<open>Iterators\<close>

record 'o CreateIteratorRequest =
  ci_SpanContex :: "(u64 \<times> u64) option"
  ci_ShardIDs :: "u64 list"
  ci_Opt :: 'o
  ci_Measurement :: Measurement

definition ci_MarshalBinary :: "('e, 'o, 'p) rpc_lib \<Rightarrow> 'o CreateIteratorRequest \<Rightarrow> go_error + byte list" where
  "ci_MarshalBinary R r =
     and_then (fst (rl_Options R) (ci_Opt r)) (\<lambda>opt.
     let m = ci_Measurement r in
     and_then (marshal_struct R
       [(''Database'', JStr (m_Database m)), (''RetentionPolicy'', JStr (m_RetentionPolicy m)), (''Name'', JStr (m_Name m)),
        (''Regex'', JStr (case m_Regex m of Some re \<Rightarrow> re | None \<Rightarrow> [])), (''IsTarget'', JBool (m_IsTarget m)),
        (''SystemIterator'', JStr (m_SystemIterator m))]) (\<lambda>mbuf.
     and_then (case ci_SpanContex r of
                 None \<Rightarrow> Inr None
               | Some sc \<Rightarrow> and_then (fst (rl_Span R) sc) (\<lambda>b. Inr (Some b))) (\<lambda>sbuf.
       fst (rl_CreateIteratorRequest R)
         \<lparr>pi_ShardIDs = ci_ShardIDs r, pi_Measurement = mbuf, pi_Opt = opt, pi_SpanContext = sbuf\<rparr>)))"

definition ci_UnmarshalBinary :: "('e, 'o, 'p) rpc_lib \<Rightarrow> byte list \<Rightarrow> go_error + 'o CreateIteratorRequest" where
  "ci_UnmarshalBinary R data =
     and_then (snd (rl_CreateIteratorRequest R) data) (\<lambda>pb.
     and_then (snd (rl_Options R) (pi_Opt pb)) (\<lambda>opt.
     and_then (unmarshal_struct R (pi_Measurement pb)) (\<lambda>f.
     and_then (as_string (f ''Database'')) (\<lambda>db.
     and_then (as_string (f ''RetentionPolicy'')) (\<lambda>rp.
     and_then (as_string (f ''Name'')) (\<lambda>name.
     and_then (as_string (f ''Regex'')) (\<lambda>re.
     and_then (as_bool (f ''IsTarget'')) (\<lambda>target.
     and_then (as_string (f ''SystemIterator'')) (\<lambda>si.
     and_then (if length re > 0 then and_then (rl_Compile R re) (\<lambda>r. Inr (Some r)) else Inr None) (\<lambda>regex.
     and_then (case pi_SpanContext pb of
                 None \<Rightarrow> Inr None
               | Some sbuf \<Rightarrow> and_then (snd (rl_Span R) sbuf) (\<lambda>sc. Inr (Some sc))) (\<lambda>sc.
       Inr \<lparr>ci_SpanContex = sc, ci_ShardIDs = pi_ShardIDs pb, ci_Opt = opt,
            ci_Measurement = \<lparr>m_Database = db, m_RetentionPolicy = rp, m_Name = name, m_Regex = regex, m_IsTarget = target,
              m_SystemIterator = si\<rparr>\<rparr>)))))))))))"

text \<open>
  The error of a response is a Go interface: an error with a message has no exported field, so it
  is written as an empty object, and reading anything but \<^verbatim>\<open>null\<close> into the interface fails.
\<close>

record CreateIteratorResponse =
  cr_DataType :: int
  cr_SeriesN :: int
  cr_Err :: "go_error option"
  cr_Termination :: "byte list"

definition cr_MarshalBinary :: "('e, 'o, 'p) rpc_lib \<Rightarrow> CreateIteratorResponse \<Rightarrow> go_error + byte list" where
  "cr_MarshalBinary R r =
     marshal_struct R
       [(''DataType'', JNum (cr_DataType r)), (''SeriesN'', JNum (cr_SeriesN r)),
        (''Err'', case cr_Err r of None \<Rightarrow> JNull | Some e \<Rightarrow> JObj []), (''Termination'', of_bytes (cr_Termination r))]"

definition cr_UnmarshalBinary :: "('e, 'o, 'p) rpc_lib \<Rightarrow> byte list \<Rightarrow> go_error + CreateIteratorResponse" where
  "cr_UnmarshalBinary R b =
     and_then (unmarshal_struct R b) (\<lambda>f.
     and_then (as_int (f ''DataType'')) (\<lambda>t.
     and_then (as_int (f ''SeriesN'')) (\<lambda>n.
     and_then (if f ''Err'' = JNull then Inr None else Inl type_error) (\<lambda>e.
     and_then (as_bytes (f ''Termination'')) (\<lambda>term.
       Inr \<lparr>cr_DataType = t, cr_SeriesN = n, cr_Err = e, cr_Termination = term\<rparr>)))))"

section \<open>Fields and dimensions\<close>

record FieldDimensionsRequest =
  fd_ShardIDs :: "u64 list"
  fd_Sources :: Sources

definition fd_MarshalBinary :: "('e, 'o, 'p) rpc_lib \<Rightarrow> FieldDimensionsRequest \<Rightarrow> go_error + byte list" where
  "fd_MarshalBinary R r =
     and_then (fst (rl_Sources R) (fd_Sources r)) (\<lambda>buf.
       fst (rl_FieldDimensionsRequest R) \<lparr>pf_ShardIDs = fd_ShardIDs r, pf_Sources = buf\<rparr>)"

definition fd_UnmarshalBinary :: "('e, 'o, 'p) rpc_lib \<Rightarrow> byte list \<Rightarrow> go_error + FieldDimensionsRequest" where
  "fd_UnmarshalBinary R data =
     and_then (snd (rl_FieldDimensionsRequest R) data) (\<lambda>pb.
     and_then (snd (rl_Sources R) (pf_Sources pb)) (\<lambda>sources.
       Inr \<lparr>fd_ShardIDs = pf_ShardIDs pb, fd_Sources = sources\<rparr>))"

text \<open>A map is the list of its entries; a set of dimensions the list of its elements.\<close>

record FieldDimensionsResponse =
  fr_Fields :: "(string \<times> int) list"
  fr_Dimensions :: "string list"
  fr_Err :: "go_error option"

definition fr_MarshalBinary :: "('e, 'o, 'p) rpc_lib \<Rightarrow> FieldDimensionsResponse \<Rightarrow> go_error + byte list" where
  "fr_MarshalBinary R r =
     fst (rl_FieldDimensionsResponse R)
       \<lparr>pd_Fields = js_print (rl_json R) (of_map JNum (fr_Fields r)), pd_Dimensions = fr_Dimensions r,
        pd_Err = map_option (rl_Error R) (fr_Err r)\<rparr>"

definition fr_UnmarshalBinary :: "('e, 'o, 'p) rpc_lib \<Rightarrow> byte list \<Rightarrow> go_error + FieldDimensionsResponse" where
  "fr_UnmarshalBinary R data =
     and_then (snd (rl_FieldDimensionsResponse R) data) (\<lambda>pb.
     and_then (js_parse (rl_json R) (pd_Fields pb)) (\<lambda>j.
     and_then (as_map as_int j) (\<lambda>kvs.
       Inr \<lparr>fr_Fields = kvs, fr_Dimensions = pd_Dimensions pb, fr_Err = map_option Errorf (pd_Err pb)\<rparr>)))"

end
