(* ===== verification/ClusterWire.thy ===== *)
theory ClusterWire
  imports Prelude
begin

text \<open>
  Messages between data nodes on a TCP connection: \<^verbatim>\<open>coordinator/request/request.go\<close> (the reader of the
  server), the type-length-value functions and \<^verbatim>\<open>handleConn\<close> of \<^verbatim>\<open>coordinator/service.go\<close>, and
  \<^verbatim>\<open>decodeTLV\<close> of \<^verbatim>\<open>coordinator/remote_executor.go\<close> (the reader of the client).
\<close>

section \<open>The reader of the server\<close>

definition MAX_BODY :: nat where
  "MAX_BODY = 1024 * 1024 * 1024"

record ClusterMessage =
  msg_Type :: byte
  msg_Data :: "byte list"

text \<open>\<open>fetch\<close> on the bytes of the reader: a message and what remains, nothing yet, or a panic.\<close>

definition fetch :: "byte list \<Rightarrow> (go_error + ClusterMessage option) \<times> byte list" where
  "fetch data =
     (if length data < 9 then (Inr None, data)
      else
        let l = unat (Uint64 (take 8 (drop 1 data)));
            consumed = l + 8 + 1
        in if l > MAX_BODY then (Inl (Panic ''Error decoding cluster request, got a huge size''), data)
           else if length data < consumed then (Inr None, data)
           else (Inr (Some \<lparr>msg_Type = data ! 0, msg_Data = take l (drop 9 data)\<rparr>), drop consumed data))"

text \<open>What the reads of a connection give, one after the other.\<close>

type_synonym reads = "(byte list \<times> go_error option) list"

text \<open>The loop of \<^verbatim>\<open>Read\<close>; it has no result while it waits for more.\<close>

fun read_loop :: "reads \<Rightarrow> byte list \<Rightarrow> ((go_error + ClusterMessage) \<times> byte list \<times> reads) option" where
  "read_loop [] data = None"
| "read_loop ((bs, err) # conn) data =
     (let more = (\<lambda>data. case err of Some e \<Rightarrow> Some (Inl e, data, conn) | None \<Rightarrow> read_loop conn data)
      in if length bs > 0
         then (case fetch (data @ bs) of
                 (Inl p, data) \<Rightarrow> Some (Inl p, data, conn)
               | (Inr (Some req), data) \<Rightarrow> Some (Inr req, data, conn)
               | (Inr None, data) \<Rightarrow> more data)
         else more data)"

definition reader_Read :: "reads \<Rightarrow> byte list \<Rightarrow> ((go_error + ClusterMessage) \<times> byte list \<times> reads) option" where
  "reader_Read conn data =
     (case fetch data of
        (Inl p, data) \<Rightarrow> Some (Inl p, data, conn)
      | (Inr (Some req), data) \<Rightarrow> Some (Inr req, data, conn)
      | (Inr None, data) \<Rightarrow> read_loop conn data)"

definition reader_Len :: "byte list \<Rightarrow> nat" where
  "reader_Len data = length data"

definition reader_Data :: "byte list \<Rightarrow> byte list" where
  "reader_Data data = (if length data = 0 then [] else data)"

section \<open>Serving a connection\<close>

definition net_timeout :: go_error where
  "net_timeout = LibErr ''i/o timeout''"

definition canContinue :: "go_error \<Rightarrow> bool" where
  "canContinue err =
     (if err = EOF \<or> err = LibErr ''use of closed network connection'' then False
      else if err = net_timeout then True
      else False)"

datatype conn_end = ServiceClosed | Waiting | ReadFailed go_error | WriteFailed

text \<open>
  \<^verbatim>\<open>handleConn\<close>: \<open>handle\<close> processes a message and tells whether the connection can still be written to;
  the service is closed after \<open>n\<close> rounds. A panic of the reader ends the goroutine like an error.
\<close>

fun handleConn ::
  "(ClusterMessage \<Rightarrow> 's \<Rightarrow> bool \<times> 's) \<Rightarrow> nat \<Rightarrow> reads \<Rightarrow> byte list \<Rightarrow> 's \<Rightarrow> 's \<times> conn_end" where
  "handleConn handle 0 conn data s = (s, ServiceClosed)"
| "handleConn handle (Suc n) conn data s =
     (case reader_Read conn data of
        None \<Rightarrow> (s, Waiting)
      | Some (Inl err, data, conn) \<Rightarrow>
          if canContinue err then handleConn handle n conn data s else (s, ReadFailed err)
      | Some (Inr req, data, conn) \<Rightarrow>
          (case handle req s of
             (True, s) \<Rightarrow> handleConn handle n conn data s
           | (False, s) \<Rightarrow> (s, WriteFailed)))"

section \<open>Type, length and value\<close>

text \<open>A writer is a function that takes bytes and a state.\<close>

type_synonym 'c writer = "byte list \<Rightarrow> 'c \<Rightarrow> go_error option \<times> 'c"

definition WriteType :: "'c writer \<Rightarrow> byte \<Rightarrow> 'c \<Rightarrow> go_error option \<times> 'c" where
  "WriteType w typ c = w [typ] c"

definition WriteLV :: "'c writer \<Rightarrow> byte list \<Rightarrow> 'c \<Rightarrow> go_error option \<times> 'c" where
  "WriteLV w buf c =
     (case w (PutUint64 (of_int64 (int (length buf)))) c of
        (Some e, c) \<Rightarrow> (Some e, c)
      | (None, c) \<Rightarrow> w buf c)"

definition WriteTLV :: "'c writer \<Rightarrow> byte \<Rightarrow> byte list \<Rightarrow> 'c \<Rightarrow> go_error option \<times> 'c" where
  "WriteTLV w typ buf c =
     (case WriteType w typ c of
        (Some e, c) \<Rightarrow> (Some e, c)
      | (None, c) \<Rightarrow> WriteLV w buf c)"

text \<open>The value to encode is given as the result of its \<^verbatim>\<open>MarshalBinary\<close>.\<close>

definition EncodeLV :: "'c writer \<Rightarrow> go_error + byte list \<Rightarrow> 'c \<Rightarrow> go_error option \<times> 'c" where
  "EncodeLV w v c =
     (case v of
        Inl e \<Rightarrow> (Some e, c)
      | Inr buf \<Rightarrow> WriteLV w buf c)"

definition EncodeTLV :: "'c writer \<Rightarrow> byte \<Rightarrow> go_error + byte list \<Rightarrow> 'c \<Rightarrow> go_error option \<times> 'c" where
  "EncodeTLV w typ v c =
     (case WriteType w typ c of
        (Some e, c) \<Rightarrow> (Some e, c)
      | (None, c) \<Rightarrow> EncodeLV w v c)"

text \<open>\<open>full n c\<close> is \<^verbatim>\<open>io.ReadFull\<close> of \<open>n\<close> bytes.\<close>

type_synonym 'c full_reader = "nat \<Rightarrow> 'c \<Rightarrow> (go_error + byte list) \<times> 'c"

definition MaxMessageSize :: int where
  "MaxMessageSize = 1024 * 1024 * 1024"

definition ReadType :: "'c full_reader \<Rightarrow> 'c \<Rightarrow> (go_error + byte) \<times> 'c" where
  "ReadType full c =
     (case full 1 c of
        (Inl e, c) \<Rightarrow> (Inl e, c)
      | (Inr bs, c) \<Rightarrow> (Inr (hd bs), c))"

definition ReadLV :: "'c full_reader \<Rightarrow> 'c \<Rightarrow> (go_error + byte list) \<times> 'c" where
  "ReadLV full c =
     (case full 8 c of
        (Inl e, c) \<Rightarrow> (Inl e, c)
      | (Inr bs, c) \<Rightarrow>
          let sz = to_int64 (Uint64 bs)
          in if sz \<ge> MaxMessageSize then (Inl (Errorf ''max message size exceeded''), c)
             else if sz = 0 then (Inr [], c)
             else if sz < 0 then (Inl (Panic ''makeslice: len out of range''), c)
             else full (nat sz) c)"

definition decodeLV :: "'c full_reader \<Rightarrow> (byte list \<Rightarrow> go_error + 'v) \<Rightarrow> 'c \<Rightarrow> (go_error + 'v) \<times> 'c" where
  "decodeLV full unmarshal c =
     (case ReadLV full c of
        (Inl e, c) \<Rightarrow> (Inl e, c)
      | (Inr buf, c) \<Rightarrow> (unmarshal buf, c))"

definition decodeTLV :: "'c full_reader \<Rightarrow> (byte list \<Rightarrow> go_error + 'v) \<Rightarrow> 'c \<Rightarrow> (go_error + byte \<times> 'v) \<times> 'c" where
  "decodeTLV full unmarshal c =
     (case ReadType full c of
        (Inl e, c) \<Rightarrow> (Inl e, c)
      | (Inr typ, c) \<Rightarrow>
          (case decodeLV full unmarshal c of
             (Inl e, c) \<Rightarrow> (Inl e, c)
           | (Inr v, c) \<Rightarrow> (Inr (typ, v), c)))"

section \<open>Frames\<close>

definition frame :: "ClusterMessage \<Rightarrow> byte list" where
  "frame m = msg_Type m # PutUint64 (of_nat (length (msg_Data m))) @ msg_Data m"

definition frames :: "ClusterMessage list \<Rightarrow> byte list" where
  "frames ms = concat (map frame ms)"

definition small :: "ClusterMessage \<Rightarrow> bool" where
  "small m \<longleftrightarrow> length (msg_Data m) \<le> MAX_BODY"

lemma frames_simps [simp]: "frames [] = []" "frames (m # ms) = frame m @ frames ms"
  by (simp_all add: frames_def)

lemma length_frame [simp]: "length (frame m) = 9 + length (msg_Data m)"
  by (simp add: frame_def)

lemma small_length: "small m \<Longrightarrow> unat (of_nat (length (msg_Data m)) :: u64) = length (msg_Data m)"
  by (simp add: small_def MAX_BODY_def unat_of_nat)

lemma header_prefix:
  assumes "small m" and "data @ rest = frame m @ tail" and "9 \<le> length data"
  shows "unat (Uint64 (take 8 (drop 1 data))) = length (msg_Data m)"
proof -
  have "take 9 data = take 9 (data @ rest)" using assms(3) by simp
  also have "\<dots> = msg_Type m # PutUint64 (of_nat (length (msg_Data m)))" unfolding assms(2) by (simp add: frame_def)
  finally have "drop 1 (take 9 data) = PutUint64 (of_nat (length (msg_Data m)))" by simp
  then have "take 8 (drop 1 data) = PutUint64 (of_nat (length (msg_Data m)))" by (simp add: drop_take)
  then show ?thesis by (simp add: small_length [OF assms(1)])
qed

lemma fetch_frame:
  assumes "small m"
  shows "fetch (frame m @ tail) = (Inr (Some m), tail)"
proof -
  have "unat (Uint64 (take 8 (drop 1 (frame m @ tail)))) = length (msg_Data m)"
    using header_prefix [OF assms, of "frame m @ tail" "[]" tail] by simp
  then have "fetch (frame m @ tail) =
      (Inr (Some \<lparr>msg_Type = (frame m @ tail) ! 0, msg_Data = take (length (msg_Data m)) (drop 9 (frame m @ tail))\<rparr>),
       drop (length (frame m)) (frame m @ tail))"
    using assms by (simp add: fetch_def small_def Let_def add.commute)
  moreover have "drop (length (frame m)) (frame m @ tail) = tail" by (metis append_eq_conv_conj)
  moreover have "(frame m @ tail) ! 0 = msg_Type m" "take (length (msg_Data m)) (drop 9 (frame m @ tail)) = msg_Data m"
    by (simp_all add: frame_def)
  ultimately show ?thesis by simp
qed

lemma fetch_part:
  assumes "small m" and "data @ rest = frame m @ tail" and "length data < length (frame m)"
  shows "fetch data = (Inr None, data)"
proof (cases "length data < 9")
  case False
  then show ?thesis
    using header_prefix [OF assms(1,2)] assms(1,3) by (simp add: fetch_def small_def Let_def add.commute)
qed (simp add: fetch_def)

lemma fetch_Nil [simp]: "fetch [] = (Inr None, [])"
  by (simp add: fetch_def)

text \<open>
  A connection that delivers the bytes of messages: pieces of any size, between which a read may run
  into its deadline.
\<close>

definition conn_bytes :: "reads \<Rightarrow> byte list" where
  "conn_bytes conn = concat (map fst conn)"

definition live :: "reads \<Rightarrow> bool" where
  "live conn = list_all (\<lambda>(bs, err). err = None \<or> err = Some net_timeout) conn"

definition timeouts :: "reads \<Rightarrow> nat" where
  "timeouts conn = length (filter (\<lambda>(bs, err). err \<noteq> None) conn)"

lemma conn_simps [simp]:
  "conn_bytes [] = []" "conn_bytes ((bs, err) # conn) = bs @ conn_bytes conn"
  "live []" "live ((bs, err) # conn) = ((err = None \<or> err = Some net_timeout) \<and> live conn)"
  "timeouts [] = 0" "timeouts ((bs, err) # conn) = (if err = None then 0 else 1) + timeouts conn"
  by (simp_all add: conn_bytes_def live_def timeouts_def)

text \<open>A reader with these bytes takes the next message from the front, or has to wait for more.\<close>

lemma fetch_cases:
  assumes "list_all small ms" and "data @ rest = frames ms"
  obtains (part) "fetch data = (Inr None, data)" and "rest = [] \<Longrightarrow> ms = []"
  | (message) m ms' data' where "ms = m # ms'" and "fetch data = (Inr (Some m), data')" and "data' @ rest = frames ms'"
proof (cases ms)
  case Nil
  with assms(2) part show thesis by simp
next
  case (Cons m ms')
  show thesis
  proof (cases "length data < length (frame m)")
    case True
    moreover have "rest \<noteq> []"
    proof
      assume "rest = []"
      with assms(2) Cons have "data = frame m @ frames ms'" by simp
      with True show False by simp
    qed
    ultimately show thesis using part fetch_part [of m data rest "frames ms'"] assms Cons by simp
  next
    case False
    then have "data = frame m @ drop (length (frame m)) data"
      using assms(2) Cons by (metis append_eq_append_conv_if append_take_drop_id frames_simps(2) not_less take_all_iff)
    then obtain data' where "data = frame m @ data'" by blast
    with assms Cons message fetch_frame [of m data'] show thesis by simp
  qed
qed

text \<open>The three outcomes of \<^verbatim>\<open>Read\<close> on such a connection.\<close>

definition read_outcome ::
  "reads \<Rightarrow> ClusterMessage list \<Rightarrow> ((go_error + ClusterMessage) \<times> byte list \<times> reads) option \<Rightarrow> bool" where
  "read_outcome conn ms res =
     (case res of
        None \<Rightarrow> ms = []
      | Some (Inl e, data, conn') \<Rightarrow>
          e = net_timeout \<and> data @ conn_bytes conn' = frames ms \<and> live conn' \<and> timeouts conn' < timeouts conn
      | Some (Inr m, data, conn') \<Rightarrow>
          ms \<noteq> [] \<and> m = hd ms \<and> data @ conn_bytes conn' = frames (tl ms) \<and> live conn' \<and> timeouts conn' \<le> timeouts conn)"

lemma read_outcome_mono: "read_outcome conn ms res \<Longrightarrow> timeouts conn \<le> timeouts conn2 \<Longrightarrow> read_outcome conn2 ms res"
  by (auto simp: read_outcome_def split: option.splits sum.splits prod.splits)

lemma fetch_part_all:
  assumes "list_all small ms" and "data = frames ms" and "fetch data = (Inr None, data)"
  shows "ms = []"
  using assms by (cases rule: fetch_cases [OF assms(1), of data "[]"]) auto

lemma read_loop_outcome:
  assumes "live conn" and "list_all small ms" and "data @ conn_bytes conn = frames ms" and "fetch data = (Inr None, data)"
  shows "read_outcome conn ms (read_loop conn data)"
  using assms
proof (induction conn arbitrary: data)
  case Nil
  then show ?case using fetch_part_all by (simp add: read_outcome_def)
next
  case (Cons read conn)
  obtain bs err where read: "read = (bs, err)" by (cases read)
  have eq: "(data @ bs) @ conn_bytes conn = frames ms" using Cons.prems(3) by (simp add: read)
  have err: "err = None \<or> err = Some net_timeout" and live: "live conn" using Cons.prems(1) by (simp_all add: read)
  have wait: "read_outcome (read # conn) ms (read_loop (read # conn) data)" if f: "fetch (data @ bs) = (Inr None, data @ bs)"
  proof (cases err)
    case None
    with Cons.IH [OF live Cons.prems(2) eq f] f show ?thesis
      by (cases "bs = []") (auto simp: read intro: read_outcome_mono)
  next
    case (Some e)
    with err eq live f show ?thesis by (auto simp: read read_outcome_def)
  qed
  from Cons.prems(2) eq show ?case
  proof (cases rule: fetch_cases)
    case part
    then show ?thesis by (intro wait)
  next
    case (message m ms' data')
    then have "bs \<noteq> []" using Cons.prems(4) by auto
    with message live show ?thesis by (simp add: read read_outcome_def)
  qed
qed

lemma reader_Read_outcome:
  assumes "live conn" and "list_all small ms" and "data @ conn_bytes conn = frames ms"
  shows "read_outcome conn ms (reader_Read conn data)"
  using assms(2,3)
proof (cases rule: fetch_cases)
  case part
  with read_loop_outcome [OF assms] show ?thesis by (simp add: reader_Read_def)
next
  case (message m ms' data')
  with assms(1) show ?thesis by (simp add: reader_Read_def read_outcome_def)
qed

text \<open>What the server does with messages, until one of them ends the connection.\<close>

fun serve_all :: "(ClusterMessage \<Rightarrow> 's \<Rightarrow> bool \<times> 's) \<Rightarrow> ClusterMessage list \<Rightarrow> 's \<Rightarrow> 's \<times> conn_end" where
  "serve_all handle [] s = (s, Waiting)"
| "serve_all handle (m # ms) s =
     (case handle m s of (True, s) \<Rightarrow> serve_all handle ms s | (False, s) \<Rightarrow> (s, WriteFailed))"

lemma handleConn_serves:
  assumes "live conn" and "list_all small ms" and "data @ conn_bytes conn = frames ms" and "length ms + timeouts conn < n"
  shows "handleConn handle n conn data s = serve_all handle ms s"
  using assms
proof (induction n arbitrary: conn data ms s)
  case (Suc n)
  note out = reader_Read_outcome [OF Suc.prems(1-3)]
  show ?case
  proof (cases "reader_Read conn data")
    case None
    with out show ?thesis by (simp add: read_outcome_def)
  next
    case (Some res)
    obtain r data' conn' where res: "res = (r, data', conn')" by (cases res)
    show ?thesis
    proof (cases r)
      case (Inl e)
      with out Some res Suc.prems(2,4) Suc.IH [of conn' ms data' s] show ?thesis
        by (simp add: read_outcome_def canContinue_def net_timeout_def)
    next
      case (Inr m)
      with out Some res obtain ms' where "ms = m # ms'" by (cases ms) (auto simp: read_outcome_def)
      with out Some res Inr Suc.prems(2,4) Suc.IH [of conn' ms' data'] show ?thesis
        by (auto simp: read_outcome_def split: bool.splits prod.splits)
    qed
  qed
qed simp

text \<open>What \<^verbatim>\<open>WriteTLV\<close> puts on a connection that takes all bytes is the frame of the message.\<close>

definition buffer :: "byte list writer" where
  "buffer bs c = (None, c @ bs)"

lemma of_int64_of_nat: "of_int64 (int n) = of_nat n"
  by (simp add: of_int64_def)

lemma WriteTLV_frame: "WriteTLV buffer typ buf c = (None, c @ frame \<lparr>msg_Type = typ, msg_Data = buf\<rparr>)"
  by (simp add: WriteTLV_def WriteType_def WriteLV_def buffer_def frame_def of_int64_of_nat)

definition write_all :: "ClusterMessage list \<Rightarrow> byte list" where
  "write_all ms = fold (\<lambda>m c. snd (WriteTLV buffer (msg_Type m) (msg_Data m) c)) ms []"

lemma write_all_frames: "write_all ms = frames ms"
proof -
  have "fold (\<lambda>m c. snd (WriteTLV buffer (msg_Type m) (msg_Data m) c)) ms c = c @ frames ms" for c
    by (induction ms arbitrary: c) (simp_all add: WriteTLV_frame frame_def)
  then show ?thesis by (simp add: write_all_def)
qed

text \<open>
  (C20) Messages written with \<^verbatim>\<open>WriteTLV\<close> arrive: whatever pieces the connection delivers their bytes in,
  and however often a read runs into its deadline in between, \<^verbatim>\<open>handleConn\<close> handles exactly these
  messages, in order, and then waits for more.
\<close>

theorem messages_arrive:
  assumes "list_all small ms" and "live conn" and "conn_bytes conn = write_all ms" and "length ms + timeouts conn < n"
  shows "handleConn (\<lambda>m got. (True, got @ [m])) n conn [] [] = (ms, Waiting)"
proof -
  have "serve_all (\<lambda>m got. (True, got @ [m])) ms got = (got @ ms, Waiting)" for got :: "ClusterMessage list"
    by (induction ms arbitrary: got) simp_all
  then show ?thesis using handleConn_serves [of conn ms "[]" n "\<lambda>m got. (True, got @ [m])"] assms by (simp add: write_all_frames)
qed

theorem messages_arrive_witness:
  "handleConn (\<lambda>m got. (True, got @ [m])) 4
     [([29, 0, 0, 0, 0], None), ([0, 0, 0], Some net_timeout), ([0, 1, 0, 0, 0, 0, 0, 0, 0, 2, 7], None), ([8], None)] [] [] =
   ([\<lparr>msg_Type = 29, msg_Data = []\<rparr>, \<lparr>msg_Type = 1, msg_Data = [7, 8]\<rparr>], Waiting)"
proof (rule messages_arrive)
  show "list_all small [\<lparr>msg_Type = 29, msg_Data = []\<rparr>, \<lparr>msg_Type = 1, msg_Data = [7, 8]\<rparr>]"
    by (simp add: small_def MAX_BODY_def)
  show "conn_bytes [([29, 0, 0, 0, 0], None), ([0, 0, 0], Some net_timeout), ([0, 1, 0, 0, 0, 0, 0, 0, 0, 2, 7], None), ([8], None)] =
      write_all [\<lparr>msg_Type = 29, msg_Data = []\<rparr>, \<lparr>msg_Type = 1, msg_Data = [7, 8]\<rparr>]"
    by code_simp
qed simp_all

end
