(* ===== verification/RemoteService.thy ===== *)
theory RemoteService
  imports RemoteRpc ClusterWire
begin

text \<open>
  The service that answers the requests of other data nodes: \<^verbatim>\<open>coordinator/service.go\<close> and
  \<^verbatim>\<open>coordinator/service_handlers.go\<close>. The TSDB store, the task manager and the iterators are imported; they
  are functions on a state \<open>'s\<close>.
\<close>

section \<open>Message types\<close>

abbreviation writeShardRequestMessage :: byte where "writeShardRequestMessage \<equiv> 1"
abbreviation writeShardResponseMessage :: byte where "writeShardResponseMessage \<equiv> 2"
abbreviation executeStatementRequestMessage :: byte where "executeStatementRequestMessage \<equiv> 3"
abbreviation createIteratorRequestMessage :: byte where "createIteratorRequestMessage \<equiv> 5"
abbreviation createIteratorResponseMessage :: byte where "createIteratorResponseMessage \<equiv> 6"
abbreviation fieldDimensionsRequestMessage :: byte where "fieldDimensionsRequestMessage \<equiv> 7"
abbreviation fieldDimensionsResponseMessage :: byte where "fieldDimensionsResponseMessage \<equiv> 8"
abbreviation tagKeysRequestMessage :: byte where "tagKeysRequestMessage \<equiv> 11"
abbreviation tagKeysResponseMessage :: byte where "tagKeysResponseMessage \<equiv> 12"
abbreviation tagValuesRequestMessage :: byte where "tagValuesRequestMessage \<equiv> 13"
abbreviation tagValuesResponseMessage :: byte where "tagValuesResponseMessage \<equiv> 14"
abbreviation measurementNamesRequestMessage :: byte where "measurementNamesRequestMessage \<equiv> 15"
abbreviation measurementNamesResponseMessage :: byte where "measurementNamesResponseMessage \<equiv> 16"
abbreviation seriesCardinalityRequestMessage :: byte where "seriesCardinalityRequestMessage \<equiv> 17"
abbreviation seriesCardinalityResponseMessage :: byte where "seriesCardinalityResponseMessage \<equiv> 18"
abbreviation deleteSeriesRequestMessage :: byte where "deleteSeriesRequestMessage \<equiv> 19"
abbreviation deleteSeriesResponseMessage :: byte where "deleteSeriesResponseMessage \<equiv> 20"
abbreviation deleteDatabaseRequestMessage :: byte where "deleteDatabaseRequestMessage \<equiv> 21"
abbreviation deleteDatabaseResponseMessage :: byte where "deleteDatabaseResponseMessage \<equiv> 22"
abbreviation deleteMeasurementRequestMessage :: byte where "deleteMeasurementRequestMessage \<equiv> 23"
abbreviation deleteMeasurementResponseMessage :: byte where "deleteMeasurementResponseMessage \<equiv> 24"
abbreviation iteratorCostRequestMessage :: byte where "iteratorCostRequestMessage \<equiv> 25"
abbreviation iteratorCostResponseMessage :: byte where "iteratorCostResponseMessage \<equiv> 26"
abbreviation mapTypeRequestMessage :: byte where "mapTypeRequestMessage \<equiv> 27"
abbreviation mapTypeResponseMessage :: byte where "mapTypeResponseMessage \<equiv> 28"
abbreviation executeTaskManagerRequestMessage :: byte where "executeTaskManagerRequestMessage \<equiv> 29"
abbreviation executeTaskManagerResponseMessage :: byte where "executeTaskManagerResponseMessage \<equiv> 30"
abbreviation testRequestMessage :: byte where "testRequestMessage \<equiv> 31"

section \<open>The store\<close>

datatype 'e Statement =
    DropDatabaseStatement string
  | DropMeasurementStatement string
  | DropSeriesStatement Sources "'e option"
  | DropRetentionPolicyStatement string
  | OtherStatement string

datatype iterator_kind = FloatIterator | IntegerIterator | StringIterator | BooleanIterator | UnsignedIterator

text \<open>An iterator: its kind, the number of its series, what its encoder writes and the error it then reports.\<close>

record iterator =
  it_kind :: iterator_kind
  it_SeriesN :: int
  it_bytes :: "byte list"
  it_err :: "go_error option"

record ('s, 'e, 'o, 'p) tsdb =
  db_WriteToShard :: "u64 \<Rightarrow> 'p list \<Rightarrow> 's \<Rightarrow> go_error option \<times> 's"
  db_CreateShard :: "string \<Rightarrow> string \<Rightarrow> u64 \<Rightarrow> bool \<Rightarrow> 's \<Rightarrow> go_error option \<times> 's"
  db_DeleteMeasurement :: "string \<Rightarrow> string \<Rightarrow> 's \<Rightarrow> go_error option \<times> 's"
  db_DeleteDatabase :: "string \<Rightarrow> 's \<Rightarrow> go_error option \<times> 's"
  db_DeleteSeries :: "string \<Rightarrow> Sources \<Rightarrow> 'e option \<Rightarrow> 's \<Rightarrow> go_error option \<times> 's"
  db_DeleteRetentionPolicy :: "string \<Rightarrow> string \<Rightarrow> 's \<Rightarrow> go_error option \<times> 's"
  db_SeriesCardinality :: "string \<Rightarrow> 's \<Rightarrow> int \<times> go_error option"
  db_MeasurementNames :: "string \<Rightarrow> 'e option \<Rightarrow> 's \<Rightarrow> byte list list \<times> go_error option"
  db_TagKeys :: "u64 list \<Rightarrow> 'e option \<Rightarrow> 's \<Rightarrow> json list \<times> go_error option"
  db_TagValues :: "u64 list \<Rightarrow> 'e option \<Rightarrow> 's \<Rightarrow> json list \<times> go_error option"
  sg_MeasurementsByRegex :: "u64 list \<Rightarrow> string \<Rightarrow> 's \<Rightarrow> string list"
  sg_MapType :: "u64 list \<Rightarrow> string \<Rightarrow> string \<Rightarrow> 's \<Rightarrow> int"
  sg_IteratorCost :: "u64 list \<Rightarrow> string \<Rightarrow> 'o \<Rightarrow> 's \<Rightarrow> json \<times> go_error option"
  sg_FieldDimensions :: "u64 list \<Rightarrow> string list \<Rightarrow> 's \<Rightarrow> go_error + (string \<times> int) list \<times> string list"
  sg_CreateIterator :: "u64 list \<Rightarrow> Measurement \<Rightarrow> 'o \<Rightarrow> 's \<Rightarrow> go_error + iterator option"
  it_Merge :: "iterator option list \<Rightarrow> 'o \<Rightarrow> go_error + iterator option"
  it_trace :: "u64 \<times> u64 \<Rightarrow> byte list"
  cost_Combine :: "json \<Rightarrow> json \<Rightarrow> json"
  cost_zero :: json
  result_zero :: json
  dt_LessThan :: "int \<Rightarrow> int \<Rightarrow> bool"
  ql_Reduce :: "'e option \<Rightarrow> gtime \<Rightarrow> 'e option"
  ql_ParseStatement :: "string \<Rightarrow> go_error + 'e Statement"
  ql_String :: "'e Statement \<Rightarrow> string"
  tm_ExecuteStatement :: "'e Statement \<Rightarrow> 's \<Rightarrow> go_error + json"

record InternalServiceStatistics =
  ss_WriteShardReq :: int
  ss_WriteShardPointsReq :: int
  ss_WriteShardFail :: int
  ss_CreateIteratorReq :: int
  ss_CreateIteratorFail :: int
  ss_FieldDimensionsReq :: int
  ss_FieldDimensionsFail :: int
  ss_TagKeysReq :: int
  ss_TagKeysFail :: int
  ss_TagValuesReq :: int
  ss_TagValuesFail :: int
  ss_MeasurementNamesReq :: int
  ss_MeasurementNamesFail :: int
  ss_SeriesCardinalityReq :: int
  ss_SeriesCardinalityFail :: int
  ss_IteratorCostReq :: int
  ss_IteratorCostFail :: int
  ss_MapTypeReq :: int
  ss_MapTypeFail :: int

definition ss_zero :: InternalServiceStatistics where
  "ss_zero =
     \<lparr>ss_WriteShardReq = 0, ss_WriteShardPointsReq = 0, ss_WriteShardFail = 0, ss_CreateIteratorReq = 0, ss_CreateIteratorFail = 0,
      ss_FieldDimensionsReq = 0, ss_FieldDimensionsFail = 0, ss_TagKeysReq = 0, ss_TagKeysFail = 0, ss_TagValuesReq = 0,
      ss_TagValuesFail = 0, ss_MeasurementNamesReq = 0, ss_MeasurementNamesFail = 0, ss_SeriesCardinalityReq = 0,
      ss_SeriesCardinalityFail = 0, ss_IteratorCostReq = 0, ss_IteratorCostFail = 0, ss_MapTypeReq = 0, ss_MapTypeFail = 0\<rparr>"

definition service_Statistics :: "InternalServiceStatistics \<Rightarrow> (string \<times> int) list" where
  "service_Statistics s =
     [(''writeShardReq'', ss_WriteShardReq s), (''writeShardPointsReq'', ss_WriteShardPointsReq s),
      (''writeShardFail'', ss_WriteShardFail s), (''createIteratorReq'', ss_CreateIteratorReq s),
      (''createIteratorFail'', ss_CreateIteratorFail s), (''fieldDimensionsReq'', ss_FieldDimensionsReq s),
      (''fieldDimensionsFail'', ss_FieldDimensionsFail s), (''tagKeysReq'', ss_TagKeysReq s), (''tagKeysFail'', ss_TagKeysFail s),
      (''tagValuesReq'', ss_TagValuesReq s), (''tagValuesFail'', ss_TagValuesFail s),
      (''measurementNamesReq'', ss_MeasurementNamesReq s), (''measurementNamesFail'', ss_MeasurementNamesFail s),
      (''seriesCardinalityReq'', ss_SeriesCardinalityReq s), (''seriesCardinalityFail'', ss_SeriesCardinalityFail s),
      (''iteratorCostReq'', ss_IteratorCostReq s), (''iteratorCostFail'', ss_IteratorCostFail s),
      (''mapTypeReq'', ss_MapTypeReq s), (''mapTypeFail'', ss_MapTypeFail s)]"

record 's Service =
  rs_store :: 's
  rs_stats :: InternalServiceStatistics

definition NewService :: "'s \<Rightarrow> 's Service" where
  "NewService s = \<lparr>rs_store = s, rs_stats = ss_zero\<rparr>"

definition tally :: "(InternalServiceStatistics \<Rightarrow> InternalServiceStatistics) \<Rightarrow> 's Service \<Rightarrow> 's Service" where
  "tally f s = s\<lparr>rs_stats := f (rs_stats s)\<rparr>"

text \<open>A handler gives the response and the error of the request.\<close>

type_synonym 's handled = "((go_error + byte list) \<times> go_error option) \<times> 's Service"

definition on_store :: "('s \<Rightarrow> go_error option \<times> 's) \<Rightarrow> 's Service \<Rightarrow> go_error option \<times> 's Service" where
  "on_store f s = (case f (rs_store s) of (err, st) \<Rightarrow> (err, s\<lparr>rs_store := st\<rparr>))"

text \<open>The message of an error, and no message for none.\<close>

definition err_text :: "('e, 'o, 'p) rpc_lib \<Rightarrow> go_error option \<Rightarrow> string" where
  "err_text R err = (case err of None \<Rightarrow> [] | Some e \<Rightarrow> rl_Error R e)"

text \<open>A panic ends the goroutine before the failure is counted.\<close>

fun is_panic :: "go_error \<Rightarrow> bool" where
  "is_panic (Panic m) = True"
| "is_panic _ = False"

definition count_fail ::
  "(InternalServiceStatistics \<Rightarrow> InternalServiceStatistics) \<Rightarrow> go_error option \<Rightarrow> 's Service \<Rightarrow> 's Service" where
  "count_fail f err s = (case err of None \<Rightarrow> s | Some e \<Rightarrow> if is_panic e then s else tally f s)"

section \<open>Handlers\<close>

definition processTaskManagerRequest ::
  "('e, 'o, 'p) rpc_lib \<Rightarrow> ('s, 'e, 'o, 'p) tsdb \<Rightarrow> byte list \<Rightarrow> 's Service \<Rightarrow> 's handled" where
  "processTaskManagerRequest R D buf s =
     (case and_then (snd (rl_ExecuteStatementRequest R) buf) (\<lambda>req.
           and_then (ql_ParseStatement D (es_Statement req)) (\<lambda>stmt. tm_ExecuteStatement D stmt (rs_store s))) of
        Inl e \<Rightarrow> ((tm_MarshalBinary R \<lparr>tm_Result = result_zero D, tm_Err = rl_Error R e\<rparr>, Some e), s)
      | Inr res \<Rightarrow> ((tm_MarshalBinary R \<lparr>tm_Result = res, tm_Err = []\<rparr>, None), s))"

text \<open>The first source must be a measurement; anything else is a failed type assertion.\<close>

definition first_measurement :: "Sources \<Rightarrow> go_error + Measurement" where
  "first_measurement srcs =
     (case srcs of
        [] \<Rightarrow> Inl (Errorf ''bad request: no sources'')
      | SourceMeasurement m # _ \<Rightarrow> Inr m
      | SourceSubQuery _ # _ \<Rightarrow> Inl (Panic ''interface conversion''))"

definition map_type ::
  "('s, 'e, 'o, 'p) tsdb \<Rightarrow> Measurement \<Rightarrow> string \<Rightarrow> u64 list \<Rightarrow> 's \<Rightarrow> int" where
  "map_type D m field ids st =
     (let names = (case m_Regex m of
                     Some re \<Rightarrow>
                       if m_Name m \<noteq> ''_series'' \<and> m_Name m \<noteq> ''_fieldKeys'' \<and> m_Name m \<noteq> ''_tagKeys''
                       then sg_MeasurementsByRegex D ids re st else [m_Name m]
                   | None \<Rightarrow> [m_Name m])
      in fold (\<lambda>name typ.
           let t = sg_MapType D ids (if m_SystemIterator m \<noteq> [] then m_SystemIterator m else name) field st
           in if dt_LessThan D typ t then t else typ) names 0)"

definition processMapTypeRequest ::
  "('e, 'o, 'p) rpc_lib \<Rightarrow> ('s, 'e, 'o, 'p) tsdb \<Rightarrow> byte list \<Rightarrow> 's Service \<Rightarrow> 's handled" where
  "processMapTypeRequest R D buf s =
     (let s = tally (\<lambda>c. c\<lparr>ss_MapTypeReq := ss_MapTypeReq c + 1\<rparr>) s
      in case and_then (mt_UnmarshalBinary R buf) (\<lambda>req.
              and_then (first_measurement (mt_Sources req)) (\<lambda>m. Inr (map_type D m (mt_Field req) (mt_ShardIDs req) (rs_store s)))) of
           Inl e \<Rightarrow> ((mr_MarshalBinary R \<lparr>mr_DataType = 0, mr_Err = rl_Error R e\<rparr>, Some e),
                     count_fail (\<lambda>c. c\<lparr>ss_MapTypeFail := ss_MapTypeFail c + 1\<rparr>) (Some e) s)
         | Inr t \<Rightarrow> ((mr_MarshalBinary R \<lparr>mr_DataType = t, mr_Err = []\<rparr>, None), s))"

fun costs_of ::
  "('s, 'e, 'o, 'p) tsdb \<Rightarrow> u64 list \<Rightarrow> 'o \<Rightarrow> 's \<Rightarrow> string list \<Rightarrow> json \<Rightarrow> json \<times> go_error option" where
  "costs_of D ids opt st [] costs = (costs, None)"
| "costs_of D ids opt st (name # names) costs =
     (case sg_IteratorCost D ids name opt st of
        (c, Some e) \<Rightarrow> (c, Some e)
      | (c, None) \<Rightarrow> costs_of D ids opt st names (cost_Combine D costs c))"

definition iterator_cost ::
  "('s, 'e, 'o, 'p) tsdb \<Rightarrow> Measurement \<Rightarrow> 'o \<Rightarrow> u64 list \<Rightarrow> 's \<Rightarrow> json \<times> go_error option" where
  "iterator_cost D m opt ids st =
     (case m_Regex m of
        Some re \<Rightarrow> costs_of D ids opt st (sg_MeasurementsByRegex D ids re st) (cost_zero D)
      | None \<Rightarrow> sg_IteratorCost D ids (m_Name m) opt st)"

definition processIteratorCostRequest ::
  "('e, 'o, 'p) rpc_lib \<Rightarrow> ('s, 'e, 'o, 'p) tsdb \<Rightarrow> byte list \<Rightarrow> 's Service \<Rightarrow> 's handled" where
  "processIteratorCostRequest R D buf s =
     (let s = tally (\<lambda>c. c\<lparr>ss_IteratorCostReq := ss_IteratorCostReq c + 1\<rparr>) s;
          (cost, err) =
            (case and_then (ic_UnmarshalBinary R buf) (\<lambda>req.
                  and_then (first_measurement (ic_Sources req)) (\<lambda>m. Inr (iterator_cost D m (ic_Opt req) (ic_ShardIDs req) (rs_store s)))) of
               Inl e \<Rightarrow> (cost_zero D, Some e)
             | Inr r \<Rightarrow> r);
          s = count_fail (\<lambda>c. c\<lparr>ss_IteratorCostFail := ss_IteratorCostFail c + 1\<rparr>) err s
      in ((icr_MarshalBinary R \<lparr>icr_Cost = cost, icr_Err = err_text R err\<rparr>, err), s))"

definition processDeleteMeasurementRequest ::
  "('e, 'o, 'p) rpc_lib \<Rightarrow> ('s, 'e, 'o, 'p) tsdb \<Rightarrow> byte list \<Rightarrow> 's Service \<Rightarrow> 's handled" where
  "processDeleteMeasurementRequest R D buf s =
     (let (err, s) = (case dm_UnmarshalBinary R buf of
                        Inl e \<Rightarrow> (Some e, s)
                      | Inr req \<Rightarrow> on_store (db_DeleteMeasurement D (dm_Database req) (dm_Name req)) s)
      in ((err_MarshalBinary R (err_text R err), err), s))"

definition processDeleteDatabaseRequest ::
  "('e, 'o, 'p) rpc_lib \<Rightarrow> ('s, 'e, 'o, 'p) tsdb \<Rightarrow> byte list \<Rightarrow> 's Service \<Rightarrow> 's handled" where
  "processDeleteDatabaseRequest R D buf s =
     (let (err, s) = (case dbreq_UnmarshalBinary R buf of
                        Inl e \<Rightarrow> (Some e, s)
                      | Inr db \<Rightarrow> on_store (db_DeleteDatabase D db) s)
      in ((err_MarshalBinary R (err_text R err), err), s))"

definition processDeleteSeriesRequest ::
  "('e, 'o, 'p) rpc_lib \<Rightarrow> ('s, 'e, 'o, 'p) tsdb \<Rightarrow> gtime \<Rightarrow> byte list \<Rightarrow> 's Service \<Rightarrow> 's handled" where
  "processDeleteSeriesRequest R D now buf s =
     (let (err, s) = (case ds_UnmarshalBinary R buf of
                        Inl e \<Rightarrow> (Some e, s)
                      | Inr req \<Rightarrow> on_store (db_DeleteSeries D (ds_Database req) (ds_Sources req) (ql_Reduce D (ds_Cond req) now)) s)
      in ((err_MarshalBinary R (err_text R err), err), s))"

definition processSeriesCardinalityRequest ::
  "('e, 'o, 'p) rpc_lib \<Rightarrow> ('s, 'e, 'o, 'p) tsdb \<Rightarrow> byte list \<Rightarrow> 's Service \<Rightarrow> 's handled" where
  "processSeriesCardinalityRequest R D buf s =
     (let s = tally (\<lambda>c. c\<lparr>ss_SeriesCardinalityReq := ss_SeriesCardinalityReq c + 1\<rparr>) s;
          (n, err) = (case dbreq_UnmarshalBinary R buf of
                        Inl e \<Rightarrow> (0, Some e)
                      | Inr db \<Rightarrow> db_SeriesCardinality D db (rs_store s));
          s = count_fail (\<lambda>c. c\<lparr>ss_SeriesCardinalityFail := ss_SeriesCardinalityFail c + 1\<rparr>) err s
      in ((sr_MarshalBinary R \<lparr>sr_N = n, sr_Err = err_text R err\<rparr>, err), s))"

definition processMeasurementNamesRequest ::
  "('e, 'o, 'p) rpc_lib \<Rightarrow> ('s, 'e, 'o, 'p) tsdb \<Rightarrow> byte list \<Rightarrow> 's Service \<Rightarrow> 's handled" where
  "processMeasurementNamesRequest R D buf s =
     (let (names, err) = (case mn_UnmarshalBinary R buf of
                            Inl e \<Rightarrow> ([], Some e)
                          | Inr req \<Rightarrow> db_MeasurementNames D (mn_Database req) (mn_Cond req) (rs_store s));
          s = count_fail (\<lambda>c. c\<lparr>ss_MeasurementNamesFail := ss_MeasurementNamesFail c + 1\<rparr>) err s
      in ((mnr_MarshalBinary R \<lparr>mnr_Names = names, mnr_Err = err_text R err\<rparr>, err), s))"

definition processTagKeysRequest ::
  "('e, 'o, 'p) rpc_lib \<Rightarrow> ('s, 'e, 'o, 'p) tsdb \<Rightarrow> byte list \<Rightarrow> 's Service \<Rightarrow> 's handled" where
  "processTagKeysRequest R D buf s =
     (let s = tally (\<lambda>c. c\<lparr>ss_TagKeysReq := ss_TagKeysReq c + 1\<rparr>) s;
          (tags, err) = (case tk_UnmarshalBinary R buf of
                           Inl e \<Rightarrow> ([], Some e)
                         | Inr req \<Rightarrow> db_TagKeys D (tk_ShardIDs req) (tk_Cond req) (rs_store s));
          s = count_fail (\<lambda>c. c\<lparr>ss_TagKeysFail := ss_TagKeysFail c + 1\<rparr>) err s
      in ((TagKeysResponse_MarshalBinary R \<lparr>tr_Tags = tags, tr_Err = err_text R err\<rparr>, err), s))"

definition processTagValuesRequest ::
  "('e, 'o, 'p) rpc_lib \<Rightarrow> ('s, 'e, 'o, 'p) tsdb \<Rightarrow> byte list \<Rightarrow> 's Service \<Rightarrow> 's handled" where
  "processTagValuesRequest R D buf s =
     (let s = tally (\<lambda>c. c\<lparr>ss_TagValuesReq := ss_TagValuesReq c + 1\<rparr>) s;
          (tags, err) = (case tk_UnmarshalBinary R buf of
                           Inl e \<Rightarrow> ([], Some e)
                         | Inr req \<Rightarrow> db_TagValues D (tk_ShardIDs req) (tk_Cond req) (rs_store s));
          s = count_fail (\<lambda>c. c\<lparr>ss_TagValuesFail := ss_TagValuesFail c + 1\<rparr>) err s
      in ((TagValuesResponse_MarshalBinary R \<lparr>tr_Tags = tags, tr_Err = err_text R err\<rparr>, err), s))"

text \<open>The verb \<^verbatim>\<open>%q\<close>, on printable characters.\<close>

definition quote :: "string \<Rightarrow> string" where
  "quote s = CHR 0x22 # concat (map (\<lambda>c. if c = CHR 0x22 \<or> c = CHR 0x5C then [CHR 0x5C, c] else [c]) s) @ [CHR 0x22]"

definition executeStatement :: "('s, 'e, 'o, 'p) tsdb \<Rightarrow> 'e Statement \<Rightarrow> string \<Rightarrow> 's Service \<Rightarrow> go_error option \<times> 's Service" where
  "executeStatement D stmt database s =
     (case stmt of
        DropDatabaseStatement name \<Rightarrow> on_store (db_DeleteDatabase D name) s
      | DropMeasurementStatement name \<Rightarrow> on_store (db_DeleteMeasurement D database name) s
      | DropSeriesStatement srcs cond \<Rightarrow> on_store (db_DeleteSeries D database srcs cond) s
      | DropRetentionPolicyStatement name \<Rightarrow> on_store (db_DeleteRetentionPolicy D database name) s
      | OtherStatement _ \<Rightarrow> (Some (Errorf (quote (ql_String D stmt) @ '' should not be executed across a cluster'')), s))"

definition processExecuteStatementRequest ::
  "('e, 'o, 'p) rpc_lib \<Rightarrow> ('s, 'e, 'o, 'p) tsdb \<Rightarrow> byte list \<Rightarrow> 's Service \<Rightarrow> go_error option \<times> 's Service" where
  "processExecuteStatementRequest R D buf s =
     (case snd (rl_ExecuteStatementRequest R) buf of
        Inl e \<Rightarrow> (Some e, s)
      | Inr req \<Rightarrow>
          (case ql_ParseStatement D (es_Statement req) of
             Inl e \<Rightarrow> (Some e, s)
           | Inr stmt \<Rightarrow> executeStatement D stmt (es_Database req) s))"

definition ErrShardNotFound :: go_error where
  "ErrShardNotFound = LibErr ''shard not found''"

definition processWriteShardRequest ::
  "('e, 'o, 'p) rpc_lib \<Rightarrow> ('s, 'e, 'o, 'p) tsdb \<Rightarrow> byte list \<Rightarrow> 's Service \<Rightarrow> go_error option \<times> 's Service" where
  "processWriteShardRequest R D buf s =
     (case snd (rl_WriteShardRequest R) buf of
        Inl e \<Rightarrow> (Some e, s)
      | Inr req \<Rightarrow>
          (case unmarshalPoints R req of
             Inl e \<Rightarrow> (Some e, s)
           | Inr points \<Rightarrow>
               let s = tally (\<lambda>c. c\<lparr>ss_WriteShardReq := ss_WriteShardReq c + 1,
                     ss_WriteShardPointsReq := ss_WriteShardPointsReq c + int (length points)\<rparr>) s;
                   failed = (\<lambda>what e s. (Some (Errorf (what @ rl_Error R e)),
                     tally (\<lambda>c. c\<lparr>ss_WriteShardFail := ss_WriteShardFail c + 1\<rparr>) s));
                   db = ws_Database req;
                   rp = ws_RetentionPolicy req;
                   shard = FormatUint (unat (ws_ShardID req))
               in case on_store (db_WriteToShard D (ws_ShardID req) points) s of
                    (None, s) \<Rightarrow> (None, s)
                  | (Some e, s) \<Rightarrow>
                      if e = ErrShardNotFound
                      then
                        if db = [] \<or> rp = [] then (None, s)
                        else
                          case on_store (db_CreateShard D db rp (ws_ShardID req) True) s of
                            (Some e, s) \<Rightarrow> failed (''create shard '' @ shard @ '': '') e s
                          | (None, s) \<Rightarrow>
                              (case on_store (db_WriteToShard D (ws_ShardID req) points) s of
                                 (Some e, s) \<Rightarrow> failed (''write shard '' @ shard @ '': '') e s
                               | (None, s) \<Rightarrow> (None, s))
                      else failed (''write shard '' @ shard @ '': '') e s))"

text \<open>Of several sources, a regular expression replaces the measurements collected so far.\<close>

definition dimension_sources ::
  "('s, 'e, 'o, 'p) tsdb \<Rightarrow> u64 list \<Rightarrow> 's \<Rightarrow> Measurement list \<Rightarrow> string list" where
  "dimension_sources D ids st ms =
     fold (\<lambda>m names. case m_Regex m of
             Some re \<Rightarrow> sg_MeasurementsByRegex D ids re st
           | None \<Rightarrow> names @ [m_Name m]) ms []"

definition source_measurements :: "Sources \<Rightarrow> Measurement list" where
  "source_measurements srcs = concat (map (\<lambda>x. case x of SourceMeasurement m \<Rightarrow> [m] | SourceSubQuery _ \<Rightarrow> []) srcs)"

definition processFieldDimensionsRequest ::
  "('e, 'o, 'p) rpc_lib \<Rightarrow> ('s, 'e, 'o, 'p) tsdb \<Rightarrow> byte list \<Rightarrow> 's Service \<Rightarrow> 's handled" where
  "processFieldDimensionsRequest R D buf s =
     (let s = tally (\<lambda>c. c\<lparr>ss_FieldDimensionsReq := ss_FieldDimensionsReq c + 1\<rparr>) s
      in case and_then (fd_UnmarshalBinary R buf) (\<lambda>req.
              sg_FieldDimensions D (fd_ShardIDs req)
                (dimension_sources D (fd_ShardIDs req) (rs_store s) (source_measurements (fd_Sources req))) (rs_store s)) of
           Inl e \<Rightarrow> ((fr_MarshalBinary R \<lparr>fr_Fields = [], fr_Dimensions = [], fr_Err = Some e\<rparr>, Some e),
                     tally (\<lambda>c. c\<lparr>ss_FieldDimensionsFail := ss_FieldDimensionsFail c + 1\<rparr>) s)
         | Inr (f, d) \<Rightarrow> ((fr_MarshalBinary R \<lparr>fr_Fields = f, fr_Dimensions = d, fr_Err = None\<rparr>, None), s))"

section \<open>Requests for iterators\<close>

definition open_iterator :: "('s, 'e, 'o, 'p) tsdb \<Rightarrow> 'o CreateIteratorRequest \<Rightarrow> 's \<Rightarrow> go_error + iterator option" where
  "open_iterator D req st =
     (let m = ci_Measurement req;
          ids = ci_ShardIDs req
      in case m_Regex m of
           Some re \<Rightarrow>
             and_then (all_results (\<lambda>name. sg_CreateIterator D ids (m\<lparr>m_Name := name\<rparr>) (ci_Opt req) st)
               (sg_MeasurementsByRegex D ids re st)) (\<lambda>inputs. it_Merge D inputs (ci_Opt req))
         | None \<Rightarrow> sg_CreateIterator D ids m (ci_Opt req) st)"

text \<open>The type in the response; unsigned iterators have none.\<close>

definition data_type :: "iterator option \<Rightarrow> int" where
  "data_type itr =
     (case itr of
        None \<Rightarrow> 0
      | Some i \<Rightarrow> (case it_kind i of FloatIterator \<Rightarrow> 1 | IntegerIterator \<Rightarrow> 2 | StringIterator \<Rightarrow> 3 | BooleanIterator \<Rightarrow> 4 | UnsignedIterator \<Rightarrow> 0))"

text \<open>
  The stream after the response: the iterator, its trace, and at the end the terminator, which is
  written in any case. The result tells whether the connection failed.
\<close>

definition stream_iterator ::
  "('s, 'e, 'o, 'p) tsdb \<Rightarrow> 'c writer \<Rightarrow> byte list \<Rightarrow> iterator option \<Rightarrow> (u64 \<times> u64) option \<Rightarrow> 'c \<Rightarrow> (bool \<times> bool) \<times> 'c" where
  "stream_iterator D w term itr span c =
     (let (failed, c) =
            (case itr of
               None \<Rightarrow> (False, c)
             | Some i \<Rightarrow>
                 (case w (it_bytes i) c of
                    (Some e, c) \<Rightarrow> (True, c)
                  | (None, c) \<Rightarrow>
                      (case it_err i of
                         Some e \<Rightarrow> (True, c)
                       | None \<Rightarrow>
                           (case span of
                              None \<Rightarrow> (False, c)
                            | Some sc \<Rightarrow> (case w (it_trace D sc) c of (Some e, c) \<Rightarrow> (True, c) | (None, c) \<Rightarrow> (False, c))))))
      in case w term c of
           (Some e, c) \<Rightarrow> ((True, failed), c)
         | (None, c) \<Rightarrow> ((failed, failed), c))"

definition processCreateIteratorRequest ::
  "('e, 'o, 'p) rpc_lib \<Rightarrow> ('s, 'e, 'o, 'p) tsdb \<Rightarrow> 'c writer \<Rightarrow> byte list \<Rightarrow> byte list \<Rightarrow> 's Service \<Rightarrow> 'c \<Rightarrow> bool \<times> 's Service \<times> 'c" where
  "processCreateIteratorRequest R D w term buf s c =
     (let fail = tally (\<lambda>x. x\<lparr>ss_CreateIteratorFail := ss_CreateIteratorFail x + 1\<rparr>)
      in case and_then (ci_UnmarshalBinary R buf) (\<lambda>req. and_then (open_iterator D req (rs_store s)) (\<lambda>itr. Inr (req, itr))) of
           Inl e \<Rightarrow>
             (case EncodeTLV w createIteratorResponseMessage
                     (cr_MarshalBinary R \<lparr>cr_DataType = 0, cr_SeriesN = 0, cr_Err = Some e, cr_Termination = []\<rparr>) c of
                (err, c) \<Rightarrow> (err \<noteq> None, fail s, c))
         | Inr (req, itr) \<Rightarrow>
             (case EncodeTLV w createIteratorResponseMessage
                     (cr_MarshalBinary R \<lparr>cr_DataType = data_type itr, cr_SeriesN = (case itr of None \<Rightarrow> 0 | Some i \<Rightarrow> it_SeriesN i),
                        cr_Err = None, cr_Termination = term\<rparr>) c of
                (Some e, c) \<Rightarrow> (True, fail s, c)
              | (None, c) \<Rightarrow>
                  (case stream_iterator D w term itr (ci_SpanContex req) c of
                     ((ioError, failed), c) \<Rightarrow> (ioError, if failed then fail s else s, c))))"

section \<open>Dispatch\<close>

text \<open>
  \<^verbatim>\<open>handleRequest\<close>: the type of the response and its binary form, if there is a response, and the
  error of the request.
\<close>

definition with_code :: "('e, 'o, 'p) rpc_lib \<Rightarrow> go_error option \<Rightarrow> go_error + byte list" where
  "with_code R err =
     fst (rl_WriteShardResponse R)
       (let empty = \<lparr>pr_Code = None, pr_Message = None\<rparr>
        in case err of
             Some e \<Rightarrow> wsr_SetMessage (rl_Error R e) (wsr_SetCode 1 empty)
           | None \<Rightarrow> wsr_SetCode 0 empty)"

definition handleRequest ::
  "('e, 'o, 'p) rpc_lib \<Rightarrow> ('s, 'e, 'o, 'p) tsdb \<Rightarrow> gtime \<Rightarrow> byte \<Rightarrow> byte list \<Rightarrow> 's Service
    \<Rightarrow> ((byte \<times> (go_error + byte list)) option \<times> go_error option) \<times> 's Service" where
  "handleRequest R D now typ data s =
     (let coded = (\<lambda>(err, s). ((Some (writeShardResponseMessage, with_code R err), err), s));
          typed = (\<lambda>respType h. case h data s of ((resp, err), s) \<Rightarrow> ((Some (respType, resp), err), s))
      in if typ = writeShardRequestMessage then coded (processWriteShardRequest R D data s)
         else if typ = executeStatementRequestMessage then coded (processExecuteStatementRequest R D data s)
         else if typ = fieldDimensionsRequestMessage then typed fieldDimensionsResponseMessage (processFieldDimensionsRequest R D)
         else if typ = tagKeysRequestMessage then typed tagKeysResponseMessage (processTagKeysRequest R D)
         else if typ = tagValuesRequestMessage then typed tagValuesResponseMessage (processTagValuesRequest R D)
         else if typ = measurementNamesRequestMessage then typed measurementNamesResponseMessage (processMeasurementNamesRequest R D)
         else if typ = seriesCardinalityRequestMessage then typed seriesCardinalityResponseMessage (processSeriesCardinalityRequest R D)
         else if typ = deleteSeriesRequestMessage then typed deleteSeriesResponseMessage (processDeleteSeriesRequest R D now)
         else if typ = deleteDatabaseRequestMessage then typed deleteDatabaseResponseMessage (processDeleteDatabaseRequest R D)
         else if typ = deleteMeasurementRequestMessage then typed deleteMeasurementResponseMessage (processDeleteMeasurementRequest R D)
         else if typ = iteratorCostRequestMessage then typed iteratorCostResponseMessage (processIteratorCostRequest R D)
         else if typ = mapTypeRequestMessage then typed mapTypeResponseMessage (processMapTypeRequest R D)
         else if typ = executeTaskManagerRequestMessage then typed executeTaskManagerResponseMessage (processTaskManagerRequest R D)
         else ((None, None), s))"

definition writeClusterResponse :: "'c writer \<Rightarrow> byte \<Rightarrow> go_error + byte list \<Rightarrow> 'c \<Rightarrow> go_error option \<times> 'c" where
  "writeClusterResponse w respType resp c =
     (case resp of
        Inl e \<Rightarrow> (Some e, c)
      | Inr buf \<Rightarrow> WriteTLV w respType buf c)"

text \<open>One round of \<^verbatim>\<open>handleConn\<close> after a message was read; a panic ends the connection.\<close>

definition serve_message ::
  "('e, 'o, 'p) rpc_lib \<Rightarrow> ('s, 'e, 'o, 'p) tsdb \<Rightarrow> gtime \<Rightarrow> byte list \<Rightarrow> 'c writer \<Rightarrow> ClusterMessage \<Rightarrow> 's Service \<times> 'c
    \<Rightarrow> bool \<times> 's Service \<times> 'c" where
  "serve_message R D now term w req sc =
     (let (s, c) = sc
      in if msg_Type req = createIteratorRequestMessage
         then (case processCreateIteratorRequest R D w term (msg_Data req) s c of (ioError, s, c) \<Rightarrow> (\<not> ioError, s, c))
         else
           case handleRequest R D now (msg_Type req) (msg_Data req) s of
             ((None, err), s) \<Rightarrow> (True, s, c)
           | ((Some (respType, resp), err), s) \<Rightarrow>
               if (case err of Some e \<Rightarrow> is_panic e | None \<Rightarrow> False) then (False, s, c)
               else (case writeClusterResponse w respType resp c of (e, c) \<Rightarrow> (e = None, s, c)))"

end
