(* ===== verification/IterStream.thy ===== *)
theory IterStream
  imports Prelude
begin

text \<open>
  The stream of a remote iterator: \<^verbatim>\<open>x/cyclic_buffer.go\<close> and \<^verbatim>\<open>iteratorReader\<close> of
  \<^verbatim>\<open>coordinator/remote_executor.go\<close>. The server ends the stream with a random terminator, because the
  connection stays open; the reader holds back as many bytes as the terminator has and ends the
  stream when they are the terminator.
\<close>

section \<open>The cyclic buffer\<close>

record CyclicBuffer =
  cb_buf :: "byte list"
  cb_pos :: nat
  cb_cnt :: nat

definition NewCyclicBuffer :: "nat \<Rightarrow> CyclicBuffer" where
  "NewCyclicBuffer capacity = \<lparr>cb_buf = replicate capacity 0, cb_pos = 0, cb_cnt = 0\<rparr>"

definition cb_forward :: "CyclicBuffer \<Rightarrow> CyclicBuffer" where
  "cb_forward c = c\<lparr>cb_pos := (if cb_pos c + 1 \<ge> length (cb_buf c) then 0 else cb_pos c + 1)\<rparr>"

fun cb_write :: "byte list \<Rightarrow> CyclicBuffer \<Rightarrow> CyclicBuffer" where
  "cb_write [] c = c"
| "cb_write (b # bs) c = cb_write bs (cb_forward (c\<lparr>cb_buf := (cb_buf c)[cb_pos c := b]\<rparr>))"

definition cb_Cap :: "CyclicBuffer \<Rightarrow> nat" where
  "cb_Cap c = length (cb_buf c)"

definition cb_Len :: "CyclicBuffer \<Rightarrow> nat" where
  "cb_Len c = cb_cnt c"

definition cb_next :: "nat \<Rightarrow> nat \<Rightarrow> nat" where
  "cb_next l pos = (if pos + 1 \<ge> l then (pos + 1) mod l else pos + 1)"

fun dump_loop :: "byte list \<Rightarrow> nat \<Rightarrow> int \<Rightarrow> nat \<Rightarrow> nat \<Rightarrow> byte list \<Rightarrow> nat \<times> byte list" where
  "dump_loop buf 0 skip posRead posWrite data = (posWrite, data)"
| "dump_loop buf (Suc k) skip posRead posWrite data =
     (if skip > 0 then dump_loop buf k (skip - 1) (cb_next (length buf) posRead) posWrite data
      else dump_loop buf k skip (cb_next (length buf) posRead) (posWrite + 1) (data[posWrite := buf ! posRead]))"

definition cb_Dump :: "byte list \<Rightarrow> CyclicBuffer \<Rightarrow> nat \<times> byte list" where
  "cb_Dump data c =
     (let l = length (cb_buf c)
      in if length data < l then (0, data)
         else dump_loop (cb_buf c) l (int l - int (cb_cnt c)) (cb_pos c) 0 data)"

definition cb_Write :: "byte list \<Rightarrow> CyclicBuffer \<Rightarrow> CyclicBuffer" where
  "cb_Write data c =
     (if length data < 1 then c
      else cb_write (drop (length data - length (cb_buf c)) data) (c\<lparr>cb_cnt := cb_cnt c + length data\<rparr>))"

fun compare_loop :: "byte list \<Rightarrow> nat \<Rightarrow> nat \<Rightarrow> byte list \<Rightarrow> bool" where
  "compare_loop buf start pos [] = True"
| "compare_loop buf start pos (d # ds) =
     (if d \<noteq> buf ! pos then False
      else if cb_next (length buf) pos = start then True
      else compare_loop buf start (cb_next (length buf) pos) ds)"

definition cb_Compare :: "byte list \<Rightarrow> CyclicBuffer \<Rightarrow> bool" where
  "cb_Compare data c =
     (if length (cb_buf c) \<noteq> length data then False else compare_loop (cb_buf c) (cb_pos c) (cb_pos c) data)"

section \<open>The reader\<close>

definition shiftBuffer :: "byte list \<Rightarrow> byte list \<Rightarrow> byte list" where
  "shiftBuffer data header =
     (let offset = length header
      in if offset > length data then data
         else fold (\<lambda>i d. d[i := header ! i]) [0..<offset]
                (fold (\<lambda>i d. d[i := d ! (i - offset)]) (rev [offset..<length data]) data))"

record iteratorReader =
  ir_terminator :: "byte list"
  ir_buf :: "byte list"
  ir_judger :: CyclicBuffer
  ir_terminated :: bool
  ir_bytes :: nat

definition newIteratorReader :: "byte list \<Rightarrow> iteratorReader" where
  "newIteratorReader terminator =
     \<lparr>ir_terminator = terminator, ir_buf = replicate (length terminator) 0,
      ir_judger = NewCyclicBuffer (length terminator), ir_terminated = False, ir_bytes = 0\<rparr>"

text \<open>
  One call of \<^verbatim>\<open>Read\<close>: \<open>p\<close> is the slice of the caller, \<open>(bs, err)\<close> what the connection reads into it. The
  result is the number of bytes, the error, the slice and the reader afterwards.
\<close>

definition ir_Read ::
  "byte list \<Rightarrow> byte list \<times> go_error option \<Rightarrow> iteratorReader \<Rightarrow> nat \<times> go_error option \<times> byte list \<times> iteratorReader" where
  "ir_Read p got r =
     (if ir_terminated r then (0, Some EOF, p, r)
      else
        let (bs, err) = got;
            n = length bs;
            p = bs @ drop n p;
            bytes = ir_bytes r;
            r = r\<lparr>ir_bytes := bytes + n\<rparr>
        in if n = 0 then (0, err, p, r)
           else
             let (dumped, buf) = cb_Dump (ir_buf r) (ir_judger r);
                 r = r\<lparr>ir_buf := buf, ir_judger := cb_Write bs (ir_judger r)\<rparr>
             in if ir_bytes r < length (ir_terminator r) then (0, None, p, r)
                else
                  let p = shiftBuffer p (take (min dumped n) (ir_buf r));
                      ended = cb_Compare (ir_terminator r) (ir_judger r);
                      r = (if ended then r\<lparr>ir_terminated := True\<rparr> else r);
                      err = (if ended then Some EOF else err)
                  in (if bytes < length (ir_buf r) then n - (length (ir_buf r) - bytes) else n, err, p, r))"

text \<open>
  \<^verbatim>\<open>consumeRest\<close> reads into a slice of 32 bytes until it gets \<^verbatim>\<open>io.EOF\<close>. The connection is the sequence of
  what its reads give; the loop has no result when the fuel ends.
\<close>

fun consume_loop ::
  "nat \<Rightarrow> (nat \<Rightarrow> byte list \<times> go_error option) \<Rightarrow> byte list \<Rightarrow> nat \<Rightarrow> iteratorReader \<Rightarrow> (nat \<times> iteratorReader) option" where
  "consume_loop 0 conn buf discarded r = None"
| "consume_loop (Suc fuel) conn buf discarded r =
     (case ir_Read buf (conn 0) r of
        (n, err, buf, r) \<Rightarrow>
          if err = Some EOF then Some (discarded + n, r)
          else consume_loop fuel (\<lambda>i. conn (i + 1)) buf (discarded + n) r)"

definition consumeRest :: "nat \<Rightarrow> (nat \<Rightarrow> byte list \<times> go_error option) \<Rightarrow> iteratorReader \<Rightarrow> (nat \<times> iteratorReader) option" where
  "consumeRest fuel conn r = (if ir_terminated r then Some (0, r) else consume_loop fuel conn (replicate 32 0) 0 r)"

definition ir_Close :: "nat \<Rightarrow> (nat \<Rightarrow> byte list \<times> go_error option) \<Rightarrow> go_error option \<Rightarrow> iteratorReader \<Rightarrow> (go_error option \<times> iteratorReader) option" where
  "ir_Close fuel conn closed r = map_option (\<lambda>(_, r). (closed, r)) (consumeRest fuel conn r)"

section \<open>The buffer holds the last bytes\<close>

definition cb_list :: "CyclicBuffer \<Rightarrow> byte list" where
  "cb_list c = drop (cb_pos c) (cb_buf c) @ take (cb_pos c) (cb_buf c)"

definition cb_ok :: "CyclicBuffer \<Rightarrow> bool" where
  "cb_ok c \<longleftrightarrow> cb_pos c < length (cb_buf c)"

lemma length_cb_list [simp]: "length (cb_list c) = length (cb_buf c)"
  by (simp add: cb_list_def)

lemma cb_write_one:
  assumes "cb_ok c"
  shows "cb_ok (cb_forward (c\<lparr>cb_buf := (cb_buf c)[cb_pos c := b]\<rparr>))"
    and "cb_list (cb_forward (c\<lparr>cb_buf := (cb_buf c)[cb_pos c := b]\<rparr>)) = tl (cb_list c) @ [b]"
  using assms
  by (auto simp: cb_ok_def cb_list_def cb_forward_def upd_conv_take_nth_drop drop_Suc_Cons take_Suc_conv_app_nth tl_drop drop_Suc
      intro!: nth_equalityI)

lemma cb_write_list:
  assumes "cb_ok c"
  shows "cb_ok (cb_write bs c) \<and> length (cb_buf (cb_write bs c)) = length (cb_buf c) \<and> cb_cnt (cb_write bs c) = cb_cnt c \<and>
     cb_list (cb_write bs c) = drop (length bs) (cb_list c @ bs)"
  using assms
proof (induction bs arbitrary: c)
  case (Cons b bs)
  let ?c = "cb_forward (c\<lparr>cb_buf := (cb_buf c)[cb_pos c := b]\<rparr>)"
  have "cb_list c \<noteq> []" using Cons.prems by (auto simp: cb_ok_def simp flip: length_0_conv)
  then have "cb_list ?c @ bs = drop 1 (cb_list c @ b # bs)"
    using cb_write_one(2) [OF Cons.prems, of b] by (cases "cb_list c") simp_all
  then have "drop (length bs) (cb_list ?c @ bs) = drop (length (b # bs)) (cb_list c @ b # bs)"
    by (simp del: drop_append)
  moreover have "length (cb_buf ?c) = length (cb_buf c)" "cb_cnt ?c = cb_cnt c" by (simp_all add: cb_forward_def)
  ultimately show ?case using Cons.IH [OF cb_write_one(1) [OF Cons.prems, of b]] by simp
qed simp

text \<open>The state of a buffer after the bytes \<open>s\<close> were written to a new one of the given capacity.\<close>

definition cb_holds :: "nat \<Rightarrow> byte list \<Rightarrow> CyclicBuffer \<Rightarrow> bool" where
  "cb_holds cap s c \<longleftrightarrow> cb_ok c \<and> length (cb_buf c) = cap \<and> cb_cnt c = length s \<and>
     cb_list c = drop (length s) (replicate cap 0 @ s)"

lemma cb_holds_New: "0 < cap \<Longrightarrow> cb_holds cap [] (NewCyclicBuffer cap)"
  by (simp add: cb_holds_def NewCyclicBuffer_def cb_ok_def cb_list_def)

lemma cb_Write_list:
  assumes "cb_ok c"
  shows "cb_ok (cb_Write bs c) \<and> length (cb_buf (cb_Write bs c)) = length (cb_buf c) \<and>
     cb_cnt (cb_Write bs c) = cb_cnt c + length bs \<and> cb_list (cb_Write bs c) = drop (length bs) (cb_list c @ bs)"
proof (cases "bs = []")
  case False
  let ?c = "c\<lparr>cb_cnt := cb_cnt c + length bs\<rparr>"
  let ?bs = "drop (length bs - length (cb_buf c)) bs"
  have w: "cb_Write bs c = cb_write ?bs ?c" using False by (simp add: cb_Write_def Suc_le_eq)
  have ok: "cb_ok ?c" "cb_list ?c = cb_list c" using assms by (simp_all add: cb_ok_def cb_list_def)
  have "drop (length ?bs) (cb_list c @ ?bs) = drop (length bs) (cb_list c @ bs)"
    by (cases "length bs \<le> length (cb_buf c)") simp_all
  then show ?thesis using cb_write_list [OF ok(1), of ?bs] by (simp add: w ok(2) del: drop_append)
qed (use assms in \<open>simp add: cb_Write_def\<close>)

lemma cb_holds_Write:
  assumes "cb_holds cap s c"
  shows "cb_holds cap (s @ bs) (cb_Write bs c)"
proof -
  have "drop (length s) (replicate cap 0 @ s) @ bs = drop (length s) ((replicate cap 0 @ s) @ bs)" by simp
  then have "drop (length bs) (drop (length s) (replicate cap 0 @ s) @ bs) = drop (length (s @ bs)) (replicate cap 0 @ s @ bs)"
    by (simp add: add.commute del: drop_append)
  then show ?thesis using cb_Write_list [of c bs] assms by (simp add: cb_holds_def del: drop_append)
qed

lemma cb_list_rotate: "cb_ok c \<Longrightarrow> cb_list c = rotate (cb_pos c) (cb_buf c)"
  by (simp add: cb_list_def cb_ok_def rotate_drop_take)

lemma cb_next_mod: "0 < l \<Longrightarrow> cb_next l (n mod l) = (n + 1) mod l"
  by (simp add: cb_next_def mod_Suc)

lemma compare_loop_eq:
  assumes "start < length buf" and "length t = length buf" and "i < length buf"
  shows "compare_loop buf start ((start + i) mod length buf) (drop i t) =
     (\<forall>j. i \<le> j \<longrightarrow> j < length buf \<longrightarrow> t ! j = buf ! ((start + j) mod length buf))"
  using assms(3)
proof (induction "length buf - i" arbitrary: i)
  case (Suc k)
  let ?l = "length buf"
  have t: "drop i t = t ! i # drop (Suc i) t" using Suc.prems assms(2) by (simp add: Cons_nth_drop_Suc)
  have pos: "0 < ?l" using assms(1) by linarith
  have nxt: "cb_next ?l ((start + i) mod ?l) = (start + Suc i) mod ?l" using cb_next_mod [OF pos, of "start + i"] by simp
  have split: "(\<forall>j. i \<le> j \<longrightarrow> j < ?l \<longrightarrow> Q j) = (Q i \<and> (\<forall>j. Suc i \<le> j \<longrightarrow> j < ?l \<longrightarrow> Q j))" for Q
    using Suc.prems by (metis Suc_leD le_antisym not_less_eq_eq)
  show ?case
  proof (cases "Suc i = ?l")
    case True
    then have "(start + Suc i) mod ?l = start" using assms(1) by simp
    with True t nxt show ?thesis by (subst split) (simp add: assms(2))
  next
    case False
    then have "Suc i < ?l" using Suc.prems by simp
    then have ne: "(start + Suc i) mod ?l \<noteq> start"
      using assms(1) mod_less [of "start + Suc i - ?l" ?l] le_mod_geq [of ?l "start + Suc i"]
      by (cases "start + Suc i < ?l") auto
    show ?thesis
      using Suc.hyps(1) [of "Suc i"] Suc.hyps(2) \<open>Suc i < ?l\<close> t nxt ne by (subst split) simp
  qed
qed simp

lemma cb_Compare_eq:
  assumes "cb_ok c"
  shows "cb_Compare t c = (cb_list c = t)"
proof (cases "length (cb_buf c) = length t")
  case True
  have l: "cb_pos c < length (cb_buf c)" using assms by (simp add: cb_ok_def)
  have ne: "t \<noteq> []" using True l by auto
  have "cb_Compare t c = (\<forall>j < length (cb_buf c). t ! j = cb_list c ! j)"
    using compare_loop_eq [OF l True [symmetric], of 0] True l ne
    by (simp add: cb_Compare_def cb_list_rotate [OF assms] nth_rotate)
  also have "\<dots> = (cb_list c = t)" using True by (auto simp: list_eq_iff_nth_eq)
  finally show ?thesis .
next
  case False
  then have "cb_list c \<noteq> t" by auto
  with False show ?thesis by (simp add: cb_Compare_def)
qed

lemma dump_loop_eq:
  assumes "start < length buf" and "k \<le> length buf" and "w + (k - nat skip) \<le> length data"
  shows "dump_loop buf k skip ((start + (length buf - k)) mod length buf) w data =
     (w + (k - nat skip), take w data @ drop (length buf - (k - nat skip)) (rotate start buf) @ drop (w + (k - nat skip)) data)"
  using assms(2,3)
proof (induction k arbitrary: skip w data)
  case (Suc k)
  let ?l = "length buf"
  let ?r = "(start + (?l - Suc k)) mod ?l"
  have nxt: "cb_next ?l ?r = (start + (?l - k)) mod ?l"
  proof -
    have e: "start + (?l - Suc k) + 1 = start + (?l - k)" using Suc.prems by simp
    have "0 < ?l" using assms(1) by linarith
    then show ?thesis using cb_next_mod [of ?l "start + (?l - Suc k)"] unfolding e by blast
  qed
  show ?case
  proof (cases "skip > 0")
    case True
    then have "nat skip = Suc (nat (skip - 1))" by simp
    with True nxt Suc show ?thesis by simp
  next
    case False
    have r: "buf ! ?r = rotate start buf ! (?l - Suc k)" using Suc.prems by (simp add: nth_rotate)
    have d: "drop (?l - Suc k) (rotate start buf) = buf ! ?r # drop (?l - k) (rotate start buf)"
    proof -
      have "Suc (?l - Suc k) = ?l - k" using Suc.prems by simp
      moreover have "?l - Suc k < length (rotate start buf)" using Suc.prems by simp
      ultimately show ?thesis using Cons_nth_drop_Suc [of "?l - Suc k" "rotate start buf"] r by simp
    qed
    have "take (Suc w) (data[w := buf ! ?r]) = take w data @ [buf ! ?r]"
      using Suc.prems False by (simp add: take_Suc_conv_app_nth)
    with False nxt d Suc.IH [of "w + 1" skip "data[w := buf ! ?r]"] Suc.prems show ?thesis by simp
  qed
qed simp

text \<open>The bytes held back after the stream \<open>s\<close>, and what was given to the caller.\<close>

lemma cb_Dump_held:
  assumes "cb_holds cap s c" and "length data = cap"
  shows "\<exists>rest. cb_Dump data c = (min (length s) cap, drop (length s - cap) s @ rest) \<and> length rest = cap - min (length s) cap"
proof -
  have ok: "cb_ok c" "length (cb_buf c) = cap" "cb_cnt c = length s" "cb_list c = drop (length s) (replicate cap 0 @ s)"
    using assms(1) by (simp_all add: cb_holds_def)
  have m: "cap - nat (int cap - int (length s)) = min (length s) cap" by simp
  have "cb_Dump data c =
      (min (length s) cap, drop (cap - min (length s) cap) (cb_list c) @ drop (min (length s) cap) data)"
    using dump_loop_eq [of "cb_pos c" "cb_buf c" "cap" 0 "int cap - int (length s)" data] ok(1,2,3) assms(2)
    by (simp add: cb_Dump_def cb_ok_def m cb_list_rotate [OF ok(1)] Let_def)
  moreover have "drop (cap - min (length s) cap) (cb_list c) = drop (length s - cap) s"
    by (cases "length s \<le> cap") (simp_all add: ok(4))
  ultimately show ?thesis using assms(2) by simp
qed

section \<open>Reading a stream\<close>

lemma shift_right:
  assumes "offset \<le> k" and "k \<le> length data"
  shows "fold (\<lambda>i d. d[i := d ! (i - offset)]) (rev [k..<length data]) data =
     take k data @ take (length data - k) (drop (k - offset) data)"
  using assms
proof (induction "length data - k" arbitrary: k)
  case (Suc m)
  then have k: "k < length data" by simp
  let ?d = "take (Suc k) data @ take (length data - Suc k) (drop (Suc k - offset) data)"
  have "rev [k..<length data] = rev [Suc k..<length data] @ [k]" using k by (simp add: upt_rec [of k])
  then have "fold (\<lambda>i d. d[i := d ! (i - offset)]) (rev [k..<length data]) data = ?d[k := ?d ! (k - offset)]"
    using Suc.hyps(1) [of "Suc k"] Suc.hyps(2) Suc.prems(1) k by simp
  also have "?d ! (k - offset) = data ! (k - offset)" using k by (simp add: nth_append less_Suc_eq_le)
  also have "?d[k := data ! (k - offset)] =
      take k data @ data ! (k - offset) # take (length data - Suc k) (drop (Suc (k - offset)) data)"
    using k Suc.prems(1) by (simp add: list_update_append take_Suc_conv_app_nth Suc_diff_le)
  also have "data ! (k - offset) # take (length data - Suc k) (drop (Suc (k - offset)) data) =
      take (Suc (length data - Suc k)) (drop (k - offset) data)"
    using k by (simp add: Cons_nth_drop_Suc [symmetric] less_imp_diff_less)
  finally show ?case using k by (simp add: Suc_diff_Suc)
qed simp

lemma copy_header:
  assumes "j \<le> length header" and "j \<le> length d"
  shows "fold (\<lambda>i d. d[i := header ! i]) [0..<j] d = take j header @ drop j d"
  using assms
proof (induction j)
  case (Suc j)
  then have "drop j d = d ! j # drop (Suc j) d" by (simp add: Cons_nth_drop_Suc)
  with Suc show ?case by (simp add: list_update_append take_Suc_conv_app_nth)
qed simp

lemma shiftBuffer_eq:
  assumes "length header \<le> length data"
  shows "shiftBuffer data header = header @ take (length data - length header) data"
  using assms shift_right [of "length header" "length header" data]
    copy_header [of "length header" header "take (length header) data @ take (length data - length header) data"]
  by (simp add: shiftBuffer_def)

text \<open>
  The state of a reader after the stream \<open>s\<close>: it has given all but the last bytes to the caller, as
  many as the terminator has, and these are in the buffer.
\<close>

definition reading_at :: "byte list \<Rightarrow> byte list \<Rightarrow> iteratorReader \<Rightarrow> bool" where
  "reading_at t s r \<longleftrightarrow> t \<noteq> [] \<and> \<not> ir_terminated r \<and> ir_terminator r = t \<and> length (ir_buf r) = length t \<and>
     cb_holds (length t) s (ir_judger r) \<and> ir_bytes r = length s"

definition given :: "byte list \<Rightarrow> byte list \<Rightarrow> byte list" where
  "given t s = take (length s - length t) s"

lemma reading_new: "t \<noteq> [] \<Longrightarrow> reading_at t [] (newIteratorReader t)"
  by (simp add: reading_at_def newIteratorReader_def cb_holds_New)

lemma ended_iff:
  assumes "cb_holds (length t) s c" and "length t \<le> length s"
  shows "cb_Compare t c = (drop (length s - length t) s = t)"
  using assms by (simp add: cb_holds_def cb_Compare_eq)

lemma given_append:
  assumes "length t \<le> length (s @ bs)"
  shows "given t (s @ bs) = given t s @
     take (if length s < length t then length bs - (length t - length s) else length bs) (drop (length s - length t) s @ bs)"
proof (cases "length s < length t")
  case False
  have "given t (s @ bs) = take (length s - length t + length bs) (s @ bs)" using False by (simp add: given_def)
  also have "\<dots> = take (length s - length t) (s @ bs) @ take (length bs) (drop (length s - length t) (s @ bs))"
    by (rule take_add)
  finally show ?thesis using False by (simp add: given_def)
qed (use assms in \<open>simp add: given_def add.commute\<close>)

lemma take_shifted:
  assumes "m \<le> length bs" and "length bs \<le> length p"
  shows "take m (shiftBuffer (bs @ drop (length bs) p) (take (min (length h) (length bs)) h)) = take m (h @ bs)"
  using assms by (simp add: shiftBuffer_eq min_def)

lemma ir_Read_step:
  assumes at: "reading_at t s r" and bs: "bs \<noteq> []" "length bs \<le> length p"
    and res: "ir_Read p (bs, err) r = (n, err', p', r')"
  shows "given t (s @ bs) = given t s @ take n p'"
    and "length p' = length p"
    and "if drop (length (s @ bs) - length t) (s @ bs) = t then ir_terminated r' \<and> err' = Some EOF
         else reading_at t (s @ bs) r' \<and> (err = None \<longrightarrow> err' = None)"
proof -
  let ?cap = "length t" and ?held = "drop (length s - length t) s"
  obtain rest where dump: "cb_Dump (ir_buf r) (ir_judger r) = (min (length s) ?cap, ?held @ rest)"
    and rest: "length rest = ?cap - min (length s) ?cap"
    using at cb_Dump_held [of ?cap s "ir_judger r" "ir_buf r"] by (auto simp: reading_at_def)
  let ?r = "r\<lparr>ir_bytes := length s + length bs, ir_buf := ?held @ rest, ir_judger := cb_Write bs (ir_judger r)\<rparr>"
  have holds: "cb_holds ?cap (s @ bs) (cb_Write bs (ir_judger r))"
    using at by (auto simp: reading_at_def intro: cb_holds_Write)
  have r: "reading_at t (s @ bs) ?r" using at holds rest by (simp add: reading_at_def)
  have read: "ir_Read p (bs, err) r =
      (if length (s @ bs) < ?cap then (0, None, bs @ drop (length bs) p, ?r)
       else
         let p1 = shiftBuffer (bs @ drop (length bs) p) (take (min (length ?held) (length bs)) ?held);
             m = if length s < ?cap then length bs - (?cap - length s) else length bs
         in if drop (length (s @ bs) - ?cap) (s @ bs) = t then (m, Some EOF, p1, ?r\<lparr>ir_terminated := True\<rparr>)
            else (m, err, p1, ?r))"
    using at bs(1) dump rest ended_iff [OF holds]
    by (auto simp: ir_Read_def reading_at_def Let_def min.commute min_def not_less)
  show "given t (s @ bs) = given t s @ take n p'"
  proof (cases "length (s @ bs) < ?cap")
    case True
    with res show ?thesis by (simp add: read given_def)
  next
    case False
    with res have "take n p' = take (if length s < ?cap then length bs - (?cap - length s) else length bs) (?held @ bs)"
      using take_shifted [OF _ bs(2), of _ ?held] by (auto simp: read Let_def split: if_splits)
    with False show ?thesis by (simp only: given_append not_less)
  qed
  show "length p' = length p"
    using res bs(2) by (auto simp: read Let_def shiftBuffer_eq split: if_splits)
  show "if drop (length (s @ bs) - length t) (s @ bs) = t then ir_terminated r' \<and> err' = Some EOF
         else reading_at t (s @ bs) r' \<and> (err = None \<longrightarrow> err' = None)"
  proof (cases "length (s @ bs) < ?cap")
    case True
    then have "s @ bs \<noteq> t" by auto
    with True res r show ?thesis by (simp add: read)
  next
    case False
    with res r show ?thesis unfolding read Let_def by (auto split: if_splits)
  qed
qed

text \<open>A sequence of reads: the slices of the caller with what the connection reads into them.\<close>

fun ir_reads :: "(byte list \<times> byte list) list \<Rightarrow> iteratorReader \<Rightarrow> (byte list \<times> go_error option) list \<times> iteratorReader" where
  "ir_reads [] r = ([], r)"
| "ir_reads ((p, bs) # calls) r =
     (case ir_Read p (bs, None) r of
        (n, err, p', r') \<Rightarrow> (case ir_reads calls r' of (outs, r'') \<Rightarrow> ((take n p', err) # outs, r'')))"

definition ends_with :: "byte list \<Rightarrow> byte list \<Rightarrow> bool" where
  "ends_with t s \<longleftrightarrow> drop (length s - length t) s = t"

definition good_calls :: "(byte list \<times> byte list) list \<Rightarrow> bool" where
  "good_calls calls = list_all (\<lambda>(p, bs). bs \<noteq> [] \<and> length bs \<le> length p) calls"

text \<open>The chunks are the only input; the terminator does not show before the last one.\<close>

definition ends_last :: "byte list \<Rightarrow> byte list \<Rightarrow> byte list list \<Rightarrow> bool" where
  "ends_last t s cs \<longleftrightarrow> list_all (\<lambda>k. ends_with t (s @ concat (take (Suc k) cs)) = (Suc k = length cs)) [0..<length cs]"

lemma ends_last_Cons:
  assumes "ends_last t s (bs # cs)" and "cs \<noteq> []"
  shows "\<not> ends_with t (s @ bs)" and "ends_last t (s @ bs) cs"
proof -
  have *: "ends_with t (s @ concat (take (Suc k) (bs # cs))) = (Suc k = Suc (length cs))" if "k < Suc (length cs)" for k
    using assms(1) that unfolding ends_last_def list_all_iff by (metis atLeastLessThan_iff length_Cons set_upt zero_le)
  show "\<not> ends_with t (s @ bs)" using * [of 0] assms(2) by simp
  show "ends_last t (s @ bs) cs"
    unfolding ends_last_def list_all_iff
  proof
    fix k
    assume "k \<in> set [0..<length cs]"
    then show "ends_with t ((s @ bs) @ concat (take (Suc k) cs)) = (Suc k = length cs)" using * [of "Suc k"] by simp
  qed
qed

lemma ends_last_single: "ends_last t s [bs] = ends_with t (s @ bs)"
  by (simp add: ends_last_def)

lemma ir_reads_stream:
  assumes "reading_at t s r" and "good_calls calls" and "calls \<noteq> []" and "ends_last t s (map snd calls)"
  shows "\<exists>outs b r'. ir_reads calls r = (outs @ [(b, Some EOF)], r') \<and> list_all (\<lambda>(_, e). e = None) outs \<and>
     given t s @ concat (map fst outs) @ b = given t (s @ concat (map snd calls)) \<and> ir_terminated r'"
  using assms
proof (induction calls arbitrary: s r)
  case (Cons call calls)
  obtain p bs where call: "call = (p, bs)" by (cases call)
  have bs: "bs \<noteq> []" "length bs \<le> length p" using Cons.prems(2) by (simp_all add: good_calls_def call)
  obtain n err p' r' where read: "ir_Read p (bs, None) r = (n, err, p', r')" by (cases "ir_Read p (bs, None) r")
  note step = ir_Read_step [OF Cons.prems(1) bs read]
  show ?case
  proof (cases "calls = []")
    case True
    then have "ends_with t (s @ bs)" using Cons.prems(4) by (simp add: call ends_last_single)
    with step(3) have "ir_terminated r'" "err = Some EOF" by (simp_all add: ends_with_def)
    with True step(1) read show ?thesis by (simp add: call)
  next
    case False
    then have more: "\<not> ends_with t (s @ bs)" "ends_last t (s @ bs) (map snd calls)"
      using ends_last_Cons [of t s bs "map snd calls"] Cons.prems(4) by (simp_all add: call)
    have at: "reading_at t (s @ bs) r'" and "err = None" using step(3) more(1) by (simp_all add: ends_with_def)
    have "good_calls calls" using Cons.prems(2) by (simp add: good_calls_def)
    from Cons.IH [OF at this False more(2)] obtain outs b r2 where IH: "ir_reads calls r' = (outs @ [(b, Some EOF)], r2)" "list_all (\<lambda>(_, e). e = None) outs"
        "given t (s @ bs) @ concat (map fst outs) @ b = given t ((s @ bs) @ concat (map snd calls))" "ir_terminated r2"
      by blast
    then show ?thesis
      using step(1) read \<open>err = None\<close> by (intro exI [of _ "(take n p', None) # outs"]) (simp add: call)
  qed
qed simp

text \<open>
  Whatever pieces the connection delivers the stream of a remote iterator in, and whatever
  slices the caller reads into, the reader gives exactly the bytes before the terminator, without
  an error until the last read, which gives \<^verbatim>\<open>io.EOF\<close>, and only \<^verbatim>\<open>io.EOF\<close> afterwards; the terminator must not
  show at the end of an earlier piece.
\<close>

theorem iterator_stream:
  assumes "t \<noteq> []" and "good_calls calls" and "ends_last t [] (map snd calls)"
    and "concat (map snd calls) = data @ t"
  shows "\<exists>outs b r. ir_reads calls (newIteratorReader t) = (outs @ [(b, Some EOF)], r) \<and>
     list_all (\<lambda>(_, e). e = None) outs \<and> concat (map fst outs) @ b = data \<and>
     (\<forall>p got. ir_Read p got r = (0, Some EOF, p, r))"
proof -
  have "calls \<noteq> []" using assms(1,4) by auto
  from ir_reads_stream [OF reading_new [OF assms(1)] assms(2) this assms(3)]
  obtain outs b r where "ir_reads calls (newIteratorReader t) = (outs @ [(b, Some EOF)], r)"
      "list_all (\<lambda>(_, e). e = None) outs" "concat (map fst outs) @ b = data" "ir_terminated r"
    by (auto simp: assms(4) given_def)
  then show ?thesis by (auto simp: ir_Read_def)
qed

theorem iterator_stream_witness:
  "\<exists>outs b r. ir_reads [(replicate 4 0, [10]), (replicate 4 0, [11, 1]), (replicate 4 0, [12, 1, 2, 3])] (newIteratorReader [1, 2, 3]) =
       (outs @ [(b, Some EOF)], r) \<and> concat (map fst outs) @ b = [10, 11, 1, 12]"
  using iterator_stream [of "[1, 2, 3]" "[(replicate 4 0, [10]), (replicate 4 0, [11, 1]), (replicate 4 0, [12, 1, 2, 3])]"
      "[10, 11, 1, 12]"]
  by (fastforce simp: good_calls_def ends_last_def ends_with_def numeral_eq_Suc)

section \<open>Closing\<close>

text \<open>
  \<^verbatim>\<open>consumeRest\<close>, and with it \<^verbatim>\<open>Close\<close>, does not return when the connection fails with an error other than
  \<^verbatim>\<open>io.EOF\<close> before the terminator has come: it reads again for ever.
\<close>

theorem consumeRest_spins:
  assumes "e \<noteq> EOF" and "\<not> ir_terminated r"
  shows "consumeRest fuel (\<lambda>_. ([], Some e)) r = None"
proof -
  have "consume_loop fuel (\<lambda>_. ([], Some e)) buf d r = None" if "\<not> ir_terminated r" for fuel buf d r
    using that
  proof (induction fuel arbitrary: buf d r)
    case (Suc fuel)
    then show ?case using assms(1) by (simp add: ir_Read_def)
  qed simp
  then show ?thesis using assms(2) by (simp add: consumeRest_def)
qed

theorem consumeRest_spins_witness:
  "consumeRest 1000 (\<lambda>_. ([], Some (LibErr ''connection reset by peer''))) (newIteratorReader [1, 2, 3, 4, 5, 6, 7, 8]) = None"
  by (rule consumeRest_spins) (simp_all add: newIteratorReader_def)

end
