(* ===== verification/RemoteExec.thy ===== *)
theory RemoteExec
  imports RemoteService IterStream
begin

text \<open>
  The calls of other data nodes: \<^verbatim>\<open>coordinator/remote_executor.go\<close> and \<^verbatim>\<open>ShardWriter\<close> of
  \<^verbatim>\<open>coordinator/shard_writer.go\<close>, and what they give when the server of \<open>RemoteService\<close> is at the other end
  of the connection.
\<close>

section \<open>Connections\<close>

text \<open>
  What the client uses of the connection pool and of a connection: get a connection to a node, write,
  read exactly so many bytes, what single reads give until the deadline, give the connection up and
  put it back.
\<close>

record 'w net =
  nw_GetConn :: "u64 \<Rightarrow> 'w \<Rightarrow> (go_error + nat) \<times> 'w"
  nw_Write :: "nat \<Rightarrow> 'w writer"
  nw_ReadFull :: "nat \<Rightarrow> 'w full_reader"
  nw_Reads :: "nat \<Rightarrow> 'w \<Rightarrow> reads \<times> 'w"
  nw_MarkUnusable :: "nat \<Rightarrow> 'w \<Rightarrow> 'w"
  nw_Close :: "nat \<Rightarrow> 'w \<Rightarrow> 'w"

definition writeTestPacket :: "'w net \<Rightarrow> nat \<Rightarrow> 'w \<Rightarrow> go_error option \<times> 'w" where
  "writeTestPacket N c w = nw_Write N c [testRequestMessage, 0, 0, 0, 0, 0, 0, 0, 0] w"

fun get_conn_loop :: "nat \<Rightarrow> 'w net \<Rightarrow> u64 \<Rightarrow> go_error \<Rightarrow> 'w \<Rightarrow> (go_error + nat) \<times> 'w" where
  "get_conn_loop 0 N nodeId err w = (Inl err, w)"
| "get_conn_loop (Suc retries) N nodeId err w =
     (case nw_GetConn N nodeId w of
        (Inl e, w) \<Rightarrow> (Inl ErrRetry, w)
      | (Inr c, w) \<Rightarrow>
          (case writeTestPacket N c w of
             (Some e, w) \<Rightarrow> get_conn_loop retries N nodeId e (nw_Close N c (nw_MarkUnusable N c w))
           | (None, w) \<Rightarrow> (Inr c, w)))"

text \<open>The error before the first round is not returned, because there are three rounds.\<close>

definition getConnWithRetry :: "'w net \<Rightarrow> u64 \<Rightarrow> 'w \<Rightarrow> (go_error + nat) \<times> 'w" where
  "getConnWithRetry N nodeId w = get_conn_loop 3 N nodeId ErrRetry w"

section \<open>Calls\<close>

text \<open>
  Request and response on a connection, the form that all calls have: \<open>failed\<close> is the error in the
  response. A panic of the decoder passes by \<^verbatim>\<open>MarkUnusable\<close>.
\<close>

definition give_up :: "'w net \<Rightarrow> nat \<Rightarrow> go_error \<Rightarrow> 'w \<Rightarrow> 'w" where
  "give_up N c e w = (if is_panic e then w else nw_MarkUnusable N c w)"

definition exchange ::
  "'w net \<Rightarrow> nat \<Rightarrow> byte \<Rightarrow> go_error + byte list \<Rightarrow> (byte list \<Rightarrow> go_error + 'v) \<Rightarrow> ('v \<Rightarrow> go_error option) \<Rightarrow> 'w
    \<Rightarrow> (go_error + 'v) \<times> 'w" where
  "exchange N c typ req unmarshal failed w =
     (case EncodeTLV (nw_Write N c) typ req w of
        (Some e, w) \<Rightarrow> (Inl e, give_up N c e w)
      | (None, w) \<Rightarrow>
          (case decodeTLV (nw_ReadFull N c) unmarshal w of
             (Inl e, w) \<Rightarrow> (Inl e, give_up N c e w)
           | (Inr (_, resp), w) \<Rightarrow> (case failed resp of Some e \<Rightarrow> (Inl e, w) | None \<Rightarrow> (Inr resp, w))))"

definition remote_call ::
  "'w net \<Rightarrow> u64 \<Rightarrow> byte \<Rightarrow> go_error + byte list \<Rightarrow> (byte list \<Rightarrow> go_error + 'v) \<Rightarrow> ('v \<Rightarrow> go_error option) \<Rightarrow> 'w
    \<Rightarrow> (go_error + 'v) \<times> 'w" where
  "remote_call N nodeId typ req unmarshal failed w =
     (case getConnWithRetry N nodeId w of
        (Inl e, w) \<Rightarrow> (Inl e, w)
      | (Inr c, w) \<Rightarrow> (case exchange N c typ req unmarshal failed w of (res, w) \<Rightarrow> (res, nw_Close N c w)))"

definition err_of :: "string \<Rightarrow> go_error option" where
  "err_of s = (if s \<noteq> [] then Some (Errorf s) else None)"

definition MapType ::
  "('e, 'o, 'p) rpc_lib \<Rightarrow> 'w net \<Rightarrow> u64 \<Rightarrow> Measurement \<Rightarrow> string \<Rightarrow> u64 list \<Rightarrow> 'w \<Rightarrow> (int \<times> go_error option) \<times> 'w" where
  "MapType R N nodeId m field shardIds w =
     (let measurement = (if m_SystemIterator m \<noteq> [] then m\<lparr>m_Name := m_SystemIterator m\<rparr> else m)
      in case remote_call N nodeId mapTypeRequestMessage
           (mt_MarshalBinary R \<lparr>mt_Sources = [SourceMeasurement measurement], mt_Field = field, mt_ShardIDs = shardIds\<rparr>)
           (mr_UnmarshalBinary R) (\<lambda>resp. err_of (mr_Err resp)) w of
           (Inl e, w) \<Rightarrow> ((0, Some e), w)
         | (Inr resp, w) \<Rightarrow> ((mr_DataType resp, None), w))"

definition IteratorCost ::
  "('e, 'o, 'p) rpc_lib \<Rightarrow> json \<Rightarrow> 'w net \<Rightarrow> u64 \<Rightarrow> Measurement \<Rightarrow> 'o \<Rightarrow> u64 list \<Rightarrow> 'w \<Rightarrow> (json \<times> go_error option) \<times> 'w" where
  "IteratorCost R zero N nodeId m opt shardIds w =
     (case remote_call N nodeId iteratorCostRequestMessage
           (ic_MarshalBinary R \<lparr>ic_Sources = [SourceMeasurement m], ic_Opt = opt, ic_ShardIDs = shardIds\<rparr>)
           (icr_UnmarshalBinary R) (\<lambda>resp. err_of (icr_Err resp)) w of
        (Inl e, w) \<Rightarrow> ((zero, Some e), w)
      | (Inr resp, w) \<Rightarrow> ((icr_Cost resp, None), w))"

definition FieldDimensions ::
  "('e, 'o, 'p) rpc_lib \<Rightarrow> 'w net \<Rightarrow> u64 \<Rightarrow> Measurement \<Rightarrow> u64 list \<Rightarrow> 'w \<Rightarrow> (go_error + (string \<times> int) list \<times> string list) \<times> 'w" where
  "FieldDimensions R N nodeId m shardIds w =
     (case remote_call N nodeId fieldDimensionsRequestMessage
           (fd_MarshalBinary R \<lparr>fd_ShardIDs = shardIds, fd_Sources = [SourceMeasurement m]\<rparr>)
           (fr_UnmarshalBinary R) fr_Err w of
        (Inl e, w) \<Rightarrow> (Inl e, w)
      | (Inr resp, w) \<Rightarrow> (Inr (fr_Fields resp, fr_Dimensions resp), w))"

definition TaskManagerStatement :: "('e, 'o, 'p) rpc_lib \<Rightarrow> 'w net \<Rightarrow> u64 \<Rightarrow> string \<Rightarrow> 'w \<Rightarrow> (go_error + json) \<times> 'w" where
  "TaskManagerStatement R N nodeId stmt w =
     (case remote_call N nodeId executeTaskManagerRequestMessage
           (fst (rl_ExecuteStatementRequest R) (es_SetDatabase [] (es_SetStatement stmt \<lparr>ps_Statement = None, ps_Database = None\<rparr>)))
           (tm_UnmarshalBinary R) (\<lambda>resp. err_of (tm_Err resp)) w of
        (Inl e, w) \<Rightarrow> (Inl e, w)
      | (Inr resp, w) \<Rightarrow> (Inr (tm_Result resp), w))"

definition SeriesCardinality :: "('e, 'o, 'p) rpc_lib \<Rightarrow> 'w net \<Rightarrow> u64 \<Rightarrow> string \<Rightarrow> 'w \<Rightarrow> (int \<times> go_error option) \<times> 'w" where
  "SeriesCardinality R N nodeId database w =
     (case remote_call N nodeId seriesCardinalityRequestMessage (dbreq_MarshalBinary R database)
           (sr_UnmarshalBinary R) (\<lambda>resp. err_of (sr_Err resp)) w of
        (Inl e, w) \<Rightarrow> ((-1, Some e), w)
      | (Inr resp, w) \<Rightarrow> ((sr_N resp, None), w))"

definition MeasurementNames ::
  "('e, 'o, 'p) rpc_lib \<Rightarrow> 'w net \<Rightarrow> u64 \<Rightarrow> string \<Rightarrow> 'e option \<Rightarrow> 'w \<Rightarrow> (go_error + byte list list) \<times> 'w" where
  "MeasurementNames R N nodeId database cond w =
     (case remote_call N nodeId measurementNamesRequestMessage (mn_MarshalBinary R \<lparr>mn_Database = database, mn_Cond = cond\<rparr>)
           (mnr_UnmarshalBinary R) (\<lambda>resp. err_of (mnr_Err resp)) w of
        (Inl e, w) \<Rightarrow> (Inl e, w)
      | (Inr resp, w) \<Rightarrow> (Inr (mnr_Names resp), w))"

definition TagValues :: "('e, 'o, 'p) rpc_lib \<Rightarrow> 'w net \<Rightarrow> u64 \<Rightarrow> u64 list \<Rightarrow> 'e option \<Rightarrow> 'w \<Rightarrow> (go_error + json list) \<times> 'w" where
  "TagValues R N nodeId shardIDs cond w =
     (case remote_call N nodeId tagValuesRequestMessage (tk_MarshalBinary R \<lparr>tk_ShardIDs = shardIDs, tk_Cond = cond\<rparr>)
           (TagValuesResponse_UnmarshalBinary R) (\<lambda>resp. err_of (tr_Err resp)) w of
        (Inl e, w) \<Rightarrow> (Inl e, w)
      | (Inr resp, w) \<Rightarrow> (Inr (tr_Tags resp), w))"

definition TagKeys :: "('e, 'o, 'p) rpc_lib \<Rightarrow> 'w net \<Rightarrow> u64 \<Rightarrow> u64 list \<Rightarrow> 'e option \<Rightarrow> 'w \<Rightarrow> (go_error + json list) \<times> 'w" where
  "TagKeys R N nodeId shardIDs cond w =
     (case remote_call N nodeId tagKeysRequestMessage (tk_MarshalBinary R \<lparr>tk_ShardIDs = shardIDs, tk_Cond = cond\<rparr>)
           (TagKeysResponse_UnmarshalBinary R) (\<lambda>resp. err_of (tr_Err resp)) w of
        (Inl e, w) \<Rightarrow> (Inl e, w)
      | (Inr resp, w) \<Rightarrow> (Inr (tr_Tags resp), w))"

definition error_only :: "(go_error + 'v) \<times> 'w \<Rightarrow> go_error option \<times> 'w" where
  "error_only r = (case r of (Inl e, w) \<Rightarrow> (Some e, w) | (Inr _, w) \<Rightarrow> (None, w))"

definition DeleteMeasurement :: "('e, 'o, 'p) rpc_lib \<Rightarrow> 'w net \<Rightarrow> u64 \<Rightarrow> string \<Rightarrow> string \<Rightarrow> 'w \<Rightarrow> go_error option \<times> 'w" where
  "DeleteMeasurement R N nodeId database name w =
     error_only (remote_call N nodeId deleteMeasurementRequestMessage (dm_MarshalBinary R \<lparr>dm_Database = database, dm_Name = name\<rparr>)
       (err_UnmarshalBinary R) err_of w)"

definition DeleteDatabase :: "('e, 'o, 'p) rpc_lib \<Rightarrow> 'w net \<Rightarrow> u64 \<Rightarrow> string \<Rightarrow> 'w \<Rightarrow> go_error option \<times> 'w" where
  "DeleteDatabase R N nodeId database w =
     error_only (remote_call N nodeId deleteDatabaseRequestMessage (dbreq_MarshalBinary R database) (err_UnmarshalBinary R) err_of w)"

definition DeleteSeries :: "('e, 'o, 'p) rpc_lib \<Rightarrow> 'w net \<Rightarrow> u64 \<Rightarrow> string \<Rightarrow> Sources \<Rightarrow> 'e option \<Rightarrow> 'w \<Rightarrow> go_error option \<times> 'w" where
  "DeleteSeries R N nodeId database sources cond w =
     error_only (remote_call N nodeId deleteSeriesRequestMessage
       (ds_MarshalBinary R \<lparr>ds_Database = database, ds_Sources = sources, ds_Cond = cond\<rparr>) (err_UnmarshalBinary R) err_of w)"

text \<open>
  The call that opens an iterator keeps its connection: the result names it, with the type, the
  number of series and the terminator that the reader of the stream needs.
\<close>

definition CreateIterator ::
  "('e, 'o, 'p) rpc_lib \<Rightarrow> 'w net \<Rightarrow> u64 \<Rightarrow> (u64 \<times> u64) option \<Rightarrow> Measurement \<Rightarrow> 'o \<Rightarrow> u64 list \<Rightarrow> 'w
    \<Rightarrow> (go_error + nat \<times> CreateIteratorResponse) \<times> 'w" where
  "CreateIterator R N nodeId span m opt shardIds w =
     (case getConnWithRetry N nodeId w of
        (Inl e, w) \<Rightarrow> (Inl e, w)
      | (Inr c, w) \<Rightarrow>
          (case exchange N c createIteratorRequestMessage
                (ci_MarshalBinary R \<lparr>ci_SpanContex = span, ci_ShardIDs = shardIds, ci_Opt = opt, ci_Measurement = m\<rparr>)
                (cr_UnmarshalBinary R) cr_Err w of
             (Inl e, w) \<Rightarrow> (Inl e, if is_panic e then w else nw_Close N c w)
           | (Inr resp, w) \<Rightarrow> (Inr (c, resp), w)))"

section \<open>Writing a shard\<close>

text \<open>
  The reader waits until the deadline, after what the connection gave before it. \<open>ShardOwner\<close> is the
  meta client's.
\<close>

definition read_response :: "'w net \<Rightarrow> nat \<Rightarrow> 'w \<Rightarrow> (go_error + ClusterMessage) \<times> 'w" where
  "read_response N c w =
     (case nw_Reads N c w of
        (conn, w) \<Rightarrow>
          (case reader_Read (conn @ [([], Some net_timeout)]) [] of
             Some (res, _) \<Rightarrow> (res, w)
           | None \<Rightarrow> (Inl net_timeout, w)))"

definition write_request ::
  "('e, 'o, 'p) rpc_lib \<Rightarrow> string \<Rightarrow> string \<Rightarrow> u64 \<Rightarrow> 'p list \<Rightarrow> go_error + byte list" where
  "write_request R db rp shardID points =
     and_then (AddPoints R points (ws_SetRetentionPolicy rp (ws_SetDatabase db (SetShardID shardID
       \<lparr>pbw_ShardID = None, pbw_Points = [], pbw_Database = None, pbw_RetentionPolicy = None\<rparr>)))) (fst (rl_WriteShardRequest R))"

definition FormatInt :: "int \<Rightarrow> string" where
  "FormatInt i = (if i < 0 then CHR ''-'' # FormatUint (nat (- i)) else FormatUint (nat i))"

definition WriteShard ::
  "('e, 'o, 'p) rpc_lib \<Rightarrow> 'w net \<Rightarrow> (u64 \<Rightarrow> (string \<times> string) option) \<Rightarrow> u64 \<Rightarrow> u64 \<Rightarrow> 'p list \<Rightarrow> 'w \<Rightarrow> go_error option \<times> 'w" where
  "WriteShard R N ShardOwner shardID ownerID points w =
     (case getConnWithRetry N ownerID w of
        (Inl e, w) \<Rightarrow> (Some e, w)
      | (Inr c, w) \<Rightarrow>
          (case ShardOwner shardID of
             None \<Rightarrow> (None, nw_Close N c w)
           | Some (db, rp) \<Rightarrow>
               (case write_request R db rp shardID points of
                  Inl e \<Rightarrow> (Some e, nw_Close N c w)
                | Inr buf \<Rightarrow>
                    (case WriteTLV (nw_Write N c) writeShardRequestMessage buf w of
                       (Some e, w) \<Rightarrow> (Some e, nw_Close N c (give_up N c e w))
                     | (None, w) \<Rightarrow>
                         (case read_response N c w of
                            (Inl e, w) \<Rightarrow> (Some e, nw_Close N c (give_up N c e w))
                          | (Inr resp, w) \<Rightarrow>
                              (case snd (rl_WriteShardResponse R) (msg_Data resp) of
                                 Inl e \<Rightarrow> (Some e, nw_Close N c w)
                               | Inr response \<Rightarrow>
                                   if wsr_Code response \<noteq> 0
                                   then (Some (Errorf (''error code '' @ FormatInt (wsr_Code response) @ '': '' @ wsr_Message response)),
                                         nw_Close N c w)
                                   else (None, nw_Close N c w)))))))"

section \<open>A connection to the server\<close>

text \<open>
  A network in which the server of \<open>RemoteService\<close> is at the other end of every connection. A write puts
  bytes on the wire, a read lets the server work on them first. The server gets them in the pieces
  that \<open>deliver\<close> makes of them, with deadlines in between.
\<close>

record 's wire =
  wr_service :: "'s Service"
  wr_in :: "byte list"
  wr_out :: "byte list"
  wr_open :: bool

definition wire_serve ::
  "('e, 'o, 'p) rpc_lib \<Rightarrow> ('s, 'e, 'o, 'p) tsdb \<Rightarrow> gtime \<Rightarrow> byte list \<Rightarrow> (byte list \<Rightarrow> reads) \<Rightarrow> 's wire \<Rightarrow> 's wire" where
  "wire_serve R D now term deliver w =
     (if \<not> wr_open w then w
      else
        let conn = deliver (wr_in w)
        in case handleConn (serve_message R D now term buffer) (Suc (length (wr_in w) + timeouts conn)) conn [] (wr_service w, wr_out w) of
             ((s, out), e) \<Rightarrow> \<lparr>wr_service = s, wr_in = [], wr_out = out, wr_open = (e = Waiting)\<rparr>)"

definition wire_net ::
  "('e, 'o, 'p) rpc_lib \<Rightarrow> ('s, 'e, 'o, 'p) tsdb \<Rightarrow> gtime \<Rightarrow> byte list \<Rightarrow> (byte list \<Rightarrow> reads) \<Rightarrow> 's wire net" where
  "wire_net R D now term deliver =
     \<lparr>nw_GetConn = (\<lambda>nodeId w. (Inr 0, w\<lparr>wr_in := [], wr_out := [], wr_open := True\<rparr>)),
      nw_Write = (\<lambda>c bs w. if wr_open w then (None, w\<lparr>wr_in := wr_in w @ bs\<rparr>) else (Some (LibErr ''broken pipe''), w)),
      nw_ReadFull = (\<lambda>c n w.
        let w = wire_serve R D now term deliver w
        in if n \<le> length (wr_out w) then (Inr (take n (wr_out w)), w\<lparr>wr_out := drop n (wr_out w)\<rparr>)
           else (Inl (if wr_open w then net_timeout else EOF), w\<lparr>wr_out := []\<rparr>)),
      nw_Reads = (\<lambda>c w.
        let w = wire_serve R D now term deliver w
        in ([(wr_out w, if wr_open w then None else Some EOF)], w\<lparr>wr_out := []\<rparr>)),
      nw_MarkUnusable = (\<lambda>c w. w\<lparr>wr_open := False\<rparr>),
      nw_Close = (\<lambda>c w. w\<lparr>wr_open := False\<rparr>)\<rparr>"

definition deliver_ok :: "(byte list \<Rightarrow> reads) \<Rightarrow> bool" where
  "deliver_ok deliver \<longleftrightarrow> (\<forall>bs. live (deliver bs) \<and> conn_bytes (deliver bs) = bs)"

definition fits :: "byte list \<Rightarrow> bool" where
  "fits bs \<longleftrightarrow> int (length bs) < MaxMessageSize"

lemma fits_small: "fits bs \<Longrightarrow> small \<lparr>msg_Type = typ, msg_Data = bs\<rparr>"
  by (simp add: fits_def MaxMessageSize_def small_def MAX_BODY_def)

abbreviation test_message :: ClusterMessage where
  "test_message \<equiv> \<lparr>msg_Type = testRequestMessage, msg_Data = []\<rparr>"

lemma test_packet: "[testRequestMessage, 0, 0, 0, 0, 0, 0, 0, 0] = frame test_message"
  by (simp add: frame_def) code_simp

lemma serve_test [simp]: "serve_message R D now term wr test_message sc = (True, sc)"
  by (cases sc) (simp add: serve_message_def handleRequest_def)

lemma wire_serve_frames:
  assumes "deliver_ok deliver" and "list_all small ms" and "wr_in w = frames ms" and "wr_open w"
  shows "wire_serve R D now term deliver w =
    (case serve_all (serve_message R D now term buffer) ms (wr_service w, wr_out w) of
       ((s, out), e) \<Rightarrow> \<lparr>wr_service = s, wr_in = [], wr_out = out, wr_open = (e = Waiting)\<rparr>)"
proof -
  have "length ms \<le> length (frames ms)" by (induction ms) simp_all
  then show ?thesis
    using assms handleConn_serves [of "deliver (wr_in w)" ms "[]" _ "serve_message R D now term buffer"] by (simp add: wire_serve_def Let_def deliver_ok_def del: handleConn.simps)
qed

lemma wire_serve_idle:
  assumes "deliver_ok deliver" and "wr_in w = []" and "wr_open w"
  shows "wire_serve R D now term deliver w = w"
  using assms wire_serve_frames [of deliver "[]" w R D now "term"] by (cases w) simp

lemma wire_ReadFull:
  assumes "deliver_ok deliver" and "wire_serve R D now term deliver w = v" and "wr_in v = []" and "wr_open v" and "wr_out v = bs @ rest"
  shows "nw_ReadFull (wire_net R D now term deliver) c (length bs) w = (Inr bs, v\<lparr>wr_out := rest\<rparr>)"
  using assms by (simp add: wire_net_def Let_def)

text \<open>The client reads a message off the wire once the server has worked.\<close>

lemma ReadLV_wire:
  assumes "deliver_ok deliver" and "wr_in v = []" and "wr_open v" and "fits buf"
    and "wr_out v = PutUint64 (of_nat (length buf)) @ buf @ rest"
  shows "ReadLV (nw_ReadFull (wire_net R D now term deliver) c) v = (Inr buf, v\<lparr>wr_out := rest\<rparr>)"
proof -
  have size: "to_int64 (of_nat (length buf)) = int (length buf)"
    using assms(4) to_of_int64 [of "int (length buf)"] by (simp add: of_int64_of_nat fits_def MaxMessageSize_def)
  note idle = wire_serve_idle [OF assms(1)]
  have "nw_ReadFull (wire_net R D now term deliver) c 8 v = (Inr (PutUint64 (of_nat (length buf))), v\<lparr>wr_out := buf @ rest\<rparr>)"
    using wire_ReadFull [OF assms(1) idle assms(2,3,5)] assms(2,3) by simp
  moreover have "nw_ReadFull (wire_net R D now term deliver) c (length buf) (v\<lparr>wr_out := buf @ rest\<rparr>) = (Inr buf, v\<lparr>wr_out := rest\<rparr>)"
    using wire_ReadFull [OF assms(1) idle, of "v\<lparr>wr_out := buf @ rest\<rparr>" buf rest R D now "term" c] assms(2,3) by simp
  ultimately show ?thesis
    using assms(4) size by (cases "buf = []") (simp_all add: ReadLV_def fits_def Let_def)
qed

lemma decodeTLV_wire:
  assumes "deliver_ok deliver" and "wire_serve R D now term deliver w = v" and "wr_in v = []" and "wr_open v"
    and "wr_out v = frame \<lparr>msg_Type = typ, msg_Data = buf\<rparr> @ rest" and "fits buf"
  shows "decodeTLV (nw_ReadFull (wire_net R D now term deliver) c) unmarshal w =
    (and_then (unmarshal buf) (\<lambda>x. Inr (typ, x)), v\<lparr>wr_out := rest\<rparr>)"
proof -
  have "nw_ReadFull (wire_net R D now term deliver) c 1 w =
      (Inr [typ], v\<lparr>wr_out := PutUint64 (of_nat (length buf)) @ buf @ rest\<rparr>)"
    using wire_ReadFull [OF assms(1-4), of "[typ]"] assms(5) by (simp add: frame_def)
  moreover have "ReadLV (nw_ReadFull (wire_net R D now term deliver) c) (v\<lparr>wr_out := PutUint64 (of_nat (length buf)) @ buf @ rest\<rparr>) =
      (Inr buf, v\<lparr>wr_out := rest\<rparr>)"
    using ReadLV_wire [OF assms(1) _ _ assms(6), of "v\<lparr>wr_out := PutUint64 (of_nat (length buf)) @ buf @ rest\<rparr>" rest R D now "term" c]
      assms(3,4) by simp
  ultimately show ?thesis
    by (simp add: decodeTLV_def ReadType_def decodeLV_def and_then_def split: sum.splits)
qed

lemma wire_writes:
  "nw_Write (wire_net R D now term deliver) c bs w = (if wr_open w then (None, w\<lparr>wr_in := wr_in w @ bs\<rparr>) else (Some (LibErr ''broken pipe''), w))"
  by (simp add: wire_net_def)

lemma wire_closes [simp]:
  "nw_Close (wire_net R D now term deliver) c w = w\<lparr>wr_open := False\<rparr>"
  "nw_MarkUnusable (wire_net R D now term deliver) c w = w\<lparr>wr_open := False\<rparr>"
  by (simp_all add: wire_net_def)

lemma WriteTLV_wire:
  "wr_open w \<Longrightarrow> WriteTLV (nw_Write (wire_net R D now term deliver) c) typ buf w =
    (None, w\<lparr>wr_in := wr_in w @ frame \<lparr>msg_Type = typ, msg_Data = buf\<rparr>\<rparr>)"
  by (simp add: WriteTLV_def WriteType_def WriteLV_def wire_writes frame_def of_int64_of_nat)

lemma EncodeTLV_WriteTLV: "EncodeTLV w typ (Inr buf) c = WriteTLV w typ buf c"
  by (simp add: EncodeTLV_def WriteTLV_def EncodeLV_def split: prod.splits option.splits)

lemma EncodeTLV_wire:
  "wr_open w \<Longrightarrow> EncodeTLV (nw_Write (wire_net R D now term deliver) c) typ (Inr buf) w =
    (None, w\<lparr>wr_in := wr_in w @ frame \<lparr>msg_Type = typ, msg_Data = buf\<rparr>\<rparr>)"
  by (simp add: EncodeTLV_WriteTLV WriteTLV_wire)

text \<open>A connection just taken from the pool, on which the test packet was written.\<close>

definition tested :: "'s Service \<Rightarrow> 's wire" where
  "tested s = \<lparr>wr_service = s, wr_in = frame test_message, wr_out = [], wr_open = True\<rparr>"

definition put_back :: "'s Service \<Rightarrow> 's wire" where
  "put_back s = \<lparr>wr_service = s, wr_in = [], wr_out = [], wr_open = False\<rparr>"

lemma getConn_wire: "getConnWithRetry (wire_net R D now term deliver) nodeId w = (Inr 0, tested (wr_service w))"
proof -
  have "nw_GetConn (wire_net R D now term deliver) nodeId w = (Inr 0, w\<lparr>wr_in := [], wr_out := [], wr_open := True\<rparr>)"
    by (simp add: wire_net_def)
  moreover have "writeTestPacket (wire_net R D now term deliver) 0 (w\<lparr>wr_in := [], wr_out := [], wr_open := True\<rparr>) =
      (None, tested (wr_service w))"
    by (simp add: writeTestPacket_def wire_writes tested_def test_packet)
  ultimately show ?thesis by (simp add: getConnWithRetry_def numeral_3_eq_3)
qed

text \<open>A request on such a connection, with what the server answers.\<close>

lemma wire_serve_request:
  assumes "deliver_ok deliver" and "fits buf"
  shows "wire_serve R D now term deliver ((tested s)\<lparr>wr_in := frame test_message @ frame \<lparr>msg_Type = typ, msg_Data = buf\<rparr>\<rparr>) =
    (case serve_message R D now term buffer \<lparr>msg_Type = typ, msg_Data = buf\<rparr> (s, []) of
       (ok, s, out) \<Rightarrow> \<lparr>wr_service = s, wr_in = [], wr_out = out, wr_open = ok\<rparr>)"
  using wire_serve_frames [OF assms(1), of "[test_message, \<lparr>msg_Type = typ, msg_Data = buf\<rparr>]"
      "(tested s)\<lparr>wr_in := frame test_message @ frame \<lparr>msg_Type = typ, msg_Data = buf\<rparr>\<rparr>" R D now "term"] fits_small [OF assms(2)]
  by (auto simp: tested_def small_def split: prod.splits bool.splits)

section \<open>Calls do what the store of the node does\<close>

text \<open>An error that can travel: no panic, with an ASCII text, which is what the caller gets.\<close>

definition err_ok :: "('e, 'o, 'p) rpc_lib \<Rightarrow> go_error option \<Rightarrow> bool" where
  "err_ok R err = (case err of None \<Rightarrow> True | Some e \<Rightarrow> \<not> is_panic e \<and> rl_Error R e \<noteq> [] \<and> ascii (rl_Error R e))"

definition remote_err :: "('e, 'o, 'p) rpc_lib \<Rightarrow> go_error option \<Rightarrow> go_error option" where
  "remote_err R err = map_option (\<lambda>e. Errorf (rl_Error R e)) err"

lemma err_of_text [simp]: "err_ok R err \<Longrightarrow> err_of (err_text R err) = remote_err R err"
  by (simp add: err_ok_def err_of_def err_text_def remote_err_def split: option.splits)

lemma err_ok_text: "err_ok R err \<Longrightarrow> ascii (err_text R err)"
  by (simp add: err_ok_def err_text_def split: option.splits)

lemma err_ok_panic: "err_ok R err \<Longrightarrow> (case err of Some e \<Rightarrow> \<not> is_panic e | None \<Rightarrow> True)"
  by (simp add: err_ok_def split: option.splits)

text \<open>
  A call whose request the server answers: the caller gets the response, or the error in it.
\<close>

lemma remote_call_wire:
  assumes "deliver_ok deliver" and "fits buf" and "typ \<noteq> createIteratorRequestMessage"
    and "handleRequest R D now typ buf (wr_service w) = ((Some (rtyp, Inr resp), err), s)" and "err_ok R err" and "fits resp"
    and "unmarshal resp = Inr v" and "failed v = remote_err R err"
  shows "remote_call (wire_net R D now term deliver) nodeId typ (Inr buf) unmarshal failed w =
    (case remote_err R err of Some e \<Rightarrow> Inl e | None \<Rightarrow> Inr v, put_back s)"
proof -
  let ?N = "wire_net R D now term deliver"
  have "serve_message R D now term buffer \<lparr>msg_Type = typ, msg_Data = buf\<rparr> (wr_service w, []) =
      (True, s, frame \<lparr>msg_Type = rtyp, msg_Data = resp\<rparr>)"
    using assms(3,4) err_ok_panic [OF assms(5)]
    by (simp add: serve_message_def writeClusterResponse_def WriteTLV_frame split: option.splits)
  then have "wire_serve R D now term deliver ((tested (wr_service w))\<lparr>wr_in := frame test_message @ frame \<lparr>msg_Type = typ, msg_Data = buf\<rparr>\<rparr>) =
      \<lparr>wr_service = s, wr_in = [], wr_out = frame \<lparr>msg_Type = rtyp, msg_Data = resp\<rparr>, wr_open = True\<rparr>"
    by (simp add: wire_serve_request [OF assms(1,2)])
  from decodeTLV_wire [OF assms(1) this, of rtyp resp "[]" 0 unmarshal] assms(6,7,8)
  have "exchange ?N 0 typ (Inr buf) unmarshal failed (tested (wr_service w)) =
      (case remote_err R err of Some e \<Rightarrow> Inl e | None \<Rightarrow> Inr v, \<lparr>wr_service = s, wr_in = [], wr_out = [], wr_open = True\<rparr>)"
    by (simp add: exchange_def EncodeTLV_wire tested_def split: option.splits)
  then show ?thesis
    by (simp add: remote_call_def getConn_wire put_back_def)
qed

lemma ascii_literals [simp]:
  "ascii ''Err''" "ascii ''Database''" "ascii ''Name''" "ascii ''Sources''" "ascii ''Cond''" "ascii ''ShardIDs''" "ascii ''N''"
  "ascii ''Names''" "ascii ''TagKeys''" "ascii ''TagValues''" "ascii ''DataType''" "ascii ''SeriesN''" "ascii ''Termination''"
  "ascii ''RetentionPolicy''" "ascii ''Regex''" "ascii ''IsTarget''" "ascii ''SystemIterator''" "ascii ''Field''" "ascii ''Opt''"
  by code_simp+

lemma unmarshal_struct_print:
  "rpc_lib_ok R \<Longrightarrow> ascii_json (JObj kvs) \<Longrightarrow>
    unmarshal_struct R (js_print (rl_json R) (JObj kvs)) = Inr (\<lambda>k. case map_of (rev kvs) k of Some v \<Rightarrow> v | None \<Rightarrow> JNull)"
  by (simp add: unmarshal_struct_def rpc_lib_ok_def js_okD del: ascii_json.simps)

text \<open>The answers.\<close>

lemma err_roundtrip:
  "rpc_lib_ok R \<Longrightarrow> err_ok R err \<Longrightarrow> err_MarshalBinary R (err_text R err) = Inr b \<Longrightarrow> err_UnmarshalBinary R b = Inr (err_text R err)"
  by (auto simp: err_UnmarshalBinary_def err_MarshalBinary_def marshal_struct_def unmarshal_struct_print err_ok_text)

lemma sr_roundtrip:
  "rpc_lib_ok R \<Longrightarrow> ascii (sr_Err r) \<Longrightarrow> sr_MarshalBinary R r = Inr b \<Longrightarrow> sr_UnmarshalBinary R b = Inr r"
  by (auto simp: sr_UnmarshalBinary_def sr_MarshalBinary_def marshal_struct_def unmarshal_struct_print)

lemma mnr_roundtrip:
  "rpc_lib_ok R \<Longrightarrow> ascii (mnr_Err r) \<Longrightarrow> mnr_MarshalBinary R r = Inr b \<Longrightarrow> mnr_UnmarshalBinary R b = Inr r"
  by (auto simp: mnr_UnmarshalBinary_def mnr_MarshalBinary_def marshal_struct_def unmarshal_struct_print)

lemma ascii_list_id [simp]: "ascii_json (of_list id js) = list_all ascii_json js"
  by (simp add: of_list_def)

lemma tr_roundtrip:
  "rpc_lib_ok R \<Longrightarrow> ascii (tr_Err r) \<Longrightarrow> list_all ascii_json (tr_Tags r) \<Longrightarrow> ascii name \<Longrightarrow> name \<noteq> ''Err'' \<Longrightarrow>
    tr_MarshalBinary R name r = Inr b \<Longrightarrow> tr_UnmarshalBinary R name b = Inr r"
  by (auto simp: tr_UnmarshalBinary_def tr_MarshalBinary_def marshal_struct_def unmarshal_struct_print as_list_of)

lemma mr_roundtrip:
  "rpc_lib_ok R \<Longrightarrow> ascii (mr_Err r) \<Longrightarrow> mr_MarshalBinary R r = Inr b \<Longrightarrow> mr_UnmarshalBinary R b = Inr r"
  by (auto simp: mr_UnmarshalBinary_def mr_MarshalBinary_def marshal_struct_def unmarshal_struct_print)

text \<open>The requests.\<close>

lemma sources_roundtrip: "rpc_lib_ok R \<Longrightarrow> fst (rl_Sources R) srcs = Inr b \<Longrightarrow> snd (rl_Sources R) b = Inr srcs"
  by (auto simp: rpc_lib_ok_def bin_ok_def)

lemma dbreq_roundtrip: "rpc_lib_ok R \<Longrightarrow> ascii db \<Longrightarrow> dbreq_MarshalBinary R db = Inr b \<Longrightarrow> dbreq_UnmarshalBinary R b = Inr db"
  by (auto simp: dbreq_UnmarshalBinary_def dbreq_MarshalBinary_def marshal_struct_def unmarshal_struct_print)

lemma dm_roundtrip:
  "rpc_lib_ok R \<Longrightarrow> ascii (dm_Database r) \<Longrightarrow> ascii (dm_Name r) \<Longrightarrow> dm_MarshalBinary R r = Inr b \<Longrightarrow> dm_UnmarshalBinary R b = Inr r"
  by (auto simp: dm_UnmarshalBinary_def dm_MarshalBinary_def marshal_struct_def unmarshal_struct_print)

lemma ds_roundtrip:
  assumes "rpc_lib_ok R" and "ascii (ds_Database r)" and "cond_ok R (ds_Cond r)" and "ds_MarshalBinary R r = Inr b"
  shows "ds_UnmarshalBinary R b = Inr r"
  using assms
  by (auto simp: ds_UnmarshalBinary_def ds_MarshalBinary_def marshal_struct_def unmarshal_struct_print cond_ok_def and_then_def [of "fst _ _"]
      sources_roundtrip split: sum.splits)

lemma mn_roundtrip:
  "rpc_lib_ok R \<Longrightarrow> ascii (mn_Database r) \<Longrightarrow> cond_ok R (mn_Cond r) \<Longrightarrow> mn_MarshalBinary R r = Inr b \<Longrightarrow> mn_UnmarshalBinary R b = Inr r"
  by (auto simp: mn_UnmarshalBinary_def mn_MarshalBinary_def marshal_struct_def unmarshal_struct_print cond_ok_def)

lemma tk_roundtrip:
  "rpc_lib_ok R \<Longrightarrow> cond_ok R (tk_Cond r) \<Longrightarrow> tk_MarshalBinary R r = Inr b \<Longrightarrow> tk_UnmarshalBinary R b = Inr r"
  by (auto simp: tk_UnmarshalBinary_def tk_MarshalBinary_def marshal_struct_def unmarshal_struct_print cond_ok_def rpc_lib_ok_def js_okD)

lemma mt_roundtrip:
  assumes "rpc_lib_ok R" and "ascii (mt_Field r)" and "mt_MarshalBinary R r = Inr b"
  shows "mt_UnmarshalBinary R b = Inr r"
  using assms
  by (auto simp: mt_UnmarshalBinary_def mt_MarshalBinary_def marshal_struct_def unmarshal_struct_print and_then_def [of "fst _ _"]
      sources_roundtrip split: sum.splits)

text \<open>
  The calls: with the server at the other end they give what the operation on the store of the node
  gives, with the same effect on it; an error has the same text.
\<close>

lemmas err_call = remote_call_wire [where unmarshal = "err_UnmarshalBinary R" and failed = err_of and R = R for R]

lemma remote_DeleteSeries:
  assumes "rpc_lib_ok R" and "deliver_ok deliver" and "ascii database" and "cond_ok R cond"
    and "ds_MarshalBinary R \<lparr>ds_Database = database, ds_Sources = sources, ds_Cond = cond\<rparr> = Inr buf" and "fits buf"
    and "on_store (db_DeleteSeries D database sources (ql_Reduce D cond now)) (wr_service w) = (err, s)"
    and "err_ok R err" and "err_MarshalBinary R (err_text R err) = Inr resp" and "fits resp"
  shows "DeleteSeries R (wire_net R D now term deliver) nodeId database sources cond w = (remote_err R err, put_back s)"
proof -
  have "handleRequest R D now deleteSeriesRequestMessage buf (wr_service w) = ((Some (deleteSeriesResponseMessage, Inr resp), err), s)"
    using ds_roundtrip [OF assms(1) _ _ assms(5)] assms(3,4,7,9) by (simp add: handleRequest_def processDeleteSeriesRequest_def)
  from err_call [OF assms(2,6) _ this assms(8,10) err_roundtrip [OF assms(1,8,9)]] assms(5,8) show ?thesis
    by (simp add: DeleteSeries_def error_only_def remote_err_def split: option.splits)
qed

lemma remote_DeleteMeasurement:
  assumes "rpc_lib_ok R" and "deliver_ok deliver" and "ascii database" and "ascii name"
    and "dm_MarshalBinary R \<lparr>dm_Database = database, dm_Name = name\<rparr> = Inr buf" and "fits buf"
    and "on_store (db_DeleteMeasurement D database name) (wr_service w) = (err, s)"
    and "err_ok R err" and "err_MarshalBinary R (err_text R err) = Inr resp" and "fits resp"
  shows "DeleteMeasurement R (wire_net R D now term deliver) nodeId database name w = (remote_err R err, put_back s)"
proof -
  have "handleRequest R D now deleteMeasurementRequestMessage buf (wr_service w) =
      ((Some (deleteMeasurementResponseMessage, Inr resp), err), s)"
    using dm_roundtrip [OF assms(1) _ _ assms(5)] assms(3,4,7,9) by (simp add: handleRequest_def processDeleteMeasurementRequest_def)
  from err_call [OF assms(2,6) _ this assms(8,10) err_roundtrip [OF assms(1,8,9)]] assms(5,8) show ?thesis
    by (simp add: DeleteMeasurement_def error_only_def remote_err_def split: option.splits)
qed

lemma remote_DeleteDatabase:
  assumes "rpc_lib_ok R" and "deliver_ok deliver" and "ascii database"
    and "dbreq_MarshalBinary R database = Inr buf" and "fits buf"
    and "on_store (db_DeleteDatabase D database) (wr_service w) = (err, s)"
    and "err_ok R err" and "err_MarshalBinary R (err_text R err) = Inr resp" and "fits resp"
  shows "DeleteDatabase R (wire_net R D now term deliver) nodeId database w = (remote_err R err, put_back s)"
proof -
  have "handleRequest R D now deleteDatabaseRequestMessage buf (wr_service w) = ((Some (deleteDatabaseResponseMessage, Inr resp), err), s)"
    using dbreq_roundtrip [OF assms(1,3,4)] assms(6,8) by (simp add: handleRequest_def processDeleteDatabaseRequest_def)
  from err_call [OF assms(2,5) _ this assms(7,9) err_roundtrip [OF assms(1,7,8)]] assms(4,7) show ?thesis
    by (simp add: DeleteDatabase_def error_only_def remote_err_def split: option.splits)
qed

lemma store_tally [simp]: "rs_store (tally f s) = rs_store s" "rs_store (count_fail f err s) = rs_store s"
  by (simp_all add: tally_def count_fail_def split: option.splits)

text \<open>A query leaves the store as it is.\<close>

lemma remote_TagValues:
  assumes "rpc_lib_ok R" and "deliver_ok deliver" and "cond_ok R cond"
    and "tk_MarshalBinary R \<lparr>tk_ShardIDs = shardIDs, tk_Cond = cond\<rparr> = Inr buf" and "fits buf"
    and "db_TagValues D shardIDs cond (rs_store (wr_service w)) = (tags, err)" and "list_all ascii_json tags"
    and "err_ok R err" and "TagValuesResponse_MarshalBinary R \<lparr>tr_Tags = tags, tr_Err = err_text R err\<rparr> = Inr resp" and "fits resp"
  shows "\<exists>s. TagValues R (wire_net R D now term deliver) nodeId shardIDs cond w =
    (case remote_err R err of Some e \<Rightarrow> Inl e | None \<Rightarrow> Inr tags, put_back s) \<and> rs_store s = rs_store (wr_service w)"
proof -
  obtain s where h: "handleRequest R D now tagValuesRequestMessage buf (wr_service w) = ((Some (tagValuesResponseMessage, Inr resp), err), s)"
      and s: "rs_store s = rs_store (wr_service w)"
    using tk_roundtrip [OF assms(1) _ assms(4)] assms(3,6,9) by (simp add: handleRequest_def processTagValuesRequest_def)
  have u: "TagValuesResponse_UnmarshalBinary R resp = Inr \<lparr>tr_Tags = tags, tr_Err = err_text R err\<rparr>"
    using tr_roundtrip [OF assms(1), of "\<lparr>tr_Tags = tags, tr_Err = err_text R err\<rparr>" "''TagValues''" resp] assms(7-9)
    by (simp add: TagValuesResponse_UnmarshalBinary_def TagValuesResponse_MarshalBinary_def err_ok_text)
  from s show ?thesis
    using remote_call_wire [where unmarshal = "TagValuesResponse_UnmarshalBinary R" and failed = "\<lambda>resp. err_of (tr_Err resp)",
        OF assms(2,5) _ h assms(8,10) u] assms(4,8)
    by (intro exI [of _ s]) (simp add: TagValues_def split: option.splits)
qed

lemma remote_TagKeys:
  assumes "rpc_lib_ok R" and "deliver_ok deliver" and "cond_ok R cond"
    and "tk_MarshalBinary R \<lparr>tk_ShardIDs = shardIDs, tk_Cond = cond\<rparr> = Inr buf" and "fits buf"
    and "db_TagKeys D shardIDs cond (rs_store (wr_service w)) = (tags, err)" and "list_all ascii_json tags"
    and "err_ok R err" and "TagKeysResponse_MarshalBinary R \<lparr>tr_Tags = tags, tr_Err = err_text R err\<rparr> = Inr resp" and "fits resp"
  shows "\<exists>s. TagKeys R (wire_net R D now term deliver) nodeId shardIDs cond w =
    (case remote_err R err of Some e \<Rightarrow> Inl e | None \<Rightarrow> Inr tags, put_back s) \<and> rs_store s = rs_store (wr_service w)"
proof -
  obtain s where h: "handleRequest R D now tagKeysRequestMessage buf (wr_service w) = ((Some (tagKeysResponseMessage, Inr resp), err), s)"
      and s: "rs_store s = rs_store (wr_service w)"
    using tk_roundtrip [OF assms(1) _ assms(4)] assms(3,6,9) by (simp add: handleRequest_def processTagKeysRequest_def)
  have u: "TagKeysResponse_UnmarshalBinary R resp = Inr \<lparr>tr_Tags = tags, tr_Err = err_text R err\<rparr>"
    using tr_roundtrip [OF assms(1), of "\<lparr>tr_Tags = tags, tr_Err = err_text R err\<rparr>" "''TagKeys''" resp] assms(7-9)
    by (simp add: TagKeysResponse_UnmarshalBinary_def TagKeysResponse_MarshalBinary_def err_ok_text)
  from s show ?thesis
    using remote_call_wire [where unmarshal = "TagKeysResponse_UnmarshalBinary R" and failed = "\<lambda>resp. err_of (tr_Err resp)",
        OF assms(2,5) _ h assms(8,10) u] assms(4,8)
    by (intro exI [of _ s]) (simp add: TagKeys_def split: option.splits)
qed

lemma remote_MeasurementNames:
  assumes "rpc_lib_ok R" and "deliver_ok deliver" and "cond_ok R cond" and "ascii database"
    and "mn_MarshalBinary R \<lparr>mn_Database = database, mn_Cond = cond\<rparr> = Inr buf" and "fits buf"
    and "db_MeasurementNames D database cond (rs_store (wr_service w)) = (names, err)"
    and "err_ok R err" and "mnr_MarshalBinary R \<lparr>mnr_Names = names, mnr_Err = err_text R err\<rparr> = Inr resp" and "fits resp"
  shows "\<exists>s. MeasurementNames R (wire_net R D now term deliver) nodeId database cond w =
    (case remote_err R err of Some e \<Rightarrow> Inl e | None \<Rightarrow> Inr names, put_back s) \<and> rs_store s = rs_store (wr_service w)"
proof -
  obtain s where h: "handleRequest R D now measurementNamesRequestMessage buf (wr_service w) =
        ((Some (measurementNamesResponseMessage, Inr resp), err), s)"
      and s: "rs_store s = rs_store (wr_service w)"
    using mn_roundtrip [OF assms(1) _ _ assms(5)] assms(3,4,7,9) by (simp add: handleRequest_def processMeasurementNamesRequest_def)
  have u: "mnr_UnmarshalBinary R resp = Inr \<lparr>mnr_Names = names, mnr_Err = err_text R err\<rparr>"
    using mnr_roundtrip [OF assms(1) _ assms(9)] assms(8) by (simp add: err_ok_text)
  from s show ?thesis
    using remote_call_wire [where unmarshal = "mnr_UnmarshalBinary R" and failed = "\<lambda>resp. err_of (mnr_Err resp)",
        OF assms(2,6) _ h assms(8,10) u] assms(5,8)
    by (intro exI [of _ s]) (simp add: MeasurementNames_def split: option.splits)
qed

lemma remote_SeriesCardinality:
  assumes "rpc_lib_ok R" and "deliver_ok deliver" and "ascii database" and "dbreq_MarshalBinary R database = Inr buf" and "fits buf"
    and "db_SeriesCardinality D database (rs_store (wr_service w)) = (n, err)"
    and "err_ok R err" and "sr_MarshalBinary R \<lparr>sr_N = n, sr_Err = err_text R err\<rparr> = Inr resp" and "fits resp"
  shows "\<exists>s. SeriesCardinality R (wire_net R D now term deliver) nodeId database w =
    (case remote_err R err of Some e \<Rightarrow> (-1, Some e) | None \<Rightarrow> (n, None), put_back s) \<and> rs_store s = rs_store (wr_service w)"
proof -
  obtain s where h: "handleRequest R D now seriesCardinalityRequestMessage buf (wr_service w) =
        ((Some (seriesCardinalityResponseMessage, Inr resp), err), s)"
      and s: "rs_store s = rs_store (wr_service w)"
    using dbreq_roundtrip [OF assms(1,3,4)] assms(6,8) by (simp add: handleRequest_def processSeriesCardinalityRequest_def)
  have u: "sr_UnmarshalBinary R resp = Inr \<lparr>sr_N = n, sr_Err = err_text R err\<rparr>"
    using sr_roundtrip [OF assms(1) _ assms(8)] assms(7) by (simp add: err_ok_text)
  from s show ?thesis
    using remote_call_wire [where unmarshal = "sr_UnmarshalBinary R" and failed = "\<lambda>resp. err_of (sr_Err resp)",
        OF assms(2,5) _ h assms(7,9) u] assms(4,7)
    by (intro exI [of _ s]) (simp add: SeriesCardinality_def split: option.splits)
qed

end
