(* ===== verification/JsonCode.thy ===== *)
theory JsonCode
  imports GoJson
begin

text \<open>
  A concrete text of JSON trees, with which the examples compute: tags, lengths in unary and the
  parts one after the other. It satisfies the law that \<open>GoJson\<close> states of \<^verbatim>\<open>encoding/json\<close>.
\<close>

definition nat_code :: "nat \<Rightarrow> byte list" where
  "nat_code n = replicate n 1 @ [0]"

fun nat_read :: "byte list \<Rightarrow> (nat \<times> byte list) option" where
  "nat_read [] = None"
| "nat_read (b # bs) = (if b = 0 then Some (0, bs) else map_option (\<lambda>(n, bs). (Suc n, bs)) (nat_read bs))"

lemma nat_read_code [simp]: "nat_read (nat_code n @ bs) = Some (n, bs)"
  by (induction n) (simp_all add: nat_code_def)

definition string_code :: "string \<Rightarrow> byte list" where
  "string_code s = nat_code (length s) @ string_bytes s"

definition string_read :: "byte list \<Rightarrow> (string \<times> byte list) option" where
  "string_read bs =
     (case nat_read bs of
        None \<Rightarrow> None
      | Some (n, bs) \<Rightarrow> Some (map (\<lambda>b. char_of (unat b)) (take n bs), drop n bs))"

lemma string_bytes_back: "map (\<lambda>b. char_of (unat b)) (string_bytes s) = s"
proof -
  have "char_of (unat (of_nat (of_char c) :: byte)) = c" for c :: char
    by (simp add: unat_of_nat take_bit_nat_def [symmetric])
  then show ?thesis by (simp add: string_bytes_def comp_def)
qed

lemma string_read_code [simp]: "string_read (string_code s @ bs) = Some (s, bs)"
  using string_bytes_back [of s] by (simp add: string_read_def string_code_def string_bytes_def)

fun json_code :: "json \<Rightarrow> byte list" where
  "json_code JNull = [0]"
| "json_code (JBool b) = [1, if b then 1 else 0]"
| "json_code (JNum n) = 2 # (if n < 0 then 1 else 0) # nat_code (nat \<bar>n\<bar>)"
| "json_code (JStr s) = 3 # string_code s"
| "json_code (JArr js) = 4 # nat_code (length js) @ concat (map json_code js)"
| "json_code (JObj kvs) = 5 # nat_code (length kvs) @ concat (map (\<lambda>kv. string_code (fst kv) @ json_code (snd kv)) kvs)"

text \<open>The reader; \<open>items\<close> reads the parts of an array or an object with the reader of a part.\<close>

fun items :: "(byte list \<Rightarrow> ('a \<times> byte list) option) \<Rightarrow> nat \<Rightarrow> byte list \<Rightarrow> ('a list \<times> byte list) option" where
  "items f 0 bs = Some ([], bs)"
| "items f (Suc n) bs =
     (case f bs of
        None \<Rightarrow> None
      | Some (x, bs) \<Rightarrow> map_option (\<lambda>(xs, bs). (x # xs, bs)) (items f n bs))"

definition pair_read :: "(byte list \<Rightarrow> ('a \<times> byte list) option) \<Rightarrow> byte list \<Rightarrow> ((string \<times> 'a) \<times> byte list) option" where
  "pair_read f bs =
     (case string_read bs of
        None \<Rightarrow> None
      | Some (k, bs) \<Rightarrow> map_option (\<lambda>(x, bs). ((k, x), bs)) (f bs))"

fun json_read :: "nat \<Rightarrow> byte list \<Rightarrow> (json \<times> byte list) option" where
  "json_read 0 bs = None"
| "json_read (Suc fuel) [] = None"
| "json_read (Suc fuel) (t # bs) =
     (if t = 0 then Some (JNull, bs)
      else if t = 1 then (case bs of [] \<Rightarrow> None | b # bs \<Rightarrow> Some (JBool (b = 1), bs))
      else if t = 2 then
        (case bs of
           [] \<Rightarrow> None
         | b # bs \<Rightarrow> map_option (\<lambda>(n, bs). (JNum (if b = 1 then - int n else int n), bs)) (nat_read bs))
      else if t = 3 then map_option (\<lambda>(s, bs). (JStr s, bs)) (string_read bs)
      else if t = 4 then
        (case nat_read bs of None \<Rightarrow> None | Some (n, bs) \<Rightarrow> map_option (\<lambda>(js, bs). (JArr js, bs)) (items (json_read fuel) n bs))
      else
        (case nat_read bs of
           None \<Rightarrow> None
         | Some (n, bs) \<Rightarrow> map_option (\<lambda>(kvs, bs). (JObj kvs, bs)) (items (pair_read (json_read fuel)) n bs)))"

lemma items_code:
  "(\<And>x rest. x \<in> set xs \<Longrightarrow> f (g x @ rest) = Some (x, rest)) \<Longrightarrow> items f (length xs) (concat (map g xs) @ rest) = Some (xs, rest)"
  by (induction xs) simp_all

lemma length_concat_part: "x \<in> set xs \<Longrightarrow> length (f x) \<le> length (concat (map f xs))"
  by (induction xs) auto

lemma json_read_code: "length (json_code j) < fuel \<Longrightarrow> json_read fuel (json_code j @ rest) = Some (j, rest)"
proof (induction j arbitrary: fuel rest)
  case (JArr js)
  then obtain k where k: "fuel = Suc k" by (cases fuel) auto
  have "items (json_read k) (length js) (concat (map json_code js) @ rest) = Some (js, rest)"
  proof (rule items_code)
    fix x r assume x: "x \<in> set js"
    with JArr.prems k length_concat_part [of x js json_code] have "length (json_code x) < k" by simp
    with JArr.IH x show "json_read k (json_code x @ r) = Some (x, r)" by blast
  qed
  with k show ?case by simp
next
  case (JObj kvs)
  let ?g = "\<lambda>kv. string_code (fst kv) @ json_code (snd kv)"
  from JObj obtain k where k: "fuel = Suc k" by (cases fuel) auto
  have "items (pair_read (json_read k)) (length kvs) (concat (map ?g kvs) @ rest) = Some (kvs, rest)"
  proof (rule items_code)
    fix x r assume x: "x \<in> set kvs"
    with JObj.prems k length_concat_part [of x kvs ?g] have "length (json_code (snd x)) < k" by simp
    with JObj.IH x have "json_read k (json_code (snd x) @ r) = Some (snd x, r)" by (cases x) fastforce
    then show "pair_read (json_read k) (?g x @ r) = Some (x, r)" by (simp add: pair_read_def)
  qed
  with k show ?case by simp
qed (auto simp: less_eq_Suc_le Suc_le_D dest!: Suc_le_D)

definition json_codec :: json_text where
  "json_codec =
     \<lparr>js_print = json_code,
      js_parse = (\<lambda>b. case json_read (Suc (length b)) b of Some (j, []) \<Rightarrow> Inr j | _ \<Rightarrow> Inl (LibErr ''invalid character''))\<rparr>"

lemma json_codec_ok: "js_ok json_codec"
  using json_read_code [where rest = "[]"] by (simp add: js_ok_def json_codec_def del: json_read.simps)

end
