(* ===== verification/RemoteProps.thy ===== *)
theory RemoteProps
  imports RemoteExec JsonCode
begin

text \<open>
  What a data node gets from another one: writes of a shard, iterators and their streams, and
  queries. The examples use a JSON text and binary forms that are concrete functions.
\<close>

section \<open>A concrete library and store\<close>

definition table_bin :: "'m list \<Rightarrow> 'm bin" where
  "table_bin xs =
     (\<lambda>m. case position m xs of None \<Rightarrow> Inl (LibErr ''unknown'') | Some i \<Rightarrow> Inr [of_nat i],
      \<lambda>b. case b of [c] \<Rightarrow> if unat c < length xs then Inr (xs ! unat c) else Inl (LibErr ''unknown'') | _ \<Rightarrow> Inl (LibErr ''unknown''))"

lemma position_Some: "position x xs = Some i \<Longrightarrow> i < length xs \<and> xs ! i = x"
  by (induction xs arbitrary: i) (auto split: if_splits)

lemma table_bin_ok: "length xs \<le> 256 \<Longrightarrow> bin_ok (table_bin xs)"
  by (auto simp: bin_ok_def table_bin_def unat_of_nat dest!: position_Some split: option.splits)

text \<open>Expressions are strings, options are trivial and points are their bytes.\<close>

definition example_lib :: "(string, unit, byte list) rpc_lib" where
  "example_lib =
     \<lparr>rl_json = json_codec, rl_Sources = table_bin [], rl_Options = (\<lambda>_. Inr [], \<lambda>_. Inr ()), rl_Span = table_bin [],
      rl_Point = (Inr, Inr), rl_String = id, rl_ParseExpr = Inr, rl_Compile = Inr,
      rl_WriteShardRequest = table_bin
        [\<lparr>pbw_ShardID = Some 7, pbw_Points = [[1], [2]], pbw_Database = Some ''db'', pbw_RetentionPolicy = Some ''rp''\<rparr>],
      rl_WriteShardResponse = table_bin [\<lparr>pr_Code = Some 0, pr_Message = None\<rparr>],
      rl_ExecuteStatementRequest = table_bin [],
      rl_CreateIteratorRequest = table_bin
        [\<lparr>pi_ShardIDs = [7], pi_Measurement = json_code (JObj [(''Database'', JStr ''db''), (''RetentionPolicy'', JStr ''rp''),
            (''Name'', JStr ''cpu''), (''Regex'', JStr []), (''IsTarget'', JBool False), (''SystemIterator'', JStr [])]),
          pi_Opt = [], pi_SpanContext = None\<rparr>],
      rl_FieldDimensionsRequest = table_bin [], rl_FieldDimensionsResponse = table_bin [],
      rl_Error = (\<lambda>e. case e of Errorf t \<Rightarrow> t | LibErr t \<Rightarrow> t | _ \<Rightarrow> ''error'')\<rparr>"

lemma example_lib_ok: "rpc_lib_ok example_lib"
  by (simp add: rpc_lib_ok_def example_lib_def json_codec_ok table_bin_ok) (simp add: bin_ok_def)

text \<open>A store of shards, each the list of its points; a shard that is read gives its bytes.\<close>

type_synonym example_store = "(u64 \<times> byte list list) list"

definition example_db :: "(example_store, string, unit, byte list) tsdb" where
  "example_db =
     \<lparr>db_WriteToShard = (\<lambda>i ps st. case map_of st i of
          None \<Rightarrow> (Some ErrShardNotFound, st)
        | Some old \<Rightarrow> (None, map (\<lambda>(k, v). (k, if k = i then v @ ps else v)) st)),
      db_CreateShard = (\<lambda>db rp i enabled st. (None, st @ [(i, [])])),
      db_DeleteMeasurement = (\<lambda>db m st. (None, st)), db_DeleteDatabase = (\<lambda>db st. (None, [])),
      db_DeleteSeries = (\<lambda>db srcs cond st. (None, st)), db_DeleteRetentionPolicy = (\<lambda>db rp st. (None, [])),
      db_SeriesCardinality = (\<lambda>db st. (int (length st), None)), db_MeasurementNames = (\<lambda>db cond st. ([], None)),
      db_TagKeys = (\<lambda>ids cond st. ([], None)), db_TagValues = (\<lambda>ids cond st. (map of_u64 ids, None)),
      sg_MeasurementsByRegex = (\<lambda>ids re st. []), sg_MapType = (\<lambda>ids m f st. 0), sg_IteratorCost = (\<lambda>ids m opt st. (JNull, None)),
      sg_FieldDimensions = (\<lambda>ids ms st. Inr ([], [])),
      sg_CreateIterator = (\<lambda>ids m opt st. case map_of st (hd ids) of
          None \<Rightarrow> Inl ErrShardNotFound
        | Some ps \<Rightarrow> Inr (Some \<lparr>it_kind = FloatIterator, it_SeriesN = 1, it_bytes = concat ps, it_err = None\<rparr>)),
      it_Merge = (\<lambda>its opt. Inr None), it_trace = (\<lambda>_. []), cost_Combine = (\<lambda>a b. a), cost_zero = JNull, result_zero = JNull,
      dt_LessThan = (<), ql_Reduce = (\<lambda>e now. e), ql_ParseStatement = (\<lambda>t. Inr (OtherStatement t)), ql_String = (\<lambda>_. []),
      tm_ExecuteStatement = (\<lambda>stmt st. Inr JNull)\<rparr>"

text \<open>The connection of the examples delivers the bytes in two pieces with a deadline in between.\<close>

definition example_deliver :: "byte list \<Rightarrow> reads" where
  "example_deliver bs = [(take 5 bs, Some net_timeout), (drop 5 bs, None)]"

lemma example_deliver_ok: "deliver_ok example_deliver"
  by (simp add: deliver_ok_def example_deliver_def)

abbreviation example_net :: "example_store wire net" where
  "example_net \<equiv> wire_net example_lib example_db 0 [1, 2, 3] example_deliver"

section \<open>Writing a shard\<close>

text \<open>
  What a write to a shard of another node is for: the points are written, and the shard is created
  first if the store does not have it.
\<close>

definition ensure_write ::
  "('s, 'e, 'o, 'p) tsdb \<Rightarrow> string \<Rightarrow> string \<Rightarrow> u64 \<Rightarrow> 'p list \<Rightarrow> 's \<Rightarrow> go_error option \<times> 's" where
  "ensure_write D db rp shard points st =
     (case db_WriteToShard D shard points st of
        (Some e, st) \<Rightarrow>
          if e = ErrShardNotFound
          then (case db_CreateShard D db rp shard True st of
                  (Some e, st) \<Rightarrow> (Some e, st)
                | (None, st) \<Rightarrow> db_WriteToShard D shard points st)
          else (Some e, st)
      | (None, st) \<Rightarrow> (None, st))"

lemma AddPoints_adds:
  "AddPoints R ps w = Inr w' \<Longrightarrow>
    \<exists>bs. all_results (fst (rl_Point R)) ps = Inr bs \<and> w' = w\<lparr>pbw_Points := pbw_Points w @ bs\<rparr>"
  by (induction ps arbitrary: w) (fastforce simp: and_then_def split: sum.splits)+

lemma unmarshalPoints_back:
  assumes "bin_ok (rl_Point R)" and "all_results (fst (rl_Point R)) ps = Inr bs"
  shows "all_results (\<lambda>b. case snd (rl_Point R) b of Inl e \<Rightarrow> Inl (Panic ''failed to parse point'') | Inr p \<Rightarrow> Inr p) bs = Inr ps"
  using assms(2)
proof (induction ps arbitrary: bs)
  case (Cons p ps)
  then obtain b bs' where "fst (rl_Point R) p = Inr b" "all_results (fst (rl_Point R)) ps = Inr bs'" "bs = b # bs'"
    by (auto simp: and_then_def split: sum.splits)
  with Cons.IH assms(1) show ?case by (simp add: bin_ok_def)
qed simp

lemma write_request_read:
  assumes "rpc_lib_ok R" and "write_request R db rp shard points = Inr buf"
  shows "\<exists>req. snd (rl_WriteShardRequest R) buf = Inr req \<and> unmarshalPoints R req = Inr points \<and>
    ws_ShardID req = shard \<and> ws_Database req = db \<and> ws_RetentionPolicy req = rp"
proof -
  let ?req = "\<lambda>bs. \<lparr>pbw_ShardID = Some shard, pbw_Points = bs, pbw_Database = Some db, pbw_RetentionPolicy = Some rp\<rparr>"
  from assms(2) obtain req where "AddPoints R points (?req []) = Inr req" and buf: "fst (rl_WriteShardRequest R) req = Inr buf"
    by (auto simp: write_request_def SetShardID_def ws_SetDatabase_def ws_SetRetentionPolicy_def and_then_def split: sum.splits)
  then obtain bs where bs: "all_results (fst (rl_Point R)) points = Inr bs" and req: "req = ?req bs"
    using AddPoints_adds [of R points "?req []" req] by auto
  with assms(1) buf have "snd (rl_WriteShardRequest R) buf = Inr (?req bs)" by (simp add: rpc_lib_ok_def bin_ok_def)
  moreover have "unmarshalPoints R (?req bs) = Inr points"
    using unmarshalPoints_back [OF _ bs] assms(1) by (simp add: unmarshalPoints_def rpc_lib_ok_def)
  ultimately show ?thesis by (auto simp: ws_ShardID_def ws_Database_def ws_RetentionPolicy_def)
qed

text \<open>The handler does this, and its error is no panic.\<close>

lemma processWriteShard_ensures:
  assumes "rpc_lib_ok R" and "write_request R db rp shard points = Inr buf" and "db \<noteq> []" and "rp \<noteq> []"
    and "ensure_write D db rp shard points (rs_store s) = (err, st)"
  shows "\<exists>err' s'. processWriteShardRequest R D buf s = (err', s') \<and> rs_store s' = st \<and> (err' = None \<longleftrightarrow> err = None) \<and>
    (case err' of Some e \<Rightarrow> \<not> is_panic e | None \<Rightarrow> True)"
proof -
  from write_request_read [OF assms(1,2)] obtain req where req: "snd (rl_WriteShardRequest R) buf = Inr req"
      "unmarshalPoints R req = Inr points" "ws_ShardID req = shard" "ws_Database req = db" "ws_RetentionPolicy req = rp"
    by blast
  show ?thesis
    using assms(3-5)
    by (auto simp: processWriteShardRequest_def req Let_def ensure_write_def on_store_def split: prod.splits option.splits if_splits)
qed

lemma read_response_wire:
  assumes "wire_serve R D now term deliver w = v" and "wr_open v" and "wr_out v = frame m" and "small m"
  shows "read_response (wire_net R D now term deliver) c w = (Inr m, v\<lparr>wr_out := []\<rparr>)"
proof -
  have "nw_Reads (wire_net R D now term deliver) c w = ([(frame m, None)], v\<lparr>wr_out := []\<rparr>)"
    using assms(1-3) by (simp add: wire_net_def Let_def)
  moreover have "frame m \<noteq> []" by (simp add: frame_def)
  ultimately show ?thesis
    using fetch_frame [OF assms(4), of "[]"] by (simp add: read_response_def reader_Read_def)
qed

lemma serve_write:
  assumes "processWriteShardRequest R D buf s = (err, s')" and "with_code R err = Inr resp"
    and "case err of Some e \<Rightarrow> \<not> is_panic e | None \<Rightarrow> True"
  shows "serve_message R D now term buffer \<lparr>msg_Type = writeShardRequestMessage, msg_Data = buf\<rparr> (s, []) =
    (True, s', frame \<lparr>msg_Type = writeShardResponseMessage, msg_Data = resp\<rparr>)"
  using assms by (simp add: serve_message_def handleRequest_def writeClusterResponse_def WriteTLV_frame split: option.splits)

lemma with_code_read:
  assumes "rpc_lib_ok R" and "with_code R err = Inr resp"
  shows "\<exists>response. snd (rl_WriteShardResponse R) resp = Inr response \<and> (wsr_Code response = 0 \<longleftrightarrow> err = None)"
  using assms
  by (auto simp: with_code_def rpc_lib_ok_def bin_ok_def Let_def wsr_SetCode_def wsr_SetMessage_def wsr_Code_def split: option.splits)



section \<open>Iterators\<close>

definition measurement_ok :: "('e, 'o, 'p) rpc_lib \<Rightarrow> Measurement \<Rightarrow> bool" where
  "measurement_ok R m \<longleftrightarrow> ascii (m_Database m) \<and> ascii (m_RetentionPolicy m) \<and> ascii (m_Name m) \<and> ascii (m_SystemIterator m) \<and>
     (case m_Regex m of None \<Rightarrow> True | Some re \<Rightarrow> re \<noteq> [] \<and> ascii re \<and> rl_Compile R re = Inr re)"

lemma ci_roundtrip:
  assumes "rpc_lib_ok R" and "measurement_ok R (ci_Measurement r)" and "ci_MarshalBinary R r = Inr b"
  shows "ci_UnmarshalBinary R b = Inr r"
proof -
  let ?m = "ci_Measurement r"
  let ?kvs = "[(''Database'', JStr (m_Database ?m)), (''RetentionPolicy'', JStr (m_RetentionPolicy ?m)), (''Name'', JStr (m_Name ?m)),
    (''Regex'', JStr (case m_Regex ?m of Some re \<Rightarrow> re | None \<Rightarrow> [])), (''IsTarget'', JBool (m_IsTarget ?m)),
    (''SystemIterator'', JStr (m_SystemIterator ?m))]"
  from assms(3) obtain opt span where
    opt: "fst (rl_Options R) (ci_Opt r) = Inr opt"
    and span: "(case ci_SpanContex r of None \<Rightarrow> Inr None | Some sc \<Rightarrow> and_then (fst (rl_Span R) sc) (\<lambda>b. Inr (Some b))) = Inr span"
    and b: "fst (rl_CreateIteratorRequest R) \<lparr>pi_ShardIDs = ci_ShardIDs r, pi_Measurement = js_print (rl_json R) (JObj ?kvs),
      pi_Opt = opt, pi_SpanContext = span\<rparr> = Inr b"
    by (auto simp: ci_MarshalBinary_def marshal_struct_def and_then_def Let_def split: sum.splits option.splits)
  have parsed: "snd (rl_CreateIteratorRequest R) b = Inr \<lparr>pi_ShardIDs = ci_ShardIDs r, pi_Measurement = js_print (rl_json R) (JObj ?kvs),
      pi_Opt = opt, pi_SpanContext = span\<rparr>" "snd (rl_Options R) opt = Inr (ci_Opt r)"
    using assms(1) b opt by (auto simp: rpc_lib_ok_def bin_ok_def)
  have "ascii_json (JObj ?kvs)" using assms(2) by (simp add: measurement_ok_def split: option.splits)
  note struct = unmarshal_struct_print [OF assms(1) this]
  have "(case span of None \<Rightarrow> Inr None | Some sbuf \<Rightarrow> and_then (snd (rl_Span R) sbuf) (\<lambda>sc. Inr (Some sc))) = Inr (ci_SpanContex r)"
    using assms(1) span by (auto simp: rpc_lib_ok_def bin_ok_def and_then_def split: option.splits sum.splits)
  moreover have "(if 0 < length (case m_Regex ?m of Some re \<Rightarrow> re | None \<Rightarrow> [])
      then and_then (rl_Compile R (case m_Regex ?m of Some re \<Rightarrow> re | None \<Rightarrow> [])) (\<lambda>r. Inr (Some r)) else Inr None) = Inr (m_Regex ?m)"
    using assms(2) by (simp add: measurement_ok_def split: option.splits)
  ultimately show ?thesis
    by (simp add: ci_UnmarshalBinary_def parsed struct)
qed

definition iterator_bytes :: "('s, 'e, 'o, 'p) tsdb \<Rightarrow> iterator option \<Rightarrow> (u64 \<times> u64) option \<Rightarrow> byte list" where
  "iterator_bytes D itr span =
     (case itr of None \<Rightarrow> [] | Some i \<Rightarrow> it_bytes i @ (case span of None \<Rightarrow> [] | Some sc \<Rightarrow> it_trace D sc))"

definition iterator_fine :: "iterator option \<Rightarrow> bool" where
  "iterator_fine itr = (case itr of None \<Rightarrow> True | Some i \<Rightarrow> it_err i = None)"

definition success :: "iterator option \<Rightarrow> byte list \<Rightarrow> CreateIteratorResponse" where
  "success itr term =
     \<lparr>cr_DataType = data_type itr, cr_SeriesN = (case itr of None \<Rightarrow> 0 | Some i \<Rightarrow> it_SeriesN i), cr_Err = None, cr_Termination = term\<rparr>"

lemma stream_buffer:
  "iterator_fine itr \<Longrightarrow> stream_iterator D buffer term itr span c = ((False, False), c @ iterator_bytes D itr span @ term)"
  by (cases itr) (simp_all add: stream_iterator_def buffer_def iterator_bytes_def iterator_fine_def split: option.splits)

lemma serve_iterator:
  assumes "ci_UnmarshalBinary R buf = Inr r" and "open_iterator D r (rs_store s) = Inr itr" and "iterator_fine itr"
    and "cr_MarshalBinary R (success itr term) = Inr resp"
  shows "serve_message R D now term buffer \<lparr>msg_Type = createIteratorRequestMessage, msg_Data = buf\<rparr> (s, []) =
    (True, s, frame \<lparr>msg_Type = createIteratorResponseMessage, msg_Data = resp\<rparr> @ iterator_bytes D itr (ci_SpanContex r) @ term)"
  using assms
  by (simp add: serve_message_def processCreateIteratorRequest_def success_def EncodeTLV_WriteTLV WriteTLV_frame stream_buffer)

lemma cr_roundtrip:
  "rpc_lib_ok R \<Longrightarrow> cr_Err r = None \<Longrightarrow> cr_MarshalBinary R r = Inr b \<Longrightarrow> cr_UnmarshalBinary R b = Inr r"
  by (auto simp: cr_UnmarshalBinary_def cr_MarshalBinary_def marshal_struct_def unmarshal_struct_print)

lemma CreateIterator_wire:
  fixes span m opt shardIds
  defines "r \<equiv> \<lparr>ci_SpanContex = span, ci_ShardIDs = shardIds, ci_Opt = opt, ci_Measurement = m\<rparr>"
  assumes "rpc_lib_ok R" and "deliver_ok deliver" and "measurement_ok R m" and "ci_MarshalBinary R r = Inr buf" and "fits buf"
    and "open_iterator D r (rs_store (wr_service w)) = Inr itr" and "iterator_fine itr"
    and "cr_MarshalBinary R (success itr term) = Inr resp" and "fits resp"
  shows "CreateIterator R (wire_net R D now term deliver) nodeId span m opt shardIds w =
    (Inr (0, success itr term),
     \<lparr>wr_service = wr_service w, wr_in = [], wr_out = iterator_bytes D itr span @ term, wr_open = True\<rparr>)"
proof -
  have r: "ci_UnmarshalBinary R buf = Inr r" using ci_roundtrip [OF assms(2) _ assms(5)] assms(4) by (simp add: r_def)
  have "wire_serve R D now term deliver ((tested (wr_service w))\<lparr>wr_in := frame test_message @ frame \<lparr>msg_Type = createIteratorRequestMessage, msg_Data = buf\<rparr>\<rparr>) =
      \<lparr>wr_service = wr_service w, wr_in = [],
       wr_out = frame \<lparr>msg_Type = createIteratorResponseMessage, msg_Data = resp\<rparr> @ iterator_bytes D itr (ci_SpanContex r) @ term, wr_open = True\<rparr>"
    by (simp add: wire_serve_request [OF assms(3,6)] serve_iterator [OF r assms(7-9)])
  from decodeTLV_wire [OF assms(3) this _ _ _ assms(10), of createIteratorResponseMessage _ 0 "cr_UnmarshalBinary R"]
    cr_roundtrip [OF assms(2) _ assms(9)]
  show ?thesis
    by (simp add: CreateIterator_def getConn_wire exchange_def EncodeTLV_wire tested_def success_def assms(5) flip: r_def) (simp add: r_def)
qed


abbreviation example_measurement :: Measurement where
  "example_measurement \<equiv>
     \<lparr>m_Database = ''db'', m_RetentionPolicy = ''rp'', m_Name = ''cpu'', m_Regex = None, m_IsTarget = False, m_SystemIterator = []\<rparr>"

lemma example_request:
  "measurement_ok example_lib example_measurement"
  "ci_MarshalBinary example_lib \<lparr>ci_SpanContex = None, ci_ShardIDs = [7], ci_Opt = (), ci_Measurement = example_measurement\<rparr> = Inr [0]"
  by code_simp+

lemma example_marshal: "cr_MarshalBinary example_lib r = Inr (json_code (JObj [(''DataType'', JNum (cr_DataType r)), (''SeriesN'', JNum (cr_SeriesN r)),
    (''Err'', case cr_Err r of None \<Rightarrow> JNull | Some e \<Rightarrow> JObj []), (''Termination'', of_bytes (cr_Termination r))]))"
  by (simp add: cr_MarshalBinary_def marshal_struct_def example_lib_def json_codec_def)


text \<open>
  When the other node cannot open the iterator, the caller does not get its error: the response
  carries the error as a Go interface, which cannot be read back, so every such failure is an error of
  the JSON decoder, and the connection is given up.
\<close>

theorem remote_iterator_error:
  assumes "rpc_lib_ok R" and "deliver_ok deliver" and "measurement_ok R m"
    and "ci_MarshalBinary R \<lparr>ci_SpanContex = span, ci_ShardIDs = shardIds, ci_Opt = opt, ci_Measurement = m\<rparr> = Inr buf" and "fits buf"
    and "open_iterator D \<lparr>ci_SpanContex = span, ci_ShardIDs = shardIds, ci_Opt = opt, ci_Measurement = m\<rparr> (rs_store (wr_service w)) = Inl e"
    and "cr_MarshalBinary R \<lparr>cr_DataType = 0, cr_SeriesN = 0, cr_Err = Some e, cr_Termination = []\<rparr> = Inr resp" and "fits resp"
  shows "fst (CreateIterator R (wire_net R D now term deliver) nodeId span m opt shardIds w) = Inl type_error"
proof -
  have r: "ci_UnmarshalBinary R buf = Inr \<lparr>ci_SpanContex = span, ci_ShardIDs = shardIds, ci_Opt = opt, ci_Measurement = m\<rparr>"
    using ci_roundtrip [OF assms(1) _ assms(4)] assms(3) by simp
  obtain s where served: "wire_serve R D now term deliver ((tested (wr_service w))\<lparr>wr_in := frame test_message @ frame \<lparr>msg_Type = createIteratorRequestMessage, msg_Data = buf\<rparr>\<rparr>) =
      \<lparr>wr_service = s, wr_in = [], wr_out = frame \<lparr>msg_Type = createIteratorResponseMessage, msg_Data = resp\<rparr>, wr_open = True\<rparr>"
    using assms(6,7)
    by (simp add: wire_serve_request [OF assms(2,5)] serve_message_def processCreateIteratorRequest_def r EncodeTLV_WriteTLV WriteTLV_frame)
  have "cr_UnmarshalBinary R resp = Inl type_error"
    using assms(1,7) by (auto simp: cr_UnmarshalBinary_def cr_MarshalBinary_def marshal_struct_def unmarshal_struct_print)
  then show ?thesis
    using decodeTLV_wire [OF assms(2) served _ _ _ assms(8), of createIteratorResponseMessage "[]" 0 "cr_UnmarshalBinary R"]
    by (simp add: CreateIterator_def getConn_wire exchange_def EncodeTLV_wire tested_def assms(4))
qed

theorem remote_iterator_error_witness:
  "fst (CreateIterator example_lib example_net 3 None example_measurement () [7] (put_back (NewService []))) = Inl type_error"
proof (rule remote_iterator_error [OF example_lib_ok example_deliver_ok example_request])
  show "open_iterator example_db \<lparr>ci_SpanContex = None, ci_ShardIDs = [7], ci_Opt = (), ci_Measurement = example_measurement\<rparr>
      (rs_store (wr_service (put_back (NewService [])))) = Inl ErrShardNotFound"
    by (simp add: open_iterator_def example_db_def put_back_def NewService_def)
  show "fits [0]" by code_simp
  show "cr_MarshalBinary example_lib \<lparr>cr_DataType = 0, cr_SeriesN = 0, cr_Err = Some ErrShardNotFound, cr_Termination = []\<rparr> =
      Inr (json_code (JObj [(''DataType'', JNum 0), (''SeriesN'', JNum 0), (''Err'', JObj []), (''Termination'', JNull)]))"
    by (simp add: example_marshal of_bytes_def)
  show "fits (json_code (JObj [(''DataType'', JNum 0), (''SeriesN'', JNum 0), (''Err'', JObj []), (''Termination'', JNull)]))"
    by code_simp
qed

section \<open>Queries\<close>

text \<open>
  (C21) A query of another data node is transparent: the tag values are those that the node's store gives
  for the same shards and the same condition, an error has the text of the store's error, and the
  store does not change.
\<close>

theorem remote_tag_values:
  assumes "rpc_lib_ok R" and "deliver_ok deliver" and "cond_ok R cond"
    and "tk_MarshalBinary R \<lparr>tk_ShardIDs = shardIDs, tk_Cond = cond\<rparr> = Inr buf" and "fits buf"
    and "db_TagValues D shardIDs cond (rs_store (wr_service w)) = (tags, err)" and "list_all ascii_json tags"
    and "err_ok R err" and "TagValuesResponse_MarshalBinary R \<lparr>tr_Tags = tags, tr_Err = err_text R err\<rparr> = Inr resp" and "fits resp"
  shows "\<exists>s. TagValues R (wire_net R D now term deliver) nodeId shardIDs cond w =
    (case remote_err R err of Some e \<Rightarrow> Inl e | None \<Rightarrow> Inr tags, put_back s) \<and> rs_store s = rs_store (wr_service w)"
  using assms by (rule remote_TagValues)

theorem remote_tag_values_witness:
  "\<exists>s. TagValues example_lib example_net 3 [7, 8] (Some ''host = a'') (put_back (NewService [])) = (Inr [JNum 7, JNum 8], put_back s) \<and>
    rs_store s = []"
proof -
  let ?req = "json_code (JObj [(''ShardIDs'', of_bytes (json_code (JArr [JNum 7, JNum 8]))), (''Cond'', JStr ''host = a'')])"
  let ?resp = "json_code (JObj [(''TagValues'', JArr [JNum 7, JNum 8]), (''Err'', JStr [])])"
  have "tk_MarshalBinary example_lib \<lparr>tk_ShardIDs = [7, 8], tk_Cond = Some ''host = a''\<rparr> = Inr ?req"
    "TagValuesResponse_MarshalBinary example_lib \<lparr>tr_Tags = [JNum 7, JNum 8], tr_Err = []\<rparr> = Inr ?resp"
    by (simp_all add: tk_MarshalBinary_def TagValuesResponse_MarshalBinary_def tr_MarshalBinary_def marshal_struct_def example_lib_def
        json_codec_def of_list_def of_u64_def cond_String_def del: json_code.simps)
  moreover have "fits ?req" "fits ?resp" by code_simp+
  moreover have "cond_ok example_lib (Some ''host = a'')" by code_simp
  moreover have "db_TagValues example_db [7, 8] (Some ''host = a'') [] = ([JNum 7, JNum 8], None)"
    by (simp add: example_db_def of_u64_def)
  ultimately show ?thesis
    using remote_tag_values [OF example_lib_ok example_deliver_ok, of "Some ''host = a''" "[7, 8]" ?req example_db "put_back (NewService [])"
        "[JNum 7, JNum 8]" None ?resp 0 "[1, 2, 3]" 3]
    by (simp add: put_back_def NewService_def err_ok_def err_text_def remote_err_def del: json_code.simps)
qed

end
