(* ===== verification/ConnPool.thy ===== *)
theory ConnPool
  imports Prelude
begin

text \<open>
  \<^verbatim>\<open>x/pool.go\<close>: the pools of connections to other data nodes. A
  connection that is taken from a pool is a wrapper object around a network connection; the
  wrappers are kept in a heap, the channel holds the addresses of idle ones.
\<close>

section \<open>Wrappers and pools\<close>

record pooledConn =
  pc_Conn :: "nat option"
  pc_lastUse :: gtime
  pc_unusable :: bool

text \<open>
  \<open>bp_conns\<close> is the channel, none after the pool was closed; \<open>bp_closed\<close> are the network connections that
  were closed.
\<close>

record boundedPool =
  bp_conns :: "nat list option"
  bp_cap :: nat
  bp_initialCnt :: nat
  bp_idleTimeout :: int
  bp_total :: int
  bp_getSuccessCnt :: u64
  bp_getSuccessCost :: u64
  bp_getFailureCnt :: u64
  bp_getFailureCost :: u64
  bp_returnCnt :: u64
  bp_closeCnt :: u64
  bp_checking :: bool
  bp_heap :: "pooledConn list"
  bp_closed :: "nat list"

definition wrapConn :: "nat \<Rightarrow> gtime \<Rightarrow> boundedPool \<Rightarrow> nat \<times> boundedPool" where
  "wrapConn conn now p =
     (length (bp_heap p), p\<lparr>bp_heap := bp_heap p @ [\<lparr>pc_Conn = Some conn, pc_lastUse = now, pc_unusable = False\<rparr>]\<rparr>)"

definition MarkUnusable :: "nat \<Rightarrow> boundedPool \<Rightarrow> boundedPool" where
  "MarkUnusable a p =
     (let c = bp_heap p ! a
      in if pc_unusable c then p
         else p\<lparr>bp_heap := (bp_heap p)[a := c\<lparr>pc_unusable := True\<rparr>], bp_total := bp_total p - 1\<rparr>)"

text \<open>
  \<^verbatim>\<open>close\<close> of a wrapper that is unusable closes the network connection, and \<^verbatim>\<open>put\<close> drops what the channel does
  not take.
\<close>

definition close_unusable :: "nat \<Rightarrow> boundedPool \<Rightarrow> boundedPool" where
  "close_unusable a p =
     (let c = bp_heap p ! a
      in case pc_Conn c of
           None \<Rightarrow> p
         | Some conn \<Rightarrow>
             p\<lparr>bp_closeCnt := bp_closeCnt p + 1, bp_closed := bp_closed p @ [conn], bp_heap := (bp_heap p)[a := c\<lparr>pc_Conn := None\<rparr>]\<rparr>)"

definition pool_put :: "nat \<Rightarrow> boundedPool \<Rightarrow> boundedPool" where
  "pool_put a p =
     (let drop = close_unusable a (MarkUnusable a p)
      in case bp_conns p of
           None \<Rightarrow> drop
         | Some conns \<Rightarrow> if length conns < bp_cap p then p\<lparr>bp_conns := Some (conns @ [a])\<rparr> else drop)"

definition conn_close :: "nat \<Rightarrow> gtime \<Rightarrow> boundedPool \<Rightarrow> boundedPool" where
  "conn_close a now p =
     (let c = bp_heap p ! a
      in case pc_Conn c of
           None \<Rightarrow> p
         | Some conn \<Rightarrow>
             if pc_unusable c then close_unusable a p
             else
               let (b, q) = wrapConn conn now (p\<lparr>bp_returnCnt := bp_returnCnt p + 1, bp_heap := (bp_heap p)[a := c\<lparr>pc_Conn := None\<rparr>]\<rparr>)
               in pool_put b q)"

definition conn_Close :: "nat \<Rightarrow> gtime \<Rightarrow> boundedPool \<Rightarrow> boundedPool" where
  "conn_Close a now p = conn_close a now p"

section \<open>Taking a connection\<close>

datatype get_result = GotConn nat | GetFailed go_error | MustWait

text \<open>What \<^verbatim>\<open>Get\<close> counts when it returns; \<open>cost\<close> is how long it took.\<close>

definition get_done :: "u64 \<Rightarrow> get_result \<times> boundedPool \<Rightarrow> get_result \<times> boundedPool" where
  "get_done cost r =
     (case r of
        (GotConn a, p) \<Rightarrow> (GotConn a, p\<lparr>bp_getSuccessCnt := bp_getSuccessCnt p + 1, bp_getSuccessCost := bp_getSuccessCost p + cost\<rparr>)
      | (GetFailed e, p) \<Rightarrow>
          (GetFailed e, if e \<noteq> ErrClosed
             then p\<lparr>bp_getFailureCnt := bp_getFailureCnt p + 1, bp_getFailureCost := bp_getFailureCost p + cost\<rparr> else p)
      | (MustWait, p) \<Rightarrow> (MustWait, p))"

text \<open>
  The steps of \<^verbatim>\<open>Get\<close>: take an idle connection; otherwise load the total and, if it is below the
  capacity, add one to it and see whether it still is; then dial. Another goroutine may run between
  the load and the addition.
\<close>

definition get_reserve :: "int \<Rightarrow> boundedPool \<Rightarrow> bool \<times> boundedPool" where
  "get_reserve loaded p =
     (if loaded < int (bp_cap p)
      then (bp_total p + 1 \<le> int (bp_cap p), p\<lparr>bp_total := bp_total p + 1\<rparr>)
      else (False, p))"

definition get_dial :: "go_error + nat \<Rightarrow> gtime \<Rightarrow> boundedPool \<Rightarrow> get_result \<times> boundedPool" where
  "get_dial dial now p =
     (case dial of
        Inl e \<Rightarrow> (GetFailed e, p\<lparr>bp_total := bp_total p - 1\<rparr>)
      | Inr conn \<Rightarrow> (case wrapConn conn now p of (a, p) \<Rightarrow> (GotConn a, p)))"

definition Get :: "go_error + nat \<Rightarrow> gtime \<Rightarrow> u64 \<Rightarrow> boundedPool \<Rightarrow> get_result \<times> boundedPool" where
  "Get dial now cost p =
     (case bp_conns p of
        None \<Rightarrow> (GetFailed ErrClosed, p)
      | Some (a # conns) \<Rightarrow> get_done cost (GotConn a, p\<lparr>bp_conns := Some conns\<rparr>)
      | Some [] \<Rightarrow>
          (case get_reserve (bp_total p) p of
             (True, p) \<Rightarrow> get_done cost (get_dial dial now p)
           | (False, p) \<Rightarrow> (MustWait, p)))"

text \<open>The end of the wait: a connection came back, the pool was closed or the time is over.\<close>

definition get_wait :: "u64 \<Rightarrow> boundedPool \<Rightarrow> get_result \<times> boundedPool" where
  "get_wait cost p =
     get_done cost
       (case bp_conns p of
          None \<Rightarrow> (GetFailed ErrClosed, p)
        | Some (a # conns) \<Rightarrow> (GotConn a, p\<lparr>bp_conns := Some conns\<rparr>)
        | Some [] \<Rightarrow> (GetFailed (Errorf ''timed out waiting for free connection''), p))"

section \<open>Idle connections, closing and statistics\<close>

text \<open>
  Each round of \<^verbatim>\<open>checkOnce\<close> takes the first idle connection and closes it or puts it back and ends, so
  there are at most as many rounds as idle connections. The wrapper that goes back finds room, because
  it was just taken out.
\<close>

fun check_loop :: "nat \<Rightarrow> gtime \<Rightarrow> boundedPool \<Rightarrow> boundedPool" where
  "check_loop 0 now p = p"
| "check_loop (Suc k) now p =
     (case bp_conns p of
        Some (a # conns) \<Rightarrow>
          if bp_total p > int (bp_initialCnt p)
          then
            if now - pc_lastUse (bp_heap p ! a) \<le> bp_idleTimeout p
            then (if length conns < bp_cap p then p\<lparr>bp_conns := Some (conns @ [a])\<rparr>
                  else conn_Close a now (MarkUnusable a (p\<lparr>bp_conns := Some conns\<rparr>)))
            else check_loop k now (conn_Close a now (MarkUnusable a (p\<lparr>bp_conns := Some conns\<rparr>)))
          else p
      | _ \<Rightarrow> p)"

definition checkOnce :: "gtime \<Rightarrow> boundedPool \<Rightarrow> boundedPool" where
  "checkOnce now p = check_loop (case bp_conns p of Some conns \<Rightarrow> length conns | None \<Rightarrow> 0) now p"

definition closeIdleConnWhenShutdown :: "nat \<Rightarrow> gtime \<Rightarrow> boundedPool \<Rightarrow> boundedPool" where
  "closeIdleConnWhenShutdown a now p = conn_close a now (MarkUnusable a p)"

text \<open>Closing a pool that is closed closes a closed channel.\<close>

definition pool_Close :: "gtime \<Rightarrow> boundedPool \<Rightarrow> go_error option \<times> boundedPool" where
  "pool_Close now p =
     (case bp_conns p of
        None \<Rightarrow> (Some (Panic ''close of closed channel''), p)
      | Some conns \<Rightarrow> (None, fold (\<lambda>a. closeIdleConnWhenShutdown a now) conns (p\<lparr>bp_conns := None, bp_checking := False\<rparr>)))"

definition pool_Len :: "boundedPool \<Rightarrow> nat" where
  "pool_Len p = (case bp_conns p of Some conns \<Rightarrow> length conns | None \<Rightarrow> 0)"

definition pool_Total :: "boundedPool \<Rightarrow> int" where
  "pool_Total p = bp_total p"

record PoolStatistics =
  st_Active :: int
  st_Idle :: int
  st_Capacity :: int
  st_GetSuccessCnt :: u64
  st_GetSuccessMillis :: u64
  st_GetFailureCnt :: u64
  st_GetFailureMillis :: u64
  st_ReturnCnt :: u64
  st_CloseCnt :: u64

definition pool_Statistics :: "boundedPool \<Rightarrow> PoolStatistics" where
  "pool_Statistics p =
     \<lparr>st_Active = bp_total p - int (pool_Len p), st_Idle = int (pool_Len p),
      st_Capacity = (case bp_conns p of Some _ \<Rightarrow> int (bp_cap p) | None \<Rightarrow> 0),
      st_GetSuccessCnt = bp_getSuccessCnt p, st_GetSuccessMillis = bp_getSuccessCost p div 1000,
      st_GetFailureCnt = bp_getFailureCnt p, st_GetFailureMillis = bp_getFailureCost p div 1000,
      st_ReturnCnt = bp_returnCnt p, st_CloseCnt = bp_closeCnt p\<rparr>"

section \<open>New pools\<close>

fun fill_pool :: "nat \<Rightarrow> (nat \<Rightarrow> go_error + nat) \<Rightarrow> gtime \<Rightarrow> nat \<Rightarrow> boundedPool \<Rightarrow> go_error option \<times> boundedPool" where
  "fill_pool 0 dial now i p = (None, p)"
| "fill_pool (Suc k) dial now i p =
     (case dial i of
        Inl e \<Rightarrow> (Some (Errorf ''factory is not able to fill the pool''), snd (pool_Close now p))
      | Inr conn \<Rightarrow>
          (case wrapConn conn now p of
             (a, p) \<Rightarrow> fill_pool k dial now (i + 1)
               (p\<lparr>bp_conns := map_option (\<lambda>conns. conns @ [a]) (bp_conns p), bp_total := bp_total p + 1\<rparr>)))"

definition NewBoundedPool :: "int \<Rightarrow> int \<Rightarrow> int \<Rightarrow> (nat \<Rightarrow> go_error + nat) \<Rightarrow> gtime \<Rightarrow> go_error + boundedPool" where
  "NewBoundedPool initialCnt maxCap idleTimeout dial now =
     (if initialCnt < 0 \<or> maxCap \<le> 0 \<or> initialCnt > maxCap then Inl (Errorf ''invalid capacity settings'')
      else
        case fill_pool (nat initialCnt) dial now 0
               \<lparr>bp_conns = Some [], bp_cap = nat maxCap, bp_initialCnt = nat initialCnt, bp_idleTimeout = idleTimeout, bp_total = 0,
                bp_getSuccessCnt = 0, bp_getSuccessCost = 0, bp_getFailureCnt = 0, bp_getFailureCost = 0, bp_returnCnt = 0,
                bp_closeCnt = 0, bp_checking = False, bp_heap = [], bp_closed = []\<rparr> of
          (Some e, p) \<Rightarrow> Inl e
        | (None, p) \<Rightarrow> Inr (p\<lparr>bp_checking := True\<rparr>))"

section \<open>The pool counts its connections\<close>

definition usable :: "pooledConn \<Rightarrow> bool" where
  "usable c \<longleftrightarrow> pc_Conn c \<noteq> None \<and> \<not> pc_unusable c"

definition usable_count :: "pooledConn list \<Rightarrow> int" where
  "usable_count h = sum_list (map (\<lambda>c. if usable c then 1 else 0) h)"

definition conn_mset :: "pooledConn \<Rightarrow> nat multiset" where
  "conn_mset c = (case pc_Conn c of None \<Rightarrow> {#} | Some n \<Rightarrow> {#n#})"

text \<open>The network connections that wrappers hold, and those that were closed.\<close>

definition owned :: "boundedPool \<Rightarrow> nat multiset" where
  "owned p = \<Sum>\<^sub># (mset (map conn_mset (bp_heap p))) + mset (bp_closed p)"

definition idle_ok :: "pooledConn list \<Rightarrow> nat list option \<Rightarrow> bool" where
  "idle_ok h conns =
     (case conns of None \<Rightarrow> True | Some as \<Rightarrow> distinct as \<and> list_all (\<lambda>a. a < length h \<and> usable (h ! a)) as)"

text \<open>
  The total is the number of usable connections, plus \<open>k\<close> that were reserved and never made; the channel
  holds usable wrappers, and no network connection is held twice or held and closed.
\<close>

definition pool_ok :: "int \<Rightarrow> boundedPool \<Rightarrow> bool" where
  "pool_ok k p \<longleftrightarrow> bp_total p = usable_count (bp_heap p) + k \<and> usable_count (bp_heap p) \<le> int (bp_cap p) \<and> idle_ok (bp_heap p) (bp_conns p) \<and>
     (\<forall>n. count (owned p) n \<le> 1)"

lemma usable_count_update:
  "i < length h \<Longrightarrow> usable_count (h[i := c]) = usable_count h - (if usable (h ! i) then 1 else 0) + (if usable c then 1 else 0)"
proof (induction h arbitrary: i)
  case (Cons x h)
  then show ?case by (cases i) (simp_all add: usable_count_def)
qed simp

lemma usable_count_filter: "usable_count h = int (length (filter usable h))"
  by (induction h) (simp_all add: usable_count_def)

lemma conn_msets_update:
  "i < length h \<Longrightarrow> \<Sum>\<^sub># (mset (map conn_mset (h[i := c]))) + conn_mset (h ! i) = \<Sum>\<^sub># (mset (map conn_mset h)) + conn_mset c"
proof (induction h arbitrary: i)
  case (Cons x h)
  then show ?case by (cases i) (auto simp: add_ac)
qed simp

lemma idle_length:
  assumes "idle_ok h (Some as)"
  shows "int (length as) \<le> usable_count h"
proof -
  have d: "distinct as" and "set as \<subseteq> set (filter (\<lambda>a. usable (h ! a)) [0..<length h])"
    using assms by (auto simp: idle_ok_def list_all_iff)
  then have "length as \<le> length (filter (\<lambda>a. usable (h ! a)) [0..<length h])"
    by (metis card_mono distinct_card distinct_filter distinct_upt finite_set)
  also have "\<dots> = length (filter usable h)"
    by (metis (no_types, lifting) filter_map length_map map_nth comp_apply filter_cong)
  finally show ?thesis by (simp add: usable_count_filter)
qed

lemma idle_ok_update:
  "idle_ok h (Some as) \<Longrightarrow> a \<notin> set as \<Longrightarrow> idle_ok (h[a := c]) (Some as)"
  by (auto simp: idle_ok_def list_all_iff) (metis nth_list_update_neq)

lemma idle_ok_append: "idle_ok h conns \<Longrightarrow> idle_ok (h @ [c]) conns"
  by (auto simp: idle_ok_def list_all_iff nth_append split: option.splits)

text \<open>A wrapper that is not in the channel.\<close>

definition outside :: "nat \<Rightarrow> boundedPool \<Rightarrow> bool" where
  "outside a p \<longleftrightarrow> a < length (bp_heap p) \<and> (case bp_conns p of None \<Rightarrow> True | Some as \<Rightarrow> a \<notin> set as)"

lemma pool_ok_replace:
  assumes "pool_ok k p" and "outside a p"
    and "bp_total q = bp_total p - (if usable (bp_heap p ! a) then 1 else 0) + (if usable c then 1 else 0)" and "usable c \<longrightarrow> usable (bp_heap p ! a)" and "bp_cap q = bp_cap p"
    and "bp_heap q = (bp_heap p)[a := c]" and "bp_conns q = bp_conns p"
    and "mset (bp_closed q) + conn_mset c = mset (bp_closed p) + conn_mset (bp_heap p ! a)"
  shows "pool_ok k q"
proof -
  have a: "a < length (bp_heap p)" using assms(2) by (simp add: outside_def)
  have "owned q + (conn_mset (bp_heap p ! a) + conn_mset c) = owned p + (conn_mset (bp_heap p ! a) + conn_mset c)"
    using conn_msets_update [OF a, of c] assms(6,8) by (simp add: owned_def add_ac)
  then have "owned q = owned p" by simp
  moreover have "idle_ok (bp_heap q) (bp_conns q)"
    using assms(1,2) idle_ok_update by (auto simp: pool_ok_def outside_def assms(6,7) idle_ok_def [of _ None] split: option.splits)
  ultimately show ?thesis
    using assms(1,3-5) usable_count_update [OF a, of c] by (auto simp: pool_ok_def assms(6))
qed

lemma MarkUnusable_ok:
  assumes "pool_ok k p" and "outside a p" and "pc_Conn (bp_heap p ! a) \<noteq> None"
  shows "pool_ok k (MarkUnusable a p)" and "outside a (MarkUnusable a p)" and "pc_unusable (bp_heap (MarkUnusable a p) ! a)"
proof -
  have a: "a < length (bp_heap p)" using assms(2) by (simp add: outside_def)
  show "outside a (MarkUnusable a p)" using assms(2) by (simp add: MarkUnusable_def outside_def Let_def)
  show "pc_unusable (bp_heap (MarkUnusable a p) ! a)" using a by (simp add: MarkUnusable_def Let_def)
  show "pool_ok k (MarkUnusable a p)"
  proof (cases "pc_unusable (bp_heap p ! a)")
    case False
    show ?thesis
      by (rule pool_ok_replace [OF assms(1,2), of _ "(bp_heap p ! a)\<lparr>pc_unusable := True\<rparr>"])
        (use assms(1,3) False in \<open>simp_all add: MarkUnusable_def Let_def usable_def conn_mset_def pool_ok_def\<close>)
  qed (simp add: MarkUnusable_def assms(1))
qed

lemma close_unusable_ok:
  assumes "pool_ok k p" and "outside a p" and "pc_unusable (bp_heap p ! a)"
  shows "pool_ok k (close_unusable a p)"
proof (cases "pc_Conn (bp_heap p ! a)")
  case (Some n)
  show ?thesis
    by (rule pool_ok_replace [OF assms(1,2), of _ "(bp_heap p ! a)\<lparr>pc_Conn := None\<rparr>"])
      (use assms(1,3) Some in \<open>simp_all add: close_unusable_def Let_def usable_def conn_mset_def pool_ok_def\<close>)
qed (simp add: close_unusable_def assms(1))

lemma pool_put_ok:
  assumes "pool_ok k p" and "outside a p" and "usable (bp_heap p ! a)"
  shows "pool_ok k (pool_put a p)"
proof -
  have "pc_Conn (bp_heap p ! a) \<noteq> None" using assms(3) by (simp add: usable_def)
  note marked = MarkUnusable_ok [OF assms(1,2) this]
  show ?thesis
    using close_unusable_ok [OF marked] assms
    by (auto simp: pool_put_def pool_ok_def owned_def outside_def idle_ok_def split: option.splits)
qed

lemma conn_close_ok:
  assumes "pool_ok k p" and "outside a p"
  shows "pool_ok k (conn_close a now p)"
proof (cases "pc_Conn (bp_heap p ! a)")
  case (Some n)
  show ?thesis
  proof (cases "pc_unusable (bp_heap p ! a)")
    case True
    then show ?thesis using close_unusable_ok [OF assms] Some by (simp add: conn_close_def)
  next
    case False
    let ?new = "\<lparr>pc_Conn = Some n, pc_lastUse = now, pc_unusable = False\<rparr>"
    let ?q = "p\<lparr>bp_returnCnt := bp_returnCnt p + 1, bp_heap := (bp_heap p)[a := (bp_heap p ! a)\<lparr>pc_Conn := None\<rparr>] @ [?new]\<rparr>"
    have a: "a < length (bp_heap p)" using assms(2) by (simp add: outside_def)
    have conn: "conn_mset (bp_heap p ! a) = {#n#}" "conn_mset ((bp_heap p ! a)\<lparr>pc_Conn := None\<rparr>) = {#}" "conn_mset ?new = {#n#}"
      by (simp_all add: conn_mset_def Some)
    have "owned ?q = owned p"
      using conn_msets_update [OF a, of "(bp_heap p ! a)\<lparr>pc_Conn := None\<rparr>"] conn by (simp add: owned_def)
    moreover have "usable_count (bp_heap ?q) = usable_count (bp_heap p)"
      using usable_count_update [OF a, of "(bp_heap p ! a)\<lparr>pc_Conn := None\<rparr>"] False Some by (simp add: usable_count_def usable_def)
    moreover have "idle_ok (bp_heap ?q) (bp_conns ?q)"
      using assms idle_ok_update
      by (auto intro!: idle_ok_append simp: pool_ok_def outside_def idle_ok_def [of _ None] split: option.splits)
    ultimately have "pool_ok k ?q" using assms(1) by (simp add: pool_ok_def)
    moreover have "outside (length (bp_heap p)) ?q" "usable (bp_heap ?q ! length (bp_heap p))"
      using assms(1) by (auto simp: outside_def pool_ok_def idle_ok_def list_all_iff usable_def nth_append split: option.splits)
    ultimately have "pool_ok k (pool_put (length (bp_heap p)) ?q)" by (rule pool_put_ok)
    then show ?thesis using Some False by (simp add: conn_close_def wrapConn_def Let_def)
  qed
qed (simp add: conn_close_def assms(1))

lemma pool_ok_stats [simp]:
  "pool_ok k (p\<lparr>bp_getSuccessCnt := x, bp_getSuccessCost := y\<rparr>) = pool_ok k p"
  "pool_ok k (p\<lparr>bp_getFailureCnt := x, bp_getFailureCost := y\<rparr>) = pool_ok k p"
  "pool_ok k (p\<lparr>bp_checking := b\<rparr>) = pool_ok k p"
  by (simp_all add: pool_ok_def owned_def)

lemma get_done_ok [simp]: "pool_ok k (snd (get_done cost r)) = pool_ok k (snd r)"
  by (cases r) (simp add: get_done_def split: get_result.splits)

lemma pool_ok_take:
  "pool_ok k p \<Longrightarrow> bp_conns p = Some (a # as) \<Longrightarrow> pool_ok k (p\<lparr>bp_conns := Some as\<rparr>) \<and> outside a (p\<lparr>bp_conns := Some as\<rparr>)"
  by (auto simp: pool_ok_def owned_def idle_ok_def outside_def)

text \<open>A network connection that the pool has not seen.\<close>

definition fresh :: "go_error + nat \<Rightarrow> boundedPool \<Rightarrow> bool" where
  "fresh dial p = (case dial of Inl e \<Rightarrow> True | Inr n \<Rightarrow> count (owned p) n = 0)"

lemma pool_ok_wrap:
  assumes "pool_ok k p" and "count (owned p) n = 0" and "usable_count (bp_heap p) < int (bp_cap p)"
  shows "pool_ok k (snd (wrapConn n now (p\<lparr>bp_total := bp_total p + 1\<rparr>)))"
proof -
  have "owned (snd (wrapConn n now (p\<lparr>bp_total := bp_total p + 1\<rparr>))) = owned p + {#n#}"
    by (simp add: owned_def wrapConn_def conn_mset_def)
  moreover have "usable_count (bp_heap p @ [\<lparr>pc_Conn = Some n, pc_lastUse = now, pc_unusable = False\<rparr>]) = usable_count (bp_heap p) + 1"
    by (simp add: usable_count_def usable_def)
  ultimately show ?thesis
    using assms by (simp add: pool_ok_def wrapConn_def idle_ok_append)
qed

lemma Get_ok:
  assumes "pool_ok k p" and "fresh dial p" and "0 \<le> k"
  shows "pool_ok k (snd (Get dial now cost p))"
proof (cases "bp_conns p")
  case (Some as)
  show ?thesis
  proof (cases as)
    case Nil
    have reserve: "get_reserve (bp_total p) p =
        (bp_total p < int (bp_cap p), if bp_total p < int (bp_cap p) then p\<lparr>bp_total := bp_total p + 1\<rparr> else p)"
      by (simp add: get_reserve_def)
    have "usable_count (bp_heap p) < int (bp_cap p)" if "bp_total p < int (bp_cap p)" using that assms(1,3) by (simp add: pool_ok_def)
    then show ?thesis
      using assms(1,2) pool_ok_wrap [OF assms(1)] Some Nil
      by (auto simp: Get_def reserve get_dial_def fresh_def split: sum.splits prod.splits) (metis snd_conv)
  next
    case (Cons a as')
    with Some pool_ok_take [OF assms(1)] show ?thesis by (simp add: Get_def)
  qed
qed (simp add: Get_def assms(1))

lemma get_wait_ok: "pool_ok k p \<Longrightarrow> pool_ok k (snd (get_wait cost p))"
  using pool_ok_take [of k p] by (auto simp: get_wait_def split: option.splits list.splits)

lemma pool_ok_drop:
  assumes "pool_ok k p" and "bp_conns p = Some (a # as)"
  shows "pool_ok k (conn_Close a now (MarkUnusable a (p\<lparr>bp_conns := Some as\<rparr>)))"
proof -
  have "pc_Conn (bp_heap (p\<lparr>bp_conns := Some as\<rparr>) ! a) \<noteq> None" using assms by (simp add: pool_ok_def idle_ok_def usable_def)
  note marked = MarkUnusable_ok [OF conjunct1 [OF pool_ok_take [OF assms]] conjunct2 [OF pool_ok_take [OF assms]] this]
  show ?thesis unfolding conn_Close_def by (rule conn_close_ok [OF marked(1,2)])
qed

lemma check_loop_ok: "pool_ok k p \<Longrightarrow> pool_ok k (check_loop n now p)"
proof (induction n now p rule: check_loop.induct)
  case (2 n now p)
  show ?case
  proof (cases "bp_conns p")
    case (Some as)
    show ?thesis
    proof (cases as)
      case (Cons a as')
      with Some have conns: "bp_conns p = Some (a # as')" by simp
      have "pool_ok k (p\<lparr>bp_conns := Some (as' @ [a])\<rparr>)"
        using 2(2) by (auto simp: conns pool_ok_def owned_def idle_ok_def)
      then show ?thesis using 2 pool_ok_drop [OF 2(2) conns] by (simp add: conns)
    qed (use 2 Some in simp)
  qed (use 2 in simp)
qed simp

lemma closeIdle_ok:
  assumes "pool_ok k p" and "bp_conns p = None" and "a < length (bp_heap p)" and "usable (bp_heap p ! a)"
  shows "pool_ok k (closeIdleConnWhenShutdown a now p)"
proof -
  have "outside a p" "pc_Conn (bp_heap p ! a) \<noteq> None" using assms by (simp_all add: outside_def usable_def)
  from conn_close_ok [OF MarkUnusable_ok(1,2) [OF assms(1) this]] show ?thesis by (simp add: closeIdleConnWhenShutdown_def)
qed

lemma closeIdle_keeps:
  assumes "a < length (bp_heap p)" and "bp_conns p = None" and "usable (bp_heap p ! a)"
  shows "bp_conns (closeIdleConnWhenShutdown a now p) = None \<and> length (bp_heap (closeIdleConnWhenShutdown a now p)) = length (bp_heap p) \<and>
    (\<forall>b. b \<noteq> a \<longrightarrow> bp_heap (closeIdleConnWhenShutdown a now p) ! b = bp_heap p ! b) \<and> bp_cap (closeIdleConnWhenShutdown a now p) = bp_cap p"
  using assms
  by (auto simp: closeIdleConnWhenShutdown_def MarkUnusable_def conn_close_def close_unusable_def usable_def Let_def split: option.splits)

lemma close_all_ok:
  assumes "pool_ok k p" and "bp_conns p = None" and "distinct as" and "list_all (\<lambda>a. a < length (bp_heap p) \<and> usable (bp_heap p ! a)) as"
  shows "pool_ok k (fold (\<lambda>a. closeIdleConnWhenShutdown a now) as p) \<and> bp_cap (fold (\<lambda>a. closeIdleConnWhenShutdown a now) as p) = bp_cap p"
  using assms
proof (induction as arbitrary: p)
  case (Cons a as)
  then have a: "a < length (bp_heap p)" "usable (bp_heap p ! a)" by simp_all
  note keeps = closeIdle_keeps [OF a(1) Cons.prems(2) a(2), of now]
  have "list_all (\<lambda>b. b < length (bp_heap (closeIdleConnWhenShutdown a now p)) \<and> usable (bp_heap (closeIdleConnWhenShutdown a now p) ! b)) as"
    using keeps Cons.prems(3,4) by (auto simp: list_all_iff)
  with Cons.IH [OF closeIdle_ok [OF Cons.prems(1,2) a]] Cons.prems(3) keeps show ?case by simp
qed simp

lemma pool_Close_ok:
  assumes "pool_ok k p"
  shows "pool_ok k (snd (pool_Close now p))" and "bp_cap (snd (pool_Close now p)) = bp_cap p"
proof -
  have "pool_ok k (snd (pool_Close now p)) \<and> bp_cap (snd (pool_Close now p)) = bp_cap p"
  proof (cases "bp_conns p")
    case (Some as)
    have "pool_ok k (p\<lparr>bp_conns := None, bp_checking := False\<rparr>)" using assms by (simp add: pool_ok_def owned_def idle_ok_def)
    moreover have "distinct as" "list_all (\<lambda>a. a < length (bp_heap p) \<and> usable (bp_heap p ! a)) as"
      using assms Some by (simp_all add: pool_ok_def idle_ok_def)
    ultimately show ?thesis using close_all_ok [of k "p\<lparr>bp_conns := None, bp_checking := False\<rparr>" as now] Some by (simp add: pool_Close_def)
  qed (simp add: pool_Close_def assms)
  then show "pool_ok k (snd (pool_Close now p))" and "bp_cap (snd (pool_Close now p)) = bp_cap p" by simp_all
qed

section \<open>Runs\<close>

text \<open>
  What goroutines do with a pool. A client closes and gives up only wrappers that it got, which are
  not in the channel, and gives up none that it has closed.
\<close>

inductive pool_step :: "boundedPool \<Rightarrow> boundedPool \<Rightarrow> bool" where
  get: "fresh dial p \<Longrightarrow> pool_step p (snd (Get dial now cost p))"
| wait: "pool_step p (snd (get_wait cost p))"
| mark: "outside a p \<Longrightarrow> pc_Conn (bp_heap p ! a) \<noteq> None \<Longrightarrow> pool_step p (MarkUnusable a p)"
| close: "outside a p \<Longrightarrow> pool_step p (conn_Close a now p)"
| check: "pool_step p (checkOnce now p)"
| shut: "pool_step p (snd (pool_Close now p))"

lemma caps [simp]:
  "bp_cap (MarkUnusable a p) = bp_cap p" "bp_cap (close_unusable a p) = bp_cap p"
  by (simp_all add: MarkUnusable_def close_unusable_def Let_def split: option.splits)

lemma cap_pool_put [simp]: "bp_cap (pool_put a p) = bp_cap p"
  by (simp add: pool_put_def Let_def split: option.splits)

lemma cap_conn_close [simp]: "bp_cap (conn_close a now p) = bp_cap p"
  by (simp add: conn_close_def wrapConn_def Let_def split: option.splits)

lemma cap_check_loop [simp]: "bp_cap (check_loop n now p) = bp_cap p"
  by (induction n now p rule: check_loop.induct) (auto simp: conn_Close_def split: option.splits list.splits)

lemma cap_get_done [simp]: "bp_cap (snd (get_done cost r)) = bp_cap (snd r)"
  by (cases r) (simp add: get_done_def split: get_result.splits)

lemma cap_Get [simp]: "bp_cap (snd (Get dial now cost p)) = bp_cap p" "bp_cap (snd (get_wait cost p)) = bp_cap p"
  by (auto simp: Get_def get_wait_def get_reserve_def get_dial_def wrapConn_def split: option.splits list.splits sum.splits)

lemma pool_step_ok:
  assumes "pool_step p q" and "pool_ok k p" and "0 \<le> k"
  shows "pool_ok k q \<and> bp_cap q = bp_cap p"
  using assms(1)
proof cases
  case (shut now)
  then show ?thesis using pool_Close_ok [OF assms(2)] by simp
qed (use assms(2,3) in \<open>simp_all add: Get_ok get_wait_ok MarkUnusable_ok conn_close_ok check_loop_ok checkOnce_def conn_Close_def\<close>)

lemma pool_steps_ok:
  assumes "pool_step\<^sup>*\<^sup>* p q" and "pool_ok k p" and "0 \<le> k"
  shows "pool_ok k q \<and> bp_cap q = bp_cap p"
  using assms(1) by (induction rule: rtranclp_induct) (use assms(2,3) pool_step_ok in \<open>fastforce+\<close>)

lemma fill_pool_ok:
  assumes "fill_pool k dial now i p = (None, q)" and "pool_ok 0 p" and "bp_conns p = Some as"
    and "\<And>i j n. dial i = Inr n \<Longrightarrow> dial j = Inr n \<Longrightarrow> i = j" and "\<And>n. count (owned p) n \<noteq> 0 \<Longrightarrow> \<exists>j<i. dial j = Inr n"
    and "usable_count (bp_heap p) + int k \<le> int (bp_cap p)"
  shows "pool_ok 0 q \<and> bp_cap q = bp_cap p"
  using assms(1-3,5,6)
proof (induction k arbitrary: i p as)
  case (Suc k)
  then obtain n where n: "dial i = Inr n" by (cases "dial i") simp_all
  let ?c = "\<lparr>pc_Conn = Some n, pc_lastUse = now, pc_unusable = False\<rparr>"
  let ?p = "p\<lparr>bp_heap := bp_heap p @ [?c], bp_conns := Some (as @ [length (bp_heap p)]), bp_total := bp_total p + 1\<rparr>"
  have new: "count (owned p) n = 0" using Suc.prems(4) assms(4) n by (metis less_irrefl)
  have "usable_count (bp_heap p) < int (bp_cap p)" using Suc.prems(5) by simp
  from pool_ok_wrap [OF Suc.prems(2) new this, of now] Suc.prems(2,3) have "pool_ok 0 ?p"
    by (auto simp: pool_ok_def owned_def wrapConn_def idle_ok_def usable_def list_all_iff)
  moreover have "owned ?p = add_mset n (owned p)" by (simp add: owned_def conn_mset_def)
  then have "\<exists>j<i + 1. dial j = Inr m" if "count (owned ?p) m \<noteq> 0" for m
    using that Suc.prems(4) [of m] n by (cases "m = n") (auto intro: less_SucI)
  moreover have "usable_count (bp_heap ?p) + int k \<le> int (bp_cap ?p)" using Suc.prems(5) by (simp add: usable_count_def usable_def)
  moreover have "fill_pool k dial now (i + 1) ?p = (None, q)" using Suc.prems(1,3) n by (simp add: wrapConn_def)
  ultimately show ?case using Suc.IH [of "i + 1" ?p] by simp
qed simp



section \<open>Two goroutines\<close>

text \<open>
  Two calls of \<^verbatim>\<open>Get\<close> that load the total before either adds to it: both see room for one more
  connection, the second addition goes beyond the capacity and is not taken back.
\<close>

definition racing_gets :: "nat \<Rightarrow> gtime \<Rightarrow> boundedPool \<Rightarrow> bool \<times> bool \<times> boundedPool" where
  "racing_gets n now p =
     (let loaded = bp_total p;
          (ok1, p1) = get_reserve loaded p;
          p2 = (if ok1 then snd (get_dial (Inr n) now p1) else p1);
          (ok2, p3) = get_reserve loaded p2
      in (ok1, ok2, p3))"

text \<open>
  (C27) Two goroutines that ask for the last connection at the same time make the pool count one that
  does not exist, and it does so for ever, whatever is returned, given up or checked later. A pool for
  one connection then never dials again once its connection is given up: every \<^verbatim>\<open>Get\<close> waits for
  nothing.
\<close>

theorem racing_gets_leak:
  assumes "pool_ok 0 p" and "bp_total p + 1 = int (bp_cap p)" and "count (owned p) n = 0"
    and "racing_gets n now p = (ok1, ok2, p3)" and "pool_step\<^sup>*\<^sup>* p3 q"
  shows "ok1 \<and> \<not> ok2 \<and> pool_Total q = int (length (filter usable (bp_heap q))) + 1 \<and>
    (bp_cap p = 1 \<and> filter usable (bp_heap q) = [] \<longrightarrow> fst (Get dial now' cost q) \<in> {MustWait, GetFailed ErrClosed})"
proof -
  let ?p1 = "snd (wrapConn n now (p\<lparr>bp_total := bp_total p + 1\<rparr>))"
  have p3: "p3 = ?p1\<lparr>bp_total := bp_total p + 2\<rparr>" and ok: "ok1" "\<not> ok2"
    using assms(2,4) by (auto simp: racing_gets_def get_reserve_def get_dial_def wrapConn_def Let_def)
  have "pool_ok 0 ?p1" using pool_ok_wrap [OF assms(1,3)] assms(1,2) by (simp add: pool_ok_def)
  then have "pool_ok 1 p3" by (simp add: p3 pool_ok_def owned_def wrapConn_def)
  moreover have "bp_cap p3 = bp_cap p" by (simp add: p3 wrapConn_def)
  ultimately have q: "pool_ok 1 q" "bp_cap q = bp_cap p" using pool_steps_ok [OF assms(5), of 1] by simp_all
  have "fst (Get dial now' cost q) \<in> {MustWait, GetFailed ErrClosed}" if "bp_cap p = 1" "filter usable (bp_heap q) = []"
  proof (cases "bp_conns q")
    case (Some as)
    with q(1) that(2) idle_length [of "bp_heap q" as] have "as = []" by (simp add: pool_ok_def usable_count_filter)
    with Some q that show ?thesis by (simp add: Get_def get_reserve_def pool_ok_def usable_count_filter)
  qed (simp add: Get_def)
  with q ok show ?thesis by (simp add: pool_ok_def pool_Total_def usable_count_filter)
qed

theorem racing_gets_leak_witness:
  "\<exists>p ok1 ok2 p3. NewBoundedPool 0 1 10 (\<lambda>i. Inr i) 0 = Inr p \<and> racing_gets 7 0 p = (ok1, ok2, p3) \<and>
    pool_Total (conn_Close 0 1 (MarkUnusable 0 p3)) = 1 \<and> filter usable (bp_heap (conn_Close 0 1 (MarkUnusable 0 p3))) = [] \<and>
    fst (Get (Inr 8) 2 0 (conn_Close 0 1 (MarkUnusable 0 p3))) = MustWait"
proof -
  obtain p where p: "NewBoundedPool 0 1 10 (\<lambda>i. Inr i) 0 = Inr p" by (simp add: NewBoundedPool_def)
  obtain ok1 ok2 p3 where r: "racing_gets 7 0 p = (ok1, ok2, p3)" by (cases "racing_gets 7 0 p")
  have p': "pool_ok 0 p" "bp_total p + 1 = int (bp_cap p)" "count (owned p) 7 = 0" "bp_cap p = 1" "bp_conns p = Some []" "bp_heap p = []"
    using p by (auto simp: NewBoundedPool_def pool_ok_def usable_count_def owned_def idle_ok_def)
  have p3: "bp_heap p3 = [\<lparr>pc_Conn = Some 7, pc_lastUse = 0, pc_unusable = False\<rparr>]" "bp_conns p3 = Some []"
    using r p' by (auto simp: racing_gets_def get_reserve_def get_dial_def wrapConn_def Let_def)
  let ?m = "MarkUnusable 0 p3" and ?q = "conn_Close 0 1 (MarkUnusable 0 p3)"
  have m: "bp_heap ?m = [\<lparr>pc_Conn = Some 7, pc_lastUse = 0, pc_unusable = True\<rparr>]" "bp_conns ?m = Some []"
    using p3 by (simp_all add: MarkUnusable_def)
  have q: "bp_heap ?q = [\<lparr>pc_Conn = None, pc_lastUse = 0, pc_unusable = True\<rparr>]" "bp_conns ?q = Some []"
    using m by (simp_all add: conn_Close_def conn_close_def close_unusable_def)
  have "pool_step p3 ?m" "pool_step ?m ?q"
    using p3 m by (auto intro!: pool_step.mark pool_step.close simp: outside_def)
  then have "pool_step\<^sup>*\<^sup>* p3 ?q" by simp
  from racing_gets_leak [OF p'(1-3) r this, of "Inr 8" 2 0] q p' have
    "pool_Total ?q = 1" "filter usable (bp_heap ?q) = []" "fst (Get (Inr 8) 2 0 ?q) \<in> {MustWait, GetFailed ErrClosed}"
    by (simp_all add: usable_def)
  moreover from this q(2) have "fst (Get (Inr 8) 2 0 ?q) = MustWait"
    by (auto simp: Get_def get_done_def get_dial_def split: prod.splits bool.splits)
  ultimately show ?thesis using p r by blast
qed

end
