(* ===== verification/ClientPool.thy ===== *)
theory ClientPool
  imports ConnPool
begin

text \<open>
  \<^verbatim>\<open>coordinator/client_pool.go\<close>: one pool of connections for each data node, and how a connection is made.
  Making a pool and dialling are parameters; the map of pools is an association list, none after the
  client pool was closed.
\<close>

record poolEntry =
  pe_pool :: boundedPool
  pe_lastUse :: gtime

record ClientPool =
  cp_pools :: "(u64 \<times> poolEntry) list option"

definition NewClientPool :: ClientPool where
  "NewClientPool = \<lparr>cp_pools = Some []\<rparr>"

definition entries :: "ClientPool \<Rightarrow> (u64 \<times> poolEntry) list" where
  "entries c = (case cp_pools c of None \<Rightarrow> [] | Some es \<Rightarrow> es)"

definition ClientPool_Len :: "ClientPool \<Rightarrow> int" where
  "ClientPool_Len c = sum_list (map (\<lambda>(_, e). int (pool_Len (pe_pool e))) (entries c))"

definition ClientPool_Total :: "ClientPool \<Rightarrow> int" where
  "ClientPool_Total c = sum_list (map (\<lambda>(_, e). pool_Total (pe_pool e)) (entries c))"

text \<open>
  \<^verbatim>\<open>idleCheckOnce\<close> closes the pools that were not used for ten minutes; the second component of the result
  is the closed pools, which clients may still hold connections of.
\<close>

definition expired :: "gtime \<Rightarrow> poolEntry \<Rightarrow> bool" where
  "expired now e \<longleftrightarrow> \<not> now - pe_lastUse e \<le> 600 * 1000000000"

definition idleCheckOnce :: "gtime \<Rightarrow> ClientPool \<Rightarrow> ClientPool \<times> boundedPool list" where
  "idleCheckOnce now c =
     (case cp_pools c of
        None \<Rightarrow> (c, [])
      | Some es \<Rightarrow>
          (c\<lparr>cp_pools := Some (filter (\<lambda>(_, e). \<not> expired now e) es)\<rparr>,
           map (\<lambda>(_, e). snd (pool_Close now (pe_pool e))) (filter (\<lambda>(_, e). expired now e) es)))"

definition set_entry :: "u64 \<Rightarrow> poolEntry \<Rightarrow> (u64 \<times> poolEntry) list \<Rightarrow> (u64 \<times> poolEntry) list" where
  "set_entry nodeID e es = (nodeID, e) # filter (\<lambda>(i, _). i \<noteq> nodeID) es"

text \<open>
  \<^verbatim>\<open>GetConn\<close> looks for the pool of the node under the read lock, and makes one under the write lock without
  looking again. \<open>factory\<close> is the pool that the factory makes, \<open>dial\<close> the connection if one is needed.
\<close>

definition conn_from_pool :: "u64 \<Rightarrow> poolEntry \<Rightarrow> gtime \<Rightarrow> go_error + nat \<Rightarrow> u64 \<Rightarrow> (u64 \<times> poolEntry) list \<Rightarrow> get_result \<times> ClientPool" where
  "conn_from_pool nodeID e now dial cost es =
     (case Get dial now cost (pe_pool e) of
        (r, p) \<Rightarrow> (r, \<lparr>cp_pools = Some (set_entry nodeID \<lparr>pe_pool = p, pe_lastUse = now\<rparr> es)\<rparr>))"

definition create_pool :: "u64 \<Rightarrow> go_error + boundedPool \<Rightarrow> gtime \<Rightarrow> go_error + nat \<Rightarrow> u64 \<Rightarrow> ClientPool \<Rightarrow> get_result \<times> ClientPool" where
  "create_pool nodeID factory now dial cost c =
     (case factory of
        Inl e \<Rightarrow> (GetFailed e, c)
      | Inr p \<Rightarrow>
          (case cp_pools c of
             None \<Rightarrow> (GetFailed (Panic ''assignment to entry in nil map''), c)
           | Some es \<Rightarrow> conn_from_pool nodeID \<lparr>pe_pool = p, pe_lastUse = now\<rparr> now dial cost es))"

definition GetConn :: "u64 \<Rightarrow> go_error + boundedPool \<Rightarrow> gtime \<Rightarrow> go_error + nat \<Rightarrow> u64 \<Rightarrow> ClientPool \<Rightarrow> get_result \<times> ClientPool" where
  "GetConn nodeID factory now dial cost c =
     (case map_of (entries c) nodeID of
        Some e \<Rightarrow> conn_from_pool nodeID e now dial cost (entries c)
      | None \<Rightarrow> create_pool nodeID factory now dial cost c)"

definition ClientPool_Stat :: "ClientPool \<Rightarrow> (u64 \<times> PoolStatistics) list" where
  "ClientPool_Stat c = sort_key fst (map (\<lambda>(i, e). (i, pool_Statistics (pe_pool e))) (entries c))"

definition ClientPool_close :: "gtime \<Rightarrow> ClientPool \<Rightarrow> ClientPool \<times> boundedPool list" where
  "ClientPool_close now c = (\<lparr>cp_pools = None\<rparr>, map (\<lambda>(_, e). snd (pool_Close now (pe_pool e))) (entries c))"

text \<open>
  \<^verbatim>\<open>Dial\<close>: the node is looked up in the metadata, then dialled, and the header for the multiplexer is
  written. The result names the connection and whether it was closed again.
\<close>

definition Dial :: "u64 \<Rightarrow> go_error + string option \<Rightarrow> (string \<Rightarrow> go_error + nat) \<Rightarrow> (nat \<Rightarrow> go_error option) \<Rightarrow> (go_error + nat) \<times> nat option" where
  "Dial nodeId lookup tcp write =
     (case lookup of
        Inl e \<Rightarrow> (Inl e, None)
      | Inr None \<Rightarrow> (Inl (Errorf (''node '' @ FormatUint (unat nodeId) @ '' does not exist'')), None)
      | Inr (Some host) \<Rightarrow>
          (case tcp host of
             Inl e \<Rightarrow> (Inl e, None)
           | Inr conn \<Rightarrow> (case write conn of Some e \<Rightarrow> (Inl e, Some conn) | None \<Rightarrow> (Inr conn, None))))"

section \<open>Pools stay sound\<close>

definition client_ok :: "ClientPool \<Rightarrow> bool" where
  "client_ok c \<longleftrightarrow> distinct (map fst (entries c)) \<and> list_all (\<lambda>(_, e). pool_ok 0 (pe_pool e)) (entries c)"

lemma conn_from_pool_ok:
  assumes "list_all (\<lambda>(_, e). pool_ok 0 (pe_pool e)) es" and "distinct (map fst es)" and "pool_ok 0 (pe_pool e)" and "fresh dial (pe_pool e)"
  shows "client_ok (snd (conn_from_pool nodeID e now dial cost es))"
  using assms Get_ok [OF assms(3,4), of now cost]
  by (auto simp: conn_from_pool_def client_ok_def entries_def set_entry_def list_all_iff distinct_map_filter split: prod.splits)

lemma GetConn_ok:
  assumes "client_ok c" and "\<And>e. map_of (entries c) nodeID = Some e \<Longrightarrow> fresh dial (pe_pool e)"
    and "\<And>p. factory = Inr p \<Longrightarrow> pool_ok 0 p \<and> fresh dial p"
  shows "client_ok (snd (GetConn nodeID factory now dial cost c))"
proof (cases "map_of (entries c) nodeID")
  case (Some e)
  then have "(nodeID, e) \<in> set (entries c)" by (rule map_of_SomeD)
  with assms(1) have "pool_ok 0 (pe_pool e)" by (auto simp: client_ok_def list_all_iff)
  with Some assms(1,2) conn_from_pool_ok show ?thesis by (simp add: GetConn_def client_ok_def)
next
  case None
  show ?thesis
  proof (cases factory)
    case (Inr p)
    have "client_ok (snd (conn_from_pool nodeID \<lparr>pe_pool = p, pe_lastUse = now\<rparr> now dial cost es))" if "cp_pools c = Some es" for es
      using assms(1,3) Inr that by (intro conn_from_pool_ok) (simp_all add: client_ok_def entries_def)
    with None Inr assms(1) show ?thesis by (simp add: GetConn_def create_pool_def split: option.splits)
  qed (use None assms(1) in \<open>simp add: GetConn_def create_pool_def\<close>)
qed

text \<open>
  Two goroutines that both find no pool for a node make two: the second replaces the first in the
  map, and nothing closes the first one any more.
\<close>

lemma create_pool_lost:
  assumes "cp_pools c = Some es" and "create_pool nodeID (Inr p1) now dial1 cost c = (GotConn a, c1)"
    and "create_pool nodeID (Inr p2) now dial2 cost c1 = (r, c2)"
  shows "map_option pe_pool (map_of (entries c2) nodeID) = Some (snd (Get dial2 now cost p2)) \<and> length (filter (\<lambda>(i, _). i = nodeID) (entries c2)) = 1"
  using assms by (auto simp: create_pool_def conn_from_pool_def entries_def set_entry_def split: prod.splits)

text \<open>A client pool that was closed panics when it is asked for a connection.\<close>

lemma GetConn_closed:
  "fst (GetConn nodeID (Inr p) now dial cost (fst (ClientPool_close now c))) = GetFailed (Panic ''assignment to entry in nil map'')"
  by (simp add: GetConn_def ClientPool_close_def create_pool_def entries_def)

end
