(* ===== verification/ClusterPlan.thy ===== *)
theory ClusterPlan
  imports Influx
begin

text \<open>
  \<^verbatim>\<open>coordinator/cluster_planning.go\<close>: which node is asked about which shards, and asking again when a node
  cannot be reached. Randomness is a permutation and a choice, \<^verbatim>\<open>OwnedBy\<close> of the imported metadata a
  parameter; the goroutines of \<^verbatim>\<open>ExecuteWithRetry\<close> run one after the other in the order of the plan, which
  is any order of the map.
\<close>

section \<open>Planning\<close>

type_synonym Node2ShardIDs = "(u64 \<times> ShardInfo list) list"

record rand =
  rd_shuffle :: "ShardInfo list \<Rightarrow> ShardInfo list"
  rd_pick :: "ShardInfo \<Rightarrow> nat"

definition getOwners :: "u64 list \<Rightarrow> ShardOwner list \<Rightarrow> ShardOwner list" where
  "getOwners blacklist owners =
     (if length blacklist < 1 then owners else filter (\<lambda>o'. so_NodeID o' \<notin> set blacklist) owners)"

definition plan_append :: "u64 \<Rightarrow> ShardInfo \<Rightarrow> Node2ShardIDs \<Rightarrow> Node2ShardIDs" where
  "plan_append n s m =
     (if n \<in> fst ` set m then map (\<lambda>(k, ss). (k, if k = n then ss @ [s] else ss)) m else m @ [(n, [s])])"

definition plan_shard :: "(u64 \<Rightarrow> ShardInfo \<Rightarrow> bool) \<Rightarrow> rand \<Rightarrow> u64 \<Rightarrow> u64 list \<Rightarrow> ShardInfo \<Rightarrow> Node2ShardIDs \<Rightarrow> Node2ShardIDs" where
  "plan_shard OwnedBy r currentNodeId blacklist shard m =
     (if OwnedBy currentNodeId shard then plan_append currentNodeId shard m
      else
        let owners = getOwners blacklist (si_Owners shard)
        in if length owners < 1 then m
           else
             case find (\<lambda>o'. so_NodeID o' \<in> fst ` set m) owners of
               Some o' \<Rightarrow> plan_append (so_NodeID o') shard m
             | None \<Rightarrow> plan_append (so_NodeID (owners ! (rd_pick r shard mod length owners))) shard m)"

definition PlanNodes :: "(u64 \<Rightarrow> ShardInfo \<Rightarrow> bool) \<Rightarrow> rand \<Rightarrow> u64 \<Rightarrow> ShardInfo list \<Rightarrow> u64 list \<Rightarrow> Node2ShardIDs" where
  "PlanNodes OwnedBy r currentNodeId shard_queried blacklist =
     fold (plan_shard OwnedBy r currentNodeId blacklist) (rd_shuffle r shard_queried) []"

section \<open>Execution\<close>

text \<open>A query gives an object, or none, and an error, and changes the world.\<close>

type_synonym ('r, 'w) QueryFn = "u64 \<Rightarrow> ShardInfo list \<Rightarrow> 'w \<Rightarrow> ('r option \<times> go_error option) \<times> 'w"

text \<open>A panic of the query is swallowed: it counts as a success without an object.\<close>

definition executePlanSingle :: "('r, 'w) QueryFn \<Rightarrow> u64 \<Rightarrow> ShardInfo list \<Rightarrow> 'w \<Rightarrow> ('r option \<times> go_error option) \<times> 'w" where
  "executePlanSingle fn nodeId shards w =
     (case fn nodeId shards w of
        ((obj, Some (Panic _)), w) \<Rightarrow> ((None, None), w)
      | ((obj, err), w) \<Rightarrow> ((obj, err), w))"

text \<open>The results, the plans to try again and the last error.\<close>

fun executePlans ::
  "('r, 'w) QueryFn \<Rightarrow> Node2ShardIDs \<Rightarrow> 'w \<Rightarrow> 'r list \<Rightarrow> Node2ShardIDs \<Rightarrow> go_error option \<Rightarrow> ('r list \<times> Node2ShardIDs \<times> go_error option) \<times> 'w" where
  "executePlans fn [] w result need_retry err_last = ((result, need_retry, err_last), w)"
| "executePlans fn (plan # plans) w result need_retry err_last =
     (case executePlanSingle fn (fst plan) (snd plan) w of
        ((obj, None), w) \<Rightarrow> executePlans fn plans w (case obj of Some x \<Rightarrow> result @ [x] | None \<Rightarrow> result) need_retry err_last
      | ((obj, Some err), w) \<Rightarrow>
          if err \<noteq> ErrRetry then executePlans fn plans w result need_retry (Some err)
          else executePlans fn plans w result (need_retry @ [plan]) err_last)"

text \<open>The loop of \<^verbatim>\<open>executePlanWithRetry\<close>; \<open>rnd i\<close> is the randomness of its \<open>i\<close>-th replanning.\<close>

fun retry_loop ::
  "nat \<Rightarrow> (u64 \<Rightarrow> ShardInfo \<Rightarrow> bool) \<Rightarrow> (nat \<Rightarrow> rand) \<Rightarrow> nat \<Rightarrow> ('r, 'w) QueryFn \<Rightarrow> u64 list \<Rightarrow> Node2ShardIDs \<Rightarrow> 'w \<Rightarrow> 'r list \<Rightarrow> go_error option
    \<Rightarrow> (('r list \<times> go_error option) \<times> 'w) option" where
  "retry_loop 0 OwnedBy rnd i fn skipNodes plans w result errLast = None"
| "retry_loop (Suc fuel) OwnedBy rnd i fn skipNodes plans w result errLast =
     (if plans = [] then Some ((result, errLast), w)
      else
        case executePlans fn plans w [] [] None of
          ((arr, retry, err), w) \<Rightarrow>
            let errLast = (if err \<noteq> None then err else errLast);
                skipNodes = map fst retry @ skipNodes;
                plans = (if retry = [] then [] else PlanNodes OwnedBy (rnd i) 0 (concat (map snd retry)) skipNodes)
            in retry_loop fuel OwnedBy rnd (i + 1) fn skipNodes plans w (result @ arr) errLast)"

definition executePlanWithRetry ::
  "nat \<Rightarrow> (u64 \<Rightarrow> ShardInfo \<Rightarrow> bool) \<Rightarrow> (nat \<Rightarrow> rand) \<Rightarrow> ('r, 'w) QueryFn \<Rightarrow> u64 \<Rightarrow> ShardInfo list \<Rightarrow> 'w
    \<Rightarrow> (('r list \<times> go_error option) \<times> 'w) option" where
  "executePlanWithRetry fuel OwnedBy rnd fn nodeId shards w = retry_loop fuel OwnedBy rnd 0 fn [] [(nodeId, shards)] w [] None"

fun ExecuteWithRetry ::
  "nat \<Rightarrow> (u64 \<Rightarrow> ShardInfo \<Rightarrow> bool) \<Rightarrow> (nat \<Rightarrow> rand) \<Rightarrow> ('r, 'w) QueryFn \<Rightarrow> Node2ShardIDs \<Rightarrow> 'w \<Rightarrow> 'r list \<Rightarrow> go_error option
    \<Rightarrow> (('r list \<times> go_error option) \<times> 'w) option" where
  "ExecuteWithRetry fuel OwnedBy rnd fn [] w result errLast = Some ((result, errLast), w)"
| "ExecuteWithRetry fuel OwnedBy rnd fn ((n, ss) # me) w result errLast =
     (case executePlanWithRetry fuel OwnedBy rnd fn n ss w of
        None \<Rightarrow> None
      | Some ((arr, err), w) \<Rightarrow>
          ExecuteWithRetry fuel OwnedBy rnd fn me w (result @ arr) (if err \<noteq> None then err else errLast))"

section \<open>A plan has every shard once\<close>

definition owners_of :: "ShardInfo \<Rightarrow> u64 set" where
  "owners_of s = so_NodeID ` set (si_Owners s)"

definition planned :: "Node2ShardIDs \<Rightarrow> ShardInfo multiset" where
  "planned m = mset (concat (map snd m))"

definition plannable :: "u64 \<Rightarrow> u64 list \<Rightarrow> ShardInfo \<Rightarrow> bool" where
  "plannable cur blacklist s \<longleftrightarrow> cur \<in> owners_of s \<or> owners_of s - set blacklist \<noteq> {}"

text \<open>What the libraries document of their functions.\<close>

definition OwnedBy_ok :: "(u64 \<Rightarrow> ShardInfo \<Rightarrow> bool) \<Rightarrow> bool" where
  "OwnedBy_ok OwnedBy \<longleftrightarrow> (\<forall>n s. OwnedBy n s = (n \<in> owners_of s))"

definition rand_ok :: "rand \<Rightarrow> bool" where
  "rand_ok r \<longleftrightarrow> (\<forall>xs. mset (rd_shuffle r xs) = mset xs)"

lemma getOwners_set: "so_NodeID ` set (getOwners blacklist owners) = so_NodeID ` set owners - set blacklist"
  by (cases blacklist) (auto simp: getOwners_def)

lemma planned_append: "distinct (map fst m) \<Longrightarrow> planned (plan_append n s m) = add_mset s (planned m)"
proof (induction m)
  case (Cons p m)
  obtain k ss where p: "p = (k, ss)" by (cases p)
  show ?case
  proof (cases "k = n")
    case True
    with Cons.prems have "n \<notin> fst ` set m" by (simp add: p)
    then have "map (\<lambda>(k, ss). (k, if k = n then ss @ [s] else ss)) m = m" by (intro map_idI) force
    with True show ?thesis by (simp add: p plan_append_def planned_def)
  next
    case False
    have "plan_append n s (p # m) = p # plan_append n s m" using False by (simp add: p plan_append_def)
    with Cons show ?thesis by (simp add: planned_def)
  qed
qed (simp add: plan_append_def planned_def)

definition entry_ok :: "u64 \<Rightarrow> u64 list \<Rightarrow> u64 \<times> ShardInfo list \<Rightarrow> bool" where
  "entry_ok cur blacklist e \<longleftrightarrow> snd e \<noteq> [] \<and> list_all (\<lambda>s. fst e \<in> owners_of s) (snd e) \<and>
     (fst e = cur \<or> fst e \<notin> set blacklist \<and> list_all (\<lambda>s. cur \<notin> owners_of s) (snd e))"

text \<open>
  A plan: different nodes, each with shards that it owns, none of the nodes to avoid but the own one,
  and no shard of the own node on another.
\<close>

definition plan_ok :: "u64 \<Rightarrow> u64 list \<Rightarrow> Node2ShardIDs \<Rightarrow> bool" where
  "plan_ok cur blacklist m \<longleftrightarrow> distinct (map fst m) \<and> list_all (entry_ok cur blacklist) m"

lemma plan_append_ok:
  assumes "plan_ok cur blacklist m" and "n \<in> owners_of s" and "n = cur \<or> n \<notin> set blacklist \<and> cur \<notin> owners_of s"
  shows "plan_ok cur blacklist (plan_append n s m)"
proof (cases "n \<in> fst ` set m")
  case True
  let ?f = "\<lambda>(k, ss). (k, if k = n then ss @ [s] else ss)"
  have keys: "map fst (map ?f m) = map fst m" by auto
  have "distinct (map fst (map ?f m))" unfolding keys using assms(1) by (simp add: plan_ok_def)
  moreover have "entry_ok cur blacklist (?f e)" if "entry_ok cur blacklist e" for e
    using that assms(2,3) by (cases e) (auto simp: entry_ok_def)
  then have "list_all (entry_ok cur blacklist) (map ?f m)"
    using assms(1) by (simp add: plan_ok_def list_all_iff)
  ultimately show ?thesis using True by (simp add: plan_ok_def plan_append_def del: map_map)
next
  case False
  then show ?thesis using assms by (simp add: plan_ok_def plan_append_def entry_ok_def)
qed

lemma plan_shard_ok:
  assumes "OwnedBy_ok OwnedBy" and "plan_ok cur blacklist m"
  shows "plan_ok cur blacklist (plan_shard OwnedBy r cur blacklist s m) \<and>
    planned (plan_shard OwnedBy r cur blacklist s m) = (if plannable cur blacklist s then {#s#} else {#}) + planned m"
proof -
  let ?owners = "getOwners blacklist (si_Owners s)"
  have owners: "so_NodeID ` set ?owners = owners_of s - set blacklist" by (simp add: getOwners_set owners_of_def)
  have d: "distinct (map fst m)" using assms(2) by (simp add: plan_ok_def)
  have eq: "OwnedBy cur s = (cur \<in> owners_of s)" using assms(1) by (simp add: OwnedBy_ok_def)
  consider (own) "cur \<in> owners_of s" | (none) "cur \<notin> owners_of s" "?owners = []" | (some) "cur \<notin> owners_of s" "?owners \<noteq> []" by blast
  then show ?thesis
  proof cases
    case own
    then show ?thesis using plan_append_ok [OF assms(2)] planned_append [OF d] by (simp add: plan_shard_def eq plannable_def)
  next
    case none
    then have "owners_of s - set blacklist = {}" using owners by simp
    with none assms(2) show ?thesis by (simp add: plan_shard_def eq plannable_def)
  next
    case some
    then obtain n where n: "plan_shard OwnedBy r cur blacklist s m = plan_append n s m" "n \<in> so_NodeID ` set ?owners"
      by (cases "find (\<lambda>o'. so_NodeID o' \<in> fst ` set m) ?owners")
        (auto simp: plan_shard_def eq Let_def dest!: find_SomeD)
    then have "n \<in> owners_of s" "n \<notin> set blacklist" using owners by auto
    then show ?thesis
      using n(1) some(1) plan_append_ok [OF assms(2)] planned_append [OF d] by (auto simp: plannable_def)
  qed
qed

lemma plan_fold_ok:
  assumes "OwnedBy_ok OwnedBy" and "plan_ok cur blacklist m"
  shows "plan_ok cur blacklist (fold (plan_shard OwnedBy r cur blacklist) ss m) \<and>
    planned (fold (plan_shard OwnedBy r cur blacklist) ss m) = filter_mset (plannable cur blacklist) (mset ss) + planned m"
  using assms(2)
proof (induction ss arbitrary: m)
  case (Cons s ss)
  with plan_shard_ok [OF assms(1) Cons.prems, of r s] show ?case by simp
qed simp

lemma PlanNodes_plan:
  assumes "OwnedBy_ok OwnedBy" and "rand_ok r"
  shows "plan_ok cur blacklist (PlanNodes OwnedBy r cur shards blacklist)"
    and "planned (PlanNodes OwnedBy r cur shards blacklist) = filter_mset (plannable cur blacklist) (mset shards)"
  using plan_fold_ok [OF assms(1), of cur blacklist "[]" r "rd_shuffle r shards"] assms(2)
  by (simp_all add: PlanNodes_def plan_ok_def planned_def rand_ok_def)

text \<open>
  A plan asks about every shard exactly once, and a node that owns it: the shards of the plan are,
  as a multiset, those that the local node owns or that have an owner that is not to be avoided; local
  shards stay on the local node, whatever the shuffle and the random choices are.
\<close>

theorem PlanNodes_exact:
  assumes "OwnedBy_ok OwnedBy" and "rand_ok r"
  shows "plan_ok cur blacklist (PlanNodes OwnedBy r cur shards blacklist) \<and>
    planned (PlanNodes OwnedBy r cur shards blacklist) = filter_mset (plannable cur blacklist) (mset shards)"
  using PlanNodes_plan [OF assms] by simp

definition example_rand :: rand where
  "example_rand = \<lparr>rd_shuffle = rev, rd_pick = (\<lambda>s. unat (si_ID s))\<rparr>"

lemma example_rand_ok: "rand_ok example_rand"
  by (simp add: rand_ok_def example_rand_def)

lemma example_OwnedBy_ok: "OwnedBy_ok (\<lambda>n s. n \<in> owners_of s)"
  by (simp add: OwnedBy_ok_def)

definition example_shards :: "ShardInfo list" where
  "example_shards =
     [\<lparr>si_ID = 1, si_Owners = [\<lparr>so_NodeID = 1\<rparr>, \<lparr>so_NodeID = 2\<rparr>]\<rparr>, \<lparr>si_ID = 2, si_Owners = [\<lparr>so_NodeID = 2\<rparr>, \<lparr>so_NodeID = 3\<rparr>]\<rparr>,
      \<lparr>si_ID = 3, si_Owners = [\<lparr>so_NodeID = 3\<rparr>]\<rparr>]"

theorem PlanNodes_exact_witness:
  "planned (PlanNodes (\<lambda>n s. n \<in> owners_of s) example_rand 1 example_shards []) = mset example_shards"
  using PlanNodes_exact [OF example_OwnedBy_ok example_rand_ok, of 1 "[]" example_shards]
  by (simp add: example_shards_def plannable_def owners_of_def)

section \<open>Every shard is settled once\<close>

text \<open>The calls of a query: the node, the shards, the object and the error. A call with \<^verbatim>\<open>ErrRetry\<close> settles nothing.\<close>

type_synonym 'r call = "u64 \<times> ShardInfo list \<times> 'r option \<times> go_error option"

definition traced :: "('r, 'w) QueryFn \<Rightarrow> ('r, 'w \<times> 'r call list) QueryFn" where
  "traced fn n ss wt = (case fn n ss (fst wt) of ((obj, err), w) \<Rightarrow> ((obj, err), (w, snd wt @ [(n, ss, obj, err)])))"

text \<open>A call that the query answered in this way in some world.\<close>

definition call_by :: "('r, 'w) QueryFn \<Rightarrow> 'r call \<Rightarrow> bool" where
  "call_by fn c = (case c of (n, ss, obj, e) \<Rightarrow> \<exists>w w'. fn n ss w = ((obj, e), w'))"

definition settled :: "'r call list \<Rightarrow> ShardInfo multiset" where
  "settled calls = mset (concat (map (\<lambda>(n, ss, obj, e). if e = Some ErrRetry then [] else ss) calls))"

definition retried :: "'r call list \<Rightarrow> Node2ShardIDs" where
  "retried calls = concat (map (\<lambda>(n, ss, obj, e). if e = Some ErrRetry then [(n, ss)] else []) calls)"

definition plan_of :: "'r call list \<Rightarrow> Node2ShardIDs" where
  "plan_of calls = map (\<lambda>(n, ss, obj, e). (n, ss)) calls"

text \<open>The objects and the errors that the calls give; a panic gives neither.\<close>

definition call_objs :: "'r call list \<Rightarrow> 'r list" where
  "call_objs calls = concat (map (\<lambda>(n, ss, obj, e). case (obj, e) of (Some x, None) \<Rightarrow> [x] | _ \<Rightarrow> []) calls)"

definition hard_error :: "go_error option \<Rightarrow> bool" where
  "hard_error e = (case e of None \<Rightarrow> False | Some ErrRetry \<Rightarrow> False | Some (Panic _) \<Rightarrow> False | _ \<Rightarrow> True)"

definition failed_calls :: "'r call list \<Rightarrow> 'r call list" where
  "failed_calls calls = filter (\<lambda>(n, ss, obj, e). hard_error e) calls"

lemma call_objs_simps [simp]:
  "call_objs [] = []" "call_objs ((n, ss, obj, e) # cs) = (case (obj, e) of (Some x, None) \<Rightarrow> [x] | _ \<Rightarrow> []) @ call_objs cs"
  "call_objs (cs @ ds) = call_objs cs @ call_objs ds"
  "failed_calls [] = []" "failed_calls ((n, ss, obj, e) # cs) = (if hard_error e then [(n, ss, obj, e)] else []) @ failed_calls cs"
  "failed_calls (cs @ ds) = failed_calls cs @ failed_calls ds"
  by (simp_all add: call_objs_def failed_calls_def)

lemma call_simps [simp]:
  "settled [] = {#}" "settled ((n, ss, obj, e) # cs) = (if e = Some ErrRetry then {#} else mset ss) + settled cs"
  "retried [] = []" "retried ((n, ss, obj, e) # cs) = (if e = Some ErrRetry then [(n, ss)] else []) @ retried cs"
  "plan_of [] = []" "plan_of ((n, ss, obj, e) # cs) = (n, ss) # plan_of cs"
  "settled (cs @ ds) = settled cs + settled ds"
  by (simp_all add: settled_def retried_def plan_of_def)

lemma planned_simps [simp]: "planned [] = {#}" "planned ((n, ss) # m) = mset ss + planned m"
  by (simp_all add: planned_def)

lemma in_planned: "(n, ss) \<in> set m \<Longrightarrow> s \<in> set ss \<Longrightarrow> s \<in># planned m"
  by (induction m) auto

lemma planned_calls: "planned (plan_of calls) = settled calls + planned (retried calls)"
  by (induction calls) (auto simp: add_ac)

lemma executePlanSingle_traced:
  obtains obj err w' obj' err' where "executePlanSingle (traced fn) n ss (w, tr) = ((obj', err'), (w', tr @ [(n, ss, obj, err)]))"
    and "err' = Some ErrRetry \<longleftrightarrow> err = Some ErrRetry" and "hard_error err \<longleftrightarrow> err' \<noteq> None \<and> err' \<noteq> Some ErrRetry"
    and "err' = None \<longrightarrow> (case obj' of Some x \<Rightarrow> [x] | None \<Rightarrow> []) = (case (obj, err) of (Some x, None) \<Rightarrow> [x] | _ \<Rightarrow> [])"
    and "call_by fn (n, ss, obj, err)"
proof -
  obtain obj err w1 where fn: "fn n ss w = ((obj, err), w1)" by (metis prod.exhaust)
  then have by_fn: "call_by fn (n, ss, obj, err)" by (auto simp: call_by_def)
  show thesis
  proof (cases "\<exists>m. err = Some (Panic m)")
    case True
    then show thesis using that [of None None w1 obj err] by_fn fn by (auto simp: executePlanSingle_def traced_def hard_error_def split: option.splits)
  next
    case False
    then have "executePlanSingle (traced fn) n ss (w, tr) = ((obj, err), (w1, tr @ [(n, ss, obj, err)]))"
      by (auto simp: executePlanSingle_def traced_def fn split: option.splits go_error.splits)
    moreover have "hard_error err \<longleftrightarrow> err \<noteq> None \<and> err \<noteq> Some ErrRetry"
      using False by (auto simp: hard_error_def split: option.splits go_error.splits)
    ultimately show thesis using that [of obj err w1 obj err] by_fn by (auto split: option.splits)
  qed
qed

text \<open>What the loop over the plans adds to results, to the plans to retry, to the last error and to the trace.\<close>

definition plans_done ::
  "('r, 'w) QueryFn \<Rightarrow> ('r list \<times> Node2ShardIDs \<times> go_error option) \<times> 'w \<times> 'r call list \<Rightarrow> Node2ShardIDs \<Rightarrow> 'r call list \<Rightarrow> 'r list \<Rightarrow> Node2ShardIDs \<Rightarrow> go_error option
    \<Rightarrow> 'r call list \<Rightarrow> bool" where
  "plans_done fn out plans calls result retry err_last tr \<longleftrightarrow>
     (\<exists>w'. snd out = (w', tr @ calls)) \<and> fst (fst out) = result @ call_objs calls \<and> fst (snd (fst out)) = retry @ retried calls \<and>
     (snd (snd (fst out)) = None \<longleftrightarrow> err_last = None \<and> failed_calls calls = []) \<and> plan_of calls = plans \<and>
     list_all (call_by fn) calls"

lemma executePlans_traced:
  "\<exists>calls. plans_done fn (executePlans (traced fn) plans (w, tr) result retry err_last) plans calls result retry err_last tr"
proof (induction plans arbitrary: w tr result retry err_last)
  case (Cons plan plans)
  obtain n ss where plan: "plan = (n, ss)" by (cases plan)
  obtain obj err w1 obj' err' where single: "executePlanSingle (traced fn) n ss (w, tr) = ((obj', err'), (w1, tr @ [(n, ss, obj, err)]))"
    and err: "err' = Some ErrRetry \<longleftrightarrow> err = Some ErrRetry" "hard_error err \<longleftrightarrow> err' \<noteq> None \<and> err' \<noteq> Some ErrRetry"
      "err' = None \<longrightarrow> (case obj' of Some x \<Rightarrow> [x] | None \<Rightarrow> []) = (case (obj, err) of (Some x, None) \<Rightarrow> [x] | _ \<Rightarrow> [])"
      "call_by fn (n, ss, obj, err)"
    by (rule executePlanSingle_traced [of fn n ss w tr]) blast
  let ?tr = "tr @ [(n, ss, obj, err)]"
  have objs: "(case (obj, err) of (Some x, None) \<Rightarrow> [x] | _ \<Rightarrow> []) = []" if "err' \<noteq> None"
    using that err(1,2) by (cases err) (auto simp: hard_error_def split: option.splits)
  consider (ok) "err' = None" | (retry) "err' = Some ErrRetry" | (failed) e where "err' = Some e" "e \<noteq> ErrRetry" by (cases err') auto
  then show ?case
  proof cases
    case ok
    obtain calls where "plans_done fn (executePlans (traced fn) plans (w1, ?tr) (case obj' of Some x \<Rightarrow> result @ [x] | None \<Rightarrow> result) retry err_last)
        plans calls (case obj' of Some x \<Rightarrow> result @ [x] | None \<Rightarrow> result) retry err_last ?tr"
      using Cons by blast
    with ok err show ?thesis
      by (intro exI [of _ "(n, ss, obj, err) # calls"]) (auto simp: plans_done_def plan single split: option.splits)
  next
    case retry
    obtain calls where "plans_done fn (executePlans (traced fn) plans (w1, ?tr) result (retry @ [plan]) err_last)
        plans calls result (retry @ [plan]) err_last ?tr"
      using Cons by blast
    with retry err objs show ?thesis
      by (intro exI [of _ "(n, ss, obj, err) # calls"]) (simp add: plans_done_def plan single)
  next
    case failed
    obtain calls where "plans_done fn (executePlans (traced fn) plans (w1, ?tr) result retry (Some e)) plans calls result retry (Some e) ?tr"
      using Cons by blast
    with failed err objs show ?thesis
      by (intro exI [of _ "(n, ss, obj, err) # calls"]) (simp add: plans_done_def plan single)
  qed
qed (simp add: plans_done_def)

text \<open>The nodes that can still be asked.\<close>

definition candidates :: "ShardInfo multiset \<Rightarrow> u64 list \<Rightarrow> u64 set" where
  "candidates M skip = (\<Union>s\<in>set_mset M. owners_of s) - set skip"

lemma finite_candidates [simp]: "finite (candidates M skip)"
  by (simp add: candidates_def owners_of_def)

lemma candidates_mono: "set_mset M \<subseteq> set_mset N \<Longrightarrow> set skip' \<subseteq> set skip \<Longrightarrow> candidates M skip \<subseteq> candidates N skip'"
  by (auto simp: candidates_def)

definition call_ok :: "'r call \<Rightarrow> bool" where
  "call_ok c = (case c of (n, ss, obj, e) \<Rightarrow> list_all (\<lambda>s. n \<in> owners_of s) ss)"

text \<open>What a run of the loop does: the shards are settled, or dropped when all their owners asked to retry.\<close>

definition run_ok :: "ShardInfo multiset \<Rightarrow> u64 set \<Rightarrow> 'r call list \<Rightarrow> bool" where
  "run_ok M skip calls \<longleftrightarrow> list_all call_ok calls \<and>
     (\<exists>dropped. M = settled calls + dropped \<and> (\<forall>s\<in>#dropped. owners_of s \<subseteq> skip \<union> fst ` set (retried calls)))"

lemma retried_append [simp]: "retried (cs @ ds) = retried cs @ retried ds"
  by (simp add: retried_def)

lemma plan_calls_ok:
  assumes "plan_ok 0 skip (plan_of calls)"
  shows "list_all call_ok calls"
  using assms by (auto simp: plan_ok_def plan_of_def entry_ok_def call_ok_def list_all_iff)

lemma retried_plan: "set (retried calls) \<subseteq> set (plan_of calls)"
  by (induction calls) auto

lemma plan_candidate:
  assumes "plan_ok 0 skip plans" and "0 \<notin> (\<Union>s\<in>set_mset (planned plans). owners_of s)" and "(n, ss) \<in> set plans"
  shows "n \<in> candidates (planned plans) skip"
proof -
  have "entry_ok 0 skip (n, ss)" using assms(1,3) by (auto simp: plan_ok_def list_all_iff)
  then obtain s where s: "s \<in> set ss" "n \<in> owners_of s" and "n = 0 \<or> n \<notin> set skip" by (cases ss) (auto simp: entry_ok_def)
  then show ?thesis using assms(2) in_planned [OF assms(3) s(1)] by (auto simp: candidates_def)
qed

lemma candidates_less:
  assumes "plan_ok 0 skip (plan_of calls)" and "0 \<notin> (\<Union>s\<in>set_mset (planned (plan_of calls)). owners_of s)" and "retried calls \<noteq> []"
    and "set_mset M \<subseteq> set_mset (planned (plan_of calls))"
  shows "card (candidates M (map fst (retried calls) @ skip)) < card (candidates (planned (plan_of calls)) skip)"
proof (rule psubset_card_mono)
  obtain n ss where n: "(n, ss) \<in> set (retried calls)" using assms(3) by (metis list.set_intros(1) neq_Nil_conv surj_pair)
  then have "n \<in> candidates (planned (plan_of calls)) skip" using plan_candidate [OF assms(1,2)] retried_plan by blast
  moreover have "n \<notin> candidates M (map fst (retried calls) @ skip)" using n by (force simp: candidates_def)
  moreover have "candidates M (map fst (retried calls) @ skip) \<subseteq> candidates (planned (plan_of calls)) skip"
    using assms(4) by (intro candidates_mono) auto
  ultimately show "candidates M (map fst (retried calls) @ skip) \<subset> candidates (planned (plan_of calls)) skip" by blast
qed simp

lemma run_ok_step:
  assumes "plan_ok 0 skip (plan_of calls)" and "0 \<notin> (\<Union>s\<in>set_mset (planned (plan_of calls)). owners_of s)"
    and "run_ok (filter_mset (plannable 0 (map fst (retried calls) @ skip)) (planned (retried calls))) (set skip \<union> fst ` set (retried calls)) calls'"
  shows "run_ok (planned (plan_of calls)) (set skip) (calls @ calls')"
proof -
  let ?P = "plannable 0 (map fst (retried calls) @ skip)"
  from assms(3) obtain dropped where d: "filter_mset ?P (planned (retried calls)) = settled calls' + dropped"
      "\<forall>s\<in>#dropped. owners_of s \<subseteq> set skip \<union> fst ` set (retried calls) \<union> fst ` set (retried calls')" "list_all call_ok calls'"
    by (auto simp: run_ok_def)
  let ?now = "filter_mset (\<lambda>s. \<not> ?P s) (planned (retried calls))"
  have "planned (plan_of calls) = settled calls + (filter_mset ?P (planned (retried calls)) + ?now)"
    by (simp add: planned_calls flip: multiset_partition)
  then have "planned (plan_of calls) = settled (calls @ calls') + (dropped + ?now)" by (simp add: d(1) add_ac)
  moreover have "owners_of s \<subseteq> set skip \<union> fst ` set (retried (calls @ calls'))" if "s \<in># dropped + ?now" for s
    using that d(2) by (auto simp: plannable_def)
  ultimately show ?thesis using plan_calls_ok [OF assms(1)] d(3) by (auto simp: run_ok_def)
qed

lemma retry_loop_settles:
  assumes "OwnedBy_ok OwnedBy" and "\<And>i. rand_ok (rnd i)"
    and "plan_ok 0 skip plans" and "0 \<notin> (\<Union>s\<in>set_mset (planned plans). owners_of s)" and "card (candidates (planned plans) skip) < fuel"
  shows "\<exists>res e w' calls. retry_loop fuel OwnedBy rnd i (traced fn) skip plans (w, tr) result errLast = Some ((res, e), (w', tr @ calls)) \<and>
    res = result @ call_objs calls \<and> (e = None \<longleftrightarrow> errLast = None \<and> failed_calls calls = []) \<and> list_all (call_by fn) calls \<and> run_ok (planned plans) (set skip) calls"
  using assms(3-)
proof (induction fuel arbitrary: i skip plans w tr result errLast)
  case (Suc fuel)
  show ?case
  proof (cases "plans = []")
    case True
    then show ?thesis by (intro exI [of _ result] exI [of _ errLast] exI [of _ w] exI [of _ "[]"]) (simp add: run_ok_def)
  next
    case False
    obtain arr retry err wt where out: "executePlans (traced fn) plans (w, tr) [] [] None = ((arr, retry, err), wt)" by (metis prod.exhaust)
    with executePlans_traced [of fn plans w tr "[]" "[]" None] obtain w1 calls where
      ex: "executePlans (traced fn) plans (w, tr) [] [] None = ((arr, retried calls, err), (w1, tr @ calls))"
      and calls: "plans = plan_of calls" and arr: "arr = call_objs calls" and err: "err = None \<longleftrightarrow> failed_calls calls = []"
      and by_fn: "list_all (call_by fn) calls"
      by (auto simp: plans_done_def)
    let ?skip = "map fst (retried calls) @ skip"
    let ?plans = "if retried calls = [] then [] else PlanNodes OwnedBy (rnd i) 0 (concat (map snd (retried calls))) ?skip"
    have planned: "planned ?plans = filter_mset (plannable 0 ?skip) (planned (retried calls))"
      using PlanNodes_plan(2) [OF assms(1,2)] by (simp add: planned_def)
    have "set_mset (planned ?plans) \<subseteq> set_mset (planned plans)" by (auto simp: planned calls planned_calls)
    then have zero: "0 \<notin> (\<Union>s\<in>set_mset (planned ?plans). owners_of s)" using Suc.prems(2) by blast
    have "plan_ok 0 ?skip ?plans" using PlanNodes_plan(1) [OF assms(1,2)] by (simp add: plan_ok_def)
    moreover have "card (candidates (planned ?plans) ?skip) < fuel"
    proof (cases "retried calls = []")
      case True
      obtain n ss where "(n, ss) \<in> set plans" using False by (cases plans) auto
      then have "n \<in> candidates (planned plans) skip" by (rule plan_candidate [OF Suc.prems(1,2)])
      then have "0 < card (candidates (planned plans) skip)" by (auto simp: card_gt_0_iff)
      with Suc.prems(3) True show ?thesis by (simp add: candidates_def)
    next
      case False
      from candidates_less [OF Suc.prems(1,2) [unfolded calls] False, of "planned ?plans"] Suc.prems(3) \<open>set_mset (planned ?plans) \<subseteq> _\<close>
      show ?thesis by (simp add: calls)
    qed
    ultimately obtain res e w' calls' where
      loop: "retry_loop fuel OwnedBy rnd (i + 1) (traced fn) ?skip ?plans (w1, tr @ calls) (result @ arr) (if err \<noteq> None then err else errLast) =
        Some ((res, e), (w', (tr @ calls) @ calls'))"
      and res: "res = (result @ arr) @ call_objs calls'" "e = None \<longleftrightarrow> (if err \<noteq> None then err else errLast) = None \<and> failed_calls calls' = []"
        "list_all (call_by fn) calls'"
      and run: "run_ok (planned ?plans) (set ?skip) calls'"
      using Suc.IH [OF _ zero] by blast
    have "run_ok (planned plans) (set skip) (calls @ calls')"
      unfolding calls by (rule run_ok_step [OF Suc.prems(1,2) [unfolded calls]]) (use run in \<open>simp add: planned Un_commute\<close>)
    with loop ex False res arr err by_fn show ?thesis
      by (intro exI [of _ res] exI [of _ e] exI [of _ w'] exI [of _ "calls @ calls'"]) (auto simp: Let_def)
  qed
qed simp

lemma run_ok_append: "run_ok M {} cs \<Longrightarrow> run_ok N {} ds \<Longrightarrow> run_ok (M + N) {} (cs @ ds)"
proof -
  assume "run_ok M {} cs" "run_ok N {} ds"
  then obtain d e where "M = settled cs + d" "\<forall>s\<in>#d. owners_of s \<subseteq> fst ` set (retried cs)"
      "N = settled ds + e" "\<forall>s\<in>#e. owners_of s \<subseteq> fst ` set (retried ds)" "list_all call_ok (cs @ ds)"
    by (auto simp: run_ok_def)
  then show ?thesis unfolding run_ok_def by (intro conjI exI [of _ "d + e"]) (auto simp: add_ac image_Un)
qed

lemma execute_plan_settles:
  assumes "OwnedBy_ok OwnedBy" and "\<And>i. rand_ok (rnd i)" and "list_all (entry_ok cur []) plan"
    and "0 \<notin> (\<Union>s\<in>set_mset (planned plan). owners_of s)" and "card (candidates (planned plan) []) < fuel"
  shows "\<exists>res e w' calls. ExecuteWithRetry fuel OwnedBy rnd (traced fn) plan (w, tr) result errLast = Some ((res, e), (w', tr @ calls)) \<and>
    res = result @ call_objs calls \<and> (e = None \<longleftrightarrow> errLast = None \<and> failed_calls calls = []) \<and> list_all (call_by fn) calls \<and> run_ok (planned plan) {} calls"
  using assms(3-)
proof (induction plan arbitrary: w tr result errLast)
  case Nil
  then show ?case by (intro exI [of _ result] exI [of _ errLast] exI [of _ w] exI [of _ "[]"]) (simp add: run_ok_def)
next
  case (Cons p plan)
  obtain n ss where p: "p = (n, ss)" by (cases p)
  have "plan_ok 0 [] [(n, ss)]" using Cons.prems(1,2) by (auto simp: p plan_ok_def entry_ok_def list_all_iff)
  moreover have sub: "card (candidates M []) < fuel" if "set_mset M \<subseteq> set_mset (planned (p # plan))" for M
    using Cons.prems(3) card_mono [OF finite_candidates candidates_mono [OF that order_refl]] by (rule le_less_trans [rotated])
  ultimately obtain res e w1 calls where
    one: "executePlanWithRetry fuel OwnedBy rnd (traced fn) n ss (w, tr) = Some ((res, e), (w1, tr @ calls))"
      "res = call_objs calls" "e = None \<longleftrightarrow> failed_calls calls = []" "run_ok (mset ss) {} calls" "list_all (call_by fn) calls"
    using retry_loop_settles [where rnd = rnd and skip = "[]" and plans = "[(n, ss)]" and fuel = fuel and i = 0 and fn = fn and w = w and tr = tr
        and result = "[]" and errLast = None, OF assms(1,2)] Cons.prems(2) sub [of "mset ss"]
    by (auto simp: executePlanWithRetry_def p)
  obtain res' e' w' calls' where
    rest: "ExecuteWithRetry fuel OwnedBy rnd (traced fn) plan (w1, tr @ calls) (result @ res) (if e \<noteq> None then e else errLast) =
        Some ((res', e'), (w', (tr @ calls) @ calls'))"
      "res' = (result @ res) @ call_objs calls'" "e' = None \<longleftrightarrow> (if e \<noteq> None then e else errLast) = None \<and> failed_calls calls' = []"
      "run_ok (planned plan) {} calls'" "list_all (call_by fn) calls'"
    using Cons.IH [of w1 "tr @ calls" "result @ res" "if e \<noteq> None then e else errLast"] Cons.prems sub [of "planned plan"]
    by (auto simp: p)
  show ?case
    using one rest run_ok_append [OF one(4) rest(4)]
    by (intro exI [of _ res'] exI [of _ e'] exI [of _ w'] exI [of _ "calls @ calls'"]) (auto simp: p)
qed

text \<open>The trace is only an observation.\<close>

lemma single_untraced: "executePlanSingle fn n ss w = (case executePlanSingle (traced fn) n ss (w, tr) of (r, wt) \<Rightarrow> (r, fst wt))"
  by (auto simp: executePlanSingle_def traced_def split: prod.splits option.splits go_error.splits)

lemma plans_untraced:
  "executePlans fn plans w result retry err = (case executePlans (traced fn) plans (w, tr) result retry err of (r, wt) \<Rightarrow> (r, fst wt))"
proof (induction plans arbitrary: w tr result retry err)
  case (Cons plan plans)
  obtain r wt where t: "executePlanSingle (traced fn) (fst plan) (snd plan) (w, tr) = (r, wt)" by (metis prod.exhaust)
  then have "executePlanSingle fn (fst plan) (snd plan) w = (r, fst wt)" by (simp add: single_untraced [of fn _ _ w tr])
  with t Cons [where w = "fst wt" and tr = "snd wt"] show ?case by (cases r; cases "snd r") simp_all
qed simp

lemma retry_untraced:
  "retry_loop fuel OwnedBy rnd i fn skip plans w result err =
    map_option (\<lambda>(r, wt). (r, fst wt)) (retry_loop fuel OwnedBy rnd i (traced fn) skip plans (w, tr) result err)"
proof (induction fuel arbitrary: i skip plans w tr result err)
  case (Suc fuel)
  obtain arr retry e wt where t: "executePlans (traced fn) plans (w, tr) [] [] None = ((arr, retry, e), wt)" by (metis prod.exhaust)
  then have "executePlans fn plans w [] [] None = ((arr, retry, e), fst wt)" by (simp add: plans_untraced [of fn _ w _ _ _ tr])
  with t Suc [where w = "fst wt" and tr = "snd wt"] show ?case by (simp add: Let_def)
qed simp

lemma execute_untraced:
  "ExecuteWithRetry fuel OwnedBy rnd fn plan w result err =
    map_option (\<lambda>(r, wt). (r, fst wt)) (ExecuteWithRetry fuel OwnedBy rnd (traced fn) plan (w, tr) result err)"
proof (induction plan arbitrary: w tr result err)
  case (Cons p plan)
  obtain n ss where p: "p = (n, ss)" by (cases p)
  show ?case
  proof (cases "executePlanWithRetry fuel OwnedBy rnd (traced fn) n ss (w, tr)")
    case None
    then show ?thesis using retry_untraced [of fuel OwnedBy rnd 0 fn "[]" "[(n, ss)]" w "[]" None tr] by (simp add: p executePlanWithRetry_def)
  next
    case (Some res)
    obtain arr e wt where res: "res = ((arr, e), wt)" by (metis prod.exhaust)
    have "executePlanWithRetry fuel OwnedBy rnd fn n ss w = Some ((arr, e), fst wt)"
      using retry_untraced [of fuel OwnedBy rnd 0 fn "[]" "[(n, ss)]" w "[]" None tr] Some res by (simp add: executePlanWithRetry_def)
    with Some res Cons [where w = "fst wt" and tr = "snd wt"] show ?thesis by (simp add: p)
  qed
qed simp

lemma planned_execution:
  assumes "OwnedBy_ok OwnedBy" and "rand_ok r" and "\<And>i. rand_ok (rnd i)"
    and "0 \<notin> (\<Union>s\<in>set shards. owners_of s)" and "card (\<Union>s\<in>set shards. owners_of s) < fuel"
  shows "\<exists>e w' calls. ExecuteWithRetry fuel OwnedBy rnd (traced fn) (PlanNodes OwnedBy r cur shards []) (w, []) [] None =
      Some ((call_objs calls, e), (w', calls)) \<and>
    (e = None \<longleftrightarrow> failed_calls calls = []) \<and> list_all (call_by fn) calls \<and> run_ok (filter_mset (\<lambda>s. owners_of s \<noteq> {}) (mset shards)) {} calls"
proof -
  let ?plan = "PlanNodes OwnedBy r cur shards []"
  note plan = PlanNodes_plan [where cur = cur and blacklist = "[]" and shards = shards, OF assms(1,2)]
  have owned: "planned ?plan = filter_mset (\<lambda>s. owners_of s \<noteq> {}) (mset shards)"
    unfolding plan(2) by (intro filter_mset_cong) (auto simp: plannable_def)
  have "candidates (planned ?plan) [] \<subseteq> (\<Union>s\<in>set shards. owners_of s)" by (auto simp: candidates_def owned)
  then have "card (candidates (planned ?plan) []) \<le> card (\<Union>s\<in>set shards. owners_of s)" by (rule card_mono [rotated]) (simp add: owners_of_def)
  with assms(5) have "card (candidates (planned ?plan) []) < fuel" by (rule le_less_trans [rotated])
  from execute_plan_settles [where rnd = rnd and cur = cur and fn = fn and w = w and tr = "[]" and result = "[]" and errLast = None,
      OF assms(1,3) _ _ this] plan(1) assms(4) show ?thesis
    by (auto simp: plan_ok_def owned)
qed

text \<open>
  (C23) A query over the cluster comes to an end and counts nothing twice: with more rounds than there are
  owners, \<^verbatim>\<open>ExecuteWithRetry\<close> on the plan for the shards returns; its results are those of the calls that
  succeeded; and every shard with an owner is settled by exactly one call, on a node that owns it, or
  was dropped after every one of its owners had asked for another try.
\<close>

theorem execution_settles:
  assumes "OwnedBy_ok OwnedBy" and "rand_ok r" and "\<And>i. rand_ok (rnd i)"
    and "0 \<notin> (\<Union>s\<in>set shards. owners_of s)" and "card (\<Union>s\<in>set shards. owners_of s) < fuel"
  shows "\<exists>e w' calls. ExecuteWithRetry fuel OwnedBy rnd (traced fn) (PlanNodes OwnedBy r cur shards []) (w, []) [] None =
      Some ((call_objs calls, e), (w', calls)) \<and>
    run_ok (filter_mset (\<lambda>s. owners_of s \<noteq> {}) (mset shards)) {} calls"
  using planned_execution [where rnd = rnd and fn = fn and cur = cur and w = w, OF assms] by blast

theorem execution_settles_witness:
  "\<exists>e w' calls. ExecuteWithRetry 4 (\<lambda>n s. n \<in> owners_of s) (\<lambda>_. example_rand)
      (traced (\<lambda>n ss w. ((if n = 3 then None else Some n, if n = 3 then Some ErrRetry else None), w)))
      (PlanNodes (\<lambda>n s. n \<in> owners_of s) example_rand 1 example_shards []) ((), []) [] None = Some ((call_objs calls, e), (w', calls)) \<and>
    run_ok (mset example_shards) {} calls"
proof -
  have owners: "(\<Union>s\<in>set example_shards. owners_of s) = {1, 2, 3}" by (auto simp: example_shards_def owners_of_def)
  have "filter_mset (\<lambda>s. owners_of s \<noteq> {}) (mset example_shards) = mset example_shards" by (simp add: example_shards_def owners_of_def)
  with execution_settles [where shards = example_shards and fuel = 4 and cur = 1 and w = "()" and rnd = "\<lambda>_. example_rand"
      and fn = "\<lambda>n ss w. ((if n = 3 then None else Some n, if n = 3 then Some ErrRetry else None), w)",
      OF example_OwnedBy_ok example_rand_ok example_rand_ok]
  show ?thesis by (simp add: owners)
qed

end
