(* ===== verification/ClusterExec.thy ===== *)
theory ClusterExec
  imports ClusterPlan RemoteRpc "HOL-Library.AList" "HOL-Library.List_Lexorder" "HOL-Library.Char_ord"
begin

text \<open>
  \<^verbatim>\<open>coordinator/cluster_executor.go\<close>: a statement over the shards of the cluster is asked of the own
  store and of the other nodes, and the answers are merged. The interfaces \<^verbatim>\<open>TSDBStore\<close>,
  \<^verbatim>\<open>MetaClient\<close> and \<^verbatim>\<open>RemoteNodeExecutor\<close> are records of operations on a world; the imported
  query library is a parameter. A Go map is a list in the order of its iteration.
\<close>

section \<open>The interfaces\<close>

record tsdb_TagKeys =
  tk_Measurement :: string
  tk_Keys :: "string list"

record KeyValue =
  kv_Key :: string
  kv_Value :: string

record tsdb_TagValues =
  tv_Measurement :: string
  tv_Values :: "KeyValue list"

record Row =
  row_Columns :: "string list"
  row_Values :: "json list list"

type_synonym Result = "Row list"

datatype TaskStatement = ShowQueriesStatement | KillQueryStatement u64 string | OtherTaskStatement string

type_synonym ('r, 'w) op = "'w \<Rightarrow> ('r \<times> go_error option) \<times> 'w"

type_synonym dimensions = "(string \<times> int) list option \<times> string list"

record ('a, 'e, 'o, 'it, 'c, 'w) TSDBStore =
  ts_SeriesCardinality :: "string \<Rightarrow> (int, 'w) op"
  ts_MeasurementNames :: "'a \<Rightarrow> string \<Rightarrow> 'e option \<Rightarrow> (string list, 'w) op"
  ts_TagValues :: "'a \<Rightarrow> u64 list \<Rightarrow> 'e option \<Rightarrow> (tsdb_TagValues list, 'w) op"
  ts_TagKeys :: "'a \<Rightarrow> u64 list \<Rightarrow> 'e option \<Rightarrow> (tsdb_TagKeys list, 'w) op"
  ts_DeleteMeasurement :: "string \<Rightarrow> string \<Rightarrow> 'w \<Rightarrow> go_error option \<times> 'w"
  ts_DeleteDatabase :: "string \<Rightarrow> 'w \<Rightarrow> go_error option \<times> 'w"
  ts_DeleteSeries :: "string \<Rightarrow> Sources \<Rightarrow> 'e option \<Rightarrow> 'w \<Rightarrow> go_error option \<times> 'w"
  tsg_MeasurementsByRegex :: "u64 list \<Rightarrow> string \<Rightarrow> 'w \<Rightarrow> string list"
  tsg_CreateIterator :: "u64 list \<Rightarrow> Measurement \<Rightarrow> 'o \<Rightarrow> ('it option, 'w) op"
  tsg_MapType :: "u64 list \<Rightarrow> string \<Rightarrow> string \<Rightarrow> 'w \<Rightarrow> int"
  tsg_IteratorCost :: "u64 list \<Rightarrow> string \<Rightarrow> 'o \<Rightarrow> ('c, 'w) op"
  tsg_FieldDimensions :: "u64 list \<Rightarrow> string list \<Rightarrow> (dimensions, 'w) op"

record ('e, 'o, 'it, 'c, 'w) RemoteNodeExecutor =
  rn_TaskManagerStatement :: "u64 \<Rightarrow> TaskStatement \<Rightarrow> (Result option, 'w) op"
  rn_SeriesCardinality :: "u64 \<Rightarrow> string \<Rightarrow> (int, 'w) op"
  rn_MeasurementNames :: "u64 \<Rightarrow> string \<Rightarrow> 'e option \<Rightarrow> (string list, 'w) op"
  rn_TagValues :: "u64 \<Rightarrow> u64 list \<Rightarrow> 'e option \<Rightarrow> (tsdb_TagValues list, 'w) op"
  rn_TagKeys :: "u64 \<Rightarrow> u64 list \<Rightarrow> 'e option \<Rightarrow> (tsdb_TagKeys list, 'w) op"
  rn_DeleteMeasurement :: "u64 \<Rightarrow> string \<Rightarrow> string \<Rightarrow> 'w \<Rightarrow> go_error option \<times> 'w"
  rn_DeleteDatabase :: "u64 \<Rightarrow> string \<Rightarrow> 'w \<Rightarrow> go_error option \<times> 'w"
  rn_DeleteSeries :: "u64 \<Rightarrow> string \<Rightarrow> Sources \<Rightarrow> 'e option \<Rightarrow> 'w \<Rightarrow> go_error option \<times> 'w"
  rn_CreateIterator :: "u64 \<Rightarrow> Measurement \<Rightarrow> 'o \<Rightarrow> u64 list \<Rightarrow> ('it option, 'w) op"
  rn_MapType :: "u64 \<Rightarrow> Measurement \<Rightarrow> string \<Rightarrow> u64 list \<Rightarrow> (int, 'w) op"
  rn_IteratorCost :: "u64 \<Rightarrow> Measurement \<Rightarrow> 'o \<Rightarrow> u64 list \<Rightarrow> ('c, 'w) op"
  rn_FieldDimensions :: "u64 \<Rightarrow> Measurement \<Rightarrow> u64 list \<Rightarrow> (dimensions, 'w) op"

text \<open>The metadata, and what is used of the imported query library.\<close>

record ce_meta =
  ce_DataNodes :: "go_error + NodeInfo list"
  ce_DataNode :: "u64 \<Rightarrow> NodeInfo option"
  ce_ShardOwner :: "u64 \<Rightarrow> ShardGroupInfo option"
  ce_Database :: "string \<Rightarrow> DatabaseInfo option"
  ce_OwnedBy :: "u64 \<Rightarrow> ShardInfo \<Rightarrow> bool"

record ('e, 'o, 'it, 'c, 'w) query_lib =
  ql_Reduce :: "'w \<Rightarrow> 'e option \<Rightarrow> 'e option"
  ql_SeriesN :: "'it \<Rightarrow> int"
  ql_MaxSeriesN :: "'o \<Rightarrow> int"
  ql_Close :: "'it \<Rightarrow> 'w \<Rightarrow> 'w"
  ql_CloseAll :: "'it option list \<Rightarrow> 'w \<Rightarrow> 'w"
  ql_Merge :: "'it option list \<Rightarrow> 'o \<Rightarrow> ('it option, 'w) op"
  ql_noCost :: 'c
  ql_Combine :: "'c \<Rightarrow> 'c \<Rightarrow> 'c"
  ql_LessThan :: "int \<Rightarrow> int \<Rightarrow> bool"
  ql_Unknown :: int
  ql_TagKeysLess :: "tsdb_TagKeys \<Rightarrow> tsdb_TagKeys \<Rightarrow> bool"
  ql_TagValuesLess :: "tsdb_TagValues \<Rightarrow> tsdb_TagValues \<Rightarrow> bool"
  ql_KeyValuesLess :: "KeyValue \<Rightarrow> KeyValue \<Rightarrow> bool"

text \<open>The executor; \<open>TaskManager\<close> gives an error or what it sends on the channel of the context.\<close>

record ('a, 'e, 'o, 'it, 'c, 'w) ClusterExecutor =
  ce_Node :: u64
  ce_Store :: "('a, 'e, 'o, 'it, 'c, 'w) TSDBStore"
  ce_Meta :: ce_meta
  ce_TaskManager :: "TaskStatement \<Rightarrow> (Result option, 'w) op"
  ce_Remote :: "('e, 'o, 'it, 'c, 'w) RemoteNodeExecutor"
  ce_query :: "('e, 'o, 'it, 'c, 'w) query_lib"
  ce_rand :: rand
  ce_retry_rand :: "nat \<Rightarrow> rand"
  ce_fuel :: nat

section \<open>Shards and nodes\<close>

definition toNodeIds :: "NodeInfo list \<Rightarrow> u64 list" where
  "toNodeIds nodeInfos = map ni_ID nodeInfos"

definition getAllRelatedNodes :: "ShardInfo list \<Rightarrow> u64 list" where
  "getAllRelatedNodes shards = remdups (concat (map (\<lambda>s. map so_NodeID (si_Owners s)) shards))"

definition toShardIDs :: "ShardInfo list \<Rightarrow> u64 list" where
  "toShardIDs shards = map si_ID shards"

definition DatabaseShards :: "ce_meta \<Rightarrow> string \<Rightarrow> go_error + ShardInfo list" where
  "DatabaseShards c db =
     (case ce_Database c db of
        None \<Rightarrow> Inl (Errorf ''not find database'')
      | Some dbInfo \<Rightarrow> Inr (concat (map (\<lambda>rp. concat (map sg_Shards (rp_ShardGroups rp))) (db_RetentionPolicies dbInfo))))"

fun GetShardInfoByIds :: "ce_meta \<Rightarrow> u64 list \<Rightarrow> go_error + ShardInfo list" where
  "GetShardInfoByIds c [] = Inr []"
| "GetShardInfoByIds c (i # ids) =
     (case ce_ShardOwner c i of
        None \<Rightarrow> Inl (Errorf ''not find shard'')
      | Some sgi \<Rightarrow>
          and_then (GetShardInfoByIds c ids) (\<lambda>shards.
            Inr (case find (\<lambda>s. si_ID s = i) (sg_Shards sgi) of Some s \<Rightarrow> s # shards | None \<Rightarrow> shards)))"

text \<open>The goroutines of a loop over nodes run one after the other; their results by node.\<close>

fun ask_nodes :: "(u64 \<Rightarrow> 'w \<Rightarrow> 'r \<times> 'w) \<Rightarrow> u64 list \<Rightarrow> 'w \<Rightarrow> (u64 \<times> 'r) list \<times> 'w" where
  "ask_nodes f [] w = ([], w)"
| "ask_nodes f (n # ns) w = (case f n w of (r, w) \<Rightarrow> case ask_nodes f ns w of (rs, w) \<Rightarrow> ((n, r) # rs, w))"

fun first_error :: "go_error option list \<Rightarrow> go_error option" where
  "first_error [] = None"
| "first_error (e # es) = (if e \<noteq> None then e else first_error es)"

text \<open>\<^verbatim>\<open>PlanNodes\<close> and \<^verbatim>\<open>ExecuteWithRetry\<close> as the operations below use them.\<close>

definition over_shards ::
  "('a, 'e, 'o, 'it, 'c, 'w) ClusterExecutor \<Rightarrow> ('r, 'w) QueryFn \<Rightarrow> ShardInfo list \<Rightarrow> 'w \<Rightarrow> (('r list \<times> go_error option) \<times> 'w) option" where
  "over_shards me fn shards w =
     ExecuteWithRetry (ce_fuel me) (ce_OwnedBy (ce_Meta me)) (ce_retry_rand me) fn
       (PlanNodes (ce_OwnedBy (ce_Meta me)) (ce_rand me) (ce_Node me) shards []) w [] None"

section \<open>Statements of the task manager\<close>

definition add_host :: "string \<Rightarrow> Result option \<Rightarrow> Result option" where
  "add_host host qr =
     (case qr of
        Some (r # rs) \<Rightarrow> Some (r\<lparr>row_Columns := row_Columns r @ [''host''], row_Values := map (\<lambda>v. v @ [JStr host]) (row_Values r)\<rparr> # rs)
      | _ \<Rightarrow> qr)"

definition node_host :: "ce_meta \<Rightarrow> u64 \<Rightarrow> string" where
  "node_host c n = (case ce_DataNode c n of None \<Rightarrow> ''unkown'' | Some ni \<Rightarrow> ni_Host ni)"

definition on_node :: "TaskStatement \<Rightarrow> string \<Rightarrow> bool" where
  "on_node stmt host = (case stmt of KillQueryStatement q h \<Rightarrow> h = [] \<or> h = host | _ \<Rightarrow> True)"

text \<open>Merging the answers to \<^verbatim>\<open>SHOW QUERIES\<close>; a nil result without an error is dereferenced.\<close>

fun merge_rows :: "(Result option \<times> go_error option) list \<Rightarrow> Row \<Rightarrow> go_error + Row" where
  "merge_rows [] row = Inr row"
| "merge_rows ((qr, err) # rs) row =
     (case (err, qr) of
        (Some e, _) \<Rightarrow> Inl e
      | (None, None) \<Rightarrow> Inl (Panic ''nil pointer dereference'')
      | (None, Some []) \<Rightarrow> merge_rows rs row
      | (None, Some (s # _)) \<Rightarrow>
          merge_rows rs
            (row\<lparr>row_Columns := (if row_Columns row = [] then row_Columns s else row_Columns row),
                 row_Values := row_Values row @ row_Values s\<rparr>))"

definition merge_statement :: "TaskStatement \<Rightarrow> (Result option \<times> go_error option) list \<Rightarrow> go_error + Row" where
  "merge_statement stmt results =
     (let row = \<lparr>row_Columns = [], row_Values = []\<rparr> in
      case stmt of
        ShowQueriesStatement \<Rightarrow> merge_rows results row
      | KillQueryStatement _ _ \<Rightarrow>
          (case filter (\<lambda>e. e \<noteq> None) (map snd results) of
             [] \<Rightarrow> Inr row
           | es \<Rightarrow> if list_all (\<lambda>r. snd r \<noteq> None) results then Inl (the (last es)) else Inr row)
      | OtherTaskStatement _ \<Rightarrow> Inr row)"

text \<open>
  The answer is the error, or the row sent to the client. What a task manager that returned no
  error sends on the channel is part of the parameter.
\<close>

definition ClusterExecutor_ExecuteStatement ::
  "('a, 'e, 'o, 'it, 'c, 'w) ClusterExecutor \<Rightarrow> TaskStatement \<Rightarrow> 'w \<Rightarrow> (go_error + Row) \<times> 'w" where
  "ClusterExecutor_ExecuteStatement me stmt w =
     (case ce_DataNodes (ce_Meta me) of
        Inl err \<Rightarrow> (Inl err, w)
      | Inr nodeInfos \<Rightarrow>
          let host = node_host (ce_Meta me);
              nodes = filter (\<lambda>n. on_node stmt (host n)) (toNodeIds nodeInfos);
              ask = (\<lambda>n w.
                case (if n = ce_Node me then
                        (case ce_TaskManager me stmt w of ((qr, err), w) \<Rightarrow> ((if err = None then qr else None, err), w))
                      else rn_TaskManagerStatement (ce_Remote me) n stmt w) of
                  ((qr, err), w) \<Rightarrow> ((add_host (host n) qr, err), w))
          in case ask_nodes ask nodes w of (results, w) \<Rightarrow> (merge_statement stmt (map snd results), w))"

section \<open>Statements over all nodes of a database\<close>

fun sum_results :: "(int \<times> go_error option) list \<Rightarrow> int \<Rightarrow> int \<times> go_error option" where
  "sum_results [] acc = (acc, None)"
| "sum_results ((n, err) # rs) acc = (if err \<noteq> None then (- 1, err) else sum_results rs (acc + n))"

definition ClusterExecutor_SeriesCardinality ::
  "('a, 'e, 'o, 'it, 'c, 'w) ClusterExecutor \<Rightarrow> string \<Rightarrow> (int, 'w) op" where
  "ClusterExecutor_SeriesCardinality me database w =
     (case DatabaseShards (ce_Meta me) database of
        Inl err \<Rightarrow> ((- 1, Some err), w)
      | Inr shards \<Rightarrow>
          (case ask_nodes (\<lambda>n w. if n = ce_Node me then ts_SeriesCardinality (ce_Store me) database w
                                 else rn_SeriesCardinality (ce_Remote me) n database w) (getAllRelatedNodes shards) w of
             (results, w) \<Rightarrow> (sum_results (map snd results) 0, w)))"

definition ClusterExecutor_MeasurementNames ::
  "('a, 'e, 'o, 'it, 'c, 'w) ClusterExecutor \<Rightarrow> 'a \<Rightarrow> string \<Rightarrow> 'e option \<Rightarrow> (string list, 'w) op" where
  "ClusterExecutor_MeasurementNames me auth database cond w =
     (case DatabaseShards (ce_Meta me) database of
        Inl err \<Rightarrow> (([], Some err), w)
      | Inr shards \<Rightarrow>
          (case ask_nodes (\<lambda>n w. if n = ce_Node me then ts_MeasurementNames (ce_Store me) auth database cond w
                                 else rn_MeasurementNames (ce_Remote me) n database cond w) (getAllRelatedNodes shards) w of
             (results, w) \<Rightarrow>
               (case first_error (map (snd \<circ> snd) results) of
                  Some err \<Rightarrow> (([], Some err), w)
                | None \<Rightarrow> ((go_sort (<) (remdups (concat (map (fst \<circ> snd) results))), None), w))))"

definition ClusterExecutor_DeleteMeasurement ::
  "('a, 'e, 'o, 'it, 'c, 'w) ClusterExecutor \<Rightarrow> string \<Rightarrow> string \<Rightarrow> 'w \<Rightarrow> go_error option \<times> 'w" where
  "ClusterExecutor_DeleteMeasurement me database name w =
     (case DatabaseShards (ce_Meta me) database of
        Inl err \<Rightarrow> (Some err, w)
      | Inr shards \<Rightarrow>
          (case ask_nodes (\<lambda>n w. if n = ce_Node me then ts_DeleteMeasurement (ce_Store me) database name w
                                 else rn_DeleteMeasurement (ce_Remote me) n database name w) (getAllRelatedNodes shards) w of
             (results, w) \<Rightarrow> (first_error (map snd results), w)))"

definition ClusterExecutor_DeleteDatabase ::
  "('a, 'e, 'o, 'it, 'c, 'w) ClusterExecutor \<Rightarrow> string \<Rightarrow> 'w \<Rightarrow> go_error option \<times> 'w" where
  "ClusterExecutor_DeleteDatabase me database w =
     (case DatabaseShards (ce_Meta me) database of
        Inl err \<Rightarrow> (Some err, w)
      | Inr shards \<Rightarrow>
          (case ask_nodes (\<lambda>n w. if n = ce_Node me then ts_DeleteDatabase (ce_Store me) database w
                                 else rn_DeleteDatabase (ce_Remote me) n database w) (getAllRelatedNodes shards) w of
             (results, w) \<Rightarrow> (first_error (map snd results), w)))"

text \<open>
  The condition is one variable of all goroutines: the nodes asked after the own one get the
  reduced condition.
\<close>

fun delete_series ::
  "('a, 'e, 'o, 'it, 'c, 'w) ClusterExecutor \<Rightarrow> string \<Rightarrow> Sources \<Rightarrow> u64 list \<Rightarrow> 'e option \<Rightarrow> 'w \<Rightarrow> (u64 \<times> go_error option) list \<times> 'w" where
  "delete_series me database sources [] cond w = ([], w)"
| "delete_series me database sources (n # ns) cond w =
     (let cond = (if n = ce_Node me then ql_Reduce (ce_query me) w cond else cond) in
      case (if n = ce_Node me then ts_DeleteSeries (ce_Store me) database sources cond w
            else rn_DeleteSeries (ce_Remote me) n database sources cond w) of
        (err, w) \<Rightarrow> case delete_series me database sources ns cond w of (rs, w) \<Rightarrow> ((n, err) # rs, w))"

definition ClusterExecutor_DeleteSeries ::
  "('a, 'e, 'o, 'it, 'c, 'w) ClusterExecutor \<Rightarrow> string \<Rightarrow> Sources \<Rightarrow> 'e option \<Rightarrow> 'w \<Rightarrow> go_error option \<times> 'w" where
  "ClusterExecutor_DeleteSeries me database sources cond w =
     (case DatabaseShards (ce_Meta me) database of
        Inl err \<Rightarrow> (Some err, w)
      | Inr shards \<Rightarrow>
          (case delete_series me database sources (getAllRelatedNodes shards) cond w of
             (results, w) \<Rightarrow> (first_error (map snd results), w)))"

section \<open>Tags\<close>

text \<open>
  The results of the nodes, merged into a map from measurements. An error of a result would end
  the operation; results with an error never come out of \<^verbatim>\<open>ExecuteWithRetry\<close>.
\<close>

definition set_add :: "'k \<Rightarrow> 'k list \<Rightarrow> 'k list" where
  "set_add k xs = (if k \<in> set xs then xs else xs @ [k])"

definition merge_keys :: "tsdb_TagKeys \<Rightarrow> (string \<times> string list) list \<Rightarrow> (string \<times> string list) list" where
  "merge_keys tagKey uniqKeys =
     (let m = (case map_of uniqKeys (tk_Measurement tagKey) of Some m \<Rightarrow> m | None \<Rightarrow> [])
      in AList.update (tk_Measurement tagKey) (fold set_add (tk_Keys tagKey) m) uniqKeys)"

fun merge_key_results :: "(tsdb_TagKeys list \<times> go_error option) list \<Rightarrow> (string \<times> string list) list \<Rightarrow> go_error + (string \<times> string list) list" where
  "merge_key_results [] uniqKeys = Inr uniqKeys"
| "merge_key_results ((keys, err) # rs) uniqKeys =
     (case err of Some e \<Rightarrow> Inl e | None \<Rightarrow> merge_key_results rs (fold merge_keys keys uniqKeys))"

definition tag_keys_query ::
  "('a, 'e, 'o, 'it, 'c, 'w) ClusterExecutor \<Rightarrow> 'a \<Rightarrow> 'e option \<Rightarrow> (tsdb_TagKeys list \<times> go_error option, 'w) QueryFn" where
  "tag_keys_query me auth cond nodeId shards w =
     (case (if nodeId = ce_Node me then ts_TagKeys (ce_Store me) auth (toShardIDs shards) cond w
            else rn_TagKeys (ce_Remote me) nodeId (toShardIDs shards) cond w) of
        ((tagKeys, err), w) \<Rightarrow> ((if length tagKeys > 0 then Some (tagKeys, err) else None, err), w))"

definition ClusterExecutor_TagKeys ::
  "('a, 'e, 'o, 'it, 'c, 'w) ClusterExecutor \<Rightarrow> 'a \<Rightarrow> u64 list \<Rightarrow> 'e option \<Rightarrow> 'w \<Rightarrow> ((go_error + tsdb_TagKeys list) \<times> 'w) option" where
  "ClusterExecutor_TagKeys me auth ids cond w =
     (case GetShardInfoByIds (ce_Meta me) ids of
        Inl err \<Rightarrow> Some (Inl err, w)
      | Inr shards \<Rightarrow>
          map_option
            (\<lambda>((result, err), w).
              (and_then (merge_key_results result []) (\<lambda>uniqKeys.
                 Inr (go_sort (ql_TagKeysLess (ce_query me))
                   (map (\<lambda>(m, keys). \<lparr>tk_Measurement = m, tk_Keys = go_sort (<) keys\<rparr>) uniqKeys))), w))
            (over_shards me (tag_keys_query me auth cond) shards w))"

definition extractKeyFn :: "KeyValue \<Rightarrow> string" where
  "extractKeyFn kv = ''key='' @ kv_Key kv @ ''+-*/value='' @ kv_Value kv"

definition merge_values :: "tsdb_TagValues \<Rightarrow> (string \<times> (string \<times> KeyValue) list) list \<Rightarrow> (string \<times> (string \<times> KeyValue) list) list" where
  "merge_values tagValue uniq =
     (let m = (case map_of uniq (tv_Measurement tagValue) of Some m \<Rightarrow> m | None \<Rightarrow> [])
      in AList.update (tv_Measurement tagValue) (fold (\<lambda>kv. AList.update (extractKeyFn kv) kv) (tv_Values tagValue) m) uniq)"

fun merge_value_results ::
  "(tsdb_TagValues list \<times> go_error option) list \<Rightarrow> (string \<times> (string \<times> KeyValue) list) list \<Rightarrow> go_error + (string \<times> (string \<times> KeyValue) list) list" where
  "merge_value_results [] uniq = Inr uniq"
| "merge_value_results ((values, err) # rs) uniq =
     (case err of Some e \<Rightarrow> Inl (Errorf ''TagValues fail'') | None \<Rightarrow> merge_value_results rs (fold merge_values values uniq))"

definition tag_values_query ::
  "('a, 'e, 'o, 'it, 'c, 'w) ClusterExecutor \<Rightarrow> 'a \<Rightarrow> 'e option \<Rightarrow> (tsdb_TagValues list \<times> go_error option, 'w) QueryFn" where
  "tag_values_query me auth cond nodeId shards w =
     (case (if nodeId = ce_Node me then ts_TagValues (ce_Store me) auth (toShardIDs shards) cond w
            else rn_TagValues (ce_Remote me) nodeId (toShardIDs shards) cond w) of
        ((tagValues, err), w) \<Rightarrow> ((Some (tagValues, err), err), w))"

definition ClusterExecutor_TagValues ::
  "('a, 'e, 'o, 'it, 'c, 'w) ClusterExecutor \<Rightarrow> 'a \<Rightarrow> u64 list \<Rightarrow> 'e option \<Rightarrow> 'w \<Rightarrow> ((go_error + tsdb_TagValues list) \<times> 'w) option" where
  "ClusterExecutor_TagValues me auth ids cond w =
     (case GetShardInfoByIds (ce_Meta me) ids of
        Inl err \<Rightarrow> Some (Inl err, w)
      | Inr shards \<Rightarrow>
          map_option
            (\<lambda>((result, err), w).
              (and_then (merge_value_results result []) (\<lambda>uniq.
                 Inr (go_sort (ql_TagValuesLess (ce_query me))
                   (map (\<lambda>(m, kvs). \<lparr>tv_Measurement = m, tv_Values = go_sort (ql_KeyValuesLess (ce_query me)) (map snd kvs)\<rparr>) uniq))), w))
            (over_shards me (tag_values_query me auth cond) shards w))"

section \<open>Iterators\<close>

text \<open>\<^verbatim>\<open>createLocalIteratorfunc\<close>: an iterator for each measurement of a regular expression.\<close>

fun local_inputs ::
  "('a, 'e, 'o, 'it, 'c, 'w) ClusterExecutor \<Rightarrow> u64 list \<Rightarrow> Measurement \<Rightarrow> 'o \<Rightarrow> string list \<Rightarrow> 'it option list \<Rightarrow> ('it option list, 'w) op" where
  "local_inputs me shardIDs m opt [] inputs w = ((inputs, None), w)"
| "local_inputs me shardIDs m opt (name # names) inputs w =
     (case tsg_CreateIterator (ce_Store me) shardIDs (m\<lparr>m_Name := name\<rparr>) opt w of
        ((input, Some err), w) \<Rightarrow> ((inputs, Some err), w)
      | ((input, None), w) \<Rightarrow> local_inputs me shardIDs m opt names (inputs @ [input]) w)"

definition createLocalIteratorfunc ::
  "('a, 'e, 'o, 'it, 'c, 'w) ClusterExecutor \<Rightarrow> Measurement \<Rightarrow> u64 list \<Rightarrow> 'o \<Rightarrow> ('it option, 'w) op" where
  "createLocalIteratorfunc me m shardIDs opt w =
     (case m_Regex m of
        Some re \<Rightarrow>
          (case local_inputs me shardIDs m opt (tsg_MeasurementsByRegex (ce_Store me) shardIDs re w) [] w of
             ((inputs, Some err), w) \<Rightarrow> ((None, Some err), ql_CloseAll (ce_query me) inputs w)
           | ((inputs, None), w) \<Rightarrow> ql_Merge (ce_query me) inputs opt w)
      | None \<Rightarrow> tsg_CreateIterator (ce_Store me) shardIDs m opt w)"

definition iterator_query ::
  "('a, 'e, 'o, 'it, 'c, 'w) ClusterExecutor \<Rightarrow> Measurement \<Rightarrow> 'o \<Rightarrow> ('it option \<times> go_error option, 'w) QueryFn" where
  "iterator_query me m opt nodeId shards w =
     (case (if nodeId = ce_Node me then createLocalIteratorfunc me m (toShardIDs shards) opt w
            else rn_CreateIterator (ce_Remote me) nodeId m opt (toShardIDs shards) w) of
        ((iter, err), w) \<Rightarrow> ((Some (iter, err), err), w))"

text \<open>The iterators up to the first error, and the error.\<close>

fun collect_inputs :: "('it option \<times> go_error option) list \<Rightarrow> 'it list \<Rightarrow> 'it list \<times> go_error option" where
  "collect_inputs [] inputs = (inputs, None)"
| "collect_inputs ((iter, err) # rs) inputs =
     (if err \<noteq> None then (inputs, err) else collect_inputs rs (case iter of Some i \<Rightarrow> inputs @ [i] | None \<Rightarrow> inputs))"

definition ClusterExecutor_CreateIterator ::
  "('a, 'e, 'o, 'it, 'c, 'w) ClusterExecutor \<Rightarrow> Measurement \<Rightarrow> 'o \<Rightarrow> ShardInfo list \<Rightarrow> 'w \<Rightarrow> (('it option \<times> go_error option) \<times> 'w) option" where
  "ClusterExecutor_CreateIterator me m opt shards w =
     (let Q = ce_query me in
      map_option
        (\<lambda>((result, _), w).
          let (inputs, errOccur) = collect_inputs result [];
              seriesN = sum_list (map (ql_SeriesN Q) inputs)
          in if errOccur \<noteq> None then ((None, errOccur), fold (ql_Close Q) (List.map_filter fst result) w)
             else if ql_MaxSeriesN Q opt > 0 \<and> seriesN > ql_MaxSeriesN Q opt
             then ((None, Some (Errorf ''max-select-series limit exceeded'')), ql_CloseAll Q (map Some inputs) w)
             else ql_Merge Q (map Some inputs) opt w)
        (over_shards me (iterator_query me m opt) shards w))"

section \<open>Types, costs and fields\<close>

definition greater_type :: "('e, 'o, 'it, 'c, 'w) query_lib \<Rightarrow> int \<Rightarrow> int \<Rightarrow> int" where
  "greater_type Q t typ = (if ql_LessThan Q typ t then t else typ)"

definition local_names :: "('a, 'e, 'o, 'it, 'c, 'w) ClusterExecutor \<Rightarrow> Measurement \<Rightarrow> u64 list \<Rightarrow> 'w \<Rightarrow> string list" where
  "local_names me m shardIDs w =
     (case m_Regex m of Some re \<Rightarrow> tsg_MeasurementsByRegex (ce_Store me) shardIDs re w | None \<Rightarrow> [m_Name m])"

definition local_type_query :: "('a, 'e, 'o, 'it, 'c, 'w) ClusterExecutor \<Rightarrow> Measurement \<Rightarrow> string \<Rightarrow> (int, 'w) QueryFn" where
  "local_type_query me m field nodeId shards w =
     (let ids = toShardIDs shards;
          type_of = (\<lambda>name. tsg_MapType (ce_Store me) ids (if m_SystemIterator m \<noteq> [] then m_SystemIterator m else name) field w)
      in if nodeId = ce_Node me
         then ((Some (fold (\<lambda>name. greater_type (ce_query me) (type_of name)) (local_names me m ids w) (ql_Unknown (ce_query me))), None), w)
         else ((None, None), w))"

text \<open>The error of the remote call is a variable of the inner scope: it is kept in the result only.\<close>

definition remote_type_query ::
  "('a, 'e, 'o, 'it, 'c, 'w) ClusterExecutor \<Rightarrow> Measurement \<Rightarrow> string \<Rightarrow> (int \<times> go_error option, 'w) QueryFn" where
  "remote_type_query me m field nodeId shards w =
     (if nodeId \<noteq> ce_Node me
      then (case rn_MapType (ce_Remote me) nodeId m field (toShardIDs shards) w of (r, w) \<Rightarrow> ((Some r, None), w))
      else ((None, None), w))"

definition ClusterExecutor_MapType ::
  "('a, 'e, 'o, 'it, 'c, 'w) ClusterExecutor \<Rightarrow> Measurement \<Rightarrow> string \<Rightarrow> ShardInfo list \<Rightarrow> 'w \<Rightarrow> (int \<times> 'w) option" where
  "ClusterExecutor_MapType me m field shards w =
     (let Q = ce_query me in
      case over_shards me (local_type_query me m field) shards w of
        None \<Rightarrow> None
      | Some ((result, _), w) \<Rightarrow>
          (case find (\<lambda>t. t \<noteq> ql_Unknown Q) result of
             Some t \<Rightarrow> Some (t, w)
           | None \<Rightarrow>
               map_option
                 (\<lambda>((result, _), w).
                   (fold (\<lambda>(t, err) typ. if err \<noteq> None then typ else greater_type Q t typ) result (ql_Unknown Q), w))
                 (over_shards me (remote_type_query me m field) shards w)))"

fun local_costs ::
  "('a, 'e, 'o, 'it, 'c, 'w) ClusterExecutor \<Rightarrow> u64 list \<Rightarrow> 'o \<Rightarrow> string list \<Rightarrow> 'c \<Rightarrow> ('c, 'w) op" where
  "local_costs me shardIDs opt [] costs w = ((costs, None), w)"
| "local_costs me shardIDs opt (name # names) costs w =
     (case tsg_IteratorCost (ce_Store me) shardIDs name opt w of
        ((c, Some err), w) \<Rightarrow> ((c, Some err), w)
      | ((c, None), w) \<Rightarrow> local_costs me shardIDs opt names (ql_Combine (ce_query me) costs c) w)"

definition cost_query ::
  "('a, 'e, 'o, 'it, 'c, 'w) ClusterExecutor \<Rightarrow> Measurement \<Rightarrow> 'o \<Rightarrow> ('c \<times> go_error option, 'w) QueryFn" where
  "cost_query me m opt nodeId shards w =
     (let ids = toShardIDs shards in
      case (if nodeId = ce_Node me then
              (case m_Regex m of
                 Some re \<Rightarrow> local_costs me ids opt (tsg_MeasurementsByRegex (ce_Store me) ids re w) (ql_noCost (ce_query me)) w
               | None \<Rightarrow> tsg_IteratorCost (ce_Store me) ids (m_Name m) opt w)
            else rn_IteratorCost (ce_Remote me) nodeId m opt ids w) of
        ((cost, err), w) \<Rightarrow> ((Some (cost, err), err), w))"

fun combine_costs :: "('e, 'o, 'it, 'c, 'w) query_lib \<Rightarrow> ('c \<times> go_error option) list \<Rightarrow> 'c \<Rightarrow> 'c \<times> go_error option" where
  "combine_costs Q [] costs = (costs, None)"
| "combine_costs Q ((c, err) # rs) costs = (if err \<noteq> None then (costs, err) else combine_costs Q rs (ql_Combine Q costs c))"

definition ClusterExecutor_IteratorCost ::
  "('a, 'e, 'o, 'it, 'c, 'w) ClusterExecutor \<Rightarrow> Measurement \<Rightarrow> 'o \<Rightarrow> ShardInfo list \<Rightarrow> 'w \<Rightarrow> (('c \<times> go_error option) \<times> 'w) option" where
  "ClusterExecutor_IteratorCost me m opt shards w =
     map_option (\<lambda>((result, _), w). (combine_costs (ce_query me) result (ql_noCost (ce_query me)), w))
       (over_shards me (cost_query me m opt) shards w)"

definition dimensions_query ::
  "('a, 'e, 'o, 'it, 'c, 'w) ClusterExecutor \<Rightarrow> Measurement \<Rightarrow> (((string \<times> int) list \<times> string list) \<times> go_error option, 'w) QueryFn" where
  "dimensions_query me m nodeId shards w =
     (let ids = toShardIDs shards in
      case (if nodeId = ce_Node me then tsg_FieldDimensions (ce_Store me) ids (local_names me m ids w) w
            else rn_FieldDimensions (ce_Remote me) nodeId m ids w) of
        (((fs, dims), err), w) \<Rightarrow> ((case fs of Some f \<Rightarrow> Some ((f, dims), err) | None \<Rightarrow> None, err), w))"

fun merge_dimensions ::
  "(((string \<times> int) list \<times> string list) \<times> go_error option) list \<Rightarrow> (string \<times> int) list \<times> string list
    \<Rightarrow> go_error + (string \<times> int) list \<times> string list" where
  "merge_dimensions [] acc = Inr acc"
| "merge_dimensions (((f, d), err) # rs) (fs, dims) =
     (case err of
        Some e \<Rightarrow> Inl e
      | None \<Rightarrow> merge_dimensions rs (fold (\<lambda>(k, t). AList.update k t) f fs, fold set_add d dims))"

definition ClusterExecutor_FieldDimensions ::
  "('a, 'e, 'o, 'it, 'c, 'w) ClusterExecutor \<Rightarrow> Measurement \<Rightarrow> ShardInfo list \<Rightarrow> 'w
    \<Rightarrow> ((go_error + (string \<times> int) list \<times> string list) \<times> 'w) option" where
  "ClusterExecutor_FieldDimensions me m shards w =
     map_option (\<lambda>((result, _), w). (merge_dimensions result ([], []), w)) (over_shards me (dimensions_query me m) shards w)"

end
