(* ===== verification/ClusterExecProps.thy ===== *)
theory ClusterExecProps
  imports ClusterExec
begin

text \<open>
  What the operations of the cluster executor give: the union of the answers for the shards that have
  a reachable owner, and statements that reach every owner once.
\<close>

section \<open>Asking nodes\<close>

lemma ask_nodes_nodes: "map fst (fst (ask_nodes f ns w)) = ns"
  by (induction ns arbitrary: w) (auto split: prod.splits, metis fst_conv)

lemma first_error_None: "first_error es = None \<longleftrightarrow> list_all (\<lambda>e. e = None) es"
  by (induction es) auto

section \<open>Merging\<close>

lemma set_set_add [simp]: "set (set_add k xs) = insert k (set xs)"
  by (auto simp: set_add_def)

lemma set_fold_set_add [simp]: "set (fold set_add ks xs) = set ks \<union> set xs"
  by (induction ks arbitrary: xs) auto

lemma distinct_fold_set_add: "distinct xs \<Longrightarrow> distinct (fold set_add ks xs)"
  by (induction ks arbitrary: xs) (auto simp: set_add_def)

text \<open>The tags of a list of answers and of the merged map.\<close>

definition tags :: "tsdb_TagKeys list \<Rightarrow> (string \<times> string) set" where
  "tags ks = (\<Union>k\<in>set ks. {tk_Measurement k} \<times> set (tk_Keys k))"

definition uniq_tags :: "(string \<times> string list) list \<Rightarrow> (string \<times> string) set" where
  "uniq_tags u = {(m, k). \<exists>ks. map_of u m = Some ks \<and> k \<in> set ks}"

definition uniq_ok :: "(string \<times> string list) list \<Rightarrow> bool" where
  "uniq_ok u \<longleftrightarrow> distinct (map fst u) \<and> (\<forall>m ks. map_of u m = Some ks \<longrightarrow> distinct ks)"

lemma tags_simps [simp]: "tags [] = {}" "tags (k # ks) = {tk_Measurement k} \<times> set (tk_Keys k) \<union> tags ks"
  by (auto simp: tags_def)

lemma uniq_ok_update: "uniq_ok u \<Longrightarrow> distinct ks \<Longrightarrow> uniq_ok (AList.update m ks u)"
  by (auto simp: uniq_ok_def distinct_update update_conv')

lemma merge_keys_tags: "uniq_tags (merge_keys k u) = {tk_Measurement k} \<times> set (tk_Keys k) \<union> uniq_tags u"
  by (auto simp: merge_keys_def uniq_tags_def update_conv' Let_def split: if_splits option.splits)

lemma fold_merge_keys_tags: "uniq_tags (fold merge_keys ks u) = tags ks \<union> uniq_tags u"
  by (induction ks arbitrary: u) (auto simp: merge_keys_tags)

lemma merge_keys_ok: "uniq_ok u \<Longrightarrow> uniq_ok (merge_keys k u)"
  unfolding merge_keys_def Let_def
  by (intro uniq_ok_update distinct_fold_set_add) (auto simp: uniq_ok_def split: option.split)

lemma fold_merge_keys_ok: "uniq_ok u \<Longrightarrow> uniq_ok (fold merge_keys ks u)"
  by (induction ks arbitrary: u) (auto simp: merge_keys_ok)

lemma merge_key_results_ok:
  "list_all (\<lambda>r. snd r = None) rs \<Longrightarrow> merge_key_results rs u = Inr (fold merge_keys (concat (map fst rs)) u)"
  by (induction rs arbitrary: u) auto

text \<open>An answer that names each measurement once and its keys once, in order.\<close>

definition tag_answer :: "tsdb_TagKeys list \<Rightarrow> bool" where
  "tag_answer ks \<longleftrightarrow> distinct (map tk_Measurement ks) \<and> list_all (\<lambda>k. distinct (tk_Keys k) \<and> sorted_wrt (<) (tk_Keys k)) ks"

interpretation string_order: sort_order "(<) :: string \<Rightarrow> string \<Rightarrow> bool"
  by unfold_locales (auto intro: less_trans)

lemma go_sort_strings: "distinct (ks :: string list) \<Longrightarrow> sorted_wrt (<) (go_sort (<) ks)"
  using string_order.go_sort_sorted [of ks] by (simp add: strict_sorted_iff not_less)

lemma uniq_answer:
  assumes "uniq_ok u"
  shows "tag_answer (go_sort lt (map (\<lambda>(m, keys). \<lparr>tk_Measurement = m, tk_Keys = go_sort (<) keys\<rparr>) u))" (is "tag_answer (go_sort lt ?ks)")
    and "tags (go_sort lt (map (\<lambda>(m, keys). \<lparr>tk_Measurement = m, tk_Keys = go_sort (<) keys\<rparr>) u)) = uniq_tags u"
proof -
  have u: "distinct (map fst u)" and ks: "distinct ks" if "(m, ks) \<in> set u" for m ks
    using assms that by (auto simp: uniq_ok_def)
  have "map tk_Measurement ?ks = map fst u" by (simp add: case_prod_beta)
  then have "distinct (map tk_Measurement (go_sort lt ?ks))" using assms unfolding distinct_map_go_sort by (simp only: uniq_ok_def)
  moreover have "list_all (\<lambda>k. distinct (tk_Keys k) \<and> sorted_wrt (<) (tk_Keys k)) ?ks"
    unfolding list_all_iff by (auto dest!: ks intro: go_sort_strings)
  ultimately show "tag_answer (go_sort lt ?ks)"
    by (simp add: tag_answer_def list_all_iff del: distinct_map_go_sort)
  have "uniq_tags u = (\<Union>(m, ks)\<in>set u. {m} \<times> set ks)"
    using assms by (simp add: uniq_ok_def uniq_tags_def) blast
  then show "tags (go_sort lt ?ks) = uniq_tags u"
    by (simp add: tags_def case_prod_beta)
qed

section \<open>Queries over shards\<close>

text \<open>What the environment promises, and the bound on the rounds of asking again.\<close>

definition executor_ok :: "('a, 'e, 'o, 'it, 'c, 'w) ClusterExecutor \<Rightarrow> ShardInfo list \<Rightarrow> bool" where
  "executor_ok me shards \<longleftrightarrow> OwnedBy_ok (ce_OwnedBy (ce_Meta me)) \<and> rand_ok (ce_rand me) \<and> (\<forall>i. rand_ok (ce_retry_rand me i)) \<and>
     0 \<notin> (\<Union>s\<in>set shards. owners_of s) \<and> card (\<Union>s\<in>set shards. owners_of s) < ce_fuel me"

definition reachable_shards :: "u64 set \<Rightarrow> ShardInfo list \<Rightarrow> ShardInfo multiset" where
  "reachable_shards avail shards = filter_mset (\<lambda>s. owners_of s \<inter> avail \<noteq> {}) (mset shards)"

lemma settled_reachable:
  assumes run: "run_ok M {} calls" and calls: "list_all (\<lambda>(n, ss, obj, e). e = Some ErrRetry \<longleftrightarrow> n \<notin> avail) calls"
  shows "settled calls = filter_mset (\<lambda>s. owners_of s \<inter> avail \<noteq> {}) M"
proof -
  from run obtain d where d: "M = settled calls + d" "\<forall>s\<in>#d. owners_of s \<subseteq> fst ` set (retried calls)" and ok: "list_all call_ok calls"
    by (auto simp: run_ok_def)
  have "fst ` set (retried calls) \<inter> avail = {}" using calls by (auto simp: retried_def list_all_iff split: if_splits)
  with d(2) have "filter_mset (\<lambda>s. owners_of s \<inter> avail \<noteq> {}) d = {#}" by fastforce
  moreover have "owners_of s \<inter> avail \<noteq> {}" if "s \<in># settled calls" for s
    using that ok calls by (fastforce simp: settled_def list_all_iff call_ok_def split: if_splits)
  then have "filter_mset (\<lambda>s. owners_of s \<inter> avail \<noteq> {}) (settled calls) = filter_mset (\<lambda>_. True) (settled calls)"
    by (intro filter_mset_cong) auto
  ultimately show ?thesis by (simp add: d(1))
qed

text \<open>
  When the nodes that do not answer say so with \<^verbatim>\<open>ErrRetry\<close>, exactly the shards with an owner that answers
  are answered, each of them once.
\<close>

lemma over_shards_reachable:
  assumes me: "executor_ok me shards" and avail: "\<And>n ss w. snd (fst (fn n ss w)) = Some ErrRetry \<longleftrightarrow> n \<notin> avail"
  shows "\<exists>e w' calls. over_shards me fn shards w = Some ((call_objs calls, e), w') \<and> list_all (call_by fn) calls \<and>
    settled calls = reachable_shards avail shards"
proof -
  obtain e w' calls where
    run: "ExecuteWithRetry (ce_fuel me) (ce_OwnedBy (ce_Meta me)) (ce_retry_rand me) (traced fn)
        (PlanNodes (ce_OwnedBy (ce_Meta me)) (ce_rand me) (ce_Node me) shards []) (w, []) [] None = Some ((call_objs calls, e), (w', calls))"
      "list_all (call_by fn) calls" "run_ok (filter_mset (\<lambda>s. owners_of s \<noteq> {}) (mset shards)) {} calls"
    using planned_execution [where rnd = "ce_retry_rand me" and OwnedBy = "ce_OwnedBy (ce_Meta me)" and r = "ce_rand me"
        and fuel = "ce_fuel me" and shards = shards and fn = fn and cur = "ce_Node me" and w = w] me
    by (auto simp: executor_ok_def)
  have "over_shards me fn shards w = Some ((call_objs calls, e), w')"
    using run(1) by (simp add: over_shards_def execute_untraced [of _ _ _ fn _ w _ _ "[]"])
  moreover have "case c of (n, ss, obj, e) \<Rightarrow> e = Some ErrRetry \<longleftrightarrow> n \<notin> avail" if "call_by fn c" for c
    using that avail [of "fst c" "fst (snd c)"] by (cases c) (auto simp: call_by_def, (metis fst_conv snd_conv)+)
  then have "list_all (\<lambda>(n, ss, obj, e). e = Some ErrRetry \<longleftrightarrow> n \<notin> avail) calls"
    using run(2) unfolding list_all_iff by blast
  from settled_reachable [OF run(3) this] have "settled calls = reachable_shards avail shards"
    unfolding reachable_shards_def filter_filter_mset by (auto intro!: filter_mset_cong)
  ultimately show ?thesis using run(2) by blast
qed

section \<open>Tag keys\<close>

text \<open>
  The tags of the shards are \<open>T\<close>: the own store and the nodes of \<open>up\<close> answer with the tags of the shards
  they are asked about, the other nodes cannot be reached.
\<close>

definition tag_nodes_ok ::
  "('a, 'e, 'o, 'it, 'c, 'w) ClusterExecutor \<Rightarrow> 'a \<Rightarrow> 'e option \<Rightarrow> (u64 \<Rightarrow> (string \<times> string) set) \<Rightarrow> u64 set \<Rightarrow> bool" where
  "tag_nodes_ok me auth cond T up \<longleftrightarrow>
     (\<forall>ids w. case ts_TagKeys (ce_Store me) auth ids cond w of ((ks, e), _) \<Rightarrow> e = None \<and> tags ks = (\<Union>i\<in>set ids. T i)) \<and>
     (\<forall>n ids w. case rn_TagKeys (ce_Remote me) n ids cond w of
        ((ks, e), _) \<Rightarrow> if n \<in> up then e = None \<and> tags ks = (\<Union>i\<in>set ids. T i) else e = Some ErrRetry)"

lemma tag_query_answer:
  assumes "tag_nodes_ok me auth cond T up" and "call_by (tag_keys_query me auth cond) (n, ss, obj, e)"
  shows "if n \<in> insert (ce_Node me) up then e = None \<and> list_all (\<lambda>r. snd r = None) (case obj of Some x \<Rightarrow> [x] | None \<Rightarrow> []) \<and>
      tags (case obj of Some (ks, _) \<Rightarrow> ks | None \<Rightarrow> []) = (\<Union>s\<in>set ss. T (si_ID s))
    else e = Some ErrRetry"
proof -
  let ?ask = "\<lambda>w. if n = ce_Node me then ts_TagKeys (ce_Store me) auth (toShardIDs ss) cond w
      else rn_TagKeys (ce_Remote me) n (toShardIDs ss) cond w"
  from assms(2) obtain w w1 where w: "tag_keys_query me auth cond n ss w = ((obj, e), w1)" by (auto simp: call_by_def)
  obtain ks e' w' where ask: "?ask w = ((ks, e'), w')" by (metis prod.exhaust)
  from w have q: "?ask w = ((ks, e), w')" "obj = (if length ks > 0 then Some (ks, e) else None)"
    unfolding tag_keys_query_def ask by auto
  have "if n \<in> insert (ce_Node me) up then e = None \<and> tags ks = (\<Union>i\<in>set (toShardIDs ss). T i) else e = Some ErrRetry"
  proof (cases "n = ce_Node me")
    case True
    then show ?thesis using assms(1) q(1) unfolding tag_nodes_ok_def by (auto dest!: spec [of _ "toShardIDs ss"] spec [of _ w])
  next
    case False
    then show ?thesis using assms(1) q(1) unfolding tag_nodes_ok_def by (auto dest!: spec [of _ n] spec [of _ "toShardIDs ss"] spec [of _ w] split: if_splits)
  qed
  then show ?thesis by (auto simp: q(2) toShardIDs_def)
qed

lemma tag_calls:
  assumes "tag_nodes_ok me auth cond T up" and "list_all (call_by (tag_keys_query me auth cond)) calls"
  shows "list_all (\<lambda>r. snd r = None) (call_objs calls) \<and> tags (concat (map fst (call_objs calls))) = (\<Union>s\<in>set_mset (settled calls). T (si_ID s))"
  using assms(2)
proof (induction calls)
  case (Cons c calls)
  obtain n ss obj e where c: "c = (n, ss, obj, e)" by (cases c)
  with Cons tag_query_answer [OF assms(1), of n ss obj e] show ?case
    by (auto simp: tags_def split: if_splits option.splits)
qed simp


section \<open>Deleting\<close>

text \<open>The world is the store of each node; nodes out of reach of the own node give an error and keep theirs.\<close>

definition deletes_on :: "u64 set \<Rightarrow> ('s \<Rightarrow> 's) \<Rightarrow> (u64 \<Rightarrow> (u64 \<Rightarrow> 's) \<Rightarrow> go_error option \<times> (u64 \<Rightarrow> 's)) \<Rightarrow> bool" where
  "deletes_on avail del f \<longleftrightarrow> (\<forall>n w. case f n w of (e, w') \<Rightarrow> if n \<in> avail then e = None \<and> w' = w(n := del (w n)) else e \<noteq> None \<and> w' = w)"

lemma ask_nodes_deletes:
  assumes "deletes_on avail del f" and "distinct ns"
  shows "case ask_nodes f ns w of (rs, w') \<Rightarrow> (first_error (map snd rs) = None \<longleftrightarrow> set ns \<subseteq> avail) \<and>
    w' = (\<lambda>n. if n \<in> set ns \<inter> avail then del (w n) else w n)"
  using assms(2)
proof (induction ns arbitrary: w)
  case (Cons n ns)
  obtain e w1 where f: "f n w = (e, w1)" by (metis prod.exhaust)
  obtain rs w2 where r: "ask_nodes f ns w1 = (rs, w2)" by (metis prod.exhaust)
  have "if n \<in> avail then e = None \<and> w1 = w(n := del (w n)) else e \<noteq> None \<and> w1 = w"
    using assms(1) [unfolded deletes_on_def, THEN spec, THEN spec, of n w] by (simp add: f)
  with Cons.IH [of w1] Cons.prems f r show ?case by (auto simp: fun_eq_iff split: if_splits)
qed simp

definition delete_node :: "('a, 'e, 'o, 'it, 'c, 'w) ClusterExecutor \<Rightarrow> string \<Rightarrow> string \<Rightarrow> u64 \<Rightarrow> 'w \<Rightarrow> go_error option \<times> 'w" where
  "delete_node me database name n w =
     (if n = ce_Node me then ts_DeleteMeasurement (ce_Store me) database name w else rn_DeleteMeasurement (ce_Remote me) n database name w)"

text \<open>
  (C24) Deleting a measurement reaches every node that owns a shard of the database, each exactly once,
  and no other node; it returns without an error if and only if all owners deleted it, and when some
  could not be reached the others have deleted it nevertheless.
\<close>

theorem DeleteMeasurement_everywhere:
  assumes "DatabaseShards (ce_Meta me) database = Inr shards" and "deletes_on avail del (delete_node me database name)"
  shows "case ClusterExecutor_DeleteMeasurement me database name w of
    (e, w') \<Rightarrow> (e = None \<longleftrightarrow> (\<Union>s\<in>set shards. owners_of s) \<subseteq> avail) \<and>
      w' = (\<lambda>n. if n \<in> (\<Union>s\<in>set shards. owners_of s) \<inter> avail then del (w n) else w n)"
proof -
  have nodes: "set (getAllRelatedNodes shards) = (\<Union>s\<in>set shards. owners_of s)" "distinct (getAllRelatedNodes shards)"
    by (auto simp: getAllRelatedNodes_def owners_of_def)
  have f: "(\<lambda>n w. if n = ce_Node me then ts_DeleteMeasurement (ce_Store me) database name w
      else rn_DeleteMeasurement (ce_Remote me) n database name w) = delete_node me database name"
    by (simp add: fun_eq_iff delete_node_def)
  from ask_nodes_deletes [OF assms(2) nodes(2), of w] show ?thesis
    by (auto simp: ClusterExecutor_DeleteMeasurement_def assms(1) f nodes(1) split: prod.splits)
qed

section \<open>An example\<close>

text \<open>
  Node 1 asks about shard 7, which it owns, shard 8 on the nodes 2 and 3, and shard 9 on node 2. Node 2
  cannot be reached. The deletion of a node is an argument.
\<close>

definition example_tags :: "u64 \<Rightarrow> string list" where
  "example_tags i = (if i = 7 then [''host''] else if i = 8 then [''region'', ''host''] else [''rack''])"

definition example_answer :: "u64 list \<Rightarrow> tsdb_TagKeys list" where
  "example_answer ids = map (\<lambda>i. \<lparr>tk_Measurement = ''cpu'', tk_Keys = example_tags i\<rparr>) ids"

definition example_group :: ShardGroupInfo where
  "example_group = \<lparr>sg_ID = 1, sg_StartTime = 0, sg_EndTime = 10, sg_DeletedAt = 0,
     sg_Shards = [\<lparr>si_ID = 7, si_Owners = [\<lparr>so_NodeID = 1\<rparr>]\<rparr>, \<lparr>si_ID = 8, si_Owners = [\<lparr>so_NodeID = 2\<rparr>, \<lparr>so_NodeID = 3\<rparr>]\<rparr>,
       \<lparr>si_ID = 9, si_Owners = [\<lparr>so_NodeID = 2\<rparr>]\<rparr>], sg_TruncatedAt = 0\<rparr>"

definition example_ce_meta :: ce_meta where
  "example_ce_meta = \<lparr>ce_DataNodes = Inr [], ce_DataNode = (\<lambda>_. None), ce_ShardOwner = (\<lambda>_. Some example_group),
     ce_Database = (\<lambda>_. Some \<lparr>db_Name = ''db'', db_DefaultRetentionPolicy = ''rp'', db_RetentionPolicies =
       [\<lparr>rp_Name = ''rp'', rp_ReplicaN = 1, rp_Duration = 0, rp_ShardGroupDuration = 10, rp_ShardGroups = [example_group]\<rparr>]\<rparr>),
     ce_OwnedBy = (\<lambda>n s. n \<in> owners_of s)\<rparr>"

definition example_store :: "(u64 \<Rightarrow> 'w \<Rightarrow> go_error option \<times> 'w) \<Rightarrow> (unit, unit, unit, unit, unit, 'w) TSDBStore" where
  "example_store del = \<lparr>ts_SeriesCardinality = (\<lambda>_ w. ((0, None), w)), ts_MeasurementNames = (\<lambda>_ _ _ w. (([], None), w)),
     ts_TagValues = (\<lambda>_ _ _ w. (([], None), w)), ts_TagKeys = (\<lambda>_ ids _ w. ((example_answer ids, None), w)),
     ts_DeleteMeasurement = (\<lambda>_ _. del 1), ts_DeleteDatabase = (\<lambda>_. del 1), ts_DeleteSeries = (\<lambda>_ _ _. del 1),
     tsg_MeasurementsByRegex = (\<lambda>_ _ _. []), tsg_CreateIterator = (\<lambda>_ _ _ w. ((None, None), w)), tsg_MapType = (\<lambda>_ _ _ _. 0),
     tsg_IteratorCost = (\<lambda>_ _ _ w. (((), None), w)), tsg_FieldDimensions = (\<lambda>_ _ w. (((None, []), None), w))\<rparr>"

definition example_remote :: "(u64 \<Rightarrow> 'w \<Rightarrow> go_error option \<times> 'w) \<Rightarrow> (unit, unit, unit, unit, 'w) RemoteNodeExecutor" where
  "example_remote del = \<lparr>rn_TaskManagerStatement = (\<lambda>_ _ w. ((None, None), w)), rn_SeriesCardinality = (\<lambda>_ _ w. ((0, None), w)),
     rn_MeasurementNames = (\<lambda>_ _ _ w. (([], None), w)), rn_TagValues = (\<lambda>_ _ _ w. (([], None), w)),
     rn_TagKeys = (\<lambda>n ids _ w. (if n = 3 then (example_answer ids, None) else ([], Some ErrRetry), w)),
     rn_DeleteMeasurement = (\<lambda>n _ _. del n), rn_DeleteDatabase = (\<lambda>n _. del n), rn_DeleteSeries = (\<lambda>n _ _ _. del n),
     rn_CreateIterator = (\<lambda>_ _ _ _ w. ((None, None), w)), rn_MapType = (\<lambda>_ _ _ _ w. ((0, None), w)),
     rn_IteratorCost = (\<lambda>_ _ _ _ w. (((), None), w)), rn_FieldDimensions = (\<lambda>_ _ _ w. (((None, []), None), w))\<rparr>"

definition example_query_lib :: "(unit, unit, unit, unit, 'w) query_lib" where
  "example_query_lib = \<lparr>ql_Reduce = (\<lambda>_ c. c), ql_SeriesN = (\<lambda>_. 0), ql_MaxSeriesN = (\<lambda>_. 0), ql_Close = (\<lambda>_ w. w), ql_CloseAll = (\<lambda>_ w. w),
     ql_Merge = (\<lambda>_ _ w. ((None, None), w)), ql_noCost = (), ql_Combine = (\<lambda>_ _. ()), ql_LessThan = (<), ql_Unknown = 0,
     ql_TagKeysLess = (\<lambda>a b. tk_Measurement a < tk_Measurement b), ql_TagValuesLess = (\<lambda>a b. tv_Measurement a < tv_Measurement b),
     ql_KeyValuesLess = (\<lambda>a b. kv_Key a < kv_Key b)\<rparr>"

definition example_executor :: "(u64 \<Rightarrow> 'w \<Rightarrow> go_error option \<times> 'w) \<Rightarrow> (unit, unit, unit, unit, unit, 'w) ClusterExecutor" where
  "example_executor del = \<lparr>ce_Node = 1, ce_Store = example_store del, ce_Meta = example_ce_meta, ce_TaskManager = (\<lambda>_ w. ((None, None), w)),
     ce_Remote = example_remote del, ce_query = example_query_lib, ce_rand = example_rand, ce_retry_rand = (\<lambda>_. example_rand), ce_fuel = 4\<rparr>"

lemmas example_executor_defs = example_executor_def example_store_def example_remote_def example_query_lib_def example_ce_meta_def

lemma example_answer_tags: "tags (example_answer ids) = (\<Union>i\<in>set ids. {''cpu''} \<times> set (example_tags i))"
  by (auto simp: tags_def example_answer_def)

lemma example_owners: "(\<Union>s\<in>set (sg_Shards example_group). owners_of s) = {1, 2, 3}"
  by (auto simp: example_group_def owners_of_def)


definition example_delete :: "u64 \<Rightarrow> (u64 \<Rightarrow> bool) \<Rightarrow> go_error option \<times> (u64 \<Rightarrow> bool)" where
  "example_delete n w = (if n = 2 then (Some ErrTimeout, w) else (None, w(n := False)))"

theorem DeleteMeasurement_everywhere_witness:
  "case ClusterExecutor_DeleteMeasurement (example_executor example_delete) ''db'' ''cpu'' (\<lambda>_. True) of
     (e, w') \<Rightarrow> e \<noteq> None \<and> \<not> w' 1 \<and> w' 2 \<and> \<not> w' 3 \<and> w' 4"
proof -
  have "DatabaseShards (ce_Meta (example_executor example_delete)) ''db'' = Inr (sg_Shards example_group)"
    by (simp add: DatabaseShards_def example_executor_defs)
  moreover have "deletes_on (- {2}) (\<lambda>_. False) (delete_node (example_executor example_delete) ''db'' ''cpu'')"
    by (simp add: deletes_on_def delete_node_def example_executor_defs example_delete_def)
  ultimately have "case ClusterExecutor_DeleteMeasurement (example_executor example_delete) ''db'' ''cpu'' (\<lambda>_. True) of
    (e, w') \<Rightarrow> (e = None \<longleftrightarrow> (\<Union>s\<in>set (sg_Shards example_group). owners_of s) \<subseteq> - {2}) \<and>
      w' = (\<lambda>n. if n \<in> (\<Union>s\<in>set (sg_Shards example_group). owners_of s) \<inter> - {2} then False else True)"
    by (rule DeleteMeasurement_everywhere)
  then show ?thesis unfolding example_owners by (auto split: prod.splits)
qed

end
