(* ===== verification/ShardMapper.thy ===== *)
theory ShardMapper
  imports ClusterExec
begin

text \<open>
  \<^verbatim>\<open>coordinator/shard_mapper.go\<close>: the shards that a query reads, by database and retention policy. A nil
  slice of shards is \<open>None\<close>, a zero time is \<open>None\<close>; the executor's operations are arguments.
\<close>

section \<open>Mapping\<close>

type_synonym Source_key = "string \<times> string"

datatype query_source = QueryMeasurement Measurement | QuerySubQuery "query_source list"

record ClusterShardMapping =
  sm_shardInfos :: "(Source_key \<times> ShardInfo list option) list"
  sm_MinTime :: "int option"
  sm_MaxTime :: "int option"

type_synonym groups_by_range = "string \<Rightarrow> string \<Rightarrow> int \<Rightarrow> int \<Rightarrow> go_error + ShardGroupInfo list"

definition source_of :: "Measurement \<Rightarrow> Source_key" where
  "source_of m = (m_Database m, m_RetentionPolicy m)"

definition map_measurement ::
  "groups_by_range \<Rightarrow> int \<Rightarrow> int \<Rightarrow> Measurement \<Rightarrow> ClusterShardMapping \<Rightarrow> go_error + ClusterShardMapping" where
  "map_measurement groupsBy tmin tmax s a =
     (case map_of (sm_shardInfos a) (source_of s) of
        Some _ \<Rightarrow> Inr a
      | None \<Rightarrow>
          and_then (groupsBy (m_Database s) (m_RetentionPolicy s) tmin tmax) (\<lambda>groups.
            Inr (a\<lparr>sm_shardInfos := AList.update (source_of s) (if groups = [] then None else Some (concat (map sg_Shards groups)))
                     (sm_shardInfos a)\<rparr>)))"

fun mapShards ::
  "groups_by_range \<Rightarrow> int \<Rightarrow> int \<Rightarrow> query_source list \<Rightarrow> ClusterShardMapping \<Rightarrow> go_error + ClusterShardMapping" where
  "mapShards groupsBy tmin tmax [] a = Inr a"
| "mapShards groupsBy tmin tmax (QueryMeasurement m # ss) a =
     and_then (map_measurement groupsBy tmin tmax m a) (mapShards groupsBy tmin tmax ss)"
| "mapShards groupsBy tmin tmax (QuerySubQuery sub # ss) a =
     and_then (mapShards groupsBy tmin tmax sub a) (mapShards groupsBy tmin tmax ss)"

definition ClusterShardMapper_MapShards :: "groups_by_range \<Rightarrow> query_source list \<Rightarrow> int \<Rightarrow> int \<Rightarrow> go_error + ClusterShardMapping" where
  "ClusterShardMapper_MapShards groupsBy sources tmin tmax =
     and_then (mapShards groupsBy tmin tmax sources \<lparr>sm_shardInfos = [], sm_MinTime = None, sm_MaxTime = None\<rparr>) (\<lambda>a.
       Inr (a\<lparr>sm_MinTime := Some tmin, sm_MaxTime := Some tmax\<rparr>))"

definition mapped :: "ClusterShardMapping \<Rightarrow> Measurement \<Rightarrow> ShardInfo list option" where
  "mapped a m = (case map_of (sm_shardInfos a) (source_of m) of Some x \<Rightarrow> x | None \<Rightarrow> None)"

section \<open>The operations of a mapping\<close>

definition mapping_FieldDimensions ::
  "(Measurement \<Rightarrow> ShardInfo list \<Rightarrow> 'w \<Rightarrow> (go_error + (string \<times> int) list \<times> string list) \<times> 'w) \<Rightarrow> ClusterShardMapping \<Rightarrow> Measurement
    \<Rightarrow> ((string \<times> int) list option \<times> string list, 'w) op" where
  "mapping_FieldDimensions exec a m w =
     (case mapped a m of
        None \<Rightarrow> (((None, []), None), w)
      | Some shards \<Rightarrow>
          (case exec m shards w of
             (Inl err, w) \<Rightarrow> (((None, []), Some err), w)
           | (Inr (f, d), w) \<Rightarrow> (((Some (fold (\<lambda>(k, typ). AList.update k typ) f []), fold set_add d []), None), w)))"

definition mapping_MapType ::
  "int \<Rightarrow> (Measurement \<Rightarrow> string \<Rightarrow> ShardInfo list \<Rightarrow> 'w \<Rightarrow> int \<times> 'w) \<Rightarrow> ClusterShardMapping \<Rightarrow> Measurement \<Rightarrow> string \<Rightarrow> 'w \<Rightarrow> int \<times> 'w" where
  "mapping_MapType unknown exec a m field w =
     (case mapped a m of None \<Rightarrow> (unknown, w) | Some shards \<Rightarrow> exec m field shards w)"

text \<open>The times of the imported options are read and set through the record of them.\<close>

record IteratorOptions =
  io_StartTime :: int
  io_EndTime :: int

definition clamp :: "ClusterShardMapping \<Rightarrow> 'o IteratorOptions_scheme \<Rightarrow> 'o IteratorOptions_scheme" where
  "clamp a opt =
     (let opt = (case sm_MinTime a of Some t \<Rightarrow> if io_StartTime opt < t then opt\<lparr>io_StartTime := t\<rparr> else opt | None \<Rightarrow> opt)
      in case sm_MaxTime a of Some t \<Rightarrow> if io_EndTime opt > t then opt\<lparr>io_EndTime := t\<rparr> else opt | None \<Rightarrow> opt)"

definition mapping_CreateIterator ::
  "(Measurement \<Rightarrow> 'o IteratorOptions_scheme \<Rightarrow> ShardInfo list \<Rightarrow> ('it option, 'w) op) \<Rightarrow> ClusterShardMapping \<Rightarrow> Measurement
    \<Rightarrow> 'o IteratorOptions_scheme \<Rightarrow> ('it option, 'w) op" where
  "mapping_CreateIterator exec a m opt w =
     (case mapped a m of None \<Rightarrow> ((None, None), w) | Some shards \<Rightarrow> exec m (clamp a opt) shards w)"

definition mapping_IteratorCost ::
  "'c \<Rightarrow> (Measurement \<Rightarrow> 'o IteratorOptions_scheme \<Rightarrow> ShardInfo list \<Rightarrow> ('c, 'w) op) \<Rightarrow> ClusterShardMapping \<Rightarrow> Measurement
    \<Rightarrow> 'o IteratorOptions_scheme \<Rightarrow> ('c, 'w) op" where
  "mapping_IteratorCost noCost exec a m opt w =
     (case mapped a m of
        None \<Rightarrow> ((noCost, Some (Errorf ''not find source'')), w)
      | Some shards \<Rightarrow> exec m (clamp a opt) shards w)"

definition mapping_Close :: "ClusterShardMapping \<Rightarrow> ClusterShardMapping" where
  "mapping_Close a = a\<lparr>sm_shardInfos := []\<rparr>"

section \<open>A mapping is what the metadata says\<close>

fun measurements_in :: "query_source list \<Rightarrow> Measurement list" where
  "measurements_in [] = []"
| "measurements_in (QueryMeasurement m # ss) = m # measurements_in ss"
| "measurements_in (QuerySubQuery sub # ss) = measurements_in sub @ measurements_in ss"

definition group_shards :: "groups_by_range \<Rightarrow> int \<Rightarrow> int \<Rightarrow> Source_key \<Rightarrow> go_error + ShardInfo list option" where
  "group_shards groupsBy tmin tmax k =
     and_then (groupsBy (fst k) (snd k) tmin tmax) (\<lambda>gs. Inr (if gs = [] then None else Some (concat (map sg_Shards gs))))"

text \<open>Every entry of a mapping is what the metadata says of it.\<close>

definition mapping_ok :: "groups_by_range \<Rightarrow> int \<Rightarrow> int \<Rightarrow> ClusterShardMapping \<Rightarrow> bool" where
  "mapping_ok groupsBy tmin tmax a \<longleftrightarrow> (\<forall>k x. map_of (sm_shardInfos a) k = Some x \<longrightarrow> group_shards groupsBy tmin tmax k = Inr x)"

definition mapping_keys :: "ClusterShardMapping \<Rightarrow> Source_key set" where
  "mapping_keys a = dom (map_of (sm_shardInfos a))"

lemma map_measurement_cases:
  assumes "mapping_ok groupsBy tmin tmax a"
  shows "case group_shards groupsBy tmin tmax (source_of m) of
      Inl e \<Rightarrow> map_measurement groupsBy tmin tmax m a = Inl e
    | Inr x \<Rightarrow> \<exists>a'. map_measurement groupsBy tmin tmax m a = Inr a' \<and> mapping_ok groupsBy tmin tmax a' \<and>
        mapping_keys a' = insert (source_of m) (mapping_keys a)"
proof (cases "map_of (sm_shardInfos a) (source_of m)")
  case None
  with assms show ?thesis
    by (cases "groupsBy (m_Database m) (m_RetentionPolicy m) tmin tmax")
      (auto simp: map_measurement_def group_shards_def mapping_ok_def mapping_keys_def source_of_def update_conv')
next
  case (Some x)
  then have "insert (source_of m) (mapping_keys a) = mapping_keys a" by (auto simp: mapping_keys_def)
  moreover from Some assms have "group_shards groupsBy tmin tmax (source_of m) = Inr x" unfolding mapping_ok_def by blast
  ultimately show ?thesis using Some assms by (simp add: map_measurement_def)
qed

lemma mapShards_ok:
  assumes "mapping_ok groupsBy tmin tmax a"
    and "list_all (\<lambda>m. \<exists>x. group_shards groupsBy tmin tmax (source_of m) = Inr x) (measurements_in ss)"
  shows "\<exists>a'. mapShards groupsBy tmin tmax ss a = Inr a' \<and> mapping_ok groupsBy tmin tmax a' \<and>
    mapping_keys a' = mapping_keys a \<union> source_of ` set (measurements_in ss)"
  using assms
proof (induction groupsBy tmin tmax ss a rule: mapShards.induct)
  case (2 groupsBy tmin tmax m ss a)
  then obtain a' where one: "map_measurement groupsBy tmin tmax m a = Inr a'" "mapping_ok groupsBy tmin tmax a'"
      "mapping_keys a' = insert (source_of m) (mapping_keys a)"
    using map_measurement_cases [OF "2.prems"(1), of m] by auto
  with "2.IH" [of a'] "2.prems"(2) obtain b where "mapShards groupsBy tmin tmax ss a' = Inr b" "mapping_ok groupsBy tmin tmax b"
      "mapping_keys b = mapping_keys a' \<union> source_of ` set (measurements_in ss)"
    by auto
  with one show ?case by simp
next
  case (3 groupsBy tmin tmax sub ss a)
  then obtain a' where one: "mapShards groupsBy tmin tmax sub a = Inr a'" "mapping_ok groupsBy tmin tmax a'"
      "mapping_keys a' = mapping_keys a \<union> source_of ` set (measurements_in sub)"
    by auto
  with "3.IH"(2) [of a'] "3.prems"(2) obtain b where "mapShards groupsBy tmin tmax ss a' = Inr b" "mapping_ok groupsBy tmin tmax b"
      "mapping_keys b = mapping_keys a' \<union> source_of ` set (measurements_in ss)"
    by auto
  with one show ?case by (simp add: Un_assoc image_Un)
qed simp

text \<open>
  (C25) The mapping of a query, whatever its nesting of subqueries, gives each of its measurements the
  shards of all shard groups that the metadata has for its database and retention policy in the
  query's time range, and no shards when there is no such group; and every iterator is created over
  these shards and within this time range.
\<close>

theorem mapping_exact:
  assumes "list_all (\<lambda>m. \<exists>gs. groupsBy (m_Database m) (m_RetentionPolicy m) tmin tmax = Inr gs) (measurements_in sources)"
  shows "\<exists>a. ClusterShardMapper_MapShards groupsBy sources tmin tmax = Inr a \<and>
    list_all (\<lambda>m. \<forall>gs. groupsBy (m_Database m) (m_RetentionPolicy m) tmin tmax = Inr gs \<longrightarrow>
      mapped a m = (if gs = [] then None else Some (concat (map sg_Shards gs))) \<and>
      (gs \<noteq> [] \<longrightarrow> (\<exists>opt'. mapping_CreateIterator exec a m opt w = exec m opt' (concat (map sg_Shards gs)) w \<and>
         io_StartTime opt' = max tmin (io_StartTime opt) \<and> io_EndTime opt' = min tmax (io_EndTime opt))))
      (measurements_in sources)"
proof -
  let ?a0 = "\<lparr>sm_shardInfos = [], sm_MinTime = None, sm_MaxTime = None\<rparr>"
  have "mapping_ok groupsBy tmin tmax ?a0" by (simp add: mapping_ok_def)
  moreover have "list_all (\<lambda>m. \<exists>x. group_shards groupsBy tmin tmax (source_of m) = Inr x) (measurements_in sources)"
    using assms by (fastforce simp: list_all_iff group_shards_def source_of_def)
  ultimately obtain a where a: "mapShards groupsBy tmin tmax sources ?a0 = Inr a" "mapping_ok groupsBy tmin tmax a"
      "mapping_keys a = source_of ` set (measurements_in sources)"
    using mapShards_ok [of groupsBy tmin tmax ?a0 sources] by (auto simp: mapping_keys_def)
  let ?b = "a\<lparr>sm_MinTime := Some tmin, sm_MaxTime := Some tmax\<rparr>"
  have "mapped ?b m = (if gs = [] then None else Some (concat (map sg_Shards gs)))"
    if m: "m \<in> set (measurements_in sources)" and gs: "groupsBy (m_Database m) (m_RetentionPolicy m) tmin tmax = Inr gs" for m gs
  proof -
    from m a(3) have "source_of m \<in> mapping_keys a" by simp
    then obtain x where x: "map_of (sm_shardInfos a) (source_of m) = Some x" by (auto simp: mapping_keys_def)
    with a(2) have "group_shards groupsBy tmin tmax (source_of m) = Inr x" unfolding mapping_ok_def by blast
    with gs x show ?thesis by (simp add: mapped_def group_shards_def source_of_def)
  qed
  moreover have "io_StartTime (clamp ?b opt) = max tmin (io_StartTime opt)" "io_EndTime (clamp ?b opt) = min tmax (io_EndTime opt)"
    by (auto simp: clamp_def Let_def)
  ultimately show ?thesis using a(1) by (auto simp: ClusterShardMapper_MapShards_def list_all_iff mapping_CreateIterator_def)
qed

definition example_groups :: groups_by_range where
  "example_groups db rp tmin tmax =
     (if db = ''db0'' then
        Inr [\<lparr>sg_ID = 1, sg_StartTime = 0, sg_EndTime = 10, sg_DeletedAt = 0,
              sg_Shards = [\<lparr>si_ID = 7, si_Owners = []\<rparr>, \<lparr>si_ID = 8, si_Owners = []\<rparr>], sg_TruncatedAt = 0\<rparr>]
      else Inr [])"

definition example_query :: "query_source list" where
  "example_query =
     (let m = (\<lambda>db. QueryMeasurement \<lparr>m_Database = db, m_RetentionPolicy = ''rp'', m_Name = ''cpu'', m_Regex = None, m_IsTarget = False, m_SystemIterator = []\<rparr>)
      in [m ''db1'', QuerySubQuery [m ''db0'', m ''db0'']])"

theorem mapping_exact_witness:
  "case ClusterShardMapper_MapShards example_groups example_query 3 5 of
     Inr a \<Rightarrow> list_all2 (\<lambda>m ids. map_option (map si_ID) (mapped a m) = ids) (measurements_in example_query) [None, Some [7, 8], Some [7, 8]]
   | Inl _ \<Rightarrow> False"
proof -
  have "list_all (\<lambda>m. \<exists>gs. example_groups (m_Database m) (m_RetentionPolicy m) 3 5 = Inr gs) (measurements_in example_query)"
    by (simp add: example_query_def example_groups_def)
  from mapping_exact [where groupsBy = example_groups and sources = example_query and tmin = 3 and tmax = 5, OF this, where exec = "\<lambda>m opt shards w. ((Some shards, None), w)" and w = "()" and
      opt = "\<lparr>io_StartTime = 0, io_EndTime = 9\<rparr>"]
  show ?thesis by (auto simp: example_query_def example_groups_def)
qed

end
