(* ===== verification/Spec2Isabelle.thy ===== *)
theory Spec2Isabelle
  imports HHDeliver ClusterSync LinearRead PointsAck RemoteProps ClientPool ClusterExecProps ShardMapper
begin

text \<open>
  Verification of Chronus, a cluster of InfluxDB nodes.

  \<^bold>\<open>The program.\<close> A meta cluster keeps the metadata (data nodes, databases, retention policies, shard
  groups and the owners of shards) and replicates it with raft. Data nodes keep a copy of the
  metadata, distribute points over the owners of shards, keep hints for owners that cannot be
  reached, and answer queries by asking the other data nodes about the shards they own.

  \<^bold>\<open>Foundations.\<close> \<open>Prelude\<close> has machine integers, the errors of Go and what is used of its standard
  library; \<open>GoJson\<close> has JSON trees and base64. \<open>Influx\<close> is the interface to the imported InfluxDB
  metadata. Code that is not in the repository (InfluxDB, InfluxQL, the raft library, protobuf,
  bcrypt) is a parameter, a record of functions, and what is relied on is a named hypothesis
  such as \<open>clone_ok\<close>, \<open>rpc_lib_ok\<close> or \<open>OwnedBy_ok\<close>. IDs and counters of 64 bits are words; Go's times,
  durations and \<^verbatim>\<open>int\<close> values are integers. Clocks and randomness are arguments. Operations that hold a mutex
  are one step. Logging and tracing are left out.

  \<^bold>\<open>Metadata\<close> (\<^verbatim>\<open>services/meta\<close>). \<open>MetaData\<close> models \<^verbatim>\<open>data.go\<close>, \<open>MetaStore\<close> models \<^verbatim>\<open>store.go\<close>. \<open>MetaShards\<close> shows
  where the shards of a new group are placed, \<open>MetaDelete\<close> what removing a node leaves, \<open>MetaInv\<close>
  that every run of operations keeps the metadata well formed (as long as the counters have room)
  and that its binary form is read back. \<open>MetaStoreProps\<close> and \<open>MetaQueries\<close> show that the operations of the
  store are atomic and what authentication and the queries return.

  \<^bold>\<open>Replication\<close> (\<^verbatim>\<open>raftmeta\<close>). \<open>RaftNode\<close> models \<^verbatim>\<open>apply.go\<close>, the messages and the application of committed entries
  in \<^verbatim>\<open>node.go\<close>; \<open>RaftLeases\<close> models \<^verbatim>\<open>cluster_leases.go\<close>; \<open>LinearRead\<close> models \<^verbatim>\<open>linearizable_read.go\<close> as a step
  relation; \<open>MetaService\<close> models the handlers of \<^verbatim>\<open>meta_service.go\<close>. \<open>RaftProps\<close> shows that replicas agree,
  that entries are applied once and that snapshots catch up; \<open>RaftPropose\<close> that a proposal gets the answer
  of its own entry; \<open>LinearRead\<close> that a read sees what was committed when it started.

  \<^bold>\<open>Clients of the metadata\<close> (\<^verbatim>\<open>coordinator\<close>). \<open>MetaClient\<close> models \<^verbatim>\<open>meta_client_impl.go\<close> and \<open>ClusterMeta\<close> models
  \<^verbatim>\<open>cluster_meta_client.go\<close>. \<open>ClusterSync\<close> composes them with the service and the store: the copy of a data
  node catches up and stays equal, and what happens when it is behind.

  \<^bold>\<open>Writing\<close>. \<open>PointsWriter\<close> models \<^verbatim>\<open>coordinator/points_writer.go\<close>; \<open>PointsMapping\<close> shows that every point gets a
  shard, \<open>PointsAck\<close> what a successful write guarantees.

  \<^bold>\<open>Hinted handoff\<close> (\<^verbatim>\<open>services/hh\<close>). \<open>HHQueue\<close> models \<^verbatim>\<open>queue.go\<close> down to the bytes of the files, \<open>HHNode\<close> models
  \<^verbatim>\<open>node_processor.go\<close>, \<open>HHService\<close> models \<^verbatim>\<open>service.go\<close> and \<^verbatim>\<open>config.go\<close>. \<open>HHSegment\<close>, \<open>HHFifo\<close>, \<open>HHAppend\<close> and \<open>HHPersist\<close>
  refine the queue to a list, also over restarts and purges; \<open>HHDeliver\<close> shows that hints are delivered in order,
  when a queue drains and when it stalls. The locales \<open>handoff_queue\<close> and \<open>flowing_queue\<close> are the contract of the
  queue that the processor relies on.

  \<^bold>\<open>Between data nodes\<close> (\<^verbatim>\<open>coordinator\<close>, \<^verbatim>\<open>x\<close>). \<open>ClusterWire\<close> models the messages on a connection (\<^verbatim>\<open>request/request.go\<close>,
  parts of \<^verbatim>\<open>service.go\<close>), \<open>RemoteRpc\<close> the requests of \<^verbatim>\<open>rpc.go\<close>, \<open>RemoteService\<close> the handlers of
  \<^verbatim>\<open>service_handlers.go\<close>, \<open>RemoteExec\<close> the calls of \<^verbatim>\<open>remote_executor.go\<close> and \<^verbatim>\<open>shard_writer.go\<close>, \<open>IterStream\<close> the stream of
  an iterator with \<^verbatim>\<open>x/cyclic_buffer.go\<close>. \<open>RemoteProps\<close> puts client and server together: a remote operation gives
  what the store at the other end gives, in whatever pieces the connection delivers the bytes. \<open>JsonCode\<close> is the
  concrete JSON text of its examples. \<open>ConnPool\<close> and \<open>ClientPool\<close> model \<^verbatim>\<open>x/pool.go\<close> and \<^verbatim>\<open>client_pool.go\<close>: a pool
  counts its connections, and loses one when two goroutines ask at once.

  \<^bold>\<open>Queries over the cluster\<close> (\<^verbatim>\<open>coordinator\<close>). \<open>ClusterPlan\<close> models \<^verbatim>\<open>cluster_planning.go\<close>: every shard is asked
  of one owner, and again of another one when it cannot be reached. \<open>ClusterExec\<close> models \<^verbatim>\<open>cluster_executor.go\<close> and
  \<open>ShardMapper\<close> models \<^verbatim>\<open>shard_mapper.go\<close>. \<open>ClusterExecProps\<close> shows that tag keys are the union over the shards with an
  owner that can be reached and that a deletion reaches every owner once.

  \<^bold>\<open>Fuel.\<close> Loops that end by their data are structural. The loop of \<^verbatim>\<open>PurgeOlderThan\<close> has fuel, and one more than the
  number of segments is shown to be enough; the loop of \<^verbatim>\<open>executePlanWithRetry\<close> has fuel, and one more than the
  number of owners is shown to be enough. \<^verbatim>\<open>consumeRest\<close> has fuel, and no fuel is enough when the connection fails before the
  terminator comes: the loop does not end then.

  \<^bold>\<open>Not modelled.\<close> The programs under \<^verbatim>\<open>cmd\<close>, which read flags and files, print, and start and stop the parts;
  \<^verbatim>\<open>raftmeta/transport.go\<close>, HTTP between raft nodes, and the loop of \<^verbatim>\<open>raftmeta/node.go\<close> around the raft library with
  its storage; \<^verbatim>\<open>services/controller\<close>, which passes requests of the control tool on to the metadata and to the
  migration, and \<^verbatim>\<open>services/migrate\<close>, which copies files of shards over the network under timers;
  listeners, deadlines and tickers; generated protobuf code, interfaces without code, configuration with
  defaults only, bridges of loggers and the test suites.
\<close>

end
